(* ===== verification/Umqtt_Prelude.thy ===== *)
theory Umqtt_Prelude
  imports Main "HOL-Library.Word" "HOL-Library.Monad_Syntax"
begin

text \<open>
  Shared ground of the development: the C types the library uses, memory blocks and cursors into
  them, C strings, and the lemmas on them that the component theories rewrite with.

  Undefined behaviour of C (a store or a load outside a block, a dereferenced null pointer, a call
  through a null function pointer) is the value \<open>None\<close> of an \<open>option\<close> result, so a
  definition that can go wrong has a result of type \<open>'a option\<close> and is composed with the
  \<open>do\<close> notation of the option monad.  A null pointer is \<open>None\<close> of an \<open>option\<close>
  argument.
\<close>

unbundle bit_operations_syntax

section \<open>C types\<close>

type_synonym byte = "8 word"
type_synonym u16 = "16 word"
type_synonym c_int = "32 word"
type_synonym ms_t = "64 word"

text \<open>A C string is the list of the characters before its terminator, so \<open>strlen\<close> is the length.\<close>

type_synonym c_str = "byte list"

text \<open>What a reader of a C string sees of a block of characters: those before the first null.\<close>

definition c_string :: "byte list \<Rightarrow> c_str" where
  "c_string bytes = takeWhile (\<lambda>b. b \<noteq> 0) bytes"

lemma c_string_id: "0 \<notin> set bytes \<Longrightarrow> c_string bytes = bytes"
  by (auto simp: c_string_def takeWhile_eq_all_conv)

lemma length_c_string: "length (c_string bytes) \<le> length bytes"
  by (simp add: c_string_def length_takeWhile_le)

text \<open>An \<open>int\<close> status: zero, or the nonzero value of the macro \<open>MU_FAILURE\<close>.\<close>

datatype c_result = ZERO | MU_FAILURE

lemma c_result_neq [simp]: "r \<noteq> ZERO \<longleftrightarrow> r = MU_FAILURE" "r \<noteq> MU_FAILURE \<longleftrightarrow> r = ZERO"
  by (cases r; simp)+

text \<open>\<open>size_t\<close> values are natural numbers of 64 bits; the operations that can wrap say so.\<close>

definition SIZE_MAX :: nat where
  "SIZE_MAX = 2 ^ 64 - 1"

definition USHRT_MAX :: nat where
  "USHRT_MAX = 65535"

definition size_sub :: "nat \<Rightarrow> nat \<Rightarrow> nat" where
  "size_sub a b = (if b \<le> a then a - b else 2 ^ 64 + a - b)"

lemma size_sub_le [simp]: "b \<le> a \<Longrightarrow> size_sub a b = a - b"
  by (simp add: size_sub_def)

section \<open>Collections\<close>

named_theorems cursor_simps "stores through a cursor as one block write"
named_theorems status_bits "tests and updates of the status word"

section \<open>Memory blocks and cursors\<close>

text \<open>
  A non-null \<open>uint8_t*\<close> is a cursor: the block it points into and the offset in the block.
  The store of a byte and the copy of a run of bytes are undefined outside the block.
\<close>

type_synonym cursor = "byte list \<times> nat"

definition put_byte :: "cursor \<Rightarrow> byte \<Rightarrow> cursor option" where
  "put_byte p v = (case p of (m, i) \<Rightarrow> if i < length m then Some (m[i := v], i) else None)"

definition get_byte :: "cursor \<Rightarrow> byte option" where
  "get_byte p = (case p of (m, i) \<Rightarrow> if i < length m then Some (m ! i) else None)"

definition advance :: "cursor \<Rightarrow> nat \<Rightarrow> cursor option" where
  "advance p n = (case p of (m, i) \<Rightarrow> if i + n \<le> length m then Some (m, i + n) else None)"

definition memcpy_to :: "cursor \<Rightarrow> byte list \<Rightarrow> nat \<Rightarrow> cursor option" where
  "memcpy_to p src n = (case p of (m, i) \<Rightarrow>
     if i + n \<le> length m \<and> n \<le> length src
     then Some (take i m @ take n src @ drop (i + n) m, i) else None)"

definition or_byte :: "byte list \<Rightarrow> nat \<Rightarrow> byte \<Rightarrow> byte list option" where
  "or_byte m i v = (if i < length m then Some (m[i := m ! i OR v]) else None)"

text \<open>One block write: the bytes \<open>bs\<close> stored at the cursor, which moves behind them.\<close>

definition write_bytes :: "cursor \<Rightarrow> byte list \<Rightarrow> cursor option" where
  "write_bytes p bs = (case p of (m, i) \<Rightarrow>
     if i + length bs \<le> length m
     then Some (take i m @ bs @ drop (i + length bs) m, i + length bs) else None)"

lemma write_bytes_Nil [simp]: "i \<le> length m \<Longrightarrow> write_bytes (m, i) [] = Some (m, i)"
  by (simp add: write_bytes_def)

lemma write_bytes_append [cursor_simps]:
  "Option.bind (write_bytes p xs) (\<lambda>q. write_bytes q ys) = write_bytes p (xs @ ys)"
  by (cases p) (auto simp: write_bytes_def ac_simps)

lemma write_bytes_append_bind [cursor_simps]:
  "Option.bind (write_bytes p xs) (\<lambda>q. Option.bind (write_bytes q ys) f)
    = Option.bind (write_bytes p (xs @ ys)) f"
  by (simp add: write_bytes_append [symmetric])

lemma write_bytes_at_end:
  assumes "length bs \<le> length ext"
  shows "write_bytes (old @ ext, length old) bs
    = Some (old @ bs @ drop (length bs) ext, length old + length bs)"
  using assms by (simp add: write_bytes_def)

lemma write_bytes_exact [simp]:
  "length bs = length ext \<Longrightarrow>
   write_bytes (old @ ext, length old) bs = Some (old @ bs, length old + length bs)"
  by (simp add: write_bytes_at_end)

lemma write_bytes_start [simp]:
  "length bs = length ext \<Longrightarrow> write_bytes (ext, 0) bs = Some (bs, length bs)"
  using write_bytes_exact [of bs ext "[]"] by simp

lemma write_bytes_overflow:
  "length m < i + length bs \<Longrightarrow> write_bytes (m, i) bs = None"
  by (simp add: write_bytes_def)

lemma put_byte_advance [cursor_simps]:
  "Option.bind (put_byte p v) (\<lambda>q. advance q (Suc 0)) = write_bytes p [v]"
  by (cases p) (auto simp: put_byte_def advance_def write_bytes_def upd_conv_take_nth_drop)

lemma memcpy_advance [cursor_simps]:
  "n = length bs \<Longrightarrow> Option.bind (memcpy_to p bs n) (\<lambda>q. advance q n) = write_bytes p bs"
  by (cases p) (auto simp: memcpy_to_def advance_def write_bytes_def)

section \<open>Big-endian 16-bit integers\<close>

definition be16 :: "u16 \<Rightarrow> byte list" where
  "be16 v = [ucast (v div 256), ucast (v mod 256)]"

lemma length_be16 [simp]: "length (be16 v) = 2"
  by (simp add: be16_def)

lemma unat_div_256: "unat (v div 256 :: u16) = unat v div 256"
  by (simp add: unat_div)

lemma be16_value:
  "of_nat (256 * unat (be16 v ! 0) + unat (be16 v ! 1)) = v"
proof -
  have v: "unat v < 65536"
    using unsigned_less [of v, where ?'a = nat] by simp
  have "unat (be16 v ! 0) = unat v div 256"
    using v by (simp add: be16_def unat_div unsigned_ucast_eq take_bit_eq_mod)
  moreover have "unat (be16 v ! 1) = unat v mod 256"
    by (simp add: be16_def unat_mod unsigned_ucast_eq take_bit_eq_mod)
  ultimately show ?thesis by simp
qed

end
