(* ===== verification/Umqtt_Const.thy ===== *)
theory Umqtt_Const
  imports Umqtt_Prelude
begin

text \<open>
  The constants and data types of \<open>inc/azure_umqtt_c/mqttconst.h\<close> and of the enumerations in
  \<open>inc/azure_umqtt_c/mqtt_client.h\<close>, with the names the library gives to the enumerators.  A
  \<open>char*\<close> field that may be null is a \<open>c_str option\<close>.
\<close>

text \<open>The limit of \<open>src/mqtt_codec.c\<close> on a payload and on a Remaining Length.\<close>

definition MAX_SEND_SIZE :: nat where
  "MAX_SEND_SIZE = 0xFFFFFF7F"

section \<open>Control packet types\<close>

datatype CONTROL_PACKET_TYPE =
    CONTROL_PACKET_TYPE_INVALID
  | CONNECT_TYPE
  | CONNACK_TYPE
  | PUBLISH_TYPE
  | PUBACK_TYPE
  | PUBREC_TYPE
  | PUBREL_TYPE
  | PUBCOMP_TYPE
  | SUBSCRIBE_TYPE
  | SUBACK_TYPE
  | UNSUBSCRIBE_TYPE
  | UNSUBACK_TYPE
  | PINGREQ_TYPE
  | PINGRESP_TYPE
  | DISCONNECT_TYPE
  | PACKET_TYPE_ERROR
  | UNKNOWN_TYPE
  | PACKET_INVALID1_TYPE
  | PACKET_INVALID2_TYPE

fun packet_code :: "CONTROL_PACKET_TYPE \<Rightarrow> int" where
  "packet_code CONTROL_PACKET_TYPE_INVALID = -1"
| "packet_code CONNECT_TYPE = 0x10"
| "packet_code CONNACK_TYPE = 0x20"
| "packet_code PUBLISH_TYPE = 0x30"
| "packet_code PUBACK_TYPE = 0x40"
| "packet_code PUBREC_TYPE = 0x50"
| "packet_code PUBREL_TYPE = 0x60"
| "packet_code PUBCOMP_TYPE = 0x70"
| "packet_code SUBSCRIBE_TYPE = 0x80"
| "packet_code SUBACK_TYPE = 0x90"
| "packet_code UNSUBSCRIBE_TYPE = 0xA0"
| "packet_code UNSUBACK_TYPE = 0xB0"
| "packet_code PINGREQ_TYPE = 0xC0"
| "packet_code PINGRESP_TYPE = 0xD0"
| "packet_code DISCONNECT_TYPE = 0xE0"
| "packet_code PACKET_TYPE_ERROR = 0xE1"
| "packet_code UNKNOWN_TYPE = 0xE2"
| "packet_code PACKET_INVALID1_TYPE = 0x00"
| "packet_code PACKET_INVALID2_TYPE = 0xF0"

text \<open>The cast of a packet type to \<open>uint8_t\<close>, and the cast of an integer to the enumeration.\<close>

definition packet_byte :: "CONTROL_PACKET_TYPE \<Rightarrow> byte" where
  "packet_byte t = word_of_int (packet_code t)"

definition all_packet_types :: "CONTROL_PACKET_TYPE list" where
  "all_packet_types =
    [CONTROL_PACKET_TYPE_INVALID, CONNECT_TYPE, CONNACK_TYPE, PUBLISH_TYPE, PUBACK_TYPE,
     PUBREC_TYPE, PUBREL_TYPE, PUBCOMP_TYPE, SUBSCRIBE_TYPE, SUBACK_TYPE, UNSUBSCRIBE_TYPE,
     UNSUBACK_TYPE, PINGREQ_TYPE, PINGRESP_TYPE, DISCONNECT_TYPE, PACKET_TYPE_ERROR,
     UNKNOWN_TYPE, PACKET_INVALID1_TYPE, PACKET_INVALID2_TYPE]"

definition packet_of_code :: "int \<Rightarrow> CONTROL_PACKET_TYPE option" where
  "packet_of_code c = find (\<lambda>t. packet_code t = c) all_packet_types"

lemma packet_code_inj [simp]: "packet_code s = packet_code t \<longleftrightarrow> s = t"
  by (cases s; cases t) simp_all

lemma packet_of_code_code [simp]: "packet_of_code (packet_code t) = Some t"
  by (cases t) (simp_all add: packet_of_code_def all_packet_types_def)

text \<open>The type that the four high bits of a byte name; each of the sixteen has an enumerator.\<close>

definition packet_of_byte :: "byte \<Rightarrow> CONTROL_PACKET_TYPE" where
  "packet_of_byte v = 
    (case packet_of_code (uint (v AND 0xF0)) of
       None \<Rightarrow> CONTROL_PACKET_TYPE_INVALID
     | Some t \<Rightarrow> t)"

section \<open>Quality of service\<close>

datatype QOS_VALUE =
    QOS_VALUE_INVALID
  | DELIVER_AT_MOST_ONCE
  | DELIVER_AT_LEAST_ONCE
  | DELIVER_EXACTLY_ONCE
  | DELIVER_FAILURE

fun qos_code :: "QOS_VALUE \<Rightarrow> int" where
  "qos_code QOS_VALUE_INVALID = -1"
| "qos_code DELIVER_AT_MOST_ONCE = 0x00"
| "qos_code DELIVER_AT_LEAST_ONCE = 0x01"
| "qos_code DELIVER_EXACTLY_ONCE = 0x02"
| "qos_code DELIVER_FAILURE = 0x80"

lemma qos_code_inj [simp]: "qos_code p = qos_code q \<longleftrightarrow> p = q"
  by (cases p; cases q) simp_all

text \<open>Enumerators compare by their values, as the \<open><=\<close> of C does.\<close>

instantiation QOS_VALUE :: linorder
begin

definition less_eq_QOS_VALUE :: "QOS_VALUE \<Rightarrow> QOS_VALUE \<Rightarrow> bool" where
  "less_eq_QOS_VALUE p q \<longleftrightarrow> qos_code p \<le> qos_code q"

definition less_QOS_VALUE :: "QOS_VALUE \<Rightarrow> QOS_VALUE \<Rightarrow> bool" where
  "less_QOS_VALUE p q \<longleftrightarrow> qos_code p < qos_code q"

instance
  by standard (auto simp: less_eq_QOS_VALUE_def less_QOS_VALUE_def)

end

text \<open>The cast of a quality of service to \<open>uint8_t\<close>.\<close>

definition qos_byte :: "QOS_VALUE \<Rightarrow> byte" where
  "qos_byte q = word_of_int (qos_code q)"

section \<open>Records\<close>

record APP_PAYLOAD =
  message :: "byte list option"
  payload_length :: nat

record MQTT_CLIENT_OPTIONS =
  clientId :: "c_str option"
  willTopic :: "c_str option"
  willMessage :: "c_str option"
  username :: "c_str option"
  password :: "c_str option"
  opt_keepAliveInterval :: u16
  messageRetain :: bool
  useCleanSession :: bool
  qualityOfServiceValue :: QOS_VALUE
  log_trace :: bool

datatype CONNECT_RETURN_CODE =
    CONNECTION_ACCEPTED
  | CONN_REFUSED_UNACCEPTABLE_VERSION
  | CONN_REFUSED_ID_REJECTED
  | CONN_REFUSED_SERVER_UNAVAIL
  | CONN_REFUSED_BAD_USERNAME_PASSWORD
  | CONN_REFUSED_NOT_AUTHORIZED
  | CONN_REFUSED_UNKNOWN

fun return_code :: "CONNECT_RETURN_CODE \<Rightarrow> nat" where
  "return_code CONNECTION_ACCEPTED = 0"
| "return_code CONN_REFUSED_UNACCEPTABLE_VERSION = 1"
| "return_code CONN_REFUSED_ID_REJECTED = 2"
| "return_code CONN_REFUSED_SERVER_UNAVAIL = 3"
| "return_code CONN_REFUSED_BAD_USERNAME_PASSWORD = 4"
| "return_code CONN_REFUSED_NOT_AUTHORIZED = 5"
| "return_code CONN_REFUSED_UNKNOWN = 6"

text \<open>The cast of an integer to \<open>CONNECT_RETURN_CODE\<close>, for the values the enumerators have.\<close>

fun return_code_of :: "nat \<Rightarrow> CONNECT_RETURN_CODE" where
  "return_code_of n =
    (if n = 0 then CONNECTION_ACCEPTED
     else if n = 1 then CONN_REFUSED_UNACCEPTABLE_VERSION
     else if n = 2 then CONN_REFUSED_ID_REJECTED
     else if n = 3 then CONN_REFUSED_SERVER_UNAVAIL
     else if n = 4 then CONN_REFUSED_BAD_USERNAME_PASSWORD
     else if n = 5 then CONN_REFUSED_NOT_AUTHORIZED
     else CONN_REFUSED_UNKNOWN)"

record CONNECT_ACK =
  isSessionPresent :: bool
  returnCode :: CONNECT_RETURN_CODE

record SUBSCRIBE_PAYLOAD =
  subscribeTopic :: "c_str option"
  qosReturn :: QOS_VALUE

record SUBSCRIBE_ACK =
  suback_packetId :: u16
  suback_qosReturn :: "QOS_VALUE list"

record UNSUBSCRIBE_ACK =
  unsuback_packetId :: u16

record PUBLISH_ACK =
  puback_packetId :: u16

section \<open>Client enumerations\<close>

datatype MQTT_CLIENT_EVENT_RESULT =
    MQTT_CLIENT_ON_CONNACK
  | MQTT_CLIENT_ON_PUBLISH_ACK
  | MQTT_CLIENT_ON_PUBLISH_RECV
  | MQTT_CLIENT_ON_PUBLISH_REL
  | MQTT_CLIENT_ON_PUBLISH_COMP
  | MQTT_CLIENT_ON_SUBSCRIBE_ACK
  | MQTT_CLIENT_ON_UNSUBSCRIBE_ACK
  | MQTT_CLIENT_ON_PING_RESPONSE
  | MQTT_CLIENT_ON_DISCONNECT

datatype MQTT_CLIENT_EVENT_ERROR =
    MQTT_CLIENT_CONNECTION_ERROR
  | MQTT_CLIENT_PARSE_ERROR
  | MQTT_CLIENT_MEMORY_ERROR
  | MQTT_CLIENT_COMMUNICATION_ERROR
  | MQTT_CLIENT_NO_PING_RESPONSE
  | MQTT_CLIENT_UNKNOWN_ERROR

datatype MQTT_CLIENT_ACK_OPTION =
    MQTT_CLIENT_ACK_SYNC
  | MQTT_CLIENT_ACK_ASYNC
  | MQTT_CLIENT_ACK_NONE

section \<open>Names of the enumerators\<close>

fun MU_QOS_VALUE_ToString :: "QOS_VALUE \<Rightarrow> string" where
  "MU_QOS_VALUE_ToString DELIVER_AT_MOST_ONCE = ''DELIVER_AT_MOST_ONCE''"
| "MU_QOS_VALUE_ToString DELIVER_AT_LEAST_ONCE = ''DELIVER_AT_LEAST_ONCE''"
| "MU_QOS_VALUE_ToString DELIVER_EXACTLY_ONCE = ''DELIVER_EXACTLY_ONCE''"
| "MU_QOS_VALUE_ToString DELIVER_FAILURE = ''DELIVER_FAILURE''"
| "MU_QOS_VALUE_ToString _ = ''UNKNOWN''"

fun MU_CONTROL_PACKET_TYPE_ToString :: "CONTROL_PACKET_TYPE \<Rightarrow> string" where
  "MU_CONTROL_PACKET_TYPE_ToString CONNECT_TYPE = ''CONNECT_TYPE''"
| "MU_CONTROL_PACKET_TYPE_ToString CONNACK_TYPE = ''CONNACK_TYPE''"
| "MU_CONTROL_PACKET_TYPE_ToString PUBLISH_TYPE = ''PUBLISH_TYPE''"
| "MU_CONTROL_PACKET_TYPE_ToString PUBACK_TYPE = ''PUBACK_TYPE''"
| "MU_CONTROL_PACKET_TYPE_ToString PUBREC_TYPE = ''PUBREC_TYPE''"
| "MU_CONTROL_PACKET_TYPE_ToString PUBREL_TYPE = ''PUBREL_TYPE''"
| "MU_CONTROL_PACKET_TYPE_ToString PUBCOMP_TYPE = ''PUBCOMP_TYPE''"
| "MU_CONTROL_PACKET_TYPE_ToString SUBSCRIBE_TYPE = ''SUBSCRIBE_TYPE''"
| "MU_CONTROL_PACKET_TYPE_ToString SUBACK_TYPE = ''SUBACK_TYPE''"
| "MU_CONTROL_PACKET_TYPE_ToString UNSUBSCRIBE_TYPE = ''UNSUBSCRIBE_TYPE''"
| "MU_CONTROL_PACKET_TYPE_ToString UNSUBACK_TYPE = ''UNSUBACK_TYPE''"
| "MU_CONTROL_PACKET_TYPE_ToString PINGREQ_TYPE = ''PINGREQ_TYPE''"
| "MU_CONTROL_PACKET_TYPE_ToString PINGRESP_TYPE = ''PINGRESP_TYPE''"
| "MU_CONTROL_PACKET_TYPE_ToString DISCONNECT_TYPE = ''DISCONNECT_TYPE''"
| "MU_CONTROL_PACKET_TYPE_ToString PACKET_TYPE_ERROR = ''PACKET_TYPE_ERROR''"
| "MU_CONTROL_PACKET_TYPE_ToString UNKNOWN_TYPE = ''UNKNOWN_TYPE''"
| "MU_CONTROL_PACKET_TYPE_ToString PACKET_INVALID1_TYPE = ''PACKET_INVALID1_TYPE''"
| "MU_CONTROL_PACKET_TYPE_ToString PACKET_INVALID2_TYPE = ''PACKET_INVALID2_TYPE''"
| "MU_CONTROL_PACKET_TYPE_ToString _ = ''UNKNOWN''"

lemma packet_name_inj:
  "MU_CONTROL_PACKET_TYPE_ToString s = MU_CONTROL_PACKET_TYPE_ToString t \<Longrightarrow> s = t"
  by (cases s; cases t) simp_all

end
