(* ===== verification/Umqtt_Buffer.thy ===== *)
theory Umqtt_Buffer
  imports Umqtt_Const
begin

text \<open>
  The three allocation interfaces the library stands on, all outside the repository: the
  \<open>BUFFER\<close> and \<open>STRING\<close> modules of azure-c-shared-utility (a git submodule) and the heap.  They are
  parameters of the model: records of operations over an abstract buffer type and an abstract world,
  with the documented behaviour the library relies on as the predicates \<open>buffer_laws\<close>,
  \<open>string_laws\<close> and \<open>heap_laws\<close>.  The ghost measure \<open>live\<close> counts the blocks that are allocated, so
  leak freedom can be stated.
\<close>

section \<open>The BUFFER module\<close>

text \<open>
  \<open>BUFFER_u_char\<close> gives the block a buffer owns, or \<open>None\<close> for the null pointer;
  \<open>BUFFER_stored b m\<close> is the buffer \<open>b\<close> after the program has stored \<open>m\<close> in
  that block through the pointer.
\<close>

record ('b, 'w) buffer_api =
  BUFFER_new :: "'w \<Rightarrow> 'b option \<times> 'w"
  BUFFER_delete :: "'b option \<Rightarrow> 'w \<Rightarrow> 'w"
  BUFFER_pre_build :: "'b \<Rightarrow> nat \<Rightarrow> 'w \<Rightarrow> c_result \<times> 'b \<times> 'w"
  BUFFER_enlarge :: "'b \<Rightarrow> nat \<Rightarrow> 'w \<Rightarrow> c_result \<times> 'b \<times> 'w"
  BUFFER_prepend :: "'b \<Rightarrow> 'b \<Rightarrow> 'w \<Rightarrow> c_result \<times> 'b \<times> 'w"
  BUFFER_length :: "'b \<Rightarrow> nat"
  BUFFER_u_char :: "'b \<Rightarrow> byte list option"
  BUFFER_stored :: "'b \<Rightarrow> byte list \<Rightarrow> 'b"

definition buffer_bytes :: "('b, 'w) buffer_api \<Rightarrow> 'b \<Rightarrow> byte list" where
  "buffer_bytes api b = (case BUFFER_u_char api b of None \<Rightarrow> [] | Some m \<Rightarrow> m)"

definition buffer_laws :: "('b, 'w) buffer_api \<Rightarrow> ('w \<Rightarrow> int) \<Rightarrow> bool" where
  "buffer_laws api live \<longleftrightarrow>
    (\<forall>b. BUFFER_length api b = length (buffer_bytes api b)) \<and>
    (\<forall>b. BUFFER_u_char api b \<noteq> Some []) \<and>
    (\<forall>w b w'. BUFFER_new api w = (Some b, w') \<longrightarrow> buffer_bytes api b = [] \<and> live w' = live w + 1) \<and>
    (\<forall>w w'. BUFFER_new api w = (None, w') \<longrightarrow> live w' = live w) \<and>
    (\<forall>b w. live (BUFFER_delete api (Some b) w) = live w - 1) \<and>
    (\<forall>w. live (BUFFER_delete api None w) = live w) \<and>
    (\<forall>b n w r b' w'. BUFFER_pre_build api b n w = (r, b', w') \<longrightarrow> live w' = live w) \<and>
    (\<forall>b n w b' w'. BUFFER_pre_build api b n w = (ZERO, b', w') \<longrightarrow> length (buffer_bytes api b') = n) \<and>
    (\<forall>b n w r b' w'. BUFFER_enlarge api b n w = (r, b', w') \<longrightarrow> live w' = live w) \<and>
    (\<forall>b n w b' w'. BUFFER_enlarge api b n w = (ZERO, b', w') \<longrightarrow>
       0 < n \<and> (\<exists>ext. length ext = n \<and> buffer_bytes api b' = buffer_bytes api b @ ext)) \<and>
    (\<forall>b c w r b' w'. BUFFER_prepend api b c w = (r, b', w') \<longrightarrow> live w' = live w) \<and>
    (\<forall>b c w b' w'. BUFFER_prepend api b c w = (ZERO, b', w') \<longrightarrow>
       buffer_bytes api b' = buffer_bytes api c @ buffer_bytes api b) \<and>
    (\<forall>b m. length m = length (buffer_bytes api b) \<longrightarrow> buffer_bytes api (BUFFER_stored api b m) = m)"

text \<open>No allocation of the module fails.\<close>

definition buffer_total :: "('b, 'w) buffer_api \<Rightarrow> bool" where
  "buffer_total api \<longleftrightarrow>
    (\<forall>w. fst (BUFFER_new api w) \<noteq> None) \<and>
    (\<forall>b n w. 0 < n \<longrightarrow> fst (BUFFER_pre_build api b n w) = ZERO) \<and>
    (\<forall>b n w. 0 < n \<longrightarrow> fst (BUFFER_enlarge api b n w) = ZERO) \<and>
    (\<forall>b c w. fst (BUFFER_prepend api b c w) = ZERO)"

lemma buffer_length [simp]:
  "buffer_laws api live \<Longrightarrow> BUFFER_length api b = length (buffer_bytes api b)"
  by (simp add: buffer_laws_def)

lemma buffer_u_char_bytes:
  "buffer_laws api live \<Longrightarrow> BUFFER_u_char api b = Some m \<Longrightarrow> m = buffer_bytes api b \<and> m \<noteq> []"
  by (auto simp: buffer_laws_def buffer_bytes_def)

lemma buffer_u_char_Some [simp]:
  "buffer_bytes api b \<noteq> [] \<Longrightarrow> BUFFER_u_char api b = Some (buffer_bytes api b)"
  by (auto simp: buffer_bytes_def split: option.splits)

lemma buffer_new_Some:
  "buffer_laws api live \<Longrightarrow> BUFFER_new api w = (Some b, w') \<Longrightarrow>
   buffer_bytes api b = [] \<and> live w' = live w + 1"
  unfolding buffer_laws_def by metis

lemma buffer_new_None:
  "buffer_laws api live \<Longrightarrow> BUFFER_new api w = (None, w') \<Longrightarrow> live w' = live w"
  unfolding buffer_laws_def by metis

lemma buffer_delete_live [simp]:
  "buffer_laws api live \<Longrightarrow> live (BUFFER_delete api (Some b) w) = live w - 1"
  "buffer_laws api live \<Longrightarrow> live (BUFFER_delete api None w) = live w"
  by (simp_all add: buffer_laws_def)

lemma buffer_pre_build_live:
  "buffer_laws api live \<Longrightarrow> BUFFER_pre_build api b n w = (r, b', w') \<Longrightarrow> live w' = live w"
  unfolding buffer_laws_def by metis

lemma buffer_pre_build_ZERO:
  "buffer_laws api live \<Longrightarrow> BUFFER_pre_build api b n w = (ZERO, b', w') \<Longrightarrow>
   length (buffer_bytes api b') = n"
  unfolding buffer_laws_def by metis

lemma buffer_enlarge_live:
  "buffer_laws api live \<Longrightarrow> BUFFER_enlarge api b n w = (r, b', w') \<Longrightarrow> live w' = live w"
  unfolding buffer_laws_def by metis

lemma buffer_enlarge_ZERO:
  assumes "buffer_laws api live" and "BUFFER_enlarge api b n w = (ZERO, b', w')"
  obtains ext where "0 < n" "length ext = n" "buffer_bytes api b' = buffer_bytes api b @ ext"
  using assms unfolding buffer_laws_def by metis

lemma buffer_prepend_live:
  "buffer_laws api live \<Longrightarrow> BUFFER_prepend api b c w = (r, b', w') \<Longrightarrow> live w' = live w"
  unfolding buffer_laws_def by metis

lemma buffer_prepend_ZERO:
  "buffer_laws api live \<Longrightarrow> BUFFER_prepend api b c w = (ZERO, b', w') \<Longrightarrow>
   buffer_bytes api b' = buffer_bytes api c @ buffer_bytes api b"
  unfolding buffer_laws_def by metis

lemma buffer_stored [simp]:
  "buffer_laws api live \<Longrightarrow> length m = length (buffer_bytes api b) \<Longrightarrow>
   buffer_bytes api (BUFFER_stored api b m) = m"
  unfolding buffer_laws_def by metis

lemma buffer_total_new: "buffer_total api \<Longrightarrow> BUFFER_new api w \<noteq> (None, w')"
  by (metis buffer_total_def fst_conv)

lemma buffer_total_pre_build:
  "buffer_total api \<Longrightarrow> 0 < n \<Longrightarrow> BUFFER_pre_build api b n w \<noteq> (MU_FAILURE, b', w')"
  by (metis buffer_total_def c_result.distinct(1) fst_conv)

lemma buffer_total_enlarge:
  "buffer_total api \<Longrightarrow> 0 < n \<Longrightarrow> BUFFER_enlarge api b n w \<noteq> (MU_FAILURE, b', w')"
  by (metis buffer_total_def c_result.distinct(1) fst_conv)

lemma buffer_total_prepend:
  "buffer_total api \<Longrightarrow> BUFFER_prepend api b c w \<noteq> (MU_FAILURE, b', w')"
  by (metis buffer_total_def c_result.distinct(1) fst_conv)

lemmas buffer_total_simps [simp] =
  buffer_total_new buffer_total_pre_build buffer_total_enlarge buffer_total_prepend

section \<open>A buffer module that meets the laws\<close>

text \<open>
  The concrete instance of the witnesses: a buffer is its bytes, fresh memory is zero, the world is
  the count of live buffers, nothing fails.
\<close>

definition list_buffer :: "(byte list, int) buffer_api" where
  "list_buffer =
    \<lparr>BUFFER_new = (\<lambda>w. (Some [], w + 1)),
     BUFFER_delete = (\<lambda>b w. if b = None then w else w - 1),
     BUFFER_pre_build = (\<lambda>b n w. if n = 0 then (MU_FAILURE, b, w) else (ZERO, replicate n 0, w)),
     BUFFER_enlarge = (\<lambda>b n w. if n = 0 then (MU_FAILURE, b, w) else (ZERO, b @ replicate n 0, w)),
     BUFFER_prepend = (\<lambda>b c w. (ZERO, c @ b, w)),
     BUFFER_length = length,
     BUFFER_u_char = (\<lambda>b. if b = [] then None else Some b),
     BUFFER_stored = (\<lambda>b m. m)\<rparr>"

lemma list_buffer_bytes [simp]: "buffer_bytes list_buffer b = b"
  by (simp add: buffer_bytes_def list_buffer_def)

lemma list_buffer_laws: "buffer_laws list_buffer id"
  unfolding buffer_laws_def list_buffer_bytes
  by (intro conjI allI impI) (auto simp: list_buffer_def split: if_splits)

lemma list_buffer_total: "buffer_total list_buffer"
  by (simp add: buffer_total_def list_buffer_def)

section \<open>The heap\<close>

text \<open>
  \<open>malloc\<close> says whether the allocation succeeded; \<open>mallocAndStrcpy_s\<close> of the shared
  utility gives the copy, or \<open>None\<close> when it fails; \<open>free\<close> releases one block.
\<close>

record 'w heap_api =
  malloc :: "nat \<Rightarrow> 'w \<Rightarrow> bool \<times> 'w"
  mallocAndStrcpy_s :: "c_str \<Rightarrow> 'w \<Rightarrow> c_str option \<times> 'w"
  free :: "'w \<Rightarrow> 'w"

definition heap_laws :: "'w heap_api \<Rightarrow> ('w \<Rightarrow> int) \<Rightarrow> bool" where
  "heap_laws h live \<longleftrightarrow>
    (\<forall>n w w'. malloc h n w = (True, w') \<longrightarrow> live w' = live w + 1) \<and>
    (\<forall>n w w'. malloc h n w = (False, w') \<longrightarrow> live w' = live w) \<and>
    (\<forall>s c w w'. mallocAndStrcpy_s h s w = (Some c, w') \<longrightarrow> c = s \<and> live w' = live w + 1) \<and>
    (\<forall>s w w'. mallocAndStrcpy_s h s w = (None, w') \<longrightarrow> live w' = live w) \<and>
    (\<forall>w. live (free h w) = live w - 1)"

definition heap_total :: "'w heap_api \<Rightarrow> bool" where
  "heap_total h \<longleftrightarrow>
    (\<forall>n w. fst (malloc h n w)) \<and> (\<forall>s w. fst (mallocAndStrcpy_s h s w) \<noteq> None)"

lemma heap_malloc:
  "heap_laws h live \<Longrightarrow> malloc h n w = (ok, w') \<Longrightarrow> live w' = live w + (if ok then 1 else 0)"
  by (cases ok) (auto simp: heap_laws_def)

lemma heap_strcpy_Some:
  "heap_laws h live \<Longrightarrow> mallocAndStrcpy_s h s w = (Some c, w') \<Longrightarrow> c = s \<and> live w' = live w + 1"
  unfolding heap_laws_def by metis

lemma heap_strcpy_None:
  "heap_laws h live \<Longrightarrow> mallocAndStrcpy_s h s w = (None, w') \<Longrightarrow> live w' = live w"
  unfolding heap_laws_def by metis

lemma heap_free [simp]: "heap_laws h live \<Longrightarrow> live (free h w) = live w - 1"
  by (simp add: heap_laws_def)

lemma heap_total_malloc [simp]: "heap_total h \<Longrightarrow> malloc h n w \<noteq> (False, w')"
  by (metis heap_total_def fst_conv)

lemma heap_total_strcpy [simp]: "heap_total h \<Longrightarrow> mallocAndStrcpy_s h s w \<noteq> (None, w')"
  by (metis heap_total_def fst_conv)

definition count_heap :: "int heap_api" where
  "count_heap =
    \<lparr>malloc = (\<lambda>n w. (True, w + 1)), mallocAndStrcpy_s = (\<lambda>s w. (Some s, w + 1)),
     free = (\<lambda>w. w - 1)\<rparr>"

lemma count_heap_laws: "heap_laws count_heap id"
  by (simp add: heap_laws_def count_heap_def)

lemma count_heap_total: "heap_total count_heap"
  by (simp add: heap_total_def count_heap_def)

section \<open>The strings of the trace log\<close>

text \<open>
  Of the \<open>STRING\<close> module of the shared utility the model keeps the allocation of handles: creation, which
  says whether the handle is not null, and deletion, which ignores a null handle.  What is written
  into a string has no effect on the library.  A string weighs \<open>d\<close> in the count of what is allocated:
  1 in a count of all blocks, 0 in a count that leaves the trace log out.
\<close>

record 'w string_api =
  STRING_new :: "'w \<Rightarrow> bool \<times> 'w"
  STRING_construct_sprintf :: "'w \<Rightarrow> bool \<times> 'w"
  STRING_delete :: "bool \<Rightarrow> 'w \<Rightarrow> 'w"

definition string_laws :: "'w string_api \<Rightarrow> ('w \<Rightarrow> int) \<Rightarrow> int \<Rightarrow> bool" where
  "string_laws strs live d \<longleftrightarrow>
    (\<forall>w ok w'. STRING_new strs w = (ok, w') \<longrightarrow> live w' = live w + (if ok then d else 0)) \<and>
    (\<forall>w ok w'. STRING_construct_sprintf strs w = (ok, w') \<longrightarrow> live w' = live w + (if ok then d else 0)) \<and>
    (\<forall>ok w. live (STRING_delete strs ok w) = live w - (if ok then d else 0))"

lemma string_new_live:
  "string_laws strs live d \<Longrightarrow> STRING_new strs w = (ok, w') \<Longrightarrow> live w' = live w + (if ok then d else 0)"
  by (simp add: string_laws_def)

lemma string_construct_live:
  "string_laws strs live d \<Longrightarrow> STRING_construct_sprintf strs w = (ok, w') \<Longrightarrow>
   live w' = live w + (if ok then d else 0)"
  by (simp add: string_laws_def)

lemma string_delete_live:
  "string_laws strs live d \<Longrightarrow> live (STRING_delete strs ok w) = live w - (if ok then d else 0)"
  by (simp add: string_laws_def)

text \<open>Strings that are counted, and strings that are not; no creation fails.\<close>

definition weighed_strings :: "int \<Rightarrow> int string_api" where
  "weighed_strings d =
    \<lparr>STRING_new = (\<lambda>w. (True, w + d)), STRING_construct_sprintf = (\<lambda>w. (True, w + d)),
     STRING_delete = (\<lambda>ok w. w - (if ok then d else 0))\<rparr>"

lemma weighed_strings_laws: "string_laws (weighed_strings d) id d"
  by (simp add: string_laws_def weighed_strings_def)

end
