(* ===== verification/Codec_Encode.thy ===== *)
theory Codec_Encode
  imports Umqtt_Buffer
begin

text \<open>
  The packet constructors of \<open>src/mqtt_codec.c\<close>.  Each takes the buffer interface and the world
  and returns the buffer handle (\<open>None\<close> for the null handle) with the new world, all of it under
  the option of undefined behaviour.  The lines that only build the \<open>trace_log\<close> string are left
  out, since nothing of it goes into a packet, but for the string \<open>mqtt_codec_connect\<close> allocates for it
  and can lose.
\<close>

section \<open>Byte writers\<close>

definition CONN_FLAG_BYTE_OFFSET :: nat where "CONN_FLAG_BYTE_OFFSET = 7"
definition CONNECT_VARIABLE_HEADER_SIZE :: nat where "CONNECT_VARIABLE_HEADER_SIZE = 10"
definition PROTOCOL_NUMBER :: byte where "PROTOCOL_NUMBER = 4"
definition NEXT_128_CHUNK :: nat where "NEXT_128_CHUNK = 0x80"

fun retrieve_qos_value :: "QOS_VALUE \<Rightarrow> string" where
  "retrieve_qos_value DELIVER_AT_MOST_ONCE = ''DELIVER_AT_MOST_ONCE''"
| "retrieve_qos_value DELIVER_AT_LEAST_ONCE = ''DELIVER_AT_LEAST_ONCE''"
| "retrieve_qos_value _ = ''DELIVER_EXACTLY_ONCE''"

definition byteutil_writeByte :: "cursor \<Rightarrow> byte \<Rightarrow> cursor option" where
  "byteutil_writeByte buffer value = do {
     p \<leftarrow> put_byte buffer value;
     advance p 1
   }"

definition byteutil_writeInt :: "cursor \<Rightarrow> u16 \<Rightarrow> cursor option" where
  "byteutil_writeInt buffer value = do {
     p \<leftarrow> put_byte buffer (ucast (value div 256));
     p \<leftarrow> advance p 1;
     p \<leftarrow> put_byte p (ucast (value mod 256));
     advance p 1
   }"

definition byteutil_writeUTF :: "cursor \<Rightarrow> byte list \<Rightarrow> u16 \<Rightarrow> cursor option" where
  "byteutil_writeUTF buffer stringData len = do {
     p \<leftarrow> byteutil_writeInt buffer len;
     p \<leftarrow> memcpy_to p stringData (unat len);
     advance p (unat len)
   }"

section \<open>List items of SUBSCRIBE and UNSUBSCRIBE\<close>

text \<open>The loops run \<open>count\<close> times; reading past the array or a null topic is undefined.\<close>

fun addListItemsToUnsubscribePacket ::
  "('b, 'w) buffer_api \<Rightarrow> 'b \<Rightarrow> c_str option list \<Rightarrow> nat \<Rightarrow> 'w \<Rightarrow> (c_result \<times> 'b \<times> 'w) option" where
  "addListItemsToUnsubscribePacket api ctrlPacket payloadList 0 w = Some (ZERO, ctrlPacket, w)"
| "addListItemsToUnsubscribePacket api ctrlPacket payloadList (Suc n) w =
    (case payloadList of
       Some topic # rest \<Rightarrow>
        (let offsetLen = BUFFER_length api ctrlPacket; topicLen = length topic in
         if topicLen > USHRT_MAX then Some (MU_FAILURE, ctrlPacket, w)
         else
          (case BUFFER_enlarge api ctrlPacket (topicLen + 2) w of
            (MU_FAILURE, ctrlPacket, w) \<Rightarrow> Some (MU_FAILURE, ctrlPacket, w)
          | (ZERO, ctrlPacket, w) \<Rightarrow> do {
              m \<leftarrow> BUFFER_u_char api ctrlPacket;
              p \<leftarrow> advance (m, 0) offsetLen;
              p \<leftarrow> byteutil_writeUTF p topic (of_nat topicLen);
              addListItemsToUnsubscribePacket api (BUFFER_stored api ctrlPacket (fst p)) rest n w
            }))
     | _ \<Rightarrow> None)"

fun addListItemsToSubscribePacket ::
  "('b, 'w) buffer_api \<Rightarrow> 'b \<Rightarrow> SUBSCRIBE_PAYLOAD list \<Rightarrow> nat \<Rightarrow> 'w \<Rightarrow> (c_result \<times> 'b \<times> 'w) option" where
  "addListItemsToSubscribePacket api ctrlPacket payloadList 0 w = Some (ZERO, ctrlPacket, w)"
| "addListItemsToSubscribePacket api ctrlPacket payloadList (Suc n) w =
    (case payloadList of
       [] \<Rightarrow> None
     | item # rest \<Rightarrow>
      (case subscribeTopic item of
         None \<Rightarrow> None
       | Some topic \<Rightarrow>
        (let offsetLen = BUFFER_length api ctrlPacket; topicLen = length topic in
         if topicLen > USHRT_MAX then Some (MU_FAILURE, ctrlPacket, w)
         else
          (case BUFFER_enlarge api ctrlPacket (topicLen + 2 + 1) w of
            (MU_FAILURE, ctrlPacket, w) \<Rightarrow> Some (MU_FAILURE, ctrlPacket, w)
          | (ZERO, ctrlPacket, w) \<Rightarrow> do {
              m \<leftarrow> BUFFER_u_char api ctrlPacket;
              p \<leftarrow> advance (m, 0) offsetLen;
              p \<leftarrow> byteutil_writeUTF p topic (of_nat topicLen);
              p \<leftarrow> put_byte p (qos_byte (qosReturn item));
              addListItemsToSubscribePacket api (BUFFER_stored api ctrlPacket (fst p)) rest n w
            }))))"

section \<open>Variable headers\<close>

text \<open>The characters of the protocol name \<open>MQTT\<close>.\<close>

definition mqtt_name :: "byte list" where
  "mqtt_name = [0x4D, 0x51, 0x54, 0x54]"

definition constructConnectVariableHeader ::
  "('b, 'w) buffer_api \<Rightarrow> 'b \<Rightarrow> MQTT_CLIENT_OPTIONS \<Rightarrow> 'w \<Rightarrow> (c_result \<times> 'b \<times> 'w) option" where
  "constructConnectVariableHeader api ctrlPacket mqttOptions w =
    (case BUFFER_enlarge api ctrlPacket CONNECT_VARIABLE_HEADER_SIZE w of
      (MU_FAILURE, ctrlPacket, w) \<Rightarrow> Some (MU_FAILURE, ctrlPacket, w)
    | (ZERO, ctrlPacket, w) \<Rightarrow>
       (case BUFFER_u_char api ctrlPacket of
          None \<Rightarrow> Some (MU_FAILURE, ctrlPacket, w)
        | Some m \<Rightarrow> do {
            p \<leftarrow> byteutil_writeUTF (m, 0) mqtt_name 4;
            p \<leftarrow> byteutil_writeByte p PROTOCOL_NUMBER;
            p \<leftarrow> byteutil_writeByte p 0;
            p \<leftarrow> byteutil_writeInt p (opt_keepAliveInterval mqttOptions);
            Some (ZERO, BUFFER_stored api ctrlPacket (fst p), w)
          }))"

record PUBLISH_HEADER_INFO =
  ph_topicName :: c_str
  ph_packetId :: u16
  ph_qualityOfServiceValue :: QOS_VALUE

definition constructPublishVariableHeader ::
  "('b, 'w) buffer_api \<Rightarrow> 'b \<Rightarrow> PUBLISH_HEADER_INFO \<Rightarrow> 'w \<Rightarrow> (c_result \<times> 'b \<times> 'w) option" where
  "constructPublishVariableHeader api ctrlPacket publishHeader w =
    (let currLen = BUFFER_length api ctrlPacket;
         topicLen = length (ph_topicName publishHeader);
         spaceLen = 2;
         idLen = (if ph_qualityOfServiceValue publishHeader \<noteq> DELIVER_AT_MOST_ONCE then 2 else 0)
     in
     if topicLen > USHRT_MAX then Some (MU_FAILURE, ctrlPacket, w)
     else
      (case BUFFER_enlarge api ctrlPacket (topicLen + idLen + spaceLen) w of
        (MU_FAILURE, ctrlPacket, w) \<Rightarrow> Some (MU_FAILURE, ctrlPacket, w)
      | (ZERO, ctrlPacket, w) \<Rightarrow>
         (case BUFFER_u_char api ctrlPacket of
            None \<Rightarrow> Some (MU_FAILURE, ctrlPacket, w)
          | Some m \<Rightarrow> do {
              p \<leftarrow> advance (m, 0) currLen;
              p \<leftarrow> byteutil_writeUTF p (ph_topicName publishHeader) (of_nat topicLen);
              p \<leftarrow> (if idLen > 0 then byteutil_writeInt p (ph_packetId publishHeader) else Some p);
              Some (ZERO, BUFFER_stored api ctrlPacket (fst p), w)
            })))"

definition constructSubscibeTypeVariableHeader ::
  "('b, 'w) buffer_api \<Rightarrow> 'b \<Rightarrow> u16 \<Rightarrow> 'w \<Rightarrow> (c_result \<times> 'b \<times> 'w) option" where
  "constructSubscibeTypeVariableHeader api ctrlPacket packetId w =
    (case BUFFER_enlarge api ctrlPacket 2 w of
      (MU_FAILURE, ctrlPacket, w) \<Rightarrow> Some (MU_FAILURE, ctrlPacket, w)
    | (ZERO, ctrlPacket, w) \<Rightarrow>
       (case BUFFER_u_char api ctrlPacket of
          None \<Rightarrow> Some (MU_FAILURE, ctrlPacket, w)
        | Some m \<Rightarrow> do {
            p \<leftarrow> byteutil_writeInt (m, 0) packetId;
            Some (ZERO, BUFFER_stored api ctrlPacket (fst p), w)
          }))"

definition constructPublishReply ::
  "('b, 'w) buffer_api \<Rightarrow> CONTROL_PACKET_TYPE \<Rightarrow> byte \<Rightarrow> u16 \<Rightarrow> 'w \<Rightarrow> ('b option \<times> 'w) option" where
  "constructPublishReply api type flags packetId w =
    (case BUFFER_new api w of
      (None, w) \<Rightarrow> Some (None, w)
    | (Some result, w) \<Rightarrow>
       (case BUFFER_pre_build api result 4 w of
         (MU_FAILURE, result, w) \<Rightarrow> Some (None, BUFFER_delete api (Some result) w)
       | (ZERO, result, w) \<Rightarrow>
          (case BUFFER_u_char api result of
             None \<Rightarrow> Some (None, BUFFER_delete api (Some result) w)
           | Some m \<Rightarrow> do {
               p \<leftarrow> put_byte (m, 0) (packet_byte type OR flags);
               p \<leftarrow> advance p 1;
               p \<leftarrow> put_byte p 0x2;
               p \<leftarrow> advance p 1;
               p \<leftarrow> byteutil_writeInt p packetId;
               Some (Some (BUFFER_stored api result (fst p)), w)
             })))"

section \<open>Fixed header\<close>

text \<open>
  The \<open>do ... while (packetLen > 0)\<close> loop that fills \<open>remainSize\<close>; a store past its four
  bytes is undefined.
\<close>

function remain_encode :: "nat \<Rightarrow> byte list \<Rightarrow> nat \<Rightarrow> (byte list \<times> nat) option" where
  "remain_encode packetLen remainSize index =
    (let encode = of_nat (packetLen mod 128);
         packetLen' = packetLen div 128;
         encode' = (if packetLen' > 0 then encode OR of_nat NEXT_128_CHUNK else encode)
     in
     if index < length remainSize then
       (if packetLen' > 0
        then remain_encode packetLen' (remainSize[index := encode']) (index + 1)
        else Some (remainSize[index := encode'], index + 1))
     else None)"
  by pat_completeness auto
termination
  by (relation "measure (\<lambda>(packetLen, _, _). packetLen)") auto

declare remain_encode.simps [simp del]

definition constructFixedHeader ::
  "('b, 'w) buffer_api \<Rightarrow> 'b \<Rightarrow> CONTROL_PACKET_TYPE \<Rightarrow> byte \<Rightarrow> 'w \<Rightarrow> (c_result \<times> 'b \<times> 'w) option" where
  "constructFixedHeader api ctrlPacket packetType flags w = do {
     (remainSize, index) \<leftarrow> remain_encode (BUFFER_length api ctrlPacket) (replicate 4 0) 0;
     (case BUFFER_new api w of
       (None, w) \<Rightarrow> Some (MU_FAILURE, ctrlPacket, w)
     | (Some fixedHeader, w) \<Rightarrow>
        (case BUFFER_pre_build api fixedHeader (index + 1) w of
          (MU_FAILURE, fixedHeader, w) \<Rightarrow>
            Some (MU_FAILURE, ctrlPacket, BUFFER_delete api (Some fixedHeader) w)
        | (ZERO, fixedHeader, w) \<Rightarrow> do {
            m \<leftarrow> BUFFER_u_char api fixedHeader;
            p \<leftarrow> put_byte (m, 0) (packet_byte packetType OR flags);
            p \<leftarrow> advance p 1;
            p \<leftarrow> memcpy_to p remainSize index;
            (case BUFFER_prepend api ctrlPacket (BUFFER_stored api fixedHeader (fst p)) w of
              (result, ctrlPacket, w) \<Rightarrow>
                Some (result, ctrlPacket,
                      BUFFER_delete api (Some (BUFFER_stored api fixedHeader (fst p))) w))
          }))
   }"

section \<open>CONNECT payload\<close>

text \<open>
  \<open>strlen\<close> of a field that may be null, as the code guards it; the bytes a \<open>memcpy\<close> of length 0
  reads through a null pointer (none); the two bytes of space a field that is not null is given.
\<close>

definition opt_len :: "c_str option \<Rightarrow> nat" where
  "opt_len s = (case s of None \<Rightarrow> 0 | Some cs \<Rightarrow> length cs)"

definition opt_str :: "c_str option \<Rightarrow> c_str" where
  "opt_str s = (case s of None \<Rightarrow> [] | Some cs \<Rightarrow> cs)"

definition opt_space :: "c_str option \<Rightarrow> nat" where
  "opt_space s = (case s of None \<Rightarrow> 0 | Some cs \<Rightarrow> 2)"

text \<open>\<open>packet[CONN_FLAG_BYTE_OFFSET] |= v\<close>, with the iterator into the same block.\<close>

definition or_flags :: "cursor \<Rightarrow> byte \<Rightarrow> cursor option" where
  "or_flags p v = (case p of (m, i) \<Rightarrow> do {
     m \<leftarrow> or_byte m CONN_FLAG_BYTE_OFFSET v;
     Some (m, i)
   })"

text \<open>\<open>qualityOfServiceValue << 3\<close>: the left shift of a negative enumerator is undefined.\<close>

definition shift_qos :: "QOS_VALUE \<Rightarrow> byte option" where
  "shift_qos q = (if qos_code q < 0 then None else Some (word_of_int (qos_code q * 8)))"

definition constructConnPayload ::
  "('b, 'w) buffer_api \<Rightarrow> 'b \<Rightarrow> MQTT_CLIENT_OPTIONS \<Rightarrow> 'w \<Rightarrow> (c_result \<times> 'b \<times> 'w) option" where
  "constructConnPayload api ctrlPacket mqttOptions w =
    (let clientLen = opt_len (clientId mqttOptions);
         usernameLen = opt_len (username mqttOptions);
         passwordLen = opt_len (password mqttOptions);
         willMessageLen = opt_len (willMessage mqttOptions);
         willTopicLen = opt_len (willTopic mqttOptions);
         spaceLen = opt_space (clientId mqttOptions) + opt_space (username mqttOptions) +
           opt_space (password mqttOptions) + opt_space (willMessage mqttOptions) +
           opt_space (willTopic mqttOptions);
         currLen = BUFFER_length api ctrlPacket;
         totalLen = clientLen + usernameLen + passwordLen + willMessageLen + willTopicLen + spaceLen
     in
     if clientLen > USHRT_MAX then Some (MU_FAILURE, ctrlPacket, w)
     else if usernameLen = 0 \<and> passwordLen > 0 then Some (MU_FAILURE, ctrlPacket, w)
     else if (willMessageLen > 0 \<and> willTopicLen = 0) \<or> (willTopicLen > 0 \<and> willMessageLen = 0)
     then Some (MU_FAILURE, ctrlPacket, w)
     else
      (case BUFFER_enlarge api ctrlPacket totalLen w of
        (MU_FAILURE, ctrlPacket, w) \<Rightarrow> Some (MU_FAILURE, ctrlPacket, w)
      | (ZERO, ctrlPacket, w) \<Rightarrow> do {
          packet \<leftarrow> BUFFER_u_char api ctrlPacket;
          p \<leftarrow> advance (packet, 0) currLen;
          p \<leftarrow> byteutil_writeUTF p (opt_str (clientId mqttOptions)) (of_nat clientLen);
          if willMessageLen > USHRT_MAX \<or> willTopicLen > USHRT_MAX \<or> usernameLen > USHRT_MAX
             \<or> passwordLen > USHRT_MAX
          then Some (MU_FAILURE, BUFFER_stored api ctrlPacket (fst p), w)
          else do {
            p \<leftarrow> (if willMessageLen > 0 \<and> willTopicLen > 0 then do {
                    p \<leftarrow> or_flags p 0x04;
                    p \<leftarrow> byteutil_writeUTF p (opt_str (willTopic mqttOptions)) (of_nat willTopicLen);
                    q \<leftarrow> shift_qos (qualityOfServiceValue mqttOptions);
                    p \<leftarrow> or_flags p q;
                    p \<leftarrow> (if messageRetain mqttOptions then or_flags p 0x20 else Some p);
                    byteutil_writeUTF p (opt_str (willMessage mqttOptions)) (of_nat willMessageLen)
                  } else Some p);
            p \<leftarrow> (if usernameLen > 0 then do {
                    p \<leftarrow> or_flags p 0x80;
                    byteutil_writeUTF p (opt_str (username mqttOptions)) (of_nat usernameLen)
                  } else Some p);
            p \<leftarrow> (if passwordLen > 0 then do {
                    p \<leftarrow> or_flags p 0x40;
                    byteutil_writeUTF p (opt_str (password mqttOptions)) (of_nat passwordLen)
                  } else Some p);
            p \<leftarrow> (if useCleanSession mqttOptions then or_flags p 0x02 else Some p);
            Some (ZERO, BUFFER_stored api ctrlPacket (fst p), w)
          }
        }))"

section \<open>Packets\<close>

text \<open>
  \<open>trace_log\<close> says whether the caller passes a string to write the trace to.  The string
  \<open>varible_header_log\<close> is created behind the buffer and deleted behind the payload: not when the
  variable header fails.  (\<open>connect_payload_trace\<close>, which \<open>constructConnPayload\<close> creates and deletes in one
  block, is left out, as are the trace strings of the other encoders, which delete theirs on every
  path.)
\<close>

definition finish_connect ::
  "('b, 'w) buffer_api \<Rightarrow> 'b \<Rightarrow> MQTT_CLIENT_OPTIONS \<Rightarrow> 'w \<Rightarrow> ('b option \<times> 'w) option" where
  "finish_connect api result opts w = do {
     (r, result, w) \<leftarrow> constructConnPayload api result opts w;
     if r \<noteq> ZERO then Some (None, BUFFER_delete api (Some result) w)
     else do {
       (r, result, w) \<leftarrow> constructFixedHeader api result CONNECT_TYPE 0 w;
       if r \<noteq> ZERO then Some (None, BUFFER_delete api (Some result) w)
       else Some (Some result, w)
     }
   }"

definition mqtt_codec_connect ::
  "('b, 'w) buffer_api \<Rightarrow> 'w string_api \<Rightarrow> MQTT_CLIENT_OPTIONS option \<Rightarrow> bool \<Rightarrow> 'w
    \<Rightarrow> ('b option \<times> 'w) option" where
  "mqtt_codec_connect api strs mqttOptions trace_log w =
    (case mqttOptions of
       None \<Rightarrow> Some (None, w)
     | Some opts \<Rightarrow>
      (case BUFFER_new api w of
        (None, w) \<Rightarrow> Some (None, w)
      | (Some result, w) \<Rightarrow>
         (case (if trace_log then STRING_new strs w else (False, w)) of
            (varible_header_log, w) \<Rightarrow> do {
              (r, result, w) \<leftarrow> constructConnectVariableHeader api result opts w;
              if r \<noteq> ZERO then Some (None, BUFFER_delete api (Some result) w)
              else do {
                (result, w) \<leftarrow> finish_connect api result opts w;
                Some (result, if varible_header_log then STRING_delete strs varible_header_log w else w)
              }
            })))"

definition mqtt_codec_disconnect :: "('b, 'w) buffer_api \<Rightarrow> 'w \<Rightarrow> ('b option \<times> 'w) option" where
  "mqtt_codec_disconnect api w =
    (case BUFFER_new api w of
      (None, w) \<Rightarrow> Some (None, w)
    | (Some result, w) \<Rightarrow>
       (case BUFFER_enlarge api result 2 w of
         (MU_FAILURE, result, w) \<Rightarrow> Some (None, BUFFER_delete api (Some result) w)
       | (ZERO, result, w) \<Rightarrow>
          (case BUFFER_u_char api result of
             None \<Rightarrow> Some (None, BUFFER_delete api (Some result) w)
           | Some m \<Rightarrow> do {
               p \<leftarrow> put_byte (m, 0) (packet_byte DISCONNECT_TYPE);
               p \<leftarrow> put_byte (fst p, 1) 0;
               Some (Some (BUFFER_stored api result (fst p)), w)
             })))"

definition mqtt_codec_ping :: "('b, 'w) buffer_api \<Rightarrow> 'w \<Rightarrow> ('b option \<times> 'w) option" where
  "mqtt_codec_ping api w =
    (case BUFFER_new api w of
      (None, w) \<Rightarrow> Some (None, w)
    | (Some result, w) \<Rightarrow>
       (case BUFFER_enlarge api result 2 w of
         (MU_FAILURE, result, w) \<Rightarrow> Some (None, BUFFER_delete api (Some result) w)
       | (ZERO, result, w) \<Rightarrow>
          (case BUFFER_u_char api result of
             None \<Rightarrow> Some (None, BUFFER_delete api (Some result) w)
           | Some m \<Rightarrow> do {
               p \<leftarrow> put_byte (m, 0) (packet_byte PINGREQ_TYPE);
               p \<leftarrow> put_byte (fst p, 1) 0;
               Some (Some (BUFFER_stored api result (fst p)), w)
             })))"

definition publish_flags :: "QOS_VALUE \<Rightarrow> bool \<Rightarrow> bool \<Rightarrow> byte" where
  "publish_flags qosValue duplicateMsg serverRetain =
    (let headerFlags = 0;
         headerFlags = (if duplicateMsg then headerFlags OR 0x8 else headerFlags);
         headerFlags = (if serverRetain then headerFlags OR 0x1 else headerFlags)
     in
     if qosValue \<noteq> DELIVER_AT_MOST_ONCE then
       (if qosValue = DELIVER_AT_LEAST_ONCE then headerFlags OR 0x2 else headerFlags OR 0x4)
     else headerFlags)"

text \<open>
  The payload part of \<open>mqtt_codec_publish\<close>; \<open>False\<close> when it has deleted the packet.  A copy from
  a null \<open>msgBuffer\<close> is undefined.
\<close>

definition publish_payload ::
  "('b, 'w) buffer_api \<Rightarrow> 'b \<Rightarrow> byte list option \<Rightarrow> nat \<Rightarrow> 'w \<Rightarrow> (bool \<times> 'b \<times> 'w) option" where
  "publish_payload api result msgBuffer buffLen w =
    (let payloadOffset = BUFFER_length api result in
     if buffLen > 0 then
      (case BUFFER_enlarge api result buffLen w of
        (MU_FAILURE, result, w) \<Rightarrow> Some (False, result, BUFFER_delete api (Some result) w)
      | (ZERO, result, w) \<Rightarrow>
         (case BUFFER_u_char api result of
            None \<Rightarrow> Some (False, result, BUFFER_delete api (Some result) w)
          | Some m \<Rightarrow> do {
              p \<leftarrow> advance (m, 0) payloadOffset;
              msg \<leftarrow> msgBuffer;
              p \<leftarrow> memcpy_to p msg buffLen;
              Some (True, BUFFER_stored api result (fst p), w)
            }))
     else Some (True, result, w))"

definition mqtt_codec_publish ::
  "('b, 'w) buffer_api \<Rightarrow> QOS_VALUE \<Rightarrow> bool \<Rightarrow> bool \<Rightarrow> u16 \<Rightarrow> c_str option \<Rightarrow> byte list option \<Rightarrow> nat
    \<Rightarrow> 'w \<Rightarrow> ('b option \<times> 'w) option" where
  "mqtt_codec_publish api qosValue duplicateMsg serverRetain packetId topicName msgBuffer buffLen w =
    (case topicName of
       None \<Rightarrow> Some (None, w)
     | Some topic \<Rightarrow>
      if buffLen > MAX_SEND_SIZE then Some (None, w)
      else
       (let publishInfo = \<lparr>ph_topicName = topic, ph_packetId = packetId,
              ph_qualityOfServiceValue = qosValue\<rparr>;
            headerFlags = publish_flags qosValue duplicateMsg serverRetain
        in
        (case BUFFER_new api w of
          (None, w) \<Rightarrow> Some (None, w)
        | (Some result, w) \<Rightarrow> do {
            (r, result, w) \<leftarrow> constructPublishVariableHeader api result publishInfo w;
            if r \<noteq> ZERO then Some (None, BUFFER_delete api (Some result) w)
            else do {
              (ok, result, w) \<leftarrow> publish_payload api result msgBuffer buffLen w;
              if ok then do {
                (r, result, w) \<leftarrow> constructFixedHeader api result PUBLISH_TYPE headerFlags w;
                if r \<noteq> ZERO then Some (None, BUFFER_delete api (Some result) w)
                else Some (Some result, w)
              } else Some (None, w)
            }
          })))"

definition mqtt_codec_publishAck :: "('b, 'w) buffer_api \<Rightarrow> u16 \<Rightarrow> 'w \<Rightarrow> ('b option \<times> 'w) option" where
  "mqtt_codec_publishAck api packetId w = constructPublishReply api PUBACK_TYPE 0 packetId w"

definition mqtt_codec_publishReceived ::
  "('b, 'w) buffer_api \<Rightarrow> u16 \<Rightarrow> 'w \<Rightarrow> ('b option \<times> 'w) option" where
  "mqtt_codec_publishReceived api packetId w = constructPublishReply api PUBREC_TYPE 0 packetId w"

definition mqtt_codec_publishRelease ::
  "('b, 'w) buffer_api \<Rightarrow> u16 \<Rightarrow> 'w \<Rightarrow> ('b option \<times> 'w) option" where
  "mqtt_codec_publishRelease api packetId w = constructPublishReply api PUBREL_TYPE 2 packetId w"

definition mqtt_codec_publishComplete ::
  "('b, 'w) buffer_api \<Rightarrow> u16 \<Rightarrow> 'w \<Rightarrow> ('b option \<times> 'w) option" where
  "mqtt_codec_publishComplete api packetId w = constructPublishReply api PUBCOMP_TYPE 0 packetId w"

text \<open>The list pointers may be null; \<open>0x2\<close> is the flag of both fixed headers.\<close>

definition mqtt_codec_subscribe ::
  "('b, 'w) buffer_api \<Rightarrow> u16 \<Rightarrow> SUBSCRIBE_PAYLOAD list option \<Rightarrow> nat \<Rightarrow> 'w \<Rightarrow> ('b option \<times> 'w) option" where
  "mqtt_codec_subscribe api packetId subscribeList count w =
    (case subscribeList of
       None \<Rightarrow> Some (None, w)
     | Some items \<Rightarrow>
      if count = 0 then Some (None, w)
      else
       (case BUFFER_new api w of
         (None, w) \<Rightarrow> Some (None, w)
       | (Some result, w) \<Rightarrow> do {
           (r, result, w) \<leftarrow> constructSubscibeTypeVariableHeader api result packetId w;
           if r \<noteq> ZERO then Some (None, BUFFER_delete api (Some result) w)
           else do {
             (r, result, w) \<leftarrow> addListItemsToSubscribePacket api result items count w;
             if r \<noteq> ZERO then Some (None, BUFFER_delete api (Some result) w)
             else do {
               (r, result, w) \<leftarrow> constructFixedHeader api result SUBSCRIBE_TYPE 0x2 w;
               if r \<noteq> ZERO then Some (None, BUFFER_delete api (Some result) w)
               else Some (Some result, w)
             }
           }
         }))"

definition mqtt_codec_unsubscribe ::
  "('b, 'w) buffer_api \<Rightarrow> u16 \<Rightarrow> c_str option list option \<Rightarrow> nat \<Rightarrow> 'w \<Rightarrow> ('b option \<times> 'w) option" where
  "mqtt_codec_unsubscribe api packetId unsubscribeList count w =
    (case unsubscribeList of
       None \<Rightarrow> Some (None, w)
     | Some items \<Rightarrow>
      if count = 0 then Some (None, w)
      else
       (case BUFFER_new api w of
         (None, w) \<Rightarrow> Some (None, w)
       | (Some result, w) \<Rightarrow> do {
           (r, result, w) \<leftarrow> constructSubscibeTypeVariableHeader api result packetId w;
           if r \<noteq> ZERO then Some (None, BUFFER_delete api (Some result) w)
           else do {
             (r, result, w) \<leftarrow> addListItemsToUnsubscribePacket api result items count w;
             if r \<noteq> ZERO then Some (None, BUFFER_delete api (Some result) w)
             else do {
               (r, result, w) \<leftarrow> constructFixedHeader api result UNSUBSCRIBE_TYPE 0x2 w;
               if r \<noteq> ZERO then Some (None, BUFFER_delete api (Some result) w)
               else Some (Some result, w)
             }
           }
         }))"

end
