(* ===== verification/Packet_Format.thy ===== *)
theory Packet_Format
  imports Umqtt_Const
begin

text \<open>
  The wire format of MQTT 3.1.1 control packets, as the specification both sides of the codec are
  compared with: length-prefixed strings, the Remaining Length and framed packets.
\<close>

section \<open>Strings\<close>

definition utf :: "byte list \<Rightarrow> byte list" where
  "utf s = be16 (of_nat (length s)) @ s"

lemma length_utf [simp]: "length (utf s) = 2 + length s"
  by (simp add: utf_def)

section \<open>Remaining Length\<close>

text \<open>Seven bits to a byte, least significant first; the high bit says that another byte follows.\<close>

function varint :: "nat \<Rightarrow> byte list" where
  "varint n = (if n < 128 then [of_nat n] else (of_nat (n mod 128) OR 0x80) # varint (n div 128))"
  by pat_completeness auto
termination
  by (relation "measure id") auto

declare varint.simps [simp del]

lemma varint_small [simp]: "n < 128 \<Longrightarrow> varint n = [of_nat n]"
  by (simp add: varint.simps)

lemma varint_nonempty [simp]: "varint n \<noteq> []"
  by (simp add: varint.simps [of n])

lemma length_varint_iff: "length (varint n) \<le> Suc k \<longleftrightarrow> n < 128 ^ Suc k"
proof (induction k arbitrary: n)
  case 0
  then show ?case by (auto simp: varint.simps [of n])
next
  case (Suc k)
  show ?case
  proof (cases "n < 128")
    case True
    moreover have "(128::nat) \<le> 128 ^ Suc (Suc k)"
      by (rule self_le_power) simp_all
    ultimately have "n < 128 ^ Suc (Suc k)" by (rule less_le_trans)
    with True show ?thesis by simp
  next
    case False
    then have "length (varint n) \<le> Suc (Suc k) \<longleftrightarrow> n div 128 < 128 ^ Suc k"
      using Suc [of "n div 128"] by (simp add: varint.simps [of n])
    also have "\<dots> \<longleftrightarrow> n < 128 ^ Suc (Suc k)"
      by (simp add: less_mult_imp_div_less div_less_iff_less_mult mult.commute)
    finally show ?thesis .
  qed
qed

lemma length_varint_4: "length (varint n) \<le> 4 \<longleftrightarrow> n < 268435456"
  using length_varint_iff [of n 3] by simp

lemma length_varint_3: "length (varint n) \<le> 3 \<longleftrightarrow> n < 2097152"
  using length_varint_iff [of n 2] by simp

section \<open>Framed packets\<close>

definition frame :: "CONTROL_PACKET_TYPE \<Rightarrow> byte \<Rightarrow> byte list \<Rightarrow> byte list" where
  "frame t flags body = (packet_byte t OR flags) # varint (length body) @ body"

section \<open>Bodies of the packets the client sends\<close>

definition publish_body :: "QOS_VALUE \<Rightarrow> u16 \<Rightarrow> c_str \<Rightarrow> byte list \<Rightarrow> byte list" where
  "publish_body qos packetId topic payload =
    utf topic @ (if qos \<noteq> DELIVER_AT_MOST_ONCE then be16 packetId else []) @ payload"

definition subscribe_item :: "c_str \<times> QOS_VALUE \<Rightarrow> byte list" where
  "subscribe_item i = utf (fst i) @ [qos_byte (snd i)]"

definition subscribe_body :: "u16 \<Rightarrow> (c_str \<times> QOS_VALUE) list \<Rightarrow> byte list" where
  "subscribe_body packetId items = be16 packetId @ concat (map subscribe_item items)"

definition unsubscribe_body :: "u16 \<Rightarrow> c_str list \<Rightarrow> byte list" where
  "unsubscribe_body packetId topics = be16 packetId @ concat (map utf topics)"

end
