(* ===== verification/Codec_Encode_Props.thy ===== *)
theory Codec_Encode_Props
  imports Codec_Encode Packet_Format
begin

text \<open>
  What the packet constructors build: the shared contract \<open>yields\<close> of the functions that fill a
  buffer, the contract \<open>encodes\<close> of the functions that return a packet, and the proofs that each
  constructor meets it.
\<close>

section \<open>Byte writers as block writes\<close>

lemma writeByte_write [cursor_simps]: "byteutil_writeByte p v = write_bytes p [v]"
  by (simp add: byteutil_writeByte_def put_byte_advance)

lemma writeInt_write [cursor_simps]: "byteutil_writeInt p v = write_bytes p (be16 v)"
proof -
  have "byteutil_writeInt p v =
    Option.bind (write_bytes p [ucast (v div 256)]) (\<lambda>q. write_bytes q [ucast (v mod 256)])"
    by (simp add: byteutil_writeInt_def put_byte_advance [symmetric])
  then show ?thesis by (simp add: write_bytes_append be16_def)
qed

lemma unat_of_nat_u16: "n \<le> USHRT_MAX \<Longrightarrow> unat (of_nat n :: u16) = n"
  by (simp add: USHRT_MAX_def unat_of_nat)

lemma writeUTF_write [cursor_simps]:
  assumes "length s \<le> USHRT_MAX"
  shows "byteutil_writeUTF p s (of_nat (length s)) = write_bytes p (utf s)"
proof -
  have "byteutil_writeUTF p s (of_nat (length s)) =
    Option.bind (write_bytes p (be16 (of_nat (length s)))) (\<lambda>q. write_bytes q s)"
    by (simp add: byteutil_writeUTF_def writeInt_write unat_of_nat_u16 [OF assms] memcpy_advance)
  then show ?thesis by (simp add: write_bytes_append utf_def)
qed

section \<open>Remaining Length\<close>

lemma remain_encode_varint:
  "i \<le> length rs \<Longrightarrow> remain_encode n rs i =
    (if i + length (varint n) \<le> length rs
     then Some (take i rs @ varint n @ drop (i + length (varint n)) rs, i + length (varint n))
     else None)"
proof (induction n rs i rule: remain_encode.induct)
  case (1 n rs i)
  show ?case
  proof (cases "i < length rs")
    case False
    then have "i + length (varint n) > length rs"
      using "1.prems" by (cases "varint n") auto
    with False show ?thesis by (simp add: remain_encode.simps [of n])
  next
    case True
    show ?thesis
    proof (cases "n < 128")
      case True
      with \<open>i < length rs\<close> show ?thesis
        by (simp add: remain_encode.simps [of n] upd_conv_take_nth_drop)
    next
      case False
      let ?e = "of_nat (n mod 128) OR 0x80 :: byte"
      have v: "varint n = ?e # varint (n div 128)"
        using False by (simp add: varint.simps [of n])
      have p: "n div 128 > 0" using False by simp
      have "remain_encode n rs i = remain_encode (n div 128) (rs[i := ?e]) (i + 1)"
        using \<open>i < length rs\<close> p by (simp add: remain_encode.simps [of n] NEXT_128_CHUNK_def)
      also have "\<dots> = (if i + 1 + length (varint (n div 128)) \<le> length rs
        then Some (take (i + 1) (rs[i := ?e]) @ varint (n div 128)
               @ drop (i + 1 + length (varint (n div 128))) (rs[i := ?e]),
             i + 1 + length (varint (n div 128))) else None)"
        using "1.IH" [OF refl refl _ \<open>i < length rs\<close> p] \<open>i < length rs\<close> p
        by (simp add: NEXT_128_CHUNK_def)
      finally show ?thesis
        using \<open>i < length rs\<close> by (simp add: v take_Suc_conv_app_nth)
    qed
  qed
qed

lemma remain_encode_start:
  "remain_encode n (replicate 4 0) 0 =
    (if n < 268435456
     then Some (varint n @ replicate (4 - length (varint n)) 0, length (varint n)) else None)"
  using length_varint_4 [of n] by (simp add: remain_encode_varint)

section \<open>Contracts\<close>

text \<open>
  A function that fills a buffer \<open>yields\<close> the bytes \<open>bs\<close>: it is defined, keeps the number of
  live buffers, and either leaves exactly \<open>bs\<close> in the buffer or reports a failure of the buffer
  module.  A packet constructor \<open>encodes\<close> \<open>bs\<close>: it returns a new buffer with these bytes, or
  null, after a failure of the buffer module and with everything released.
\<close>

definition yields ::
  "('b, 'w) buffer_api \<Rightarrow> ('w \<Rightarrow> int) \<Rightarrow> 'w \<Rightarrow> byte list \<Rightarrow> (c_result \<times> 'b \<times> 'w) option \<Rightarrow> bool" where
  "yields api live w bs res \<longleftrightarrow>
    (\<exists>r b' w'. res = Some (r, b', w') \<and> live w' = live w \<and>
      (case r of ZERO \<Rightarrow> buffer_bytes api b' = bs | MU_FAILURE \<Rightarrow> \<not> buffer_total api))"

definition encodes ::
  "('b, 'w) buffer_api \<Rightarrow> ('w \<Rightarrow> int) \<Rightarrow> 'w \<Rightarrow> byte list \<Rightarrow> ('b option \<times> 'w) option \<Rightarrow> bool" where
  "encodes api live w bs res \<longleftrightarrow>
    (\<exists>r w'. res = Some (r, w') \<and>
      (case r of Some b \<Rightarrow> buffer_bytes api b = bs \<and> live w' = live w + 1
       | None \<Rightarrow> \<not> buffer_total api \<and> live w' = live w))"

text \<open>A request that is refused: null, and nothing stays allocated.\<close>

definition refuses :: "('w \<Rightarrow> int) \<Rightarrow> 'w \<Rightarrow> ('b option \<times> 'w) option \<Rightarrow> bool" where
  "refuses live w res \<longleftrightarrow> (\<exists>w'. res = Some (None, w') \<and> live w' = live w)"

lemma yieldsE:
  assumes "yields api live w bs res"
  obtains (ok) b' w' where "res = Some (ZERO, b', w')" "buffer_bytes api b' = bs" "live w' = live w"
  | (fail) b' w' where "res = Some (MU_FAILURE, b', w')" "\<not> buffer_total api" "live w' = live w"
proof -
  from assms obtain r b' w' where r: "res = Some (r, b', w')" "live w' = live w"
    "case r of ZERO \<Rightarrow> buffer_bytes api b' = bs | MU_FAILURE \<Rightarrow> \<not> buffer_total api"
    by (auto simp: yields_def)
  then show thesis using ok fail by (cases r) simp_all
qed

lemma yields_ZERO [intro]:
  "buffer_bytes api b' = bs \<Longrightarrow> live w' = live w \<Longrightarrow> yields api live w bs (Some (ZERO, b', w'))"
  by (simp add: yields_def)

lemma yields_fail [intro]:
  "\<not> buffer_total api \<Longrightarrow> live w' = live w \<Longrightarrow> yields api live w bs (Some (MU_FAILURE, b', w'))"
  by (simp add: yields_def)

lemma yields_live: "yields api live w' bs res \<Longrightarrow> live w' = live w \<Longrightarrow> yields api live w bs res"
  by (simp add: yields_def)

lemma encodes_Some [intro]:
  "buffer_bytes api b = bs \<Longrightarrow> live w' = live w + 1 \<Longrightarrow> encodes api live w bs (Some (Some b, w'))"
  by (simp add: encodes_def)

lemma encodes_None [intro]:
  "\<not> buffer_total api \<Longrightarrow> live w' = live w \<Longrightarrow> encodes api live w bs (Some (None, w'))"
  by (simp add: encodes_def)

text \<open>
  The enlargement every writer starts with: it fails, or gives the old bytes and \<open>n\<close> bytes of
  space behind them, reached through a pointer that is not null.
\<close>

lemma enlarge_cases:
  assumes laws: "buffer_laws api live" and n: "0 < n"
  obtains (ok) b' w' ext where "BUFFER_enlarge api b n w = (ZERO, b', w')" "live w' = live w"
      "length ext = n" "buffer_bytes api b' = buffer_bytes api b @ ext"
      "BUFFER_u_char api b' = Some (buffer_bytes api b @ ext)"
  | (fail) b' w' where "BUFFER_enlarge api b n w = (MU_FAILURE, b', w')" "live w' = live w"
      "\<not> buffer_total api"
proof (cases "BUFFER_enlarge api b n w")
  case (fields r b' w')
  have live: "live w' = live w" using buffer_enlarge_live [OF laws fields] .
  show thesis
  proof (cases r)
    case ZERO
    with fields have e: "BUFFER_enlarge api b n w = (ZERO, b', w')" by simp
    from buffer_enlarge_ZERO [OF laws e] obtain ext where
      ext: "length ext = n" "buffer_bytes api b' = buffer_bytes api b @ ext" .
    with n have "buffer_bytes api b' \<noteq> []" by auto
    then show thesis using ok [OF e live ext] ext(2) buffer_u_char_Some by metis
  next
    case MU_FAILURE
    with fields have e: "BUFFER_enlarge api b n w = (MU_FAILURE, b', w')" by simp
    with n have "\<not> buffer_total api" by auto
    with fail [OF e live] show thesis .
  qed
qed

lemma pre_build_cases:
  assumes laws: "buffer_laws api live" and n: "0 < n"
  obtains (ok) b' w' m where "BUFFER_pre_build api b n w = (ZERO, b', w')" "live w' = live w"
      "length m = n" "buffer_bytes api b' = m" "BUFFER_u_char api b' = Some m"
  | (fail) b' w' where "BUFFER_pre_build api b n w = (MU_FAILURE, b', w')" "live w' = live w"
      "\<not> buffer_total api"
proof (cases "BUFFER_pre_build api b n w")
  case (fields r b' w')
  have live: "live w' = live w" using buffer_pre_build_live [OF laws fields] .
  show thesis
  proof (cases r)
    case ZERO
    with fields have e: "BUFFER_pre_build api b n w = (ZERO, b', w')" by simp
    have len: "length (buffer_bytes api b') = n" using buffer_pre_build_ZERO [OF laws e] .
    with n have "buffer_bytes api b' \<noteq> []" by auto
    then show thesis using ok [OF e live len refl] buffer_u_char_Some by metis
  next
    case MU_FAILURE
    with fields have e: "BUFFER_pre_build api b n w = (MU_FAILURE, b', w')" by simp
    with n have "\<not> buffer_total api" by auto
    with fail [OF e live] show thesis .
  qed
qed

lemma prepend_cases:
  assumes laws: "buffer_laws api live"
  obtains (ok) b' w' where "BUFFER_prepend api b c w = (ZERO, b', w')" "live w' = live w"
      "buffer_bytes api b' = buffer_bytes api c @ buffer_bytes api b"
  | (fail) b' w' where "BUFFER_prepend api b c w = (MU_FAILURE, b', w')" "live w' = live w"
      "\<not> buffer_total api"
proof (cases "BUFFER_prepend api b c w")
  case (fields r b' w')
  have live: "live w' = live w" using buffer_prepend_live [OF laws fields] .
  show thesis
  proof (cases r)
    case ZERO
    with fields have e: "BUFFER_prepend api b c w = (ZERO, b', w')" by simp
    with ok [OF e live] buffer_prepend_ZERO [OF laws e] show thesis by blast
  next
    case MU_FAILURE
    with fields have e: "BUFFER_prepend api b c w = (MU_FAILURE, b', w')" by simp
    then have "\<not> buffer_total api" by auto
    with fail [OF e live] show thesis .
  qed
qed

lemma new_cases:
  assumes laws: "buffer_laws api live"
  obtains (ok) b w' where "BUFFER_new api w = (Some b, w')" "live w' = live w + 1"
      "buffer_bytes api b = []"
  | (fail) w' where "BUFFER_new api w = (None, w')" "live w' = live w" "\<not> buffer_total api"
proof (cases "BUFFER_new api w")
  case (Pair r w')
  show thesis
  proof (cases r)
    case None
    with Pair have e: "BUFFER_new api w = (None, w')" by simp
    then have "\<not> buffer_total api" by auto
    with fail [OF e buffer_new_None [OF laws e]] show thesis .
  next
    case (Some b)
    with Pair have e: "BUFFER_new api w = (Some b, w')" by simp
    with ok [OF e] buffer_new_Some [OF laws e] show thesis by blast
  qed
qed

lemma advance_end [simp]: "advance (old @ ext, 0) (length old) = Some (old @ ext, length old)"
  by (simp add: advance_def)

section \<open>Fixed header\<close>

lemma constructFixedHeader_yields:
  assumes laws: "buffer_laws api live" and len: "length (buffer_bytes api b) < 268435456"
  shows "yields api live w (frame t fl (buffer_bytes api b)) (constructFixedHeader api b t fl w)"
proof -
  let ?v = "varint (length (buffer_bytes api b))"
  note L = buffer_length [OF laws] buffer_stored [OF laws] buffer_delete_live [OF laws]
  have enc: "remain_encode (length (buffer_bytes api b)) (replicate 4 0) 0
    = Some (?v @ replicate (4 - length ?v) 0, length ?v)"
    using len by (simp add: remain_encode_start)
  show ?thesis
    using laws
  proof (cases rule: new_cases [where w = w])
    case fail
    then show ?thesis by (auto simp: constructFixedHeader_def L enc)
  next
    case (ok h w1)
    note new = this
    have pos: "0 < length ?v + 1" by simp
    show ?thesis
      using laws pos
    proof (cases rule: pre_build_cases [where b = h and w = w1])
      case (fail h' w2)
      with new show ?thesis by (auto simp: constructFixedHeader_def enc L)
    next
      case (ok h' w2 m)
      let ?m = "packet_byte t OR fl"
      obtain x xs where m: "m = x # xs" "length xs = length ?v"
        using ok(3) by (cases m) auto
      let ?h = "BUFFER_stored api h' (?m # ?v)"
      have hb: "buffer_bytes api ?h = ?m # ?v"
        using ok m by (simp add: L)
      have st: "memcpy_to (?m # xs, 1) (?v @ replicate (4 - length ?v) 0) (length ?v)
          = Some (?m # ?v, 1)"
        using m by (simp add: memcpy_to_def)
      show ?thesis
        using new ok m st hb
        by (cases rule: prepend_cases [OF laws, where b = b and c = ?h and w = w2])
          (auto simp: constructFixedHeader_def enc L put_byte_def advance_def frame_def)
    qed
  qed
qed

lemma constructFixedHeader_overflow:
  assumes "buffer_laws api live" and "268435456 \<le> length (buffer_bytes api b)"
  shows "constructFixedHeader api b t fl w = None"
  using assms by (simp add: constructFixedHeader_def remain_encode_start)

section \<open>Variable headers and list items\<close>

definition connect_header :: "MQTT_CLIENT_OPTIONS \<Rightarrow> byte list" where
  "connect_header opts = utf mqtt_name @ [PROTOCOL_NUMBER, 0] @ be16 (opt_keepAliveInterval opts)"

lemma length_mqtt_name [simp]: "length mqtt_name = 4"
  by (simp add: mqtt_name_def)

lemma length_connect_header [simp]: "length (connect_header opts) = 10"
  by (simp add: connect_header_def)

lemma writeUTF_mqtt_name: "byteutil_writeUTF p mqtt_name 4 = write_bytes p (utf mqtt_name)"
  using writeUTF_write [of mqtt_name p] by (simp add: mqtt_name_def USHRT_MAX_def)

lemma constructConnectVariableHeader_yields:
  assumes laws: "buffer_laws api live" and b: "buffer_bytes api b = []"
  shows "yields api live w (connect_header opts) (constructConnectVariableHeader api b opts w)"
proof -
  have pos: "0 < CONNECT_VARIABLE_HEADER_SIZE" by (simp add: CONNECT_VARIABLE_HEADER_SIZE_def)
  show ?thesis
    using laws pos
  proof (cases rule: enlarge_cases [where b = b and w = w])
    case fail
    then show ?thesis by (auto simp: constructConnectVariableHeader_def)
  next
    case (ok b' w' ext)
    have "length (connect_header opts) = length ext"
      using ok by (simp add: CONNECT_VARIABLE_HEADER_SIZE_def)
    then have "write_bytes (ext, 0) (connect_header opts) = Some (connect_header opts, 10)"
      by simp
    then show ?thesis
      using ok b
      by (auto simp: constructConnectVariableHeader_def writeUTF_mqtt_name cursor_simps
          connect_header_def buffer_stored [OF laws] CONNECT_VARIABLE_HEADER_SIZE_def
          simp del: write_bytes_start)
  qed
qed

lemma constructPublishVariableHeader_yields:
  assumes laws: "buffer_laws api live" and len: "length (ph_topicName info) \<le> USHRT_MAX"
  shows "yields api live w
    (buffer_bytes api b @ utf (ph_topicName info) @
      (if ph_qualityOfServiceValue info \<noteq> DELIVER_AT_MOST_ONCE then be16 (ph_packetId info) else []))
    (constructPublishVariableHeader api b info w)"
proof -
  let ?n = "length (ph_topicName info) +
    (if ph_qualityOfServiceValue info \<noteq> DELIVER_AT_MOST_ONCE then 2 else 0) + 2"
  have pos: "0 < ?n" by simp
  show ?thesis
    using laws pos
  proof (cases rule: enlarge_cases [where b = b and w = w])
    case fail
    with len show ?thesis by (auto simp: constructPublishVariableHeader_def Let_def)
  next
    case (ok b' w' ext)
    with len show ?thesis
      by (auto simp: constructPublishVariableHeader_def Let_def buffer_length [OF laws]
          buffer_stored [OF laws] cursor_simps)
  qed
qed

lemma constructSubscibeTypeVariableHeader_yields:
  assumes laws: "buffer_laws api live" and b: "buffer_bytes api b = []"
  shows "yields api live w (be16 packetId) (constructSubscibeTypeVariableHeader api b packetId w)"
proof -
  have pos: "0 < (2::nat)" by simp
  show ?thesis
    using laws pos
  proof (cases rule: enlarge_cases [where b = b and w = w])
    case fail
    then show ?thesis by (auto simp: constructSubscibeTypeVariableHeader_def)
  next
    case (ok b' w' ext)
    with b show ?thesis
      by (auto simp: constructSubscibeTypeVariableHeader_def buffer_stored [OF laws] cursor_simps)
  qed
qed

abbreviation sub_items :: "(c_str \<times> QOS_VALUE) list \<Rightarrow> SUBSCRIBE_PAYLOAD list" where
  "sub_items \<equiv> map (\<lambda>i. \<lparr>subscribeTopic = Some (fst i), qosReturn = snd i\<rparr>)"

lemma addListItemsToSubscribePacket_yields:
  assumes laws: "buffer_laws api live"
  shows "\<lbrakk>n = length items; \<And>i. i \<in> set items \<Longrightarrow> length (fst i) \<le> USHRT_MAX\<rbrakk> \<Longrightarrow>
    yields api live w (buffer_bytes api b @ concat (map subscribe_item items))
      (addListItemsToSubscribePacket api b (sub_items items) n w)"
proof (induction items arbitrary: b n w)
  case Nil
  then show ?case by auto
next
  case (Cons i items)
  have n: "n = Suc (length items)" and len: "length (fst i) \<le> USHRT_MAX"
    using Cons.prems by auto
  have pos: "0 < length (fst i) + 2 + 1" by simp
  show ?case
    using laws pos
  proof (cases rule: enlarge_cases [where b = b and w = w])
    case fail
    with n len show ?thesis by (auto simp: Let_def)
  next
    case (ok b' w' ext)
    let ?old = "buffer_bytes api b"
    obtain x where ext: "ext = take (2 + length (fst i)) ext @ [x]"
      using ok(3) by (cases ext rule: rev_cases) auto
    have wr: "write_bytes (?old @ ext, length ?old) (utf (fst i))
        = Some (?old @ utf (fst i) @ [x], length ?old + 2 + length (fst i))"
      using ok(3) by (subst ext) (simp add: write_bytes_def)
    have put: "put_byte (?old @ utf (fst i) @ [x], length ?old + 2 + length (fst i)) v
        = Some (?old @ utf (fst i) @ [v], length ?old + 2 + length (fst i))" for v
      by (simp add: put_byte_def list_update_append)
    let ?b = "BUFFER_stored api b' (?old @ subscribe_item i)"
    have bb: "buffer_bytes api ?b = ?old @ subscribe_item i"
      using ok by (simp add: buffer_stored [OF laws] subscribe_item_def)
    have "addListItemsToSubscribePacket api b (sub_items (i # items)) n w
        = addListItemsToSubscribePacket api ?b (sub_items items) (length items) w'"
      using ok len n wr put
      by (simp add: buffer_length [OF laws] cursor_simps subscribe_item_def)
    moreover have "yields api live w' (buffer_bytes api ?b @ concat (map subscribe_item items))
      (addListItemsToSubscribePacket api ?b (sub_items items) (length items) w')"
      using Cons.IH [where n = "length items" and b = ?b and w = w'] Cons.prems by simp
    ultimately show ?thesis
      using ok(2) bb by (simp add: yields_live)
  qed
qed

lemma addListItemsToUnsubscribePacket_yields:
  assumes laws: "buffer_laws api live"
  shows "\<lbrakk>n = length topics; \<And>s. s \<in> set topics \<Longrightarrow> length s \<le> USHRT_MAX\<rbrakk> \<Longrightarrow>
    yields api live w (buffer_bytes api b @ concat (map utf topics))
      (addListItemsToUnsubscribePacket api b (map Some topics) n w)"
proof (induction topics arbitrary: b n w)
  case Nil
  then show ?case by auto
next
  case (Cons s topics)
  have n: "n = Suc (length topics)" and len: "length s \<le> USHRT_MAX"
    using Cons.prems by auto
  have pos: "0 < length s + 2" by simp
  show ?case
    using laws pos
  proof (cases rule: enlarge_cases [where b = b and w = w])
    case fail
    with n len show ?thesis by (auto simp: Let_def)
  next
    case (ok b' w' ext)
    let ?b = "BUFFER_stored api b' (buffer_bytes api b @ utf s)"
    have bb: "buffer_bytes api ?b = buffer_bytes api b @ utf s"
      using ok by (simp add: buffer_stored [OF laws])
    have "addListItemsToUnsubscribePacket api b (map Some (s # topics)) n w
        = addListItemsToUnsubscribePacket api ?b (map Some topics) (length topics) w'"
      using ok len n by (simp add: buffer_length [OF laws] cursor_simps)
    moreover have "yields api live w' (buffer_bytes api ?b @ concat (map utf topics))
      (addListItemsToUnsubscribePacket api ?b (map Some topics) (length topics) w')"
      using Cons.IH [where n = "length topics" and b = ?b and w = w'] Cons.prems by simp
    ultimately show ?thesis
      using ok(2) bb by (simp add: yields_live)
  qed
qed

section \<open>CONNECT payload\<close>

definition has_will :: "MQTT_CLIENT_OPTIONS \<Rightarrow> bool" where
  "has_will opts \<longleftrightarrow> opt_len (willMessage opts) > 0 \<and> opt_len (willTopic opts) > 0"

definition will_flags :: "MQTT_CLIENT_OPTIONS \<Rightarrow> byte" where
  "will_flags opts = 0x04 OR word_of_int (qos_code (qualityOfServiceValue opts) * 8) OR
    (if messageRetain opts then 0x20 else 0)"

definition connect_flags :: "MQTT_CLIENT_OPTIONS \<Rightarrow> byte" where
  "connect_flags opts =
    (if has_will opts then will_flags opts else 0) OR
    (if opt_len (username opts) > 0 then 0x80 else 0) OR
    (if opt_len (password opts) > 0 then 0x40 else 0) OR
    (if useCleanSession opts then 0x02 else 0)"

definition connect_payload :: "MQTT_CLIENT_OPTIONS \<Rightarrow> byte list" where
  "connect_payload opts =
    utf (opt_str (clientId opts)) @
    (if has_will opts then utf (opt_str (willTopic opts)) @ utf (opt_str (willMessage opts)) else []) @
    (if opt_len (username opts) > 0 then utf (opt_str (username opts)) else []) @
    (if opt_len (password opts) > 0 then utf (opt_str (password opts)) else [])"

text \<open>The space \<open>constructConnPayload\<close> adds to the buffer, its \<open>totalLen\<close>.\<close>

definition connect_space :: "MQTT_CLIENT_OPTIONS \<Rightarrow> nat" where
  "connect_space opts =
    opt_len (clientId opts) + opt_len (username opts) + opt_len (password opts) +
    opt_len (willMessage opts) + opt_len (willTopic opts) +
    (opt_space (clientId opts) + opt_space (username opts) + opt_space (password opts) +
     opt_space (willMessage opts) + opt_space (willTopic opts))"

definition connect_valid :: "MQTT_CLIENT_OPTIONS \<Rightarrow> bool" where
  "connect_valid opts \<longleftrightarrow>
    opt_len (clientId opts) \<le> USHRT_MAX \<and> opt_len (username opts) \<le> USHRT_MAX \<and>
    opt_len (password opts) \<le> USHRT_MAX \<and> opt_len (willMessage opts) \<le> USHRT_MAX \<and>
    opt_len (willTopic opts) \<le> USHRT_MAX \<and>
    (opt_len (username opts) > 0 \<or> opt_len (password opts) = 0) \<and>
    (opt_len (willMessage opts) > 0 \<longleftrightarrow> opt_len (willTopic opts) > 0) \<and>
    (has_will opts \<longrightarrow> qualityOfServiceValue opts \<noteq> QOS_VALUE_INVALID)"

lemma opt_len_str: "opt_len s = length (opt_str s)"
  by (cases s) (simp_all add: opt_len_def opt_str_def)

lemma writeUTF_opt:
  "opt_len s \<le> USHRT_MAX \<Longrightarrow>
   byteutil_writeUTF p (opt_str s) (of_nat (opt_len s)) = write_bytes p (utf (opt_str s))"
  by (simp add: opt_len_str writeUTF_write)

text \<open>
  The state of the payload writer that started at the cursor \<open>(pre @ f # mid @ ext, 8 + length mid)\<close>
  with the flags byte behind \<open>pre\<close>, after it has set the flags to \<open>f\<close> and written \<open>bs\<close>:
  undefined when \<open>bs\<close> does not fit into \<open>ext\<close>.
\<close>

definition conn_res :: "byte list \<Rightarrow> byte list \<Rightarrow> byte list \<Rightarrow> byte \<Rightarrow> byte list \<Rightarrow> cursor option" where
  "conn_res pre mid ext f bs =
    (if length bs \<le> length ext
     then Some (pre @ f # mid @ bs @ drop (length bs) ext, 8 + length mid + length bs) else None)"

lemma conn_res_write:
  assumes "length pre = 7"
  shows "Option.bind (conn_res pre mid ext f bs) (\<lambda>p. write_bytes p cs) = conn_res pre mid ext f (bs @ cs)"
proof (cases "length bs + length cs \<le> length ext")
  case True
  let ?old = "pre @ f # mid @ bs"
  have "write_bytes (?old @ drop (length bs) ext, length ?old) cs
      = Some (?old @ cs @ drop (length cs) (drop (length bs) ext), length ?old + length cs)"
    using True by (intro write_bytes_at_end) simp
  with True assms show ?thesis
    by (simp add: conn_res_def ac_simps)
next
  case False
  with assms show ?thesis
    by (auto simp: conn_res_def write_bytes_def)
qed

lemma conn_res_or:
  "length pre = 7 \<Longrightarrow>
   Option.bind (conn_res pre mid ext f bs) (\<lambda>p. or_flags p v) = conn_res pre mid ext (f OR v) bs"
  by (simp add: conn_res_def or_flags_def or_byte_def CONN_FLAG_BYTE_OFFSET_def nth_append
      list_update_append)

lemma conn_res_write_bind:
  "length pre = 7 \<Longrightarrow>
   Option.bind (conn_res pre mid ext f bs) (\<lambda>p. Option.bind (write_bytes p cs) g)
   = Option.bind (conn_res pre mid ext f (bs @ cs)) g"
  by (simp add: conn_res_write [symmetric])

lemma conn_res_or_bind:
  "length pre = 7 \<Longrightarrow>
   Option.bind (conn_res pre mid ext f bs) (\<lambda>p. Option.bind (or_flags p v) g)
   = Option.bind (conn_res pre mid ext (f OR v) bs) g"
  by (simp add: conn_res_or [symmetric])

lemmas conn_res_simps = conn_res_write conn_res_write_bind conn_res_or conn_res_or_bind

lemma conn_res_field:
  "length pre = 7 \<Longrightarrow>
   Option.bind (conn_res pre mid ext f bs) (\<lambda>p. Option.bind
     (if c then Option.bind (or_flags p v) (\<lambda>p. write_bytes p cs) else Some p) g)
   = Option.bind (conn_res pre mid ext (f OR (if c then v else 0)) (bs @ (if c then cs else []))) g"
  by (simp add: conn_res_simps)

lemma conn_res_flag:
  "length pre = 7 \<Longrightarrow>
   Option.bind (conn_res pre mid ext f bs) (\<lambda>p. Option.bind
     (if c then or_flags p v else Some p) g)
   = Option.bind (conn_res pre mid ext (f OR (if c then v else 0)) bs) g"
  by (simp add: conn_res_simps)

lemma constructConnPayload_run:
  assumes laws: "buffer_laws api live" and valid: "connect_valid opts"
    and b: "buffer_bytes api b = pre @ 0 # mid" and pre: "length pre = 7"
    and pos: "0 < connect_space opts"
  shows "constructConnPayload api b opts w = (case BUFFER_enlarge api b (connect_space opts) w of
      (MU_FAILURE, b', w') \<Rightarrow> Some (MU_FAILURE, b', w')
    | (ZERO, b', w') \<Rightarrow> do {
        m \<leftarrow> BUFFER_u_char api b';
        p \<leftarrow> conn_res pre mid (drop (length (buffer_bytes api b)) m) (connect_flags opts)
               (connect_payload opts);
        Some (ZERO, BUFFER_stored api b' (fst p), w')
      })"
  using laws pos
proof (cases rule: enlarge_cases [where b = b and w = w])
  case fail
  then show ?thesis
    using valid by (auto simp: constructConnPayload_def connect_valid_def connect_space_def Let_def)
next
  case (ok b' w' ext)
  have lens: "opt_len (clientId opts) \<le> USHRT_MAX" "opt_len (username opts) \<le> USHRT_MAX"
    "opt_len (password opts) \<le> USHRT_MAX" "opt_len (willMessage opts) \<le> USHRT_MAX"
    "opt_len (willTopic opts) \<le> USHRT_MAX"
    and user: "\<not> (opt_len (username opts) = 0 \<and> 0 < opt_len (password opts))"
    and will: "0 < opt_len (willMessage opts) \<longleftrightarrow> has_will opts"
      "0 < opt_len (willTopic opts) \<longleftrightarrow> has_will opts"
      "opt_len (willMessage opts) = 0 \<longleftrightarrow> \<not> has_will opts"
      "opt_len (willTopic opts) = 0 \<longleftrightarrow> \<not> has_will opts"
    using valid by (auto simp: connect_valid_def has_will_def)
  have start: "advance (pre @ 0 # mid @ ext, 0) (length (pre @ 0 # mid)) = conn_res pre mid ext 0 []"
    using pre by (simp add: advance_def conn_res_def)
  have qos: "has_will opts \<Longrightarrow> shift_qos (qualityOfServiceValue opts)
      = Some (word_of_int (qos_code (qualityOfServiceValue opts) * 8))"
    using valid by (cases "qualityOfServiceValue opts") (auto simp: connect_valid_def shift_qos_def)
  have run: "constructConnPayload api b opts w = do {
      p \<leftarrow> conn_res pre mid ext 0 [];
      p \<leftarrow> write_bytes p (utf (opt_str (clientId opts)));
      p \<leftarrow> (if has_will opts then do {
              p \<leftarrow> or_flags p 0x04;
              p \<leftarrow> write_bytes p (utf (opt_str (willTopic opts)));
              p \<leftarrow> or_flags p (word_of_int (qos_code (qualityOfServiceValue opts) * 8));
              p \<leftarrow> (if messageRetain opts then or_flags p 0x20 else Some p);
              write_bytes p (utf (opt_str (willMessage opts)))
            } else Some p);
      p \<leftarrow> (if opt_len (username opts) > 0 then do {
              p \<leftarrow> or_flags p 0x80; write_bytes p (utf (opt_str (username opts)))
            } else Some p);
      p \<leftarrow> (if opt_len (password opts) > 0 then do {
              p \<leftarrow> or_flags p 0x40; write_bytes p (utf (opt_str (password opts)))
            } else Some p);
      p \<leftarrow> (if useCleanSession opts then or_flags p 0x02 else Some p);
      Some (ZERO, BUFFER_stored api b' (fst p), w')
    }"
    using ok lens user b start
    by (auto simp: constructConnPayload_def Let_def connect_space_def [symmetric] will qos
        buffer_length [OF laws] writeUTF_opt not_less [symmetric] cong: if_cong)
  show ?thesis
    unfolding run using ok pre b
    by (simp add: conn_res_field conn_res_flag conn_res_simps connect_flags_def connect_payload_def
       will_flags_def or.assoc)
qed

end
