(* ===== verification/Codec_Packets.thy ===== *)
theory Codec_Packets
  imports Codec_Encode_Props
begin

text \<open>
  The packets the encoder of \<open>src/mqtt_codec.c\<close> returns: their exact bytes, the requests it refuses,
  and the requests on which it writes outside its memory.
\<close>

section \<open>Composition of the packet constructors\<close>

text \<open>
  The rest of a constructor, run on a buffer it owns: it returns the buffer with the bytes \<open>bs\<close>, or
  null after a failure of the buffer module and with the buffer deleted.
\<close>

definition finishes ::
  "('b, 'w) buffer_api \<Rightarrow> ('w \<Rightarrow> int) \<Rightarrow> 'w \<Rightarrow> byte list \<Rightarrow> ('b option \<times> 'w) option \<Rightarrow> bool" where
  "finishes api live w bs res \<longleftrightarrow>
    (\<exists>r w'. res = Some (r, w') \<and>
      (case r of Some b \<Rightarrow> buffer_bytes api b = bs \<and> live w' = live w
       | None \<Rightarrow> \<not> buffer_total api \<and> live w' = live w - 1))"

definition discards :: "('w \<Rightarrow> int) \<Rightarrow> 'w \<Rightarrow> ('b option \<times> 'w) option \<Rightarrow> bool" where
  "discards live w res \<longleftrightarrow> (\<exists>w'. res = Some (None, w') \<and> live w' = live w - 1)"

lemma encodes_new:
  assumes laws: "buffer_laws api live"
    and f: "\<And>b w1. buffer_bytes api b = [] \<Longrightarrow> finishes api live w1 bs (f b w1)"
  shows "encodes api live w bs
    (case BUFFER_new api w of (None, w) \<Rightarrow> Some (None, w) | (Some r, w) \<Rightarrow> f r w)"
  using laws
proof (cases rule: new_cases [where w = w])
  case (ok b w')
  with f [of b w'] show ?thesis
    by (auto simp: finishes_def encodes_def split: option.splits)
next
  case (fail w')
  then show ?thesis by auto
qed

lemma refuses_new:
  assumes laws: "buffer_laws api live"
    and f: "\<And>b w1. buffer_bytes api b = [] \<Longrightarrow> discards live w1 (f b w1)"
  shows "refuses live w
    (case BUFFER_new api w of (None, w) \<Rightarrow> Some (None, w) | (Some r, w) \<Rightarrow> f r w)"
  using laws
proof (cases rule: new_cases [where w = w])
  case (ok b w')
  with f [of b w'] show ?thesis by (auto simp: discards_def refuses_def)
next
  case (fail w')
  then show ?thesis by (auto simp: refuses_def)
qed

lemma finishes_bind:
  assumes laws: "buffer_laws api live" and y: "yields api live w bs1 res"
    and g: "\<And>b w1. buffer_bytes api b = bs1 \<Longrightarrow> finishes api live w1 bs (g b w1)"
  shows "finishes api live w bs
    (Option.bind res (\<lambda>(r, b, w). if r \<noteq> ZERO then Some (None, BUFFER_delete api (Some b) w) else g b w))"
  using y
proof (cases rule: yieldsE)
  case (ok b' w')
  with g [of b' w'] show ?thesis by (auto simp: finishes_def split: option.splits)
next
  case (fail b' w')
  then show ?thesis by (simp add: finishes_def buffer_delete_live [OF laws])
qed

lemma discards_bind:
  assumes laws: "buffer_laws api live" and y: "yields api live w bs1 res"
    and g: "\<And>b w1. buffer_bytes api b = bs1 \<Longrightarrow> discards live w1 (g b w1)"
  shows "discards live w
    (Option.bind res (\<lambda>(r, b, w). if r \<noteq> ZERO then Some (None, BUFFER_delete api (Some b) w) else g b w))"
  using y
proof (cases rule: yieldsE)
  case (ok b' w')
  with g [of b' w'] show ?thesis by (auto simp: discards_def)
next
  case (fail b' w')
  then show ?thesis by (simp add: discards_def buffer_delete_live [OF laws])
qed

lemma finishes_done: "buffer_bytes api b = bs \<Longrightarrow> finishes api live w bs (Some (Some b, w))"
  by (simp add: finishes_def)

lemma finishes_header:
  assumes laws: "buffer_laws api live" and "length (buffer_bytes api b) < 268435456"
    and "bs = frame t fl (buffer_bytes api b)"
  shows "finishes api live w bs
    (Option.bind (constructFixedHeader api b t fl w) (\<lambda>(r, b, w).
      if r \<noteq> ZERO then Some (None, BUFFER_delete api (Some b) w) else Some (Some b, w)))"
  using constructFixedHeader_yields [OF assms(1,2), where t = t and fl = fl and w = w] assms(3)
  by (intro finishes_bind [OF laws] finishes_done) auto

section \<open>PUBLISH\<close>

lemma publish_payload_cases:
  assumes laws: "buffer_laws api live" and n: "n \<le> length msg"
  obtains (ok) b' w' where "publish_payload api b (Some msg) n w = Some (True, b', w')"
      "buffer_bytes api b' = buffer_bytes api b @ take n msg" "live w' = live w"
  | (fail) b' w' where "publish_payload api b (Some msg) n w = Some (False, b', w')"
      "\<not> buffer_total api" "live w' = live w - 1"
proof (cases "0 < n")
  case False
  then show thesis using ok [of b w] by (simp add: publish_payload_def)
next
  case True
  from laws this show thesis
  proof (cases rule: enlarge_cases [where b = b and w = w])
    case (ok b1 w1 ext)
    then have "memcpy_to (buffer_bytes api b @ ext, length (buffer_bytes api b)) msg n
      = Some (buffer_bytes api b @ take n msg, length (buffer_bytes api b))"
      using n by (simp add: memcpy_to_def)
    with ok True n that(1) show thesis
      by (simp add: publish_payload_def buffer_length [OF laws] buffer_stored [OF laws])
  next
    case (fail b1 w1)
    with True that(2) show thesis
      by (simp add: publish_payload_def buffer_delete_live [OF laws])
  qed
qed

lemma finishes_payload:
  assumes laws: "buffer_laws api live" and n: "n \<le> length msg"
    and g: "\<And>b' w1. buffer_bytes api b' = buffer_bytes api b @ take n msg \<Longrightarrow> finishes api live w1 bs (g b' w1)"
  shows "finishes api live w bs (Option.bind (publish_payload api b (Some msg) n w)
    (\<lambda>(ok, b, w). if ok then g b w else Some (None, w)))"
  using laws n
proof (cases rule: publish_payload_cases [where b = b and w = w])
  case (ok b' w')
  with g [of b' w'] show ?thesis by (auto simp: finishes_def split: option.splits)
next
  case (fail b' w')
  then show ?thesis by (simp add: finishes_def)
qed

lemma publish_encoding:
  assumes laws: "buffer_laws api live" and topic: "length topic \<le> USHRT_MAX"
    and len: "length (publish_body qos packetId topic payload) < 268435456"
  shows "encodes api live w
    (frame PUBLISH_TYPE (publish_flags qos dup retain) (publish_body qos packetId topic payload))
    (mqtt_codec_publish api qos dup retain packetId (Some topic) (Some payload) (length payload) w)"
proof -
  have max: "\<not> length payload > MAX_SEND_SIZE"
    using len by (simp add: publish_body_def MAX_SEND_SIZE_def)
  show ?thesis
    unfolding mqtt_codec_publish_def option.case if_not_P [OF max] Let_def
    using topic len
    by (intro encodes_new [OF laws] finishes_bind [OF laws constructPublishVariableHeader_yields [OF laws]]
        finishes_payload [OF laws order_refl] finishes_header [OF laws])
      (auto simp: publish_body_def)
qed

text \<open>
  C13. With a topic of at most 65535 bytes and a body below 256 MB, \<open>mqtt_codec_publish\<close> returns a
  buffer that holds exactly the MQTT PUBLISH packet of its arguments (type and flags, the Remaining
  Length, the length-prefixed topic, the packet id for a quality of service other than 0, the
  payload), and writes nowhere else; it returns null only when the buffer module failed, and then
  nothing it allocated is left.
\<close>

theorem publish_encodes:
  assumes laws: "buffer_laws api live" and topic: "length topic \<le> USHRT_MAX"
    and len: "length (publish_body qos packetId topic payload) < 268435456"
  shows "encodes api live w
    (frame PUBLISH_TYPE (publish_flags qos dup retain) (publish_body qos packetId topic payload))
    (mqtt_codec_publish api qos dup retain packetId (Some topic) (Some payload) (length payload) w)"
  by (rule publish_encoding [OF assms])

theorem publish_encodes_witness:
  "encodes list_buffer id 0 (frame PUBLISH_TYPE 0x3 (publish_body DELIVER_AT_LEAST_ONCE 7 [0x61, 0x2F] [1, 2]))
    (mqtt_codec_publish list_buffer DELIVER_AT_LEAST_ONCE False True 7 (Some [0x61, 0x2F]) (Some [1, 2]) 2 0)"
  using publish_encodes [OF list_buffer_laws, of "[0x61, 0x2F]" DELIVER_AT_LEAST_ONCE 7 "[1, 2]" 0 False True]
  by (simp add: USHRT_MAX_def publish_body_def publish_flags_def numeral_2_eq_2)

lemma yields_total:
  assumes "yields api live w bs res" and "buffer_total api"
  obtains b' w' where "res = Some (ZERO, b', w')" "buffer_bytes api b' = bs"
  using assms by (cases rule: yieldsE) auto

text \<open>
  C22. The limit \<open>MAX_SEND_SIZE\<close> does not protect \<open>constructFixedHeader\<close>: when the topic, packet
  id and payload together reach 256 MB, with the payload within the limit the code checks and no
  allocation failing, \<open>mqtt_codec_publish\<close> stores a fifth Remaining Length byte past the end of
  \<open>remainSize[4]\<close>.
\<close>

theorem publish_overflow:
  assumes laws: "buffer_laws api live" and total: "buffer_total api"
    and topic: "length topic \<le> USHRT_MAX" and max: "length payload \<le> MAX_SEND_SIZE"
    and big: "268435456 \<le> length (publish_body qos packetId topic payload)"
  shows "mqtt_codec_publish api qos dup retain packetId (Some topic) (Some payload) (length payload) w = None"
  using laws
proof (cases rule: new_cases [where w = w])
  case (fail w1)
  with total show ?thesis by simp
next
  case (ok b w1)
  let ?info = "\<lparr>ph_topicName = topic, ph_packetId = packetId, ph_qualityOfServiceValue = qos\<rparr>"
  obtain b2 w2 where header: "constructPublishVariableHeader api b ?info w1 = Some (ZERO, b2, w2)"
      "buffer_bytes api b2 = utf topic @ (if qos \<noteq> DELIVER_AT_MOST_ONCE then be16 packetId else [])"
    using constructPublishVariableHeader_yields [OF laws, of ?info w1 b] topic ok(3)
    by (auto elim: yields_total [OF _ total])
  obtain b3 w3 where fill: "publish_payload api b2 (Some payload) (length payload) w2 = Some (True, b3, w3)"
      "buffer_bytes api b3 = buffer_bytes api b2 @ payload"
    using laws order_refl [of "length payload"]
    by (cases rule: publish_payload_cases [where b = b2 and w = w2]) (use total in auto)
  have "268435456 \<le> length (buffer_bytes api b3)"
    using big header fill by (simp add: publish_body_def)
  then show ?thesis
    using ok header fill max
    by (simp add: mqtt_codec_publish_def Let_def constructFixedHeader_overflow [OF laws])
qed

theorem publish_overflow_witness:
  "mqtt_codec_publish list_buffer DELIVER_AT_MOST_ONCE False False 0 (Some [0x61])
    (Some (replicate 268435456 0)) (length (replicate 268435456 (0::byte))) 0 = None"
  by (rule publish_overflow [OF list_buffer_laws list_buffer_total])
    (simp_all add: USHRT_MAX_def MAX_SEND_SIZE_def publish_body_def)

lemma publish_refusing:
  assumes laws: "buffer_laws api live"
    and bad: "topicName = None \<or> buffLen > MAX_SEND_SIZE \<or> USHRT_MAX < opt_len topicName"
  shows "refuses live w (mqtt_codec_publish api qos dup retain packetId topicName msgBuffer buffLen w)"
proof (cases "topicName = None \<or> buffLen > MAX_SEND_SIZE")
  case True
  then show ?thesis
    by (cases topicName) (auto simp: mqtt_codec_publish_def refuses_def)
next
  case False
  with bad obtain topic where topic: "topicName = Some topic" "USHRT_MAX < length topic"
      "\<not> buffLen > MAX_SEND_SIZE"
    by (cases topicName) (auto simp: opt_len_def)
  show ?thesis
    unfolding mqtt_codec_publish_def topic(1) option.case if_not_P [OF topic(3)] Let_def
    by (rule refuses_new [OF laws])
      (simp add: constructPublishVariableHeader_def topic discards_def buffer_delete_live [OF laws])
qed

text \<open>
  C35. \<open>mqtt_codec_publish\<close> refuses a null topic, a payload longer than \<open>MAX_SEND_SIZE\<close> and a
  topic longer than a 16-bit length can say: it returns null and leaves nothing allocated.
\<close>

theorem publish_refuses:
  assumes laws: "buffer_laws api live"
    and bad: "topicName = None \<or> buffLen > MAX_SEND_SIZE \<or> USHRT_MAX < opt_len topicName"
  shows "refuses live w (mqtt_codec_publish api qos dup retain packetId topicName msgBuffer buffLen w)"
  by (rule publish_refusing [OF assms])

theorem publish_refuses_witness:
  "refuses id 0 (mqtt_codec_publish list_buffer DELIVER_AT_MOST_ONCE False False 0 None (Some []) 0 0)"
  by (rule publish_refuses [OF list_buffer_laws]) simp

section \<open>CONNECT\<close>

definition connect_packet_header :: "MQTT_CLIENT_OPTIONS \<Rightarrow> byte list" where
  "connect_packet_header opts =
    utf mqtt_name @ [PROTOCOL_NUMBER, connect_flags opts] @ be16 (opt_keepAliveInterval opts)"

lemma connect_header_split:
  "connect_header opts = (utf mqtt_name @ [PROTOCOL_NUMBER]) @ 0 # be16 (opt_keepAliveInterval opts)"
  by (simp add: connect_header_def)

lemma connect_payload_bound:
  assumes "connect_valid opts"
  shows "length (connect_payload opts) \<le> 327685" and "connect_space opts \<le> 327685"
proof -
  have s: "opt_space x \<le> 2" for x
    by (cases x) (simp_all add: opt_space_def)
  show "length (connect_payload opts) \<le> 327685"
    using assms by (simp add: connect_payload_def connect_valid_def opt_len_str [symmetric] USHRT_MAX_def)
  show "connect_space opts \<le> 327685"
    using assms s [of "clientId opts"] s [of "username opts"] s [of "password opts"]
      s [of "willMessage opts"] s [of "willTopic opts"]
    by (simp add: connect_space_def connect_valid_def USHRT_MAX_def)
qed

lemma constructConnPayload_yields:
  assumes laws: "buffer_laws api live" and valid: "connect_valid opts"
    and b: "buffer_bytes api b = connect_header opts"
    and fits: "length (connect_payload opts) \<le> connect_space opts"
  shows "\<exists>junk. length junk = connect_space opts - length (connect_payload opts) \<and>
    yields api live w (connect_packet_header opts @ connect_payload opts @ junk)
      (constructConnPayload api b opts w)"
proof -
  have pos: "0 < connect_space opts"
    using fits by (simp add: connect_payload_def)
  let ?pre = "utf mqtt_name @ [PROTOCOL_NUMBER]"
  note run = constructConnPayload_run [OF laws valid b [unfolded connect_header_split] _ pos, where w = w]
  show ?thesis
    using laws pos
  proof (cases rule: enlarge_cases [where b = b and w = w])
    case (ok b' w' ext)
    let ?junk = "drop (length (connect_payload opts)) ext"
    have "conn_res ?pre (be16 (opt_keepAliveInterval opts)) ext (connect_flags opts) (connect_payload opts)
      = Some (connect_packet_header opts @ connect_payload opts @ ?junk, 10 + length (connect_payload opts))"
      using ok fits by (simp add: conn_res_def connect_packet_header_def)
    then have "yields api live w (connect_packet_header opts @ connect_payload opts @ ?junk)
      (constructConnPayload api b opts w)"
      using ok b fits
      by (auto simp: run buffer_stored [OF laws] connect_packet_header_def)
    then show ?thesis using ok by (intro exI [of _ ?junk]) simp
  next
    case (fail b' w')
    then have "yields api live w bs (constructConnPayload api b opts w)" for bs
      by (auto simp: run)
    then show ?thesis
      by (intro exI [of _ "replicate (connect_space opts - length (connect_payload opts)) 0"]) simp
  qed
qed

text \<open>The fields after the client id that are the empty string and not null.\<close>

definition empty_fields :: "MQTT_CLIENT_OPTIONS \<Rightarrow> nat" where
  "empty_fields opts =
    length (filter (\<lambda>f. f = Some []) [username opts, password opts, willMessage opts, willTopic opts])"

lemma connect_space_payload:
  assumes "connect_valid opts"
  shows "connect_space opts + (if clientId opts = None then 2 else 0)
    = length (connect_payload opts) + 2 * empty_fields opts"
proof -
  let ?e = "\<lambda>x::c_str option. if x = Some [] then 2 else 0 :: nat"
  let ?g = "\<lambda>x. if opt_len x > 0 then 2 + opt_len x else 0"
  have field: "opt_len x + opt_space x = ?g x + ?e x" for x
    by (cases x) (simp_all add: opt_len_def opt_space_def)
  have id: "opt_len (clientId opts) + opt_space (clientId opts) + (if clientId opts = None then 2 else 0)
      = 2 + opt_len (clientId opts)"
    by (cases "clientId opts") (simp_all add: opt_len_def opt_space_def)
  have will: "(if has_will opts then 4 + opt_len (willTopic opts) + opt_len (willMessage opts) else 0)
      = ?g (willTopic opts) + ?g (willMessage opts)"
    using assms by (simp add: has_will_def connect_valid_def)
  have "length (connect_payload opts) = 2 + opt_len (clientId opts)
      + (if has_will opts then 4 + opt_len (willTopic opts) + opt_len (willMessage opts) else 0)
      + ?g (username opts) + ?g (password opts)"
    by (simp add: connect_payload_def opt_len_str)
  moreover have "2 * empty_fields opts
      = ?e (username opts) + ?e (password opts) + ?e (willMessage opts) + ?e (willTopic opts)"
    by (simp add: empty_fields_def)
  ultimately show ?thesis
    unfolding connect_space_def will
    using id field [of "username opts"] field [of "password opts"] field [of "willMessage opts"]
      field [of "willTopic opts"]
    by linarith
qed

lemma connect_finishes:
  assumes laws: "buffer_laws api live" and valid: "connect_valid opts" and id: "clientId opts \<noteq> None"
    and b: "buffer_bytes api b = connect_header opts"
  shows "\<exists>junk. length junk = 2 * empty_fields opts \<and>
    finishes api live w (frame CONNECT_TYPE 0 (connect_packet_header opts @ connect_payload opts @ junk))
     (finish_connect api b opts w)"
proof -
  have len: "connect_space opts = length (connect_payload opts) + 2 * empty_fields opts"
    using connect_space_payload [OF valid] id by simp
  then obtain junk where junk: "length junk = 2 * empty_fields opts"
    "yields api live w (connect_packet_header opts @ connect_payload opts @ junk)
      (constructConnPayload api b opts w)"
    using constructConnPayload_yields [OF laws valid b, of w] by auto
  have "length (connect_packet_header opts @ connect_payload opts @ junk) < 268435456"
    using connect_payload_bound [OF valid] len junk(1) by (simp add: connect_packet_header_def)
  then show ?thesis
    unfolding finish_connect_def
    using junk by (intro exI [of _ junk] conjI finishes_bind [OF laws junk(2)] finishes_header [OF laws]) auto
qed

text \<open>
  The runs of \<open>mqtt_codec_connect\<close> that lose the string of the trace log: one was asked for and
  created, and then the variable header fails.
\<close>

definition log_lost ::
  "('b, 'w) buffer_api \<Rightarrow> 'w string_api \<Rightarrow> MQTT_CLIENT_OPTIONS option \<Rightarrow> bool \<Rightarrow> 'w \<Rightarrow> bool" where
  "log_lost api strs mqttOptions trace_log w \<longleftrightarrow> trace_log \<and>
    (case (mqttOptions, BUFFER_new api w) of
       (Some opts, Some b, w) \<Rightarrow>
        (case STRING_new strs w of (ok, w) \<Rightarrow> ok \<and>
          (case constructConnectVariableHeader api b opts w of
             Some (MU_FAILURE, _) \<Rightarrow> True
           | _ \<Rightarrow> False))
     | _ \<Rightarrow> False)"

lemma log_kept:
  assumes laws: "buffer_laws api live" and total: "buffer_total api"
  shows "\<not> log_lost api strs mqttOptions trace_log w"
proof
  assume "log_lost api strs mqttOptions trace_log w"
  note lost = this
  then obtain opts b w1 where new: "mqttOptions = Some opts" "BUFFER_new api w = (Some b, w1)"
    by (auto simp: log_lost_def split: option.splits prod.splits)
  obtain ok w2 where "STRING_new strs w1 = (ok, w2)" by fastforce
  moreover have "buffer_bytes api b = []" using new buffer_new_Some [OF laws] by blast
  moreover from this obtain b' w' where "constructConnectVariableHeader api b opts w2 = Some (ZERO, b', w')"
    using yields_total [OF constructConnectVariableHeader_yields [OF laws \<open>buffer_bytes api b = []\<close>] total]
    by metis
  ultimately show False using lost new by (simp add: log_lost_def)
qed

lemma connect_cases:
  assumes laws: "buffer_laws api live" and slaws: "string_laws strs live d"
  obtains (fail) w' where "mqtt_codec_connect api strs (Some opts) trace_log w = Some (None, w')"
      "\<not> buffer_total api" "live w' = live w + (if log_lost api strs (Some opts) trace_log w then d else 0)"
  | (finish) b ok w' where "\<not> log_lost api strs (Some opts) trace_log w"
      "buffer_bytes api b = connect_header opts" "live w' = live w + 1 + (if ok then d else 0)"
      "mqtt_codec_connect api strs (Some opts) trace_log w = Option.bind (finish_connect api b opts w')
        (\<lambda>(r, w). Some (r, if ok then STRING_delete strs ok w else w))"
  using laws
proof (cases rule: new_cases [where w = w])
  case new: (fail w1)
  show thesis by (rule fail [of w1]) (use new in \<open>simp_all add: mqtt_codec_connect_def log_lost_def\<close>)
next
  case new: (ok b w1)
  obtain ok w2 where log: "(if trace_log then STRING_new strs w1 else (False, w1)) = (ok, w2)" by fastforce
  then have live2: "live w2 = live w1 + (if ok then d else 0)" "ok \<longrightarrow> trace_log \<and> STRING_new strs w1 = (ok, w2)"
    using string_new_live [OF slaws, of w1] by (auto split: if_splits)
  from constructConnectVariableHeader_yields [OF laws new(3), of w2 opts] show thesis
  proof (cases rule: yieldsE)
    case header: (ok b3 w3)
    have "\<not> log_lost api strs (Some opts) trace_log w"
      using new header live2(2) log by (auto simp: log_lost_def)
    then show thesis
      by (rule finish [of b3 w3 ok]) (use new header live2 log in \<open>simp_all add: mqtt_codec_connect_def\<close>)
  next
    case header: (fail b3 w3)
    have "log_lost api strs (Some opts) trace_log w \<longleftrightarrow> ok"
      using new header live2(2) log by (auto simp: log_lost_def split: if_splits)
    then show thesis
      using new header live2 log
      by (intro fail [of "BUFFER_delete api (Some b3) w3"])
        (simp_all add: mqtt_codec_connect_def buffer_delete_live [OF laws])
  qed
qed

lemma connect_encoding:
  assumes laws: "buffer_laws api live" and slaws: "string_laws strs live d"
    and valid: "connect_valid opts" and id: "clientId opts \<noteq> None"
  shows "\<exists>junk. length junk = 2 * empty_fields opts \<and>
    (if log_lost api strs (Some opts) trace_log w
     then \<not> buffer_total api \<and>
       (\<exists>w'. mqtt_codec_connect api strs (Some opts) trace_log w = Some (None, w') \<and> live w' = live w + d)
     else encodes api live w (frame CONNECT_TYPE 0 (connect_packet_header opts @ connect_payload opts @ junk))
       (mqtt_codec_connect api strs (Some opts) trace_log w))"
  using laws slaws
proof (cases rule: connect_cases [where opts = opts and trace_log = trace_log and w = w])
  case (fail w')
  then show ?thesis by (intro exI [of _ "replicate (2 * empty_fields opts) 0"]) (auto simp: encodes_def)
next
  case (finish b ok w')
  obtain junk where "length junk = 2 * empty_fields opts"
    and "finishes api live w' (frame CONNECT_TYPE 0 (connect_packet_header opts @ connect_payload opts @ junk))
      (finish_connect api b opts w')"
    using connect_finishes [OF laws valid id finish(2)] by blast
  moreover from this(2) obtain r w2 where "finish_connect api b opts w' = Some (r, w2)"
      "case r of Some b2 \<Rightarrow> buffer_bytes api b2
          = frame CONNECT_TYPE 0 (connect_packet_header opts @ connect_payload opts @ junk) \<and> live w2 = live w'
        | None \<Rightarrow> \<not> buffer_total api \<and> live w2 = live w' - 1"
    by (auto simp: finishes_def)
  ultimately show ?thesis
    using finish by (intro exI [of _ junk], cases r)
      (auto simp: encodes_def string_delete_live [OF slaws])
qed

text \<open>
  C14. For options with a client id that pass the code's checks, \<open>mqtt_codec_connect\<close> returns the
  MQTT CONNECT packet: protocol name and level, the flags byte assembled from the options, the
  keep-alive time, then client id, will topic and message, user name and password.  Behind it stand
  two bytes that nothing has written for every field that is the empty string, and none otherwise.
  After a failure of the buffer module it returns null with everything released, but for the string
  of the trace log when the variable header is what failed.
\<close>

theorem connect_encodes:
  assumes laws: "buffer_laws api live" and slaws: "string_laws strs live d"
    and valid: "connect_valid opts" and id: "clientId opts \<noteq> None"
  shows "\<exists>junk. length junk = 2 * empty_fields opts \<and>
    (if log_lost api strs (Some opts) trace_log w
     then \<not> buffer_total api \<and>
       (\<exists>w'. mqtt_codec_connect api strs (Some opts) trace_log w = Some (None, w') \<and> live w' = live w + d)
     else encodes api live w (frame CONNECT_TYPE 0 (connect_packet_header opts @ connect_payload opts @ junk))
       (mqtt_codec_connect api strs (Some opts) trace_log w))"
  by (rule connect_encoding [OF assms])

text \<open>Options for the witnesses: client id and user name, the rest absent.\<close>

definition plain_options :: "c_str option \<Rightarrow> c_str option \<Rightarrow> MQTT_CLIENT_OPTIONS" where
  "plain_options cid user = \<lparr>clientId = cid, willTopic = None, willMessage = None, username = user,
     password = None, opt_keepAliveInterval = 10, messageRetain = False, useCleanSession = True,
     qualityOfServiceValue = DELIVER_AT_MOST_ONCE, log_trace = False\<rparr>"

lemma plain_options_valid:
  "opt_len cid \<le> USHRT_MAX \<Longrightarrow> opt_len user \<le> USHRT_MAX \<Longrightarrow> connect_valid (plain_options cid user)"
  by (simp add: connect_valid_def plain_options_def has_will_def opt_len_def)

theorem connect_encodes_witness:
  "\<exists>junk. length junk = 2 \<and>
    encodes list_buffer id 0 (frame CONNECT_TYPE 0 (connect_packet_header (plain_options (Some [0x61]) (Some []))
        @ connect_payload (plain_options (Some [0x61]) (Some [])) @ junk))
      (mqtt_codec_connect list_buffer (weighed_strings 1) (Some (plain_options (Some [0x61]) (Some []))) True 0)"
proof -
  let ?o = "plain_options (Some [0x61]) (Some [])"
  have "connect_valid ?o" by (rule plain_options_valid) (simp_all add: opt_len_def USHRT_MAX_def)
  moreover have "clientId ?o \<noteq> None" "empty_fields ?o = 1"
    by (simp_all add: plain_options_def empty_fields_def)
  ultimately show ?thesis
    using connect_encodes [OF list_buffer_laws weighed_strings_laws [of 1], where opts = ?o and trace_log = True and w = 0]
    by (simp add: log_kept [OF list_buffer_laws list_buffer_total])
qed

text \<open>
  C21. \<open>constructConnPayload\<close> writes a length-prefixed client id even when it is null, without having
  added the space: for valid options with a null client id, some other field and no empty field,
  \<open>mqtt_codec_connect\<close> writes two bytes past the end of the buffer.
\<close>

theorem connect_overflow:
  assumes laws: "buffer_laws api live" and total: "buffer_total api" and valid: "connect_valid opts"
    and id: "clientId opts = None" and e: "empty_fields opts = 0" and pos: "0 < connect_space opts"
  shows "mqtt_codec_connect api strs (Some opts) trace_log w = None"
  using laws
proof (cases rule: new_cases [where w = w])
  case (fail w1)
  with total show ?thesis by simp
next
  case (ok b w1)
  obtain log v where log: "(if trace_log then STRING_new strs w1 else (False, w1)) = (log, v)" by fastforce
  obtain b2 w2 where header: "constructConnectVariableHeader api b opts v = Some (ZERO, b2, w2)"
      "buffer_bytes api b2 = connect_header opts"
    using constructConnectVariableHeader_yields [OF laws ok(3), of v opts] total
    by (elim yields_total)
  note run = constructConnPayload_run [OF laws valid header(2) [unfolded connect_header_split] _ pos]
  have "length (connect_payload opts) > connect_space opts"
    using connect_space_payload [OF valid] id e by simp
  moreover obtain b3 w3 ext where "BUFFER_enlarge api b2 (connect_space opts) w2 = (ZERO, b3, w3)"
      "length ext = connect_space opts" "BUFFER_u_char api b3 = Some (buffer_bytes api b2 @ ext)"
    using laws pos by (cases rule: enlarge_cases [where b = b2 and w = w2]) (use total in auto)
  ultimately have "constructConnPayload api b2 opts w2 = None"
    by (simp add: run conn_res_def)
  then show ?thesis
    using ok header log by (simp add: mqtt_codec_connect_def finish_connect_def)
qed

theorem connect_overflow_witness:
  "mqtt_codec_connect list_buffer (weighed_strings 1) (Some (plain_options None (Some [0x75]))) False 0 = None"
  by (rule connect_overflow [OF list_buffer_laws list_buffer_total plain_options_valid])
    (simp_all add: plain_options_def opt_len_def USHRT_MAX_def empty_fields_def connect_space_def)

definition connect_rejected :: "MQTT_CLIENT_OPTIONS \<Rightarrow> bool" where
  "connect_rejected opts \<longleftrightarrow>
    USHRT_MAX < opt_len (clientId opts) \<or> USHRT_MAX < opt_len (username opts) \<or>
    USHRT_MAX < opt_len (password opts) \<or> USHRT_MAX < opt_len (willMessage opts) \<or>
    USHRT_MAX < opt_len (willTopic opts) \<or>
    (opt_len (username opts) = 0 \<and> 0 < opt_len (password opts)) \<or>
    (0 < opt_len (willMessage opts) \<longleftrightarrow> opt_len (willTopic opts) = 0)"

lemma constructConnPayload_rejects:
  assumes laws: "buffer_laws api live" and id: "clientId opts \<noteq> None" and bad: "connect_rejected opts"
  shows "\<exists>b' w'. constructConnPayload api b opts w = Some (MU_FAILURE, b', w') \<and> live w' = live w"
proof (cases "USHRT_MAX < opt_len (clientId opts) \<or> (opt_len (username opts) = 0 \<and> 0 < opt_len (password opts))
    \<or> (0 < opt_len (willMessage opts) \<and> opt_len (willTopic opts) = 0)
    \<or> (0 < opt_len (willTopic opts) \<and> opt_len (willMessage opts) = 0)")
  case True
  then show ?thesis by (auto simp: constructConnPayload_def Let_def)
next
  case False
  have pos: "0 < connect_space opts"
    using id by (auto simp: connect_space_def opt_space_def)
  show ?thesis
    using laws pos
  proof (cases rule: enlarge_cases [where b = b and w = w])
    case (fail b' w')
    with False show ?thesis
      by (simp add: constructConnPayload_def Let_def connect_space_def [symmetric])
  next
    case (ok b' w' ext)
    let ?old = "buffer_bytes api b" and ?u = "utf (opt_str (clientId opts))"
    have "length ?u \<le> length ext"
      using ok id by (auto simp: connect_space_def opt_len_str opt_space_def)
    then have wr: "write_bytes (?old @ ext, length ?old) ?u
        = Some (?old @ ?u @ drop (length ?u) ext, length ?old + length ?u)"
      by (rule write_bytes_at_end)
    from False bad have "opt_len (willMessage opts) > USHRT_MAX \<or> opt_len (willTopic opts) > USHRT_MAX
        \<or> opt_len (username opts) > USHRT_MAX \<or> opt_len (password opts) > USHRT_MAX"
      by (auto simp: connect_rejected_def)
    with False ok wr show ?thesis
      by (simp add: constructConnPayload_def Let_def connect_space_def [symmetric]
          buffer_length [OF laws] writeUTF_opt not_less)
  qed
qed

lemma connect_refusing:
  assumes laws: "buffer_laws api live" and slaws: "string_laws strs live d"
    and bad: "mqttOptions = None \<or>
      (\<exists>opts. mqttOptions = Some opts \<and> clientId opts \<noteq> None \<and> connect_rejected opts)"
  shows "\<exists>w'. mqtt_codec_connect api strs mqttOptions trace_log w = Some (None, w') \<and>
    live w' = live w + (if log_lost api strs mqttOptions trace_log w then d else 0)"
proof (cases mqttOptions)
  case None
  then show ?thesis by (simp add: mqtt_codec_connect_def log_lost_def)
next
  case (Some opts)
  with bad have opts: "clientId opts \<noteq> None" "connect_rejected opts" by auto
  from laws slaws show ?thesis
  proof (cases rule: connect_cases [where opts = opts and trace_log = trace_log and w = w])
    case (fail w')
    then show ?thesis using Some by simp
  next
    case (finish b ok w')
    obtain b2 w2 where "constructConnPayload api b opts w' = Some (MU_FAILURE, b2, w2)" "live w2 = live w'"
      using constructConnPayload_rejects [OF laws opts, of b w'] by blast
    then show ?thesis
      using finish Some
      by (simp add: finish_connect_def buffer_delete_live [OF laws] string_delete_live [OF slaws])
  qed
qed

text \<open>
  C36. With a client id, \<open>mqtt_codec_connect\<close> refuses null options, a field longer than 65535 bytes, a
  password without a user name and a will message without a will topic or the other way round: it
  returns null and releases the buffer it had started, and its trace string too, unless the variable
  header failed before the options were looked at: then the string (of weight \<open>d\<close>) is lost.
\<close>

theorem connect_refuses:
  assumes laws: "buffer_laws api live" and slaws: "string_laws strs live d"
    and bad: "mqttOptions = None \<or>
      (\<exists>opts. mqttOptions = Some opts \<and> clientId opts \<noteq> None \<and> connect_rejected opts)"
  shows "\<exists>w'. mqtt_codec_connect api strs mqttOptions trace_log w = Some (None, w') \<and>
    live w' = live w + (if log_lost api strs mqttOptions trace_log w then d else 0)"
  by (rule connect_refusing [OF assms])

text \<open>A buffer module whose buffers never grow: with a trace log, one string stays allocated.\<close>

definition stuck_buffer :: "(byte list, int) buffer_api" where
  "stuck_buffer = list_buffer\<lparr>BUFFER_enlarge := (\<lambda>b n w. (MU_FAILURE, b, w))\<rparr>"

lemma stuck_buffer_laws: "buffer_laws stuck_buffer id"
proof -
  have bytes: "buffer_bytes stuck_buffer b = b" for b
    by (simp add: buffer_bytes_def stuck_buffer_def list_buffer_def)
  show ?thesis
    unfolding buffer_laws_def bytes
    by (intro conjI allI impI) (auto simp: stuck_buffer_def list_buffer_def split: if_splits)
qed

definition orphan_password :: MQTT_CLIENT_OPTIONS where
  "orphan_password = (plain_options (Some [0x61]) None)\<lparr>password := Some [0x70]\<rparr>"

theorem connect_refuses_witness:
  "mqtt_codec_connect list_buffer (weighed_strings 1) (Some orphan_password) True 0 = Some (None, 0) \<and>
    mqtt_codec_connect stuck_buffer (weighed_strings 1) (Some orphan_password) True 0 = Some (None, 1)"
proof -
  have bad: "Some orphan_password = None \<or>
      (\<exists>opts. Some orphan_password = Some opts \<and> clientId opts \<noteq> None \<and> connect_rejected opts)"
    by (simp add: orphan_password_def plain_options_def connect_rejected_def opt_len_def)
  have "\<not> log_lost list_buffer (weighed_strings 1) (Some orphan_password) True 0"
    by (rule log_kept [OF list_buffer_laws list_buffer_total])
  moreover have "log_lost stuck_buffer (weighed_strings 1) (Some orphan_password) True 0"
    by (simp add: log_lost_def list_buffer_def stuck_buffer_def weighed_strings_def
        constructConnectVariableHeader_def)
  ultimately show ?thesis
    using connect_refuses [OF list_buffer_laws weighed_strings_laws [of 1] bad, where trace_log = True and w = 0]
      connect_refuses [OF stuck_buffer_laws weighed_strings_laws [of 1] bad, where trace_log = True and w = 0] by auto
qed

section \<open>SUBSCRIBE and UNSUBSCRIBE\<close>

lemma subscribe_encoding:
  assumes laws: "buffer_laws api live" and items: "items \<noteq> []"
    and topics: "\<And>i. i \<in> set items \<Longrightarrow> length (fst i) \<le> USHRT_MAX"
    and len: "length (subscribe_body packetId items) < 268435456"
  shows "encodes api live w (frame SUBSCRIBE_TYPE 0x2 (subscribe_body packetId items))
    (mqtt_codec_subscribe api packetId (Some (sub_items items)) (length items) w)"
proof -
  have n: "length items \<noteq> 0" using items by simp
  show ?thesis
    unfolding mqtt_codec_subscribe_def option.case if_not_P [OF n]
    using len topics
    by (intro encodes_new [OF laws] finishes_header [OF laws]
        finishes_bind [OF laws constructSubscibeTypeVariableHeader_yields [OF laws]]
        finishes_bind [OF laws addListItemsToSubscribePacket_yields [OF laws refl]])
      (auto simp: subscribe_body_def)
qed

text \<open>
  C25. \<open>mqtt_codec_subscribe\<close> on a list of topics of at most 65535 bytes each returns exactly the MQTT
  SUBSCRIBE packet: packet id, then every topic in order with its requested quality of service.
\<close>

theorem subscribe_encodes:
  assumes laws: "buffer_laws api live" and items: "items \<noteq> []"
    and topics: "\<And>i. i \<in> set items \<Longrightarrow> length (fst i) \<le> USHRT_MAX"
    and len: "length (subscribe_body packetId items) < 268435456"
  shows "encodes api live w (frame SUBSCRIBE_TYPE 0x2 (subscribe_body packetId items))
    (mqtt_codec_subscribe api packetId (Some (sub_items items)) (length items) w)"
  by (rule subscribe_encoding [OF assms])

theorem subscribe_encodes_witness:
  "encodes list_buffer id 0 (frame SUBSCRIBE_TYPE 0x2 (subscribe_body 5 [([0x61], DELIVER_EXACTLY_ONCE)]))
    (mqtt_codec_subscribe list_buffer 5 (Some (sub_items [([0x61], DELIVER_EXACTLY_ONCE)]))
      (length [([0x61 :: byte], DELIVER_EXACTLY_ONCE)]) 0)"
  by (rule subscribe_encodes [OF list_buffer_laws])
    (auto simp: USHRT_MAX_def subscribe_body_def subscribe_item_def)

lemma unsubscribe_encoding:
  assumes laws: "buffer_laws api live" and topics: "topics \<noteq> []"
    and lens: "\<And>s. s \<in> set topics \<Longrightarrow> length s \<le> USHRT_MAX"
    and len: "length (unsubscribe_body packetId topics) < 268435456"
  shows "encodes api live w (frame UNSUBSCRIBE_TYPE 0x2 (unsubscribe_body packetId topics))
    (mqtt_codec_unsubscribe api packetId (Some (map Some topics)) (length topics) w)"
proof -
  have n: "length topics \<noteq> 0" using topics by simp
  show ?thesis
    unfolding mqtt_codec_unsubscribe_def option.case if_not_P [OF n]
    using len lens
    by (intro encodes_new [OF laws] finishes_header [OF laws]
        finishes_bind [OF laws constructSubscibeTypeVariableHeader_yields [OF laws]]
        finishes_bind [OF laws addListItemsToUnsubscribePacket_yields [OF laws refl]])
      (auto simp: unsubscribe_body_def)
qed

text \<open>
  C26. \<open>mqtt_codec_unsubscribe\<close> on a list of topics of at most 65535 bytes each returns exactly the
  MQTT UNSUBSCRIBE packet: packet id, then every topic in order.
\<close>

theorem unsubscribe_encodes:
  assumes laws: "buffer_laws api live" and topics: "topics \<noteq> []"
    and lens: "\<And>s. s \<in> set topics \<Longrightarrow> length s \<le> USHRT_MAX"
    and len: "length (unsubscribe_body packetId topics) < 268435456"
  shows "encodes api live w (frame UNSUBSCRIBE_TYPE 0x2 (unsubscribe_body packetId topics))
    (mqtt_codec_unsubscribe api packetId (Some (map Some topics)) (length topics) w)"
  by (rule unsubscribe_encoding [OF assms])

theorem unsubscribe_encodes_witness:
  "encodes list_buffer id 0 (frame UNSUBSCRIBE_TYPE 0x2 (unsubscribe_body 5 [[0x61], [0x62]]))
    (mqtt_codec_unsubscribe list_buffer 5 (Some (map Some [[0x61], [0x62]]))
      (length [[0x61 :: byte], [0x62]]) 0)"
  by (rule unsubscribe_encodes [OF list_buffer_laws])
    (auto simp: USHRT_MAX_def unsubscribe_body_def)

text \<open>An oversized topic anywhere in the list makes the loop report a failure.\<close>

lemma addListItemsToSubscribePacket_rejects:
  assumes laws: "buffer_laws api live"
  shows "\<lbrakk>n = length items; \<exists>i \<in> set items. USHRT_MAX < length (fst i)\<rbrakk> \<Longrightarrow>
    \<exists>b' w'. addListItemsToSubscribePacket api b (sub_items items) n w = Some (MU_FAILURE, b', w')
      \<and> live w' = live w"
proof (induction items arbitrary: b n w)
  case Nil
  then show ?case by simp
next
  case (Cons i items)
  show ?case
  proof (cases "USHRT_MAX < length (fst i)")
    case True
    with Cons.prems show ?thesis by (auto simp: Let_def)
  next
    case False
    then have bad: "\<exists>i \<in> set items. USHRT_MAX < length (fst i)" using Cons.prems by auto
    have one: "yields api live w (buffer_bytes api b @ concat (map subscribe_item [i]))
      (addListItemsToSubscribePacket api b (sub_items [i]) 1 w)"
      using False by (intro addListItemsToSubscribePacket_yields [OF laws]) auto
    have split: "addListItemsToSubscribePacket api b (sub_items (i # items)) n w =
      Option.bind (addListItemsToSubscribePacket api b (sub_items [i]) 1 w)
        (\<lambda>(r, b', w'). if r = ZERO then addListItemsToSubscribePacket api b' (sub_items items) (length items) w'
          else Some (r, b', w'))"
      using Cons.prems False
      by (cases "BUFFER_enlarge api b (length (fst i) + 2 + 1) w"; cases "fst (BUFFER_enlarge api b (length (fst i) + 2 + 1) w)")
        (auto simp: Let_def)
    from one show ?thesis
    proof (cases rule: yieldsE)
      case (ok b' w')
      then show ?thesis using Cons.IH [OF refl bad, of b' w'] unfolding split ok(1) by simp
    next
      case (fail b' w')
      then show ?thesis unfolding split fail(1) by simp
    qed
  qed
qed

lemma subscribe_rejects_items:
  assumes laws: "buffer_laws api live" and bad: "\<exists>i \<in> set items. USHRT_MAX < length (fst i)"
  shows "refuses live w (mqtt_codec_subscribe api packetId (Some (sub_items items)) (length items) w)"
proof -
  have n: "length items \<noteq> 0" using bad by auto
  have rej: "discards live w1 (do {
      (r, result, w) \<leftarrow> addListItemsToSubscribePacket api b (sub_items items) (length items) w1;
      if r \<noteq> ZERO then Some (None, BUFFER_delete api (Some result) w)
      else do {
        (r, result, w) \<leftarrow> constructFixedHeader api result SUBSCRIBE_TYPE 0x2 w;
        if r \<noteq> ZERO then Some (None, BUFFER_delete api (Some result) w)
        else Some (Some result, w)
      }
    })" for b w1
    using addListItemsToSubscribePacket_rejects [OF laws refl bad, of b w1]
    by (auto simp: discards_def buffer_delete_live [OF laws])
  show ?thesis
    unfolding mqtt_codec_subscribe_def option.case if_not_P [OF n]
    by (intro refuses_new [OF laws] rej
        discards_bind [OF laws constructSubscibeTypeVariableHeader_yields [OF laws]])
qed

lemma addListItemsToUnsubscribePacket_rejects:
  assumes laws: "buffer_laws api live"
  shows "\<lbrakk>n = length topics; \<exists>t \<in> set topics. USHRT_MAX < length t\<rbrakk> \<Longrightarrow>
    \<exists>b' w'. addListItemsToUnsubscribePacket api b (map Some topics) n w = Some (MU_FAILURE, b', w')
      \<and> live w' = live w"
proof (induction topics arbitrary: b n w)
  case Nil
  then show ?case by simp
next
  case (Cons t topics)
  show ?case
  proof (cases "USHRT_MAX < length t")
    case True
    with Cons.prems show ?thesis by (auto simp: Let_def)
  next
    case False
    then have bad: "\<exists>t \<in> set topics. USHRT_MAX < length t" using Cons.prems by auto
    have one: "yields api live w (buffer_bytes api b @ concat (map utf [t]))
      (addListItemsToUnsubscribePacket api b (map Some [t]) 1 w)"
      using False by (intro addListItemsToUnsubscribePacket_yields [OF laws]) auto
    have split: "addListItemsToUnsubscribePacket api b (map Some (t # topics)) n w =
      Option.bind (addListItemsToUnsubscribePacket api b (map Some [t]) 1 w)
        (\<lambda>(r, b', w'). if r = ZERO then addListItemsToUnsubscribePacket api b' (map Some topics) (length topics) w'
          else Some (r, b', w'))"
      using Cons.prems False
      by (cases "BUFFER_enlarge api b (length t + 2) w"; cases "fst (BUFFER_enlarge api b (length t + 2) w)")
        (auto simp: Let_def)
    from one show ?thesis
    proof (cases rule: yieldsE)
      case (ok b' w')
      then show ?thesis using Cons.IH [OF refl bad, of b' w'] unfolding split ok(1) by simp
    next
      case (fail b' w')
      then show ?thesis unfolding split fail(1) by simp
    qed
  qed
qed

lemma unsubscribe_rejects_topics:
  assumes laws: "buffer_laws api live" and bad: "\<exists>t \<in> set topics. USHRT_MAX < length t"
  shows "refuses live w (mqtt_codec_unsubscribe api packetId (Some (map Some topics)) (length topics) w)"
proof -
  have n: "length topics \<noteq> 0" using bad by auto
  have rej: "discards live w1 (do {
      (r, result, w) \<leftarrow> addListItemsToUnsubscribePacket api b (map Some topics) (length topics) w1;
      if r \<noteq> ZERO then Some (None, BUFFER_delete api (Some result) w)
      else do {
        (r, result, w) \<leftarrow> constructFixedHeader api result UNSUBSCRIBE_TYPE 0x2 w;
        if r \<noteq> ZERO then Some (None, BUFFER_delete api (Some result) w)
        else Some (Some result, w)
      }
    })" for b w1
    using addListItemsToUnsubscribePacket_rejects [OF laws refl bad, of b w1]
    by (auto simp: discards_def buffer_delete_live [OF laws])
  show ?thesis
    unfolding mqtt_codec_unsubscribe_def option.case if_not_P [OF n]
    by (intro refuses_new [OF laws] rej
        discards_bind [OF laws constructSubscibeTypeVariableHeader_yields [OF laws]])
qed

text \<open>
  C37. \<open>mqtt_codec_subscribe\<close> and \<open>mqtt_codec_unsubscribe\<close> each refuse a null list, a count of 0 and a
  list that holds a topic longer than 65535 bytes, at whatever place: they return null and release
  everything.
\<close>

theorem lists_refused:
  assumes laws: "buffer_laws api live"
    and bad: "list = None \<or> count = 0 \<or>
      (\<exists>items. list = Some (sub_items items) \<and> count = length items \<and> (\<exists>i \<in> set items. USHRT_MAX < length (fst i)))"
    and bad': "topics = None \<or> count' = 0 \<or>
      (\<exists>ts. topics = Some (map Some ts) \<and> count' = length ts \<and> (\<exists>t \<in> set ts. USHRT_MAX < length t))"
  shows "refuses live w (mqtt_codec_subscribe api packetId list count w) \<and>
    refuses live w (mqtt_codec_unsubscribe api packetId topics count' w)"
proof
  show "refuses live w (mqtt_codec_subscribe api packetId list count w)"
  proof (cases "list = None \<or> count = 0")
    case True
    then show ?thesis by (cases list) (auto simp: mqtt_codec_subscribe_def refuses_def)
  next
    case False
    with bad show ?thesis using subscribe_rejects_items [OF laws] by auto
  qed
  show "refuses live w (mqtt_codec_unsubscribe api packetId topics count' w)"
  proof (cases "topics = None \<or> count' = 0")
    case True
    then show ?thesis by (cases topics) (auto simp: mqtt_codec_unsubscribe_def refuses_def)
  next
    case False
    with bad' show ?thesis using unsubscribe_rejects_topics [OF laws] by auto
  qed
qed

theorem lists_refused_witness:
  "refuses id 0 (mqtt_codec_subscribe list_buffer 1 (Some (sub_items [(replicate 65536 0x61, DELIVER_AT_MOST_ONCE)])) 1 0) \<and>
   refuses id 0 (mqtt_codec_unsubscribe list_buffer 1 (Some (map Some [[0x62], replicate 65536 0x61])) 2 0)"
  by (rule lists_refused [OF list_buffer_laws])
    (auto simp: USHRT_MAX_def intro!: exI [of _ "[(replicate 65536 0x61, DELIVER_AT_MOST_ONCE)]"]
      exI [of _ "[[0x62], replicate 65536 0x61]"])

section \<open>Acknowledgements, PINGREQ and DISCONNECT\<close>

lemma constructPublishReply_encodes:
  assumes laws: "buffer_laws api live"
  shows "encodes api live w (frame type flags (be16 packetId)) (constructPublishReply api type flags packetId w)"
  unfolding constructPublishReply_def
proof (rule encodes_new [OF laws])
  fix b w1
  have pos: "0 < (4::nat)" by simp
  show "finishes api live w1 (frame type flags (be16 packetId))
    (case BUFFER_pre_build api b 4 w1 of
       (MU_FAILURE, result, w) \<Rightarrow> Some (None, BUFFER_delete api (Some result) w)
     | (ZERO, result, w) \<Rightarrow>
        (case BUFFER_u_char api result of
           None \<Rightarrow> Some (None, BUFFER_delete api (Some result) w)
         | Some m \<Rightarrow> do {
             p \<leftarrow> put_byte (m, 0) (packet_byte type OR flags);
             p \<leftarrow> advance p 1;
             p \<leftarrow> put_byte p 0x2;
             p \<leftarrow> advance p 1;
             p \<leftarrow> byteutil_writeInt p packetId;
             Some (Some (BUFFER_stored api result (fst p)), w)
           }))"
    using laws pos
  proof (cases rule: pre_build_cases [where b = b and w = w1])
    case (ok b' w' m)
    then obtain x y z v where "m = [x, y, z, v]"
      by (auto simp: numeral_eq_Suc length_Suc_conv)
    with ok show ?thesis
      by (simp add: put_byte_def advance_def writeInt_write write_bytes_def finishes_def
          buffer_stored [OF laws] frame_def)
  next
    case (fail b' w')
    then show ?thesis by (simp add: finishes_def buffer_delete_live [OF laws])
  qed
qed

text \<open>
  C39. The four acknowledgements of a publication are the four-byte packets of MQTT with the packet id
  in network order; PUBREL alone carries the reserved flags \<open>0010\<close>.
\<close>

theorem replies_encode:
  assumes laws: "buffer_laws api live"
  shows "encodes api live w (frame PUBACK_TYPE 0 (be16 packetId)) (mqtt_codec_publishAck api packetId w) \<and>
    encodes api live w (frame PUBREC_TYPE 0 (be16 packetId)) (mqtt_codec_publishReceived api packetId w) \<and>
    encodes api live w (frame PUBREL_TYPE 2 (be16 packetId)) (mqtt_codec_publishRelease api packetId w) \<and>
    encodes api live w (frame PUBCOMP_TYPE 0 (be16 packetId)) (mqtt_codec_publishComplete api packetId w)"
  unfolding mqtt_codec_publishAck_def mqtt_codec_publishReceived_def mqtt_codec_publishRelease_def
    mqtt_codec_publishComplete_def
  by (intro conjI constructPublishReply_encodes [OF laws])

theorem replies_encode_witness:
  "encodes list_buffer id 0 (frame PUBREL_TYPE 2 (be16 258)) (mqtt_codec_publishRelease list_buffer 258 0)"
  using replies_encode [OF list_buffer_laws, of 0 258] by simp

lemma put_two: "length m = 2 \<Longrightarrow>
  Option.bind (put_byte (m, 0) x) (\<lambda>p. Option.bind (put_byte (fst p, Suc 0) y) f) = f ([x, y], 1)"
  by (auto simp: put_byte_def numeral_2_eq_2 length_Suc_conv)

lemma two_bytes_finish:
  assumes laws: "buffer_laws api live" and b: "buffer_bytes api b = []"
  shows "finishes api live w (frame type 0 [])
    (case BUFFER_enlarge api b 2 w of
       (MU_FAILURE, result, w) \<Rightarrow> Some (None, BUFFER_delete api (Some result) w)
     | (ZERO, result, w) \<Rightarrow>
        (case BUFFER_u_char api result of
           None \<Rightarrow> Some (None, BUFFER_delete api (Some result) w)
         | Some m \<Rightarrow> do {
             p \<leftarrow> put_byte (m, 0) (packet_byte type);
             p \<leftarrow> put_byte (fst p, 1) 0;
             Some (Some (BUFFER_stored api result (fst p)), w)
           }))"
proof -
  have pos: "0 < (2::nat)" by simp
  show ?thesis
    using laws pos
  proof (cases rule: enlarge_cases [where b = b and w = w])
    case (ok b' w' ext)
    with b show ?thesis
      by (simp add: put_two finishes_def buffer_stored [OF laws] frame_def)
  next
    case (fail b' w')
    then show ?thesis by (simp add: finishes_def buffer_delete_live [OF laws])
  qed
qed

lemma ping_disconnect_encoding:
  assumes laws: "buffer_laws api live"
  shows "encodes api live w (frame PINGREQ_TYPE 0 []) (mqtt_codec_ping api w) \<and>
    encodes api live w (frame DISCONNECT_TYPE 0 []) (mqtt_codec_disconnect api w)"
  unfolding mqtt_codec_ping_def mqtt_codec_disconnect_def
  by (intro conjI encodes_new [OF laws] two_bytes_finish [OF laws])

text \<open>
  C40. \<open>mqtt_codec_ping\<close> and \<open>mqtt_codec_disconnect\<close> return the two-byte packets PINGREQ and
  DISCONNECT.
\<close>

theorem ping_disconnect_encode:
  assumes laws: "buffer_laws api live"
  shows "encodes api live w (frame PINGREQ_TYPE 0 []) (mqtt_codec_ping api w) \<and>
    encodes api live w (frame DISCONNECT_TYPE 0 []) (mqtt_codec_disconnect api w)"
  by (rule ping_disconnect_encoding [OF assms])

theorem ping_disconnect_encode_witness:
  "encodes list_buffer id 0 [0xC0, 0] (mqtt_codec_ping list_buffer 0)"
  using ping_disconnect_encode [OF list_buffer_laws, of 0] by (simp add: frame_def packet_byte_def)

section \<open>The account of what the encoders allocate\<close>

text \<open>A call that returns, with one more buffer allocated when it gives one and none otherwise.\<close>

definition builds :: "('w \<Rightarrow> int) \<Rightarrow> 'w \<Rightarrow> ('b option \<times> 'w) option \<Rightarrow> bool" where
  "builds live w res \<longleftrightarrow> (\<exists>r w'. res = Some (r, w') \<and> live w' = live w + (if r = None then 0 else 1))"

lemma encodes_builds: "encodes api live w bs res \<Longrightarrow> builds live w res"
  by (auto simp: encodes_def builds_def split: option.splits)

lemma refuses_builds: "refuses live w res \<Longrightarrow> builds live w res"
  by (auto simp: refuses_def builds_def)

lemma publish_builds:
  assumes laws: "buffer_laws api live" and n: "n = length payload"
    and len: "length (publish_body qos packetId (opt_str topic) payload) < 268435456"
  shows "builds live w (mqtt_codec_publish api qos dup retain packetId topic (Some payload) n w)"
proof (cases "topic = None \<or> USHRT_MAX < opt_len topic")
  case True
  then show ?thesis
    by (intro refuses_builds publish_refusing [OF laws]) auto
next
  case False
  then obtain t where "topic = Some t" "length t \<le> USHRT_MAX"
    by (cases topic) (auto simp: opt_len_def)
  then show ?thesis
    using encodes_builds [OF publish_encoding [OF laws]] len n by (simp add: opt_str_def)
qed

text \<open>Options the encoder of CONNECT is defined on: a client id, or nothing at all.\<close>

definition no_strings :: "MQTT_CLIENT_OPTIONS \<Rightarrow> bool" where
  "no_strings opts \<longleftrightarrow> clientId opts = None \<and> willTopic opts = None \<and> willMessage opts = None \<and>
    username opts = None \<and> password opts = None"

definition options_ok :: "MQTT_CLIENT_OPTIONS \<Rightarrow> bool" where
  "options_ok opts \<longleftrightarrow> no_strings opts \<or>
    (clientId opts \<noteq> None \<and> qualityOfServiceValue opts \<noteq> QOS_VALUE_INVALID)"

lemma constructConnPayload_empty:
  assumes laws: "buffer_laws api live" and none: "no_strings opts"
  shows "\<exists>b' w'. constructConnPayload api b opts w = Some (MU_FAILURE, b', w') \<and> live w' = live w"
proof -
  have lens: "opt_len (clientId opts) = 0" "opt_len (username opts) = 0" "opt_len (password opts) = 0"
    "opt_len (willMessage opts) = 0" "opt_len (willTopic opts) = 0"
    using none by (simp_all add: no_strings_def opt_len_def)
  have space: "connect_space opts = 0"
    using none by (simp add: connect_space_def no_strings_def opt_len_def opt_space_def)
  obtain r b' w' where e: "BUFFER_enlarge api b (connect_space opts) w = (r, b', w')"
    by (metis prod_cases3)
  have "r = MU_FAILURE"
  proof (cases r)
    case ZERO
    show ?thesis by (rule buffer_enlarge_ZERO [OF laws e [unfolded ZERO]]) (simp add: space)
  qed
  then have "BUFFER_enlarge api b (connect_space opts) w = (MU_FAILURE, b', w')" using e by simp
  then have "constructConnPayload api b opts w = Some (MU_FAILURE, b', w')"
    unfolding constructConnPayload_def Let_def connect_space_def [symmetric] by (simp add: lens)
  with buffer_enlarge_live [OF laws e] show ?thesis by blast
qed

lemma connect_builds:
  assumes laws: "buffer_laws api live" and slaws: "string_laws strs live 0" and ok: "options_ok opts"
  shows "builds live w (mqtt_codec_connect api strs (Some opts) trace_log w)"
proof (cases "no_strings opts")
  case True
  from laws slaws show ?thesis
  proof (cases rule: connect_cases [where opts = opts and trace_log = trace_log and w = w])
    case (fail w')
    then show ?thesis by (simp add: builds_def)
  next
    case (finish b ok w')
    obtain b2 w2 where "constructConnPayload api b opts w' = Some (MU_FAILURE, b2, w2)" "live w2 = live w'"
      using constructConnPayload_empty [OF laws True, of b w'] by blast
    then show ?thesis
      using finish by (simp add: builds_def finish_connect_def buffer_delete_live [OF laws]
          string_delete_live [OF slaws])
  qed
next
  case False
  then have id: "clientId opts \<noteq> None" and q: "qualityOfServiceValue opts \<noteq> QOS_VALUE_INVALID"
    using ok by (auto simp: options_ok_def)
  show ?thesis
  proof (cases "connect_valid opts")
    case True
    note enc = connect_encoding [OF laws slaws this id, of trace_log w]
    show ?thesis
    proof (cases "log_lost api strs (Some opts) trace_log w")
      case True
      with enc show ?thesis
        by (auto simp: builds_def)
    next
      case False
      with enc show ?thesis
        by (auto intro: encodes_builds)
    qed
  next
    case False
    then have "connect_rejected opts" using q by (auto simp: connect_valid_def connect_rejected_def)
    then show ?thesis
      using connect_refusing [OF laws slaws, of "Some opts" trace_log w] id by (auto simp: builds_def)
  qed
qed

end
