(* ===== verification/Codec_Decode.thy ===== *)
theory Codec_Decode
  imports Umqtt_Buffer
begin

text \<open>
  The packet decoder of \<open>src/mqtt_codec.c\<close>: the codec instance, the parsing of the fixed header
  and of the Remaining Length, the collection of the packet's bytes and the completion callback.

  The codec instance is a record that the records of its users extend.  Its completion callback may
  reach anything (in the client it is the client itself), so it is a function on the whole extended
  record; \<open>world\<close> is the state of everything outside the repository.
\<close>

section \<open>Codec instance\<close>

datatype CODEC_STATE_RESULT =
    CODEC_STATE_FIXED_HEADER
  | CODEC_STATE_VAR_HEADER
  | CODEC_STATE_PAYLOAD

record ('b, 'w) codec =
  world :: 'w
  currPacket :: CONTROL_PACKET_TYPE
  codecState :: CODEC_STATE_RESULT
  bufferOffset :: nat
  headerFlags :: c_int
  headerData :: "'b option"
  storeRemainLen :: "byte list"
  remainLenIndex :: nat

text \<open>
  \<open>ON_PACKET_COMPLETE_CALLBACK\<close>, with its context applied; \<open>None\<close> is the null pointer.  Like
  every call out of the library it may fail to return to defined behaviour.
\<close>

type_synonym ('b, 's) packet_cb =
  "CONTROL_PACKET_TYPE \<Rightarrow> c_int \<Rightarrow> 'b option \<Rightarrow> 's \<Rightarrow> 's option"

definition MAX_3_DIGIT_PACKET_SIZE :: int where "MAX_3_DIGIT_PACKET_SIZE = 2097152"

section \<open>Fixed header\<close>

definition processControlPacketType :: "byte \<Rightarrow> CONTROL_PACKET_TYPE \<times> c_int" where
  "processControlPacketType pktByte = (packet_of_byte (pktByte AND 0xF0), ucast (pktByte AND 0x0F))"

text \<open>
  The \<open>do ... while\<close> loop over \<open>storeRemainLen\<close>; it gives whether \<open>result\<close> was set to
  \<open>MU_FAILURE\<close>, and \<open>totalLen\<close>.  A read past the array is undefined.  In the comparison with \<open>MAX_SEND_SIZE\<close>, which is
  unsigned, the \<open>int\<close> is converted to unsigned.
\<close>

function remain_decode :: "byte list \<Rightarrow> nat \<Rightarrow> int \<Rightarrow> int \<Rightarrow> (c_result \<times> int) option" where
  "remain_decode storeLen index multiplier totalLen =
    (if index < length storeLen then
      (let encodeByte = storeLen ! index;
           totalLen = totalLen + uint (encodeByte AND 127) * multiplier;
           multiplier = multiplier * 0x80
       in
       if multiplier > MAX_3_DIGIT_PACKET_SIZE then Some (MU_FAILURE, totalLen)
       else if encodeByte AND 0x80 \<noteq> 0 then remain_decode storeLen (index + 1) multiplier totalLen
       else Some (ZERO, totalLen))
     else None)"
  by pat_completeness auto
termination
  by (relation "measure (\<lambda>(storeLen, index, _, _). length storeLen - index)") auto

declare remain_decode.simps [simp del]

definition prepareheaderDataInfo ::
  "('b, 'w) buffer_api \<Rightarrow> byte \<Rightarrow> ('b, 'w, 'z) codec_scheme
    \<Rightarrow> (c_result \<times> ('b, 'w, 'z) codec_scheme) option" where
  "prepareheaderDataInfo api remainLen s =
    (if remainLenIndex s \<ge> length (storeRemainLen s) then Some (MU_FAILURE, s)
     else
      (let s = s\<lparr>storeRemainLen := (storeRemainLen s)[remainLenIndex s := remainLen],
                 remainLenIndex := remainLenIndex s + 1\<rparr>
       in
       if remainLen \<le> 0x7f then do {
         (result, totalLen) \<leftarrow> remain_decode (storeRemainLen s) 0 1 0;
         if result \<noteq> ZERO \<or> totalLen mod 2 ^ 32 > int MAX_SEND_SIZE then Some (MU_FAILURE, s)
         else
          (let s = s\<lparr>codecState := CODEC_STATE_VAR_HEADER, remainLenIndex := 0,
                     storeRemainLen := replicate 4 0\<rparr>
           in
           if totalLen > 0 then
            (let s = s\<lparr>bufferOffset := 0\<rparr> in
             case BUFFER_new api (world s) of
               (None, w) \<Rightarrow> Some (MU_FAILURE, s\<lparr>headerData := None, world := w\<rparr>)
             | (Some b, w) \<Rightarrow>
                (case BUFFER_pre_build api b (nat totalLen) w of
                   (r, b, w) \<Rightarrow> Some (r, s\<lparr>headerData := Some b, world := w\<rparr>)))
           else Some (ZERO, s))
       }
       else if remainLenIndex s = length (storeRemainLen s) then Some (MU_FAILURE, s)
       else Some (ZERO, s)))"

definition completePacketData ::
  "('b, 'w) buffer_api \<Rightarrow> ('b, ('b, 'w, 'z) codec_scheme) packet_cb option
    \<Rightarrow> ('b, 'w, 'z) codec_scheme \<Rightarrow> ('b, 'w, 'z) codec_scheme option" where
  "completePacketData api packetComplete s = do {
     s \<leftarrow> (case packetComplete of
             None \<Rightarrow> Some s
           | Some cb \<Rightarrow> cb (currPacket s) (headerFlags s) (headerData s) s);
     let s = s\<lparr>currPacket := UNKNOWN_TYPE, codecState := CODEC_STATE_FIXED_HEADER, headerFlags := 0\<rparr>;
     let w = BUFFER_delete api (headerData s) (world s);
     Some (s\<lparr>world := w, headerData := None\<rparr>)
   }"

section \<open>Creation and reset\<close>

definition clear_codec_data :: "('b, 'w, 'z) codec_scheme \<Rightarrow> ('b, 'w, 'z) codec_scheme" where
  "clear_codec_data s = s\<lparr>currPacket := UNKNOWN_TYPE, codecState := CODEC_STATE_FIXED_HEADER,
     headerFlags := 0, bufferOffset := 0, headerData := None, storeRemainLen := replicate 4 0,
     remainLenIndex := 0\<rparr>"

definition mqtt_codec_reset ::
  "('b, 'w, 'z) codec_scheme option \<Rightarrow> ('b, 'w, 'z) codec_scheme option" where
  "mqtt_codec_reset handle = (case handle of None \<Rightarrow> None | Some s \<Rightarrow> Some (clear_codec_data s))"

text \<open>
  Creation allocates the instance and initialises what \<open>malloc\<close> left undefined (\<open>fresh\<close>); the
  callback and its context are the arguments \<open>packetComplete\<close> of the operations above.
\<close>

definition mqtt_codec_create ::
  "'w heap_api \<Rightarrow> ('b, 'w, 'z) codec_scheme \<Rightarrow> 'w \<Rightarrow> ('b, 'w, 'z) codec_scheme option \<times> 'w" where
  "mqtt_codec_create h fresh w =
    (case malloc h 1 w of
       (False, w) \<Rightarrow> (None, w)
     | (True, w) \<Rightarrow> (Some ((clear_codec_data fresh)\<lparr>world := w\<rparr>), w))"

definition mqtt_codec_destroy ::
  "('b, 'w) buffer_api \<Rightarrow> 'w heap_api \<Rightarrow> ('b, 'w, 'z) codec_scheme option \<Rightarrow> 'w \<Rightarrow> 'w" where
  "mqtt_codec_destroy api h handle w =
    (case handle of None \<Rightarrow> w | Some s \<Rightarrow> free h (BUFFER_delete api (headerData s) w))"

section \<open>Received bytes\<close>

text \<open>The \<open>switch\<close> on the type in the first byte of a packet: \<open>True\<close> for \<open>MU_FAILURE\<close>.\<close>

definition reject_header :: "CONTROL_PACKET_TYPE \<Rightarrow> c_int \<Rightarrow> bool" where
  "reject_header t flags =
    (case t of
       PACKET_INVALID1_TYPE \<Rightarrow> True
     | PACKET_INVALID2_TYPE \<Rightarrow> True
     | CONNECT_TYPE \<Rightarrow> flags AND 0x0F \<noteq> 0
     | CONNACK_TYPE \<Rightarrow> flags AND 0x0F \<noteq> 0
     | PUBACK_TYPE \<Rightarrow> flags AND 0x0F \<noteq> 0
     | PUBREC_TYPE \<Rightarrow> flags AND 0x0F \<noteq> 0
     | PUBCOMP_TYPE \<Rightarrow> flags AND 0x0F \<noteq> 0
     | SUBACK_TYPE \<Rightarrow> flags AND 0x0F \<noteq> 0
     | UNSUBACK_TYPE \<Rightarrow> flags AND 0x0F \<noteq> 0
     | PINGREQ_TYPE \<Rightarrow> flags AND 0x0F \<noteq> 0
     | PINGRESP_TYPE \<Rightarrow> flags AND 0x0F \<noteq> 0
     | DISCONNECT_TYPE \<Rightarrow> flags AND 0x0F \<noteq> 0
     | PUBREL_TYPE \<Rightarrow> flags AND 0x0F \<noteq> 0x02
     | SUBSCRIBE_TYPE \<Rightarrow> flags AND 0x0F \<noteq> 0x02
     | UNSUBSCRIBE_TYPE \<Rightarrow> flags AND 0x0F \<noteq> 0x02
     | PUBLISH_TYPE \<Rightarrow> False
     | CONTROL_PACKET_TYPE_INVALID \<Rightarrow> False
     | PACKET_TYPE_ERROR \<Rightarrow> False
     | UNKNOWN_TYPE \<Rightarrow> False)"

text \<open>The body of the loop of \<open>mqtt_codec_bytesReceived\<close>, one branch per state.\<close>

definition fixed_header_byte ::
  "('b, 'w) buffer_api \<Rightarrow> ('b, ('b, 'w, 'z) codec_scheme) packet_cb option \<Rightarrow> byte
    \<Rightarrow> ('b, 'w, 'z) codec_scheme \<Rightarrow> (c_result \<times> ('b, 'w, 'z) codec_scheme) option" where
  "fixed_header_byte api packetComplete iterator s =
    (if currPacket s = UNKNOWN_TYPE then
      (let (t, flags) = processControlPacketType iterator;
           s = s\<lparr>currPacket := t, headerFlags := flags\<rparr>
       in
       if reject_header t flags then Some (MU_FAILURE, s\<lparr>currPacket := PACKET_TYPE_ERROR\<rparr>)
       else Some (ZERO, s))
     else do {
       (r, s) \<leftarrow> prepareheaderDataInfo api iterator s;
       if r \<noteq> ZERO then Some (MU_FAILURE, s\<lparr>currPacket := PACKET_TYPE_ERROR\<rparr>)
       else if currPacket s = PINGRESP_TYPE then
         (if iterator = 0 then do {
            s \<leftarrow> completePacketData api packetComplete s;
            Some (ZERO, s)
          }
          else Some (MU_FAILURE, s\<lparr>currPacket := PACKET_TYPE_ERROR\<rparr>))
       else Some (ZERO, s)
     })"

definition var_header_byte ::
  "('b, 'w) buffer_api \<Rightarrow> ('b, ('b, 'w, 'z) codec_scheme) packet_cb option \<Rightarrow> byte
    \<Rightarrow> ('b, 'w, 'z) codec_scheme \<Rightarrow> (c_result \<times> ('b, 'w, 'z) codec_scheme) option" where
  "var_header_byte api packetComplete iterator s =
    (case headerData s of
       None \<Rightarrow> Some (ZERO, s\<lparr>codecState := CODEC_STATE_PAYLOAD\<rparr>)
     | Some b \<Rightarrow>
      (case BUFFER_u_char api b of
         None \<Rightarrow> Some (MU_FAILURE, s\<lparr>currPacket := PACKET_TYPE_ERROR\<rparr>)
       | Some m \<Rightarrow> do {
           p \<leftarrow> put_byte (m, bufferOffset s) iterator;
           let b = BUFFER_stored api b (fst p);
           let s = s\<lparr>headerData := Some b, bufferOffset := bufferOffset s + 1\<rparr>;
           if bufferOffset s \<ge> BUFFER_length api b then do {
             s \<leftarrow> completePacketData api packetComplete s;
             Some (ZERO, s)
           }
           else Some (ZERO, s)
         }))"

definition receive_byte ::
  "('b, 'w) buffer_api \<Rightarrow> ('b, ('b, 'w, 'z) codec_scheme) packet_cb option \<Rightarrow> byte
    \<Rightarrow> ('b, 'w, 'z) codec_scheme \<Rightarrow> (c_result \<times> ('b, 'w, 'z) codec_scheme) option" where
  "receive_byte api packetComplete iterator s =
    (case codecState s of
       CODEC_STATE_FIXED_HEADER \<Rightarrow> fixed_header_byte api packetComplete iterator s
     | CODEC_STATE_VAR_HEADER \<Rightarrow> var_header_byte api packetComplete iterator s
     | CODEC_STATE_PAYLOAD \<Rightarrow> Some (MU_FAILURE, s\<lparr>currPacket := PACKET_TYPE_ERROR\<rparr>))"

text \<open>The loop: \<open>size\<close> (here \<open>sz\<close>) bytes from \<open>buffer\<close>, until one of them fails.\<close>

fun receive_loop ::
  "('b, 'w) buffer_api \<Rightarrow> ('b, ('b, 'w, 'z) codec_scheme) packet_cb option \<Rightarrow> byte list \<Rightarrow> nat
    \<Rightarrow> ('b, 'w, 'z) codec_scheme \<Rightarrow> (c_result \<times> ('b, 'w, 'z) codec_scheme) option" where
  "receive_loop api packetComplete buffer 0 s = Some (ZERO, s)"
| "receive_loop api packetComplete [] (Suc n) s = None"
| "receive_loop api packetComplete (iterator # buffer) (Suc n) s = do {
     (result, s) \<leftarrow> receive_byte api packetComplete iterator s;
     if result = ZERO then receive_loop api packetComplete buffer n s else Some (result, s)
   }"

definition mqtt_codec_bytesReceived ::
  "('b, 'w) buffer_api \<Rightarrow> ('b, ('b, 'w, 'z) codec_scheme) packet_cb option
    \<Rightarrow> ('b, 'w, 'z) codec_scheme option \<Rightarrow> byte list option \<Rightarrow> nat
    \<Rightarrow> (c_result \<times> ('b, 'w, 'z) codec_scheme option) option" where
  "mqtt_codec_bytesReceived api packetComplete handle buffer sz =
    (case handle of
       None \<Rightarrow> Some (MU_FAILURE, None)
     | Some s \<Rightarrow>
      (case buffer of
         None \<Rightarrow> Some (MU_FAILURE, Some (s\<lparr>currPacket := PACKET_TYPE_ERROR\<rparr>))
       | Some bytes \<Rightarrow>
          if sz = 0 then Some (MU_FAILURE, Some (s\<lparr>currPacket := PACKET_TYPE_ERROR\<rparr>))
          else do {
            (result, s) \<leftarrow> receive_loop api packetComplete bytes sz s;
            Some (result, Some s)
          }))"

end
