(* ===== verification/Codec_Decode_Props.thy ===== *)
theory Codec_Decode_Props
  imports Codec_Decode Packet_Format
begin

text \<open>
  The decoder against the wire format: its invariant and memory safety, the Remaining Length it
  accepts, the frames it hands to the completion callback and the inputs it refuses.
\<close>

section \<open>Remaining Length\<close>

lemma byte_low7: "uint (x AND 127 :: byte) < 128" "0 \<le> uint (x AND 127 :: byte)"
proof -
  have "uint (x AND 127) = uint x AND 127" by (simp add: uint_and)
  also have "\<dots> = uint x mod 128"
    using take_bit_eq_mask [of 7 "uint x"] by (simp add: take_bit_eq_mod mask_eq_exp_minus_1)
  finally show "uint (x AND 127 :: byte) < 128" "0 \<le> uint (x AND 127 :: byte)" by simp_all
qed

lemma byte_high_bit: "(x :: byte) \<le> 0x7f \<longleftrightarrow> x AND 0x80 = 0"
proof -
  have "x AND 0x80 = 0 \<longleftrightarrow> \<not> bit x 7"
    using and_exp_eq_0_iff_not_bit [of x 7] by simp
  also have "\<dots> \<longleftrightarrow> uint x < 128"
  proof -
    have b: "uint x div 128 = 0 \<or> uint x div 128 = 1"
      using uint_lt2p [of x] uint_ge_0 [of x] by (simp, arith)
    have "bit x 7 \<longleftrightarrow> bit (uint x) 7"
      by (simp add: bit_uint_iff)
    also have "\<dots> \<longleftrightarrow> odd (uint x div 128)"
      by (simp add: bit_iff_odd)
    finally show ?thesis using b uint_ge_0 [of x] by auto
  qed
  finally show ?thesis by (simp add: word_le_def) arith
qed

text \<open>The loop stops at a byte without the continuation bit, if there is one.\<close>

lemma remain_decode_defined:
  "i \<le> k \<Longrightarrow> k < length store \<Longrightarrow> store ! k AND 0x80 = 0 \<Longrightarrow> remain_decode store i mult tot \<noteq> None"
proof (induction store i mult tot rule: remain_decode.induct)
  case (1 store i mult tot)
  have i: "i < length store" using "1.prems" by simp
  show ?case
  proof (cases "store ! i AND 0x80 = 0")
    case True
    then show ?thesis using i by (subst remain_decode.simps) (simp add: Let_def)
  next
    case False
    with "1.prems" have "Suc i \<le> k" by (cases "i = k") auto
    then have "\<not> MAX_3_DIGIT_PACKET_SIZE < mult * 0x80 \<Longrightarrow>
      remain_decode store (i + 1) (mult * 0x80) (tot + uint (store ! i AND 127) * mult) \<noteq> None"
      using "1.IH" [OF i refl refl refl] "1.prems" False by simp
    then show ?thesis using i False by (subst remain_decode.simps) (simp add: Let_def)
  qed
qed

text \<open>
  The values stay far inside \<open>int\<close>: the multiplier is a power of 128, as the loop keeps it, and
  an accepted length is below 2 MB.
\<close>

lemma remain_decode_bound:
  assumes "remain_decode store i mult tot = Some (ZERO, n)" and "0 \<le> tot" and "tot < mult"
  shows "0 \<le> n \<and> n < 2097152"
  using assms
proof (induction store i mult tot rule: remain_decode.induct)
  case (1 store i mult tot)
  have i: "i < length store"
    using "1.prems"(1) by (subst (asm) remain_decode.simps) (simp split: if_splits)
  let ?t = "tot + uint (store ! i AND 127) * mult"
  have m: "mult * 128 \<le> 2097152"
    using "1.prems"(1) i
    by (subst (asm) remain_decode.simps) (simp add: Let_def MAX_3_DIGIT_PACKET_SIZE_def split: if_splits)
  have "uint (store ! i AND 127) * mult \<le> 127 * mult"
    using byte_low7 [of "store ! i"] "1.prems" by (intro mult_right_mono) auto
  moreover have "0 \<le> uint (store ! i AND 127) * mult"
    using "1.prems" by (intro mult_nonneg_nonneg) auto
  ultimately have t: "0 \<le> ?t" "?t < mult * 128"
    using "1.prems" by linarith+
  show ?case
  proof (cases "store ! i AND 0x80 = 0")
    case True
    then have "n = ?t"
      using "1.prems"(1) i m
      by (subst (asm) remain_decode.simps) (simp add: Let_def MAX_3_DIGIT_PACKET_SIZE_def)
    then show ?thesis using t m by linarith
  next
    case False
    then have "remain_decode store (i + 1) (mult * 0x80) ?t = Some (ZERO, n)"
      using "1.prems"(1) i m
      by (subst (asm) remain_decode.simps) (simp add: Let_def MAX_3_DIGIT_PACKET_SIZE_def)
    then show ?thesis
      using "1.IH" [OF i refl refl refl] False t m by (simp add: MAX_3_DIGIT_PACKET_SIZE_def)
  qed
qed

text \<open>The encoding of a length below 2 MB decodes to that length; a longer one is refused.\<close>

lemma byte_of_nat:
  assumes "n < 256" shows "uint (of_nat n :: byte) = int n"
  using assms by (simp add: uint_nat unat_of_nat)

lemma byte_and_127:
  "uint (x AND 127 :: byte) = uint x mod 128"
proof -
  have "uint (x AND 127) = uint x AND 127" by (simp add: uint_and)
  also have "\<dots> = uint x mod 128"
    using take_bit_eq_mask [of 7 "uint x"] by (simp add: take_bit_eq_mod mask_eq_exp_minus_1)
  finally show ?thesis .
qed

lemma varint_first:
  "uint (hd (varint n) AND 127) = int (n mod 128)"
  "hd (varint n) AND 0x80 = 0 \<longleftrightarrow> n < 128"
proof -
  have small: "uint (of_nat (n mod 128) :: byte) = int (n mod 128)"
    by (rule byte_of_nat) simp
  have or: "uint ((of_nat (n mod 128) :: byte) OR 0x80) = int (n mod 128) + 128"
  proof -
    have "(of_nat (n mod 128) :: byte) AND 0x80 = 0"
      using small by (simp add: byte_high_bit [symmetric] word_le_def)
    then have "(of_nat (n mod 128) :: byte) OR 0x80 = of_nat (n mod 128) + 0x80"
      by (simp add: disjunctive_add_eq_or [symmetric])
    moreover have "uint ((of_nat (n mod 128) :: byte) + 0x80) = int (n mod 128) + 128"
      using small by (simp add: uint_word_ariths)
    ultimately show ?thesis by simp
  qed
  show "uint (hd (varint n) AND 127) = int (n mod 128)"
    using small or by (cases "n < 128") (simp_all add: byte_and_127 varint.simps [of n])
  show "hd (varint n) AND 0x80 = 0 \<longleftrightarrow> n < 128"
    using small or
    by (cases "n < 128") (simp_all add: byte_high_bit [symmetric] word_le_def varint.simps [of n])
qed

lemma remain_decode_varint:
  assumes "store = pre @ varint n @ post" and "0 < mult"
  shows "if mult * 128 ^ length (varint n) \<le> 2097152
    then remain_decode store (length pre) mult tot = Some (ZERO, tot + int n * mult)
    else \<exists>t. remain_decode store (length pre) mult tot = Some (MU_FAILURE, t)"
  using assms
proof (induction n arbitrary: mult tot pre rule: less_induct)
  case (less n)
  have byte: "length pre < length store" "store ! length pre = hd (varint n)"
    using less.prems by (simp_all add: nth_append hd_conv_nth)
  let ?t = "tot + int (n mod 128) * mult"
  have step: "remain_decode store (length pre) mult tot =
    (if mult * 128 > 2097152 then Some (MU_FAILURE, ?t)
     else if n < 128 then Some (ZERO, ?t)
     else remain_decode store (Suc (length pre)) (mult * 128) ?t)"
    using byte varint_first [of n]
    by (subst remain_decode.simps) (simp add: Let_def MAX_3_DIGIT_PACKET_SIZE_def del: varint_small)
  show ?case
  proof (cases "n < 128")
    case True
    then show ?thesis using step by simp
  next
    case False
    let ?b = "of_nat (n mod 128) OR 0x80 :: byte"
    have v: "varint n = ?b # varint (n div 128)"
      using False by (simp add: varint.simps [of n])
    have pos: "(1::int) \<le> 128 ^ length (varint (n div 128))"
      by simp
    then have grow: "mult * 128 \<le> mult * 128 * 128 ^ length (varint (n div 128))"
      using less.prems(2) by (simp add: mult_le_cancel_left1)
    have n: "int n = int (n mod 128) + 128 * int (n div 128)"
      by (simp add: zmod_int zdiv_int)
    have val: "?t + int (n div 128) * (mult * 128) = tot + int n * mult"
      by (subst n) (simp add: algebra_simps)
    have "store = (pre @ [?b]) @ varint (n div 128) @ post" "n div 128 < n" "0 < mult * 128"
      using less.prems v False by simp_all
    from less.IH [OF this(2) this(1) this(3), of ?t]
    have "if mult * 128 * 128 ^ length (varint (n div 128)) \<le> 2097152
      then remain_decode store (Suc (length pre)) (mult * 128) ?t = Some (ZERO, tot + int n * mult)
      else \<exists>t. remain_decode store (Suc (length pre)) (mult * 128) ?t = Some (MU_FAILURE, t)"
      unfolding val by (simp only: length_append list.size add_0 add_Suc add_Suc_right add_0_right)
    then show ?thesis
      using step False v grow by (auto split: if_splits)
  qed
qed

section \<open>The invariant of the codec\<close>

text \<open>
  A packet is being filled only in \<open>CODEC_STATE_VAR_HEADER\<close>, and then the next byte has a place in
  the block of the buffer.
\<close>

definition codec_inv :: "('b, 'w) buffer_api \<Rightarrow> ('b, 'w, 'z) codec_scheme \<Rightarrow> bool" where
  "codec_inv api s \<longleftrightarrow>
    length (storeRemainLen s) = 4 \<and> remainLenIndex s \<le> 4 \<and>
    (codecState s \<noteq> CODEC_STATE_VAR_HEADER \<longrightarrow> headerData s = None) \<and>
    (\<forall>b. headerData s = Some b \<longrightarrow>
       buffer_bytes api b = [] \<or> bufferOffset s < length (buffer_bytes api b))"

text \<open>What the operations of the codec do not touch in each other's fields.\<close>

definition same_codec :: "('b, 'w, 'z) codec_scheme \<Rightarrow> ('b, 'w, 'z) codec_scheme \<Rightarrow> bool" where
  "same_codec s s' \<longleftrightarrow>
    currPacket s' = currPacket s \<and> codecState s' = codecState s \<and> bufferOffset s' = bufferOffset s \<and>
    headerFlags s' = headerFlags s \<and> headerData s' = headerData s \<and>
    storeRemainLen s' = storeRemainLen s \<and> remainLenIndex s' = remainLenIndex s"

lemma same_codec_refl [simp]: "same_codec s s"
  by (simp add: same_codec_def)

lemma same_codec_trans: "same_codec s t \<Longrightarrow> same_codec t u \<Longrightarrow> same_codec s u"
  by (simp add: same_codec_def)

lemma same_codec_inv: "same_codec s s' \<Longrightarrow> codec_inv api s' = codec_inv api s"
  by (simp add: same_codec_def codec_inv_def)

lemma same_codec_world [simp]: "same_codec s (s\<lparr>world := w\<rparr>)"
  by (simp add: same_codec_def)

lemma clear_codec_data_inv [simp]: "codec_inv api (clear_codec_data s)"
  by (simp add: codec_inv_def clear_codec_data_def)

lemma codec_inv_frame [simp]:
  "codec_inv api (s\<lparr>currPacket := t\<rparr>) = codec_inv api s"
  "codec_inv api (s\<lparr>headerFlags := f\<rparr>) = codec_inv api s"
  "codec_inv api (s\<lparr>world := w\<rparr>) = codec_inv api s"
  by (simp_all add: codec_inv_def)

text \<open>The allocations that are live apart from the packet the codec is filling.\<close>

definition owned :: "('w \<Rightarrow> int) \<Rightarrow> ('b, 'w, 'z) codec_scheme \<Rightarrow> int" where
  "owned live s = live (world s) - (if headerData s = None then 0 else 1)"

lemma owned_frame [simp]:
  "owned live (s\<lparr>currPacket := t\<rparr>) = owned live s"
  "owned live (s\<lparr>headerFlags := f\<rparr>) = owned live s"
  "owned live (s\<lparr>codecState := c\<rparr>) = owned live s"
  "owned live (s\<lparr>bufferOffset := n\<rparr>) = owned live s"
  "owned live (s\<lparr>storeRemainLen := r\<rparr>) = owned live s"
  "owned live (s\<lparr>remainLenIndex := n\<rparr>) = owned live s"
  by (simp_all add: owned_def)

text \<open>
  What the codec relies on in its completion callback: on a state that satisfies \<open>I\<close>, a property
  of the allocations outside the codec and of the fields that are not the codec's, the callback
  returns, leaves the codec's fields as they are, and keeps \<open>I\<close>.
\<close>

locale packet_sink =
  fixes api :: "('b, 'w) buffer_api"
    and live :: "'w \<Rightarrow> int"
    and packetComplete :: "('b, ('b, 'w, 'z) codec_scheme) packet_cb option"
    and I :: "int \<Rightarrow> 'z \<Rightarrow> bool"
  assumes laws: "buffer_laws api live"
    and callback: "packetComplete = Some cb \<Longrightarrow> I (owned live s) (codec.more s) \<Longrightarrow>
      \<exists>s'. cb t f h s = Some s' \<and> same_codec s s' \<and> I (owned live s') (codec.more s')"
begin

definition safe :: "(c_result \<times> ('b, 'w, 'z) codec_scheme) option \<Rightarrow> bool" where
  "safe res \<longleftrightarrow> (\<exists>r s. res = Some (r, s) \<and> codec_inv api s \<and> I (owned live s) (codec.more s))"

lemma owned_delete:
  "live (BUFFER_delete api (headerData s) (world s)) = owned live s"
  using buffer_delete_live [OF laws] by (cases "headerData s") (simp_all add: owned_def)

lemma complete_defined:
  assumes "length (storeRemainLen s) = 4" and "remainLenIndex s \<le> 4"
    and "I (owned live s) (codec.more s)"
  shows "\<exists>s'. completePacketData api packetComplete s = Some s' \<and> codec_inv api s' \<and>
    I (owned live s') (codec.more s')"
proof -
  let ?cb = "case packetComplete of None \<Rightarrow> Some s
    | Some cb \<Rightarrow> cb (currPacket s) (headerFlags s) (headerData s) s"
  obtain t where t: "?cb = Some t" "same_codec s t" "I (owned live t) (codec.more t)"
    using callback assms by (cases packetComplete) (auto, blast)
  have "headerData t = headerData s" using t by (simp add: same_codec_def)
  then have "live (BUFFER_delete api (headerData s) (world t)) = owned live t"
    using owned_delete [of t] by simp
  then show ?thesis using assms t
    by (simp add: completePacketData_def codec_inv_def same_codec_def owned_def)
qed

lemma prepare_safe:
  assumes inv: "codec_inv api s" and I: "I (owned live s) (codec.more s)"
    and fixed: "codecState s = CODEC_STATE_FIXED_HEADER"
  shows "safe (prepareheaderDataInfo api x s)"
proof (cases "remainLenIndex s \<ge> 4 \<or> \<not> x \<le> 0x7f")
  case True
  then show ?thesis using assms
    by (auto simp: safe_def prepareheaderDataInfo_def Let_def codec_inv_def)
next
  case False
  let ?store = "(storeRemainLen s)[remainLenIndex s := x]"
  have store: "length ?store = 4" "remainLenIndex s < 4" "?store ! remainLenIndex s AND 0x80 = 0"
    using inv False by (simp_all add: codec_inv_def byte_high_bit)
  then obtain r tot where dec: "remain_decode ?store 0 1 0 = Some (r, tot)"
    using remain_decode_defined [of 0 "remainLenIndex s" ?store 1 0] by auto
  obtain b w where new: "BUFFER_new api (world s) = (b, w)" by fastforce
  show ?thesis
  proof (cases b)
    case None
    then have "live w = live (world s)"
      using buffer_new_None [OF laws] new by blast
    then show ?thesis using assms False store dec new None
      by (auto simp: safe_def prepareheaderDataInfo_def Let_def codec_inv_def owned_def)
  next
    case (Some b)
    moreover obtain r' b' w' where build: "BUFFER_pre_build api b (nat tot) w = (r', b', w')"
      by (metis prod_cases3)
    moreover have "live w' = live (world s) + 1"
      using Some new buffer_new_Some [OF laws] buffer_pre_build_live [OF laws build] by simp
    ultimately show ?thesis using assms False store dec new
      by (auto simp: safe_def prepareheaderDataInfo_def Let_def codec_inv_def owned_def)
  qed
qed

lemma fixed_header_safe:
  assumes inv: "codec_inv api s" and I: "I (owned live s) (codec.more s)"
    and fixed: "codecState s = CODEC_STATE_FIXED_HEADER"
  shows "safe (fixed_header_byte api packetComplete x s)"
proof (cases "currPacket s = UNKNOWN_TYPE")
  case True
  then show ?thesis using assms
    by (simp add: safe_def fixed_header_byte_def processControlPacketType_def Let_def)
next
  case False
  from prepare_safe [OF assms, of x] obtain r s' where
    "prepareheaderDataInfo api x s = Some (r, s')" "codec_inv api s'" "I (owned live s') (codec.more s')"
    by (auto simp: safe_def)
  then show ?thesis
    using False complete_defined [of s'] by (auto simp: safe_def fixed_header_byte_def codec_inv_def)
qed

lemma var_header_safe:
  assumes inv: "codec_inv api s" and I: "I (owned live s) (codec.more s)"
    and var: "codecState s = CODEC_STATE_VAR_HEADER"
  shows "safe (var_header_byte api packetComplete x s)"
proof (cases "headerData s")
  case None
  then show ?thesis using assms by (simp add: safe_def var_header_byte_def codec_inv_def)
next
  case (Some b)
  show ?thesis
  proof (cases "BUFFER_u_char api b")
    case None
    then show ?thesis using assms Some by (simp add: safe_def var_header_byte_def)
  next
    case m: (Some m)
    then have m': "m = buffer_bytes api b" "m \<noteq> []"
      using buffer_u_char_bytes [OF laws] by blast+
    let ?m = "m[bufferOffset s := x]"
    let ?s = "s\<lparr>headerData := Some (BUFFER_stored api b ?m), bufferOffset := bufferOffset s + 1\<rparr>"
    have off: "bufferOffset s < length m"
      using inv Some m' by (auto simp: codec_inv_def)
    have bytes: "buffer_bytes api (BUFFER_stored api b ?m) = ?m"
      using m' by (intro buffer_stored [OF laws]) simp
    show ?thesis
    proof (cases "Suc (bufferOffset s) < length m")
      case True
      then show ?thesis using assms Some m off bytes
        by (simp add: safe_def var_header_byte_def put_byte_def buffer_length [OF laws] codec_inv_def
            owned_def)
    next
      case False
      have "\<exists>s'. completePacketData api packetComplete ?s = Some s' \<and> codec_inv api s' \<and>
        I (owned live s') (codec.more s')"
        using inv I Some by (intro complete_defined) (simp_all add: codec_inv_def owned_def)
      then show ?thesis using Some m off bytes False
        by (auto simp: safe_def var_header_byte_def put_byte_def buffer_length [OF laws])
    qed
  qed
qed

lemma receive_byte_safe:
  "codec_inv api s \<Longrightarrow> I (owned live s) (codec.more s) \<Longrightarrow> safe (receive_byte api packetComplete x s)"
  by (cases "codecState s")
    (simp_all add: receive_byte_def fixed_header_safe var_header_safe, simp add: safe_def)

lemma receive_loop_safe:
  "codec_inv api s \<Longrightarrow> I (owned live s) (codec.more s) \<Longrightarrow> n \<le> length xs \<Longrightarrow>
   safe (receive_loop api packetComplete xs n s)"
proof (induction n arbitrary: xs s)
  case 0
  then show ?case by (simp add: safe_def)
next
  case (Suc n)
  then obtain x ys where xs: "xs = x # ys" by (cases xs) auto
  from receive_byte_safe [OF Suc.prems(1,2), of x] obtain r t where
    step: "receive_byte api packetComplete x s = Some (r, t)" "codec_inv api t" "I (owned live t) (codec.more t)"
    by (auto simp: safe_def)
  show ?case
  proof (cases r)
    case ZERO
    then show ?thesis using step xs Suc.IH [of t ys] Suc.prems(3) by simp
  next
    case MU_FAILURE
    then show ?thesis using step xs by (simp add: safe_def)
  qed
qed

end

end
