(* ===== verification/Codec_Stream.thy ===== *)
theory Codec_Stream
  imports Codec_Decode_Props
begin

text \<open>
  The decoder as a whole: safety on any input, the packets it hands over for a stream of well-formed
  packets however the transport cuts it, and the inputs it refuses.
\<close>

section \<open>Well-formed packets\<close>

text \<open>
  The first bytes the decoder takes: the flags MQTT prescribes for a type, and any flags for PUBLISH,
  where MQTT leaves out six of the sixteen.  It describes what is decoded, and is not the rule of
  MQTT: the bytes MQTT allows are listed in \<open>mqtt_first_bytes\<close> below, beside the difference.
\<close>

fun reserved_flags :: "CONTROL_PACKET_TYPE \<Rightarrow> byte option" where
  "reserved_flags PUBLISH_TYPE = None"
| "reserved_flags PUBREL_TYPE = Some 2"
| "reserved_flags SUBSCRIBE_TYPE = Some 2"
| "reserved_flags UNSUBSCRIBE_TYPE = Some 2"
| "reserved_flags _ = Some 0"

definition wire_types :: "CONTROL_PACKET_TYPE list" where
  "wire_types = [CONNECT_TYPE, CONNACK_TYPE, PUBLISH_TYPE, PUBACK_TYPE, PUBREC_TYPE, PUBREL_TYPE,
    PUBCOMP_TYPE, SUBSCRIBE_TYPE, SUBACK_TYPE, UNSUBSCRIBE_TYPE, UNSUBACK_TYPE, PINGREQ_TYPE,
    PINGRESP_TYPE, DISCONNECT_TYPE]"

definition header_ok :: "CONTROL_PACKET_TYPE \<Rightarrow> byte \<Rightarrow> bool" where
  "header_ok t flags \<longleftrightarrow> t \<in> set wire_types \<and> flags < 16 \<and>
    (case reserved_flags t of None \<Rightarrow> True | Some f \<Rightarrow> flags = f)"

type_synonym packet = "CONTROL_PACKET_TYPE \<times> byte \<times> byte list"

text \<open>
  The packets the decoder takes: a PINGRESP is empty, and any other packet has a body, of less than
  2 MB.
\<close>

definition packet_ok :: "packet \<Rightarrow> bool" where
  "packet_ok p = (case p of (t, flags, body) \<Rightarrow> header_ok t flags \<and>
    (if t = PINGRESP_TYPE then body = [] else body \<noteq> [] \<and> length body < 2097152))"

definition wire :: "packet list \<Rightarrow> byte list" where
  "wire ps = concat (map (\<lambda>(t, flags, body). frame t flags body) ps)"

lemma nibble_cases:
  fixes x :: byte assumes "x < 16" obtains k where "k < 16" "x = of_nat k"
proof
  show "unat x < 16" using assms by (simp add: word_less_nat_alt)
  show "x = of_nat (unat x)" by simp
qed

lemma header_received:
  assumes "header_ok t flags"
  shows "processControlPacketType (packet_byte t OR flags) = (t, ucast flags)"
    and "\<not> reject_header t (ucast flags)" and "t \<noteq> UNKNOWN_TYPE"
proof -
  have f: "flags < 16" and t: "t \<in> set wire_types" using assms by (simp_all add: header_ok_def)
  have low: "flags AND 0x0F = flags"
    using less_mask_eq [of flags 4] f by (simp add: mask_eq_exp_minus_1)
  have nib: "packet_byte t AND 0xF0 = packet_byte t" "packet_byte t AND 0x0F = 0"
    "packet_of_byte (packet_byte t) = t"
    using t by (auto simp: wire_types_def packet_byte_def packet_of_byte_def packet_of_code_def
        all_packet_types_def)
  have "flags AND 0xF0 = 0"
    using arg_cong [OF low, of "\<lambda>x. x AND 0xF0"] by (simp add: and.assoc)
  then show "processControlPacketType (packet_byte t OR flags) = (t, ucast flags)"
    using low nib by (simp add: processControlPacketType_def bit.conj_disj_distrib2 packet_of_byte_def)
  show "t \<noteq> UNKNOWN_TYPE" using t by (auto simp: wire_types_def)
  show "\<not> reject_header t (ucast flags)"
    using assms by (auto simp: header_ok_def wire_types_def reject_header_def)
qed

section \<open>Receiving one packet\<close>

definition idle :: "('b, 'w, 'z) codec_scheme \<Rightarrow> bool" where
  "idle s \<longleftrightarrow> currPacket s = UNKNOWN_TYPE \<and> codecState s = CODEC_STATE_FIXED_HEADER \<and>
    headerFlags s = 0 \<and> headerData s = None \<and> storeRemainLen s = replicate 4 0 \<and>
    remainLenIndex s = 0"

lemma idle_inv: "idle s \<Longrightarrow> codec_inv api s"
  by (simp add: idle_def codec_inv_def)

lemma idle_clear [simp]: "idle (clear_codec_data s)"
  by (simp add: idle_def clear_codec_data_def)

lemma receive_loop_Cons:
  "receive_byte api pc x s = Some (ZERO, s') \<Longrightarrow>
   receive_loop api pc (x # xs) (Suc n) s = receive_loop api pc xs n s'"
  by simp

lemma receive_type_byte:
  assumes "idle s" and "header_ok t flags"
  shows "receive_byte api pc (packet_byte t OR flags) s
    = Some (ZERO, s\<lparr>currPacket := t, headerFlags := ucast flags\<rparr>)"
  using assms header_received [OF assms(2)]
  by (simp add: receive_byte_def idle_def fixed_header_byte_def Let_def)

text \<open>The state after the Remaining Length: an empty block of that length to fill.\<close>

abbreviation opened ::
  "'b \<Rightarrow> 'w \<Rightarrow> ('b, 'w, 'z) codec_scheme \<Rightarrow> ('b, 'w, 'z) codec_scheme" where
  "opened b w s \<equiv> s\<lparr>storeRemainLen := replicate 4 0, remainLenIndex := 0,
     codecState := CODEC_STATE_VAR_HEADER, bufferOffset := 0, headerData := Some b, world := w\<rparr>"

lemma prepare_opens:
  assumes laws: "buffer_laws api live" and total: "buffer_total api"
    and dec: "remain_decode ((storeRemainLen s)[remainLenIndex s := x]) 0 1 0 = Some (ZERO, int N)"
    and "remainLenIndex s < length (storeRemainLen s)" "x AND 0x80 = 0" "0 < N"
  obtains b w where "prepareheaderDataInfo api x s = Some (ZERO, opened b w s)"
    "length (buffer_bytes api b) = N" "live w = live (world s) + 1"
proof -
  have N: "int N < 2097152"
    using remain_decode_bound [OF dec] by simp
  obtain b0 w0 where new: "BUFFER_new api (world s) = (Some b0, w0)"
    using buffer_total_new [OF total, of "world s"]
    by (cases "BUFFER_new api (world s)"; cases "fst (BUFFER_new api (world s))") auto
  obtain b w where build: "BUFFER_pre_build api b0 N w0 = (ZERO, b, w)"
  proof (cases "BUFFER_pre_build api b0 N w0")
    case (fields r b w)
    then have "r = ZERO"
      using buffer_total_pre_build [OF total assms(6)] by (cases r) auto
    with fields that show thesis by blast
  qed
  show thesis
  proof
    show "prepareheaderDataInfo api x s = Some (ZERO, opened b w s)"
      using assms(4-6) dec new build N
      by (simp add: prepareheaderDataInfo_def Let_def byte_high_bit MAX_SEND_SIZE_def)
    show "length (buffer_bytes api b) = N"
      by (rule buffer_pre_build_ZERO [OF laws build])
    show "live w = live (world s) + 1"
      using buffer_new_Some [OF laws new] buffer_pre_build_live [OF laws build] by simp
  qed
qed

lemma varint_received:
  assumes laws: "buffer_laws api live" and total: "buffer_total api"
  shows "currPacket s \<noteq> UNKNOWN_TYPE \<Longrightarrow> currPacket s \<noteq> PINGRESP_TYPE \<Longrightarrow>
    codecState s = CODEC_STATE_FIXED_HEADER \<Longrightarrow> remainLenIndex s = length pre \<Longrightarrow>
    length pre + length (varint n) \<le> 3 \<Longrightarrow> storeRemainLen s = pre @ replicate (4 - length pre) 0 \<Longrightarrow>
    remain_decode (pre @ varint n @ replicate (4 - length pre - length (varint n)) 0) 0 1 0
      = Some (ZERO, int N) \<Longrightarrow> 0 < N \<Longrightarrow>
    \<exists>b w. (\<forall>rest k. receive_loop api pc (varint n @ rest) (length (varint n) + k) s
        = receive_loop api pc rest k (opened b w s)) \<and>
      length (buffer_bytes api b) = N \<and> live w = live (world s) + 1"
proof (induction n arbitrary: s pre rule: varint.induct)
  case (1 n)
  have store: "(storeRemainLen s)[remainLenIndex s := x] = (pre @ [x]) @ replicate (4 - Suc (length pre)) 0"
    for x
  proof -
    have "replicate (4 - length pre) (0::byte) = 0 # replicate (4 - Suc (length pre)) 0"
      using "1.prems"(5) by (cases "4 - length pre") (simp_all add: Suc_diff_Suc)
    then show ?thesis using "1.prems" by (simp add: list_update_append)
  qed
  show ?case
  proof (cases "n < 128")
    case True
    then have x: "varint n = [of_nat n]" "(of_nat n :: byte) AND 0x80 = 0"
      using varint_first(2) [of n] by simp_all
    have dec: "remain_decode ((storeRemainLen s)[remainLenIndex s := of_nat n]) 0 1 0 = Some (ZERO, int N)"
      using "1.prems" x(1) unfolding store by simp
    obtain b w where p: "prepareheaderDataInfo api (of_nat n) s = Some (ZERO, opened b w s)"
      "length (buffer_bytes api b) = N" "live w = live (world s) + 1"
      by (rule prepare_opens [OF laws total dec]) (use "1.prems" x in auto)
    have "receive_byte api pc (of_nat n) s = Some (ZERO, opened b w s)"
      using p "1.prems" by (simp add: receive_byte_def fixed_header_byte_def)
    then show ?thesis using x p by auto
  next
    case False
    let ?x = "of_nat (n mod 128) OR 0x80 :: byte"
    let ?s = "s\<lparr>storeRemainLen := (pre @ [?x]) @ replicate (4 - Suc (length pre)) 0,
       remainLenIndex := Suc (length pre)\<rparr>"
    have v: "varint n = ?x # varint (n div 128)"
      using False by (simp add: varint.simps [of n])
    have hi: "\<not> ?x \<le> 0x7f"
      using varint_first(2) [of n] False v by (simp add: byte_high_bit)
    have len: "Suc (length pre) < 4" "length pre < length (storeRemainLen s)"
      using "1.prems" v by (cases "varint (n div 128)"; simp)+
    have "prepareheaderDataInfo api ?x s = Some (ZERO, ?s)"
      using hi len "1.prems" store [of ?x]
      by (simp add: prepareheaderDataInfo_def Let_def)
    then have step: "receive_byte api pc ?x s = Some (ZERO, ?s)"
      using "1.prems" by (simp add: receive_byte_def fixed_header_byte_def)
    have "\<exists>b w. (\<forall>rest k. receive_loop api pc (varint (n div 128) @ rest) (length (varint (n div 128)) + k) ?s
        = receive_loop api pc rest k (opened b w ?s)) \<and>
      length (buffer_bytes api b) = N \<and> live w = live (world ?s) + 1"
      using "1.prems" v by (intro "1.IH" [OF False, where pre = "pre @ [?x]"]) simp_all
    then show ?thesis using step v by auto
  qed
qed

text \<open>The body: one byte after the other into the block, and the callback behind the last.\<close>

lemma bind_loop:
  "Option.bind (Option.bind m (\<lambda>s. Some (ZERO, s)))
    (\<lambda>(r, s). if r = ZERO then f s else Some (r, s)) = Option.bind m f"
  by (cases m) simp_all

lemma body_received:
  assumes laws: "buffer_laws api live"
  shows "codecState s = CODEC_STATE_VAR_HEADER \<Longrightarrow> headerData s = Some b \<Longrightarrow>
    buffer_bytes api b = pre @ ext \<Longrightarrow> bufferOffset s = length pre \<Longrightarrow> length ext = length body \<Longrightarrow>
    body \<noteq> [] \<Longrightarrow>
    \<exists>b'. buffer_bytes api b' = pre @ body \<and>
      (\<forall>rest k. receive_loop api pc (body @ rest) (length body + k) s =
        Option.bind (completePacketData api pc
            (s\<lparr>headerData := Some b', bufferOffset := length (pre @ body)\<rparr>))
          (receive_loop api pc rest k))"
proof (induction body arbitrary: s b pre ext)
  case Nil
  then show ?case by simp
next
  case (Cons x body)
  then obtain y ext' where ext: "ext = y # ext'" by (cases ext) auto
  let ?b = "BUFFER_stored api b ((pre @ [x]) @ ext')"
  let ?s = "s\<lparr>headerData := Some ?b, bufferOffset := Suc (length pre)\<rparr>"
  have bytes: "buffer_bytes api ?b = (pre @ [x]) @ ext'"
    using Cons.prems ext by (intro buffer_stored [OF laws]) simp
  have step: "receive_byte api pc x s =
    (if Suc (length pre) \<ge> length (buffer_bytes api ?b)
     then Option.bind (completePacketData api pc ?s) (\<lambda>s. Some (ZERO, s)) else Some (ZERO, ?s))"
    using Cons.prems ext
    by (simp add: receive_byte_def var_header_byte_def put_byte_def buffer_length [OF laws] Let_def)
  show ?case
  proof (cases body)
    case Nil
    then have "ext' = []" using Cons.prems ext by simp
    then show ?thesis
      using Nil step bytes by (intro exI [of _ ?b]) (simp add: bind_loop)
  next
    case (Cons z zs)
    then have "receive_byte api pc x s = Some (ZERO, ?s)"
      using step bytes ext Cons.prems by simp
    moreover have "\<exists>b'. buffer_bytes api b' = (pre @ [x]) @ body \<and>
      (\<forall>rest k. receive_loop api pc (body @ rest) (length body + k) ?s =
        Option.bind (completePacketData api pc
            (?s\<lparr>headerData := Some b', bufferOffset := length ((pre @ [x]) @ body)\<rparr>))
          (receive_loop api pc rest k))"
      using Cons.prems ext bytes Cons by (intro Cons.IH [of ?s ?b "pre @ [x]" ext']) simp_all
    ultimately show ?thesis by auto
  qed
qed

text \<open>
  One packet, for any callback: behind its last byte the callback has been called once, with the
  type, the flags and a buffer holding the body, on a state in which nothing else is different.
\<close>

lemma frame_received:
  assumes laws: "buffer_laws api live" and total: "buffer_total api"
    and idle: "idle s" and ok: "packet_ok (t, flags, body)" and t: "t \<noteq> PINGRESP_TYPE"
  obtains b w where "buffer_bytes api b = body" "live w = live (world s) + 1"
    "\<And>rest k. receive_loop api pc (frame t flags body @ rest) (length (frame t flags body) + k) s =
      Option.bind (completePacketData api pc (s\<lparr>currPacket := t, headerFlags := ucast flags,
          codecState := CODEC_STATE_VAR_HEADER, bufferOffset := length body, headerData := Some b,
          world := w\<rparr>))
        (receive_loop api pc rest k)"
proof -
  let ?n = "length body"
  let ?s = "s\<lparr>currPacket := t, headerFlags := ucast flags\<rparr>"
  have hdr: "header_ok t flags" and n: "0 < ?n" "?n < 2097152"
    using ok t by (auto simp: packet_ok_def)
  have len: "length (varint ?n) \<le> 3" by (simp add: length_varint_3 n(2))
  then have "128 ^ length (varint ?n) \<le> (128::int) ^ 3" by (intro power_increasing) auto
  then have dec: "remain_decode ([] @ varint ?n @ replicate (4 - length [] - length (varint ?n)) 0) 0 1 0
      = Some (ZERO, int ?n)"
    using remain_decode_varint [OF refl zero_less_one, where pre = "[]" and n = ?n and tot = 0] by simp
  have "\<exists>b w. (\<forall>rest k. receive_loop api pc (varint ?n @ rest) (length (varint ?n) + k) ?s
        = receive_loop api pc rest k (opened b w ?s)) \<and>
      length (buffer_bytes api b) = ?n \<and> live w = live (world ?s) + 1"
    using idle header_received(3) [OF hdr] t len n dec
    by (intro varint_received [OF laws total, where pre = "[]"]) (simp_all add: idle_def)
  then obtain b0 w where b0: "length (buffer_bytes api b0) = ?n" "live w = live (world s) + 1"
    and open0: "\<And>rest k. receive_loop api pc (varint ?n @ rest) (length (varint ?n) + k) ?s
        = receive_loop api pc rest k (opened b0 w ?s)"
    by auto
  have "\<exists>b. buffer_bytes api b = [] @ body \<and>
      (\<forall>rest k. receive_loop api pc (body @ rest) (length body + k) (opened b0 w ?s) =
        Option.bind (completePacketData api pc
            ((opened b0 w ?s)\<lparr>headerData := Some b, bufferOffset := length ([] @ body)\<rparr>))
          (receive_loop api pc rest k))"
    using n b0 by (intro body_received [OF laws, where ext = "buffer_bytes api b0"]) simp_all
  then obtain b where b: "buffer_bytes api b = body"
    and body: "\<And>rest k. receive_loop api pc (body @ rest) (length body + k) (opened b0 w ?s) =
        Option.bind (completePacketData api pc
            ((opened b0 w ?s)\<lparr>headerData := Some b, bufferOffset := length body\<rparr>))
          (receive_loop api pc rest k)"
    by auto
  show thesis
  proof
    show "buffer_bytes api b = body" by (rule b)
    show "live w = live (world s) + 1" by (rule b0)
    fix rest k
    have "receive_loop api pc (frame t flags body @ rest) (length (frame t flags body) + k) s
      = receive_loop api pc (varint ?n @ body @ rest) (length (varint ?n) + (length body + k)) ?s"
      using receive_loop_Cons [OF receive_type_byte [OF idle hdr]]
      by (simp add: frame_def add.assoc)
    also have "\<dots> = Option.bind (completePacketData api pc
            ((opened b0 w ?s)\<lparr>headerData := Some b, bufferOffset := length body\<rparr>))
          (receive_loop api pc rest k)"
      unfolding open0 by (rule body)
    also have "(opened b0 w ?s)\<lparr>headerData := Some b, bufferOffset := length body\<rparr>
      = s\<lparr>currPacket := t, headerFlags := ucast flags,
          codecState := CODEC_STATE_VAR_HEADER, bufferOffset := length body, headerData := Some b,
          world := w\<rparr>"
      using idle by (cases s) (simp add: idle_def)
    finally show "receive_loop api pc (frame t flags body @ rest) (length (frame t flags body) + k) s =
      Option.bind (completePacketData api pc (s\<lparr>currPacket := t, headerFlags := ucast flags,
          codecState := CODEC_STATE_VAR_HEADER, bufferOffset := length body, headerData := Some b,
          world := w\<rparr>))
        (receive_loop api pc rest k)" .
  qed
qed

lemma pingresp_received:
  assumes idle: "idle s"
  shows "receive_loop api pc (frame PINGRESP_TYPE 0 [] @ rest) (length (frame PINGRESP_TYPE 0 []) + k) s =
    Option.bind (completePacketData api pc
        (s\<lparr>currPacket := PINGRESP_TYPE, headerFlags := 0, codecState := CODEC_STATE_VAR_HEADER\<rparr>))
      (receive_loop api pc rest k)"
proof -
  let ?s = "s\<lparr>currPacket := PINGRESP_TYPE, headerFlags := 0\<rparr>"
  let ?t = "?s\<lparr>codecState := CODEC_STATE_VAR_HEADER\<rparr>"
  have "remain_decode [0, 0, 0, 0] 0 1 0 = Some (ZERO, 0)"
    by (subst remain_decode.simps) (simp add: Let_def MAX_3_DIGIT_PACKET_SIZE_def)
  then have "prepareheaderDataInfo api 0 ?s = Some (ZERO, ?t)"
    using idle by (cases s) (simp add: prepareheaderDataInfo_def idle_def Let_def numeral_eq_Suc)
  then have two: "receive_byte api pc 0 ?s
      = Option.bind (completePacketData api pc ?t) (\<lambda>s. Some (ZERO, s))"
    using idle by (simp add: receive_byte_def idle_def fixed_header_byte_def)
  have "header_ok PINGRESP_TYPE 0" by (simp add: header_ok_def wire_types_def)
  from receive_type_byte [OF idle this, of api pc]
  have one: "receive_byte api pc (packet_byte PINGRESP_TYPE OR 0) s = Some (ZERO, ?s)" by simp
  have "receive_loop api pc (frame PINGRESP_TYPE 0 [] @ rest) (length (frame PINGRESP_TYPE 0 []) + k) s
      = receive_loop api pc (0 # rest) (Suc k) ?s"
    using receive_loop_Cons [OF one] by (simp add: frame_def)
  also have "\<dots> = Option.bind (completePacketData api pc ?t) (receive_loop api pc rest k)"
    by (simp add: two bind_loop)
  finally show ?thesis by simp
qed

section \<open>Safety on any input\<close>

text \<open>A callback on the codec's fields and the world, as \<open>packet_sink\<close> asks of it.\<close>

definition well_behaved ::
  "('w \<Rightarrow> int) \<Rightarrow> (int \<Rightarrow> 'z \<Rightarrow> bool) \<Rightarrow> ('b, ('b, 'w, 'z) codec_scheme) packet_cb option \<Rightarrow> bool" where
  "well_behaved live I pc \<longleftrightarrow> (\<forall>cb t f h s. pc = Some cb \<longrightarrow> I (owned live s) (codec.more s) \<longrightarrow>
    (\<exists>s'. cb t f h s = Some s' \<and> same_codec s s' \<and> I (owned live s') (codec.more s')))"

lemma packet_sink_well_behaved:
  "buffer_laws api live \<Longrightarrow> well_behaved live I pc \<Longrightarrow> packet_sink api live pc I"
  unfolding well_behaved_def by unfold_locales blast+

lemma bytesReceived_loop_safe:
  assumes laws: "buffer_laws api live" and cb: "well_behaved live I pc"
    and inv: "codec_inv api s" and I: "I (owned live s) (codec.more s)" and sz: "sz \<le> length bytes"
  shows "\<exists>r s'. mqtt_codec_bytesReceived api pc (Some s) (Some bytes) sz = Some (r, Some s') \<and>
    codec_inv api s' \<and> I (owned live s') (codec.more s')"
proof -
  note sink = packet_sink_well_behaved [OF laws cb]
  show ?thesis
    using packet_sink.receive_loop_safe [OF sink inv I sz] inv I
    by (cases "sz = 0") (auto simp: packet_sink.safe_def [OF sink] mqtt_codec_bytesReceived_def)
qed

text \<open>
  C2. On any bytes and from any state of the codec, with any allocation failing,
  \<open>mqtt_codec_bytesReceived\<close> stays within its blocks (\<open>storeRemainLen\<close>, the packet buffer, the received bytes) and returns; it keeps
  the codec's invariant, and what is allocated afterwards beyond the packet being filled is what the
  completion callback left.
\<close>

theorem bytesReceived_safe:
  assumes laws: "buffer_laws api live" and cb: "well_behaved live I pc"
    and inv: "codec_inv api s" and I: "I (owned live s) (codec.more s)" and sz: "sz \<le> length bytes"
  shows "\<exists>r s'. mqtt_codec_bytesReceived api pc (Some s) (Some bytes) sz = Some (r, Some s') \<and>
    codec_inv api s' \<and> I (owned live s') (codec.more s')"
  by (rule bytesReceived_loop_safe [OF assms])

section \<open>A recorder\<close>

text \<open>The callback of the theorems on streams: it notes what it is called with.\<close>

record ('b, 'w) recorder = "('b, 'w) codec" +
  received :: "(CONTROL_PACKET_TYPE \<times> c_int \<times> byte list option) list"

definition record_packet :: "('b, 'w) buffer_api \<Rightarrow> ('b, ('b, 'w) recorder) packet_cb" where
  "record_packet api t flags h s =
    Some (s\<lparr>received := received s @ [(t, flags, map_option (buffer_bytes api) h)]\<rparr>)"

definition delivered :: "packet \<Rightarrow> CONTROL_PACKET_TYPE \<times> c_int \<times> byte list option" where
  "delivered p = (case p of (t, flags, body) \<Rightarrow>
    (t, ucast flags, if t = PINGRESP_TYPE then None else Some body))"

text \<open>The first state of a codec, over a world \<open>w\<close>.\<close>

definition new_recorder :: "'w \<Rightarrow> ('b, 'w) recorder" where
  "new_recorder w = \<lparr>world = w, currPacket = UNKNOWN_TYPE, codecState = CODEC_STATE_FIXED_HEADER,
    bufferOffset = 0, headerFlags = 0, headerData = None, storeRemainLen = replicate 4 0,
    remainLenIndex = 0, received = []\<rparr>"

lemma new_recorder_idle [simp]: "idle (new_recorder w)"
  by (simp add: idle_def new_recorder_def)

lemma record_packet_well_behaved:
  "well_behaved live (\<lambda>n _. n = base) (Some (record_packet api))"
  by (auto simp: well_behaved_def record_packet_def same_codec_def owned_def)

theorem bytesReceived_safe_witness:
  "\<exists>r s'. mqtt_codec_bytesReceived list_buffer (Some (record_packet list_buffer))
      (Some (new_recorder 0)) (Some [0x30, 2, 1, 9, 0xFF]) 5 = Some (r, Some s') \<and>
    codec_inv list_buffer s' \<and> owned id s' = 0"
  by (rule bytesReceived_safe [OF list_buffer_laws record_packet_well_behaved])
    (simp_all add: idle_inv, simp_all add: owned_def new_recorder_def)

text \<open>The callback after one packet: it is noted, and the codec is ready for the next.\<close>

lemma complete_recorded:
  assumes laws: "buffer_laws api live" and "storeRemainLen s = replicate 4 0" "remainLenIndex s = 0"
  obtains s' where "completePacketData api (Some (record_packet api)) s = Some s'" "idle s'"
    "received s' = received s @ [(currPacket s, headerFlags s, map_option (buffer_bytes api) (headerData s))]"
    "live (world s') = owned live s"
proof
  let ?s = "s\<lparr>received := received s @ [(currPacket s, headerFlags s, map_option (buffer_bytes api) (headerData s))],
    currPacket := UNKNOWN_TYPE, codecState := CODEC_STATE_FIXED_HEADER, headerFlags := 0,
    world := BUFFER_delete api (headerData s) (world s), headerData := None\<rparr>"
  show "completePacketData api (Some (record_packet api)) s = Some ?s"
    by (simp add: completePacketData_def record_packet_def)
  show "idle ?s" using assms by (simp add: idle_def)
  show "live (world ?s) = owned live s"
    using buffer_delete_live [OF laws] by (cases "headerData s") (simp_all add: owned_def)
qed simp

lemma packet_recorded:
  assumes laws: "buffer_laws api live" and total: "buffer_total api"
    and idle: "idle s" and ok: "packet_ok p"
  obtains s' where "idle s'" "received s' = received s @ [delivered p]"
    "live (world s') = live (world s)"
    "\<And>rest k. receive_loop api (Some (record_packet api)) (wire [p] @ rest) (length (wire [p]) + k) s
      = receive_loop api (Some (record_packet api)) rest k s'"
proof -
  obtain t flags body where p: "p = (t, flags, body)" by (cases p)
  show thesis
  proof (cases "t = PINGRESP_TYPE")
    case True
    let ?s = "s\<lparr>currPacket := PINGRESP_TYPE, headerFlags := 0, codecState := CODEC_STATE_VAR_HEADER\<rparr>"
    have fb: "flags = 0" "body = []"
      using ok p True by (simp_all add: packet_ok_def header_ok_def)
    have sl: "storeRemainLen ?s = replicate 4 0" "remainLenIndex ?s = 0"
      using idle by (simp_all add: idle_def)
    obtain s' where "completePacketData api (Some (record_packet api)) ?s = Some s'" "idle s'"
      "received s' = received ?s @ [(currPacket ?s, headerFlags ?s, map_option (buffer_bytes api) (headerData ?s))]"
      "live (world s') = owned live ?s"
      by (rule complete_recorded [OF laws sl])
    then show thesis
      using that [of s'] pingresp_received [OF idle, of api "Some (record_packet api)"] p True fb idle
      by (simp add: wire_def delivered_def idle_def owned_def)
  next
    case False
    obtain b w where b: "buffer_bytes api b = body" "live w = live (world s) + 1"
      and run: "\<And>rest k. receive_loop api (Some (record_packet api)) (frame t flags body @ rest)
          (length (frame t flags body) + k) s =
        Option.bind (completePacketData api (Some (record_packet api)) (s\<lparr>currPacket := t,
          headerFlags := ucast flags, codecState := CODEC_STATE_VAR_HEADER,
          bufferOffset := length body, headerData := Some b, world := w\<rparr>))
        (receive_loop api (Some (record_packet api)) rest k)"
      using frame_received [OF laws total idle ok [unfolded p] False, of "Some (record_packet api)"]
      by blast
    let ?s = "s\<lparr>currPacket := t, headerFlags := ucast flags, codecState := CODEC_STATE_VAR_HEADER,
          bufferOffset := length body, headerData := Some b, world := w\<rparr>"
    have sl: "storeRemainLen ?s = replicate 4 0" "remainLenIndex ?s = 0"
      using idle by (simp_all add: idle_def)
    obtain s' where "completePacketData api (Some (record_packet api)) ?s = Some s'" "idle s'"
      "received s' = received ?s @ [(currPacket ?s, headerFlags ?s, map_option (buffer_bytes api) (headerData ?s))]"
      "live (world s') = owned live ?s"
      by (rule complete_recorded [OF laws sl])
    then show thesis
      using that [of s'] run p False b by (simp add: wire_def delivered_def owned_def)
  qed
qed

lemma stream_recorded:
  assumes laws: "buffer_laws api live" and total: "buffer_total api"
  shows "idle s \<Longrightarrow> \<forall>p \<in> set ps. packet_ok p \<Longrightarrow>
    \<exists>s'. receive_loop api (Some (record_packet api)) (wire ps) (length (wire ps)) s = Some (ZERO, s') \<and>
      idle s' \<and> received s' = received s @ map delivered ps \<and> live (world s') = live (world s)"
proof (induction ps arbitrary: s)
  case Nil
  then show ?case by (simp add: wire_def)
next
  case (Cons p ps)
  obtain s1 where s1: "idle s1" "received s1 = received s @ [delivered p]"
    "live (world s1) = live (world s)"
    "\<And>rest k. receive_loop api (Some (record_packet api)) (wire [p] @ rest) (length (wire [p]) + k) s
      = receive_loop api (Some (record_packet api)) rest k s1"
    using packet_recorded [OF laws total Cons.prems(1), of p] Cons.prems(2) by auto
  have "wire (p # ps) = wire [p] @ wire ps" by (simp add: wire_def)
  then show ?case
    using Cons.IH [OF s1(1)] Cons.prems(2) s1(2,3) s1(4) [of "wire ps" "length (wire ps)"] by auto
qed

section \<open>Chunks\<close>

text \<open>The transport hands over its bytes in chunks; a call that fails is the last.\<close>

fun receive_chunks ::
  "('b, 'w) buffer_api \<Rightarrow> ('b, ('b, 'w, 'z) codec_scheme) packet_cb option \<Rightarrow> byte list list
    \<Rightarrow> ('b, 'w, 'z) codec_scheme option \<Rightarrow> (c_result \<times> ('b, 'w, 'z) codec_scheme option) option" where
  "receive_chunks api pc [] handle = Some (ZERO, handle)"
| "receive_chunks api pc (c # cs) handle = do {
     (result, handle) \<leftarrow> mqtt_codec_bytesReceived api pc handle (Some c) (length c);
     if result = ZERO then receive_chunks api pc cs handle else Some (result, handle)
   }"

lemma receive_loop_append:
  "receive_loop api pc (xs @ ys) (length xs + n) s =
    Option.bind (receive_loop api pc xs (length xs) s)
      (\<lambda>(r, s). if r = ZERO then receive_loop api pc ys n s else Some (r, s))"
proof (induction xs arbitrary: s)
  case Nil
  then show ?case by simp
next
  case (Cons x xs)
  show ?case
  proof (cases "receive_byte api pc x s")
    case None
    then show ?thesis by simp
  next
    case (Some q)
    then show ?thesis by (cases q; cases "fst q") (simp_all add: Cons.IH)
  qed
qed

lemma receive_chunks_concat:
  "[] \<notin> set cs \<Longrightarrow> receive_chunks api pc cs (Some s) =
    map_option (\<lambda>(r, s). (r, Some s)) (receive_loop api pc (concat cs) (length (concat cs)) s)"
proof (induction cs arbitrary: s)
  case Nil
  then show ?case by simp
next
  case (Cons c cs)
  have c: "length c \<noteq> 0" using Cons.prems by auto
  show ?case
  proof (cases "receive_loop api pc c (length c) s")
    case None
    then show ?thesis using c by (simp add: mqtt_codec_bytesReceived_def receive_loop_append)
  next
    case (Some q)
    then show ?thesis using c Cons
      by (cases q; cases "fst q") (simp_all add: mqtt_codec_bytesReceived_def receive_loop_append)
  qed
qed

text \<open>
  C12. What the decoder does depends on the bytes alone: two ways to cut the same bytes into nonempty
  chunks give the same calls of the callback, the same state and the same result, whatever the
  bytes and the callback are.
\<close>

theorem chunking_irrelevant:
  assumes "concat cs = concat ds" and "[] \<notin> set cs" and "[] \<notin> set ds"
  shows "receive_chunks api pc cs (Some s) = receive_chunks api pc ds (Some s)"
  using assms by (simp add: receive_chunks_concat)

theorem chunking_irrelevant_witness:
  "receive_chunks list_buffer (Some (record_packet list_buffer)) [[0xD0], [0, 0xF0]] (Some (new_recorder 0))
    = receive_chunks list_buffer (Some (record_packet list_buffer)) [[0xD0, 0, 0xF0]] (Some (new_recorder 0))"
  by (rule chunking_irrelevant) simp_all

text \<open>
  C4. For a stream of well-formed packets (each with a body below 2 MB), however it is cut into
  chunks, \<open>mqtt_codec_bytesReceived\<close> accepts every byte and calls the callback once per packet, in
  order, with its type, its flags and exactly its body; behind the last packet the codec is ready for
  the next, and every buffer it allocated is freed.
\<close>

theorem stream_delivered:
  assumes laws: "buffer_laws api live" and total: "buffer_total api" and idle: "idle s"
    and ok: "\<forall>p \<in> set ps. packet_ok p" and cut: "concat cs = wire ps" "[] \<notin> set cs"
  shows "\<exists>s'. receive_chunks api (Some (record_packet api)) cs (Some s) = Some (ZERO, Some s') \<and>
    idle s' \<and> received s' = received s @ map delivered ps \<and> live (world s') = live (world s)"
  using stream_recorded [OF laws total idle ok] cut by (auto simp: receive_chunks_concat)

theorem stream_delivered_witness:
  "\<exists>s'. receive_chunks list_buffer (Some (record_packet list_buffer))
      [[0x31, 4, 0], [1, 0x61, 5, 0xD0], [0]] (Some (new_recorder 0)) = Some (ZERO, Some s') \<and>
    idle s' \<and> received s' = [(PUBLISH_TYPE, 1, Some [0, 1, 0x61, 5]), (PINGRESP_TYPE, 0, None)] \<and>
    world s' = 0"
  using stream_delivered [OF list_buffer_laws list_buffer_total new_recorder_idle,
      of "[(PUBLISH_TYPE, 1, [0, 1, 0x61, 5]), (PINGRESP_TYPE, 0, [])]"
        "[[0x31, 4, 0], [1, 0x61, 5, 0xD0], [0]]" 0]
  by (simp add: packet_ok_def header_ok_def wire_types_def wire_def frame_def packet_byte_def
      delivered_def new_recorder_def)

section \<open>What is refused\<close>

lemma high_nibble: "(x :: byte) AND 0xF0 = 16 * (x div 16)"
proof -
  have m: "(0xF0 :: byte) = push_bit 4 (mask 4)" by (simp add: mask_eq_exp_minus_1)
  have "x AND 0xF0 = push_bit 4 (drop_bit 4 x)"
    unfolding m by (rule bit_word_eqI) (auto simp: bit_simps)
  then show ?thesis by (simp add: push_bit_eq_mult drop_bit_eq_div)
qed

lemma high_nibble_cases:
  obtains k where "k \<in> set [0..<16]" "(x :: byte) AND 0xF0 = of_nat (16 * k)"
proof
  show "unat (x div 16) \<in> set [0..<16]"
    using unsigned_less [of x, where ?'a = nat] by (simp add: unat_div)
  show "x AND 0xF0 = of_nat (16 * unat (x div 16))"
    by (simp add: high_nibble)
qed

text \<open>Each of the sixteen high nibbles is an enumerator; two of them are not packets.\<close>

lemma packet_of_byte_nibbles:
  "list_all (\<lambda>k. case packet_of_code (uint (of_nat (16 * k) :: byte)) of
      None \<Rightarrow> False
    | Some t \<Rightarrow> packet_byte t = of_nat (16 * k) \<and>
        t \<in> set (PACKET_INVALID1_TYPE # PACKET_INVALID2_TYPE # wire_types)) [0..<16]"
  by (simp add: upt_rec packet_of_code_def all_packet_types_def packet_byte_def wire_types_def)

lemma packet_of_byte_cases:
  "packet_of_byte x \<in> set (PACKET_INVALID1_TYPE # PACKET_INVALID2_TYPE # wire_types)"
  "packet_byte (packet_of_byte x) = x AND 0xF0"
proof -
  obtain k where k: "k \<in> set [0..<16]" "x AND 0xF0 = of_nat (16 * k)" by (rule high_nibble_cases)
  have "case packet_of_code (uint (x AND 0xF0)) of None \<Rightarrow> False
    | Some t \<Rightarrow> packet_byte t = x AND 0xF0 \<and>
        t \<in> set (PACKET_INVALID1_TYPE # PACKET_INVALID2_TYPE # wire_types)"
    unfolding k(2) by (rule packet_of_byte_nibbles [unfolded list_all_iff, rule_format, OF k(1)])
  then show "packet_of_byte x \<in> set (PACKET_INVALID1_TYPE # PACKET_INVALID2_TYPE # wire_types)"
    "packet_byte (packet_of_byte x) = x AND 0xF0"
    by (auto simp: packet_of_byte_def split: option.splits)
qed

lemma low_nibble_less: "(x :: byte) AND 0x0F < 16"
  using and_mask_less' [of 4 x] by (simp add: mask_eq_exp_minus_1)

lemma ucast_up_eq: "(ucast (f :: byte) :: c_int) = ucast g \<longleftrightarrow> f = g"
proof
  assume "(ucast f :: c_int) = ucast g"
  then have "(ucast (ucast f :: c_int) :: byte) = ucast (ucast g :: c_int)" by (rule arg_cong)
  moreover have "(ucast (ucast h :: c_int) :: byte) = h" for h
    by (rule bit_word_eqI) (auto simp: bit_simps)
  ultimately show "f = g" by simp
qed simp

lemma reject_header_ok:
  assumes "t \<in> set (PACKET_INVALID1_TYPE # PACKET_INVALID2_TYPE # wire_types)" and "f < 16"
  shows "reject_header t (ucast (f :: byte)) \<longleftrightarrow> \<not> header_ok t f"
proof -
  have "f AND 0x0F = f"
    using less_mask_eq [of f 4] assms(2) by (simp add: mask_eq_exp_minus_1)
  moreover have "ucast f AND (0x0F :: c_int) = ucast (f AND 0x0F)"
    by (simp add: unsigned_and_eq)
  ultimately have low: "ucast f AND (0x0F :: c_int) = ucast f" by simp
  have up: "ucast f = (0 :: c_int) \<longleftrightarrow> f = 0" "ucast f = (2 :: c_int) \<longleftrightarrow> f = 2"
    using ucast_up_eq [of f 0] ucast_up_eq [of f 2] by simp_all
  show ?thesis
    using assms by (auto simp: reject_header_def header_ok_def wire_types_def low up)
qed

text \<open>
  The first bytes MQTT 3.1.1 allows (its sections 2.2.1, 2.2.2 and 3.3.1): a type with its reserved
  flags, and for PUBLISH the flags DUP, QoS and RETAIN with a QoS of at most 2 and no DUP at QoS 0.
  The second list is what the decoder takes beyond them.
\<close>

definition mqtt_first_bytes :: "byte list" where
  "mqtt_first_bytes = [0x10, 0x20, 0x30, 0x31, 0x32, 0x33, 0x34, 0x35, 0x3A, 0x3B, 0x3C, 0x3D,
    0x40, 0x50, 0x62, 0x70, 0x82, 0x90, 0xA2, 0xB0, 0xC0, 0xD0, 0xE0]"

definition stray_first_bytes :: "byte list" where
  "stray_first_bytes = [0x36, 0x37, 0x38, 0x39, 0x3E, 0x3F]"

definition nibbles :: "byte list" where
  "nibbles = [0x0, 0x1, 0x2, 0x3, 0x4, 0x5, 0x6, 0x7, 0x8, 0x9, 0xA, 0xB, 0xC, 0xD, 0xE, 0xF]"

lemma low_nibble_listed: "(x :: byte) AND 0x0F \<in> set nibbles"
proof -
  obtain k where "k < 16" "x AND 0x0F = of_nat k" by (rule nibble_cases [OF low_nibble_less])
  then show ?thesis by (simp add: nibbles_def less_Suc_eq numeral_eq_Suc) auto
qed

lemma first_bytes_table:
  "list_all (\<lambda>f. header_ok t f = (packet_byte t OR f \<in> set mqtt_first_bytes \<union> set stray_first_bytes))
    nibbles"
  if "t \<in> set (PACKET_INVALID1_TYPE # PACKET_INVALID2_TYPE # wire_types)"
  by (insert that, cases t) (simp_all add: nibbles_def mqtt_first_bytes_def stray_first_bytes_def header_ok_def
      wire_types_def packet_byte_def)

lemma header_ok_bytes:
  "header_ok (packet_of_byte x) (x AND 0x0F) \<longleftrightarrow> x \<in> set mqtt_first_bytes \<union> set stray_first_bytes"
proof -
  have full: "(0xF0 OR 0x0F :: byte) = - 1" by simp
  have "(x AND 0xF0) OR (x AND 0x0F) = x AND (0xF0 OR 0x0F)"
    by (rule bit.conj_disj_distrib [symmetric])
  also have "\<dots> = x" unfolding full by simp
  finally have "packet_byte (packet_of_byte x) OR (x AND 0x0F) = x"
    by (simp add: packet_of_byte_cases(2))
  then show ?thesis
    using first_bytes_table [OF packet_of_byte_cases(1), of x, unfolded list_all_iff, rule_format,
        OF low_nibble_listed, of x] by simp
qed

text \<open>
  C29. For each of the 256 first bytes of a packet: the decoder takes those MQTT allows and six more, the
  PUBLISH bytes with both bits of the quality of service set (\<open>0x36\<close>, \<open>0x37\<close>, \<open>0x3E\<close>, \<open>0x3F\<close>) or
  marked as duplicates at quality of service 0 (\<open>0x38\<close>, \<open>0x39\<close>), which MQTT forbids; it then knows
  type and flags.  On any other byte it fails, with the packet type marked as an error and nothing
  else changed.
\<close>

theorem first_byte_decision:
  assumes idle: "idle s"
  shows "mqtt_codec_bytesReceived api pc (Some s) (Some [x]) 1 =
    (let t = packet_of_byte x; flags = x AND 0x0F in
     if x \<in> set mqtt_first_bytes \<or> x \<in> set stray_first_bytes
     then Some (ZERO, Some (s\<lparr>currPacket := t, headerFlags := ucast flags\<rparr>))
     else Some (MU_FAILURE, Some (s\<lparr>currPacket := PACKET_TYPE_ERROR, headerFlags := ucast flags\<rparr>)))"
proof -
  have "packet_of_byte (x AND 0xF0) = packet_of_byte x"
    by (simp add: packet_of_byte_def and.assoc)
  then have "processControlPacketType x = (packet_of_byte x, ucast (x AND 0x0F))"
    by (simp add: processControlPacketType_def)
  then show ?thesis
    using idle reject_header_ok [OF packet_of_byte_cases(1) low_nibble_less, of x x] header_ok_bytes [of x]
    by (simp add: mqtt_codec_bytesReceived_def receive_byte_def idle_def fixed_header_byte_def Let_def)
qed

theorem first_byte_decision_witness:
  "mqtt_codec_bytesReceived list_buffer None (Some (new_recorder 0)) (Some [0x41]) 1 =
      Some (MU_FAILURE, Some ((new_recorder 0)\<lparr>currPacket := PACKET_TYPE_ERROR, headerFlags := 1\<rparr>)) \<and>
    mqtt_codec_bytesReceived list_buffer None (Some (new_recorder 0)) (Some [0x36]) 1 =
      Some (ZERO, Some ((new_recorder 0)\<lparr>currPacket := PUBLISH_TYPE, headerFlags := 6\<rparr>))"
  using first_byte_decision [OF new_recorder_idle, of list_buffer None 0 "0x41"]
    first_byte_decision [OF new_recorder_idle, of list_buffer None 0 "0x36"]
  by (simp add: packet_of_byte_def packet_of_code_def all_packet_types_def Let_def
      mqtt_first_bytes_def stray_first_bytes_def)

lemma continuation_received:
  "currPacket s \<noteq> UNKNOWN_TYPE \<Longrightarrow> currPacket s \<noteq> PINGRESP_TYPE \<Longrightarrow>
   codecState s = CODEC_STATE_FIXED_HEADER \<Longrightarrow> remainLenIndex s = length pre \<Longrightarrow>
   storeRemainLen s = pre @ replicate (4 - length pre) 0 \<Longrightarrow> length pre + length xs < 4 \<Longrightarrow>
   \<forall>x \<in> set xs. x AND 0x80 \<noteq> 0 \<Longrightarrow>
   receive_loop api pc (xs @ rest) (length xs + k) s = receive_loop api pc rest k
     (s\<lparr>storeRemainLen := (pre @ xs) @ replicate (4 - length (pre @ xs)) 0,
        remainLenIndex := length (pre @ xs)\<rparr>)"
proof (induction xs arbitrary: s pre)
  case Nil
  then show ?case by (cases s) simp
next
  case (Cons x xs)
  let ?s = "s\<lparr>storeRemainLen := (pre @ [x]) @ replicate (4 - length (pre @ [x])) 0,
    remainLenIndex := length (pre @ [x])\<rparr>"
  have "replicate (4 - length pre) (0::byte) = 0 # replicate (4 - Suc (length pre)) 0"
    using Cons.prems(6) by (cases "4 - length pre") (simp_all add: Suc_diff_Suc)
  then have "(storeRemainLen s)[remainLenIndex s := x] = (pre @ [x]) @ replicate (4 - length (pre @ [x])) 0"
    using Cons.prems(4,5) by (simp add: list_update_append)
  then have "prepareheaderDataInfo api x s = Some (ZERO, ?s)"
    using Cons.prems by (simp add: prepareheaderDataInfo_def Let_def byte_high_bit)
  then have "receive_byte api pc x s = Some (ZERO, ?s)"
    using Cons.prems by (simp add: receive_byte_def fixed_header_byte_def)
  moreover have "receive_loop api pc (xs @ rest) (length xs + k) ?s = receive_loop api pc rest k
     (?s\<lparr>storeRemainLen := ((pre @ [x]) @ xs) @ replicate (4 - length ((pre @ [x]) @ xs)) 0,
        remainLenIndex := length ((pre @ [x]) @ xs)\<rparr>)"
    using Cons.prems by (intro Cons.IH) simp_all
  ultimately show ?case by simp
qed

text \<open>The shape of a Remaining Length: continuation bytes, and a last one without the high bit.\<close>

lemma varint_shape:
  "\<exists>xs y. varint n = xs @ [y] \<and> (\<forall>x \<in> set xs. x AND 0x80 \<noteq> 0) \<and> y AND 0x80 = 0"
proof (induction n rule: varint.induct)
  case (1 n)
  show ?case
  proof (cases "n < 128")
    case True
    then show ?thesis using varint_first(2) [of n] by (intro exI [of _ "[]"]) simp
  next
    case False
    let ?x = "of_nat (n mod 128) OR 0x80 :: byte"
    have v: "varint n = ?x # varint (n div 128)" using False by (simp add: varint.simps [of n])
    then have "?x AND 0x80 \<noteq> 0" using varint_first(2) [of n] False by simp
    moreover obtain xs y where "varint (n div 128) = xs @ [y]" "\<forall>x \<in> set xs. x AND 0x80 \<noteq> 0"
      "y AND 0x80 = 0"
      using 1 False by blast
    ultimately show ?thesis using v by (intro exI [of _ "?x # xs"] exI [of _ y]) simp
  qed
qed

text \<open>
  C32. A packet whose body has 2 MB or more (so that its Remaining Length takes four bytes, which MQTT
  allows up to 268,435,455) is never received: the decoder fails on the fourth length byte, without
  having allocated anything or called the callback.
\<close>

theorem four_byte_length_refused:
  assumes idle: "idle s" and hdr: "header_ok t flags" and t: "t \<noteq> PINGRESP_TYPE"
    and n: "2097152 \<le> n" "n < 268435456"
  shows "\<exists>s'. mqtt_codec_bytesReceived api pc (Some s)
      (Some ((packet_byte t OR flags) # varint n)) (Suc (length (varint n))) = Some (MU_FAILURE, Some s') \<and>
    currPacket s' = PACKET_TYPE_ERROR \<and> world s' = world s \<and> codec.more s' = codec.more s"
proof -
  let ?s = "s\<lparr>currPacket := t, headerFlags := ucast flags\<rparr>"
  obtain xs y where v: "varint n = xs @ [y]" "\<forall>x \<in> set xs. x AND 0x80 \<noteq> 0" "y AND 0x80 = 0"
    using varint_shape by blast
  have "length (varint n) = 4"
    using length_varint_3 [of n] length_varint_4 [of n] n by auto
  then have len: "length xs = 3" using v by simp
  let ?t = "?s\<lparr>storeRemainLen := xs @ [0], remainLenIndex := 3\<rparr>"
  have run: "receive_loop api pc (varint n) 4 ?s = receive_loop api pc [y] 1 ?t"
    using continuation_received [of ?s "[]" xs api pc "[y]" 1] idle v len
      header_received(3) [OF hdr] t by (simp add: idle_def)
  have dec: "\<exists>t. remain_decode (xs @ [y]) 0 1 0 = Some (MU_FAILURE, t)"
    using remain_decode_varint [of "xs @ [y]" "[]" n "[]" 1 0] v len by simp
  then have "\<exists>s'. receive_loop api pc [y] 1 ?t = Some (MU_FAILURE, s') \<and>
    currPacket s' = PACKET_TYPE_ERROR \<and> world s' = world s \<and> codec.more s' = codec.more s"
    using idle len v(3) header_received(3) [OF hdr]
    by (auto simp: receive_byte_def idle_def fixed_header_byte_def prepareheaderDataInfo_def Let_def
        byte_high_bit nth_append list_update_append)
  then obtain s' where s': "receive_loop api pc [y] 1 ?t = Some (MU_FAILURE, s')"
    "currPacket s' = PACKET_TYPE_ERROR" "world s' = world s" "codec.more s' = codec.more s"
    by blast
  have "receive_loop api pc ((packet_byte t OR flags) # varint n) (Suc (length (varint n))) s
      = Some (MU_FAILURE, s')"
    unfolding receive_loop_Cons [OF receive_type_byte [OF idle hdr]] \<open>length (varint n) = 4\<close> run
    by (rule s')
  then show ?thesis
    using s' by (simp add: mqtt_codec_bytesReceived_def del: receive_loop.simps)
qed

theorem four_byte_length_refused_witness:
  "\<exists>s'. mqtt_codec_bytesReceived list_buffer None (Some (new_recorder 0))
      (Some ((packet_byte PUBLISH_TYPE OR 0) # varint 2097152)) (Suc (length (varint 2097152)))
      = Some (MU_FAILURE, Some s') \<and>
    currPacket s' = PACKET_TYPE_ERROR \<and> world s' = world (new_recorder 0 :: (byte list, int) recorder) \<and>
    codec.more s' = codec.more (new_recorder 0 :: (byte list, int) recorder)"
  by (rule four_byte_length_refused [OF new_recorder_idle])
    (simp_all add: header_ok_def wire_types_def)

text \<open>
  C31. A packet with an empty body other than PINGRESP, which MQTT allows for PINGREQ and DISCONNECT,
  is never completed: the callback is not called behind its two bytes, the decoder swallows the
  first byte of the packet behind it, and fails on the second.
\<close>

theorem empty_packet_wedges:
  assumes idle: "idle s" and hdr: "header_ok t flags" and t: "t \<noteq> PINGRESP_TYPE"
  shows "mqtt_codec_bytesReceived api pc (Some s) (Some (frame t flags [])) 2 =
      Some (ZERO, Some (s\<lparr>currPacket := t, headerFlags := ucast flags,
        codecState := CODEC_STATE_VAR_HEADER\<rparr>)) \<and>
    mqtt_codec_bytesReceived api pc (Some s) (Some (frame t flags [] @ [x, y])) 4 =
      Some (MU_FAILURE, Some (s\<lparr>currPacket := PACKET_TYPE_ERROR, headerFlags := ucast flags,
        codecState := CODEC_STATE_PAYLOAD\<rparr>))"
proof -
  let ?s = "s\<lparr>currPacket := t, headerFlags := ucast flags\<rparr>"
  have "remain_decode [0, 0, 0, 0] 0 1 0 = Some (ZERO, 0)"
    by (subst remain_decode.simps) (simp add: Let_def MAX_3_DIGIT_PACKET_SIZE_def)
  then have "prepareheaderDataInfo api 0 ?s = Some (ZERO, ?s\<lparr>codecState := CODEC_STATE_VAR_HEADER\<rparr>)"
    using idle by (cases s) (simp add: prepareheaderDataInfo_def idle_def Let_def numeral_eq_Suc)
  then have two: "receive_byte api pc 0 ?s = Some (ZERO, ?s\<lparr>codecState := CODEC_STATE_VAR_HEADER\<rparr>)"
    using idle header_received(3) [OF hdr] t
    by (simp add: receive_byte_def idle_def fixed_header_byte_def)
  have run: "receive_loop api pc (frame t flags [] @ xs) (Suc (Suc n)) s =
      receive_loop api pc xs n (?s\<lparr>codecState := CODEC_STATE_VAR_HEADER\<rparr>)" for xs n
    using receive_loop_Cons [OF receive_type_byte [OF idle hdr]] two by (simp add: frame_def)
  show ?thesis
    using run [of "[]" 0] run [of "[x, y]" 2] idle
    by (simp add: mqtt_codec_bytesReceived_def numeral_eq_Suc receive_byte_def idle_def var_header_byte_def)
qed

theorem empty_packet_wedges_witness:
  "mqtt_codec_bytesReceived list_buffer None (Some (new_recorder 0)) (Some (frame DISCONNECT_TYPE 0 [] @ [0xD0, 0])) 4 =
      Some (MU_FAILURE, Some ((new_recorder 0)\<lparr>currPacket := PACKET_TYPE_ERROR, headerFlags := 0,
        codecState := CODEC_STATE_PAYLOAD\<rparr>))"
  using empty_packet_wedges [OF new_recorder_idle, of DISCONNECT_TYPE 0 list_buffer None 0 "0xD0" 0]
  by (simp add: header_ok_def wire_types_def)

text \<open>
  C33. A PINGRESP with a nonempty body is refused, but the buffer for that body is left in
  \<open>headerData\<close>; \<open>mqtt_codec_reset\<close>, with which the client recovers from the failure, forgets it
  without freeing it.
\<close>

theorem reset_leaks:
  assumes laws: "buffer_laws api live" and total: "buffer_total api" and idle: "idle s"
    and n: "0 < n" "n < 128"
  shows "\<exists>s' t. mqtt_codec_bytesReceived api pc (Some s)
      (Some [packet_byte PINGRESP_TYPE, of_nat n]) 2 = Some (MU_FAILURE, Some s') \<and>
    mqtt_codec_reset (Some s') = Some t \<and> idle t \<and> live (world t) = live (world s) + 1"
proof -
  let ?s = "s\<lparr>currPacket := PINGRESP_TYPE, headerFlags := 0\<rparr>"
  have "header_ok PINGRESP_TYPE 0" by (simp add: header_ok_def wire_types_def)
  from receive_type_byte [OF idle this, of api pc]
  have one: "receive_byte api pc (packet_byte PINGRESP_TYPE) s = Some (ZERO, ?s)" by simp
  have store: "(storeRemainLen ?s)[remainLenIndex ?s := of_nat n] = [] @ varint n @ [0, 0, 0]"
    using idle n by (simp add: idle_def numeral_eq_Suc)
  have dec: "remain_decode ((storeRemainLen ?s)[remainLenIndex ?s := of_nat n]) 0 1 0 = Some (ZERO, int n)"
    using remain_decode_varint [OF refl zero_less_one, where pre = "[]" and n = n and post = "[0, 0, 0]" and tot = 0] n
    unfolding store by simp
  have nz: "(of_nat n :: byte) \<noteq> 0" "(of_nat n :: byte) AND 0x80 = 0"
    using byte_of_nat [of n] n varint_first(2) [of n] by (auto simp: word_uint_eq_iff)
  obtain b w where p: "prepareheaderDataInfo api (of_nat n) ?s = Some (ZERO, opened b w ?s)"
      "live w = live (world ?s) + 1"
    by (rule prepare_opens [OF laws total dec]) (use idle n nz in \<open>auto simp: idle_def\<close>)
  have "receive_byte api pc (of_nat n) ?s
      = Some (MU_FAILURE, (opened b w ?s)\<lparr>currPacket := PACKET_TYPE_ERROR\<rparr>)"
    using p(1) idle nz by (simp add: receive_byte_def fixed_header_byte_def idle_def)
  then have "receive_loop api pc [packet_byte PINGRESP_TYPE, of_nat n] 2 s
      = Some (MU_FAILURE, (opened b w ?s)\<lparr>currPacket := PACKET_TYPE_ERROR\<rparr>)"
    using one by (simp add: numeral_eq_Suc)
  then show ?thesis
    using p(2) by (simp add: mqtt_codec_bytesReceived_def mqtt_codec_reset_def)
      (simp add: clear_codec_data_def)
qed

definition reentering :: "('b, 'w) buffer_api \<Rightarrow> byte \<Rightarrow> ('b, ('b, 'w, 'z) codec_scheme) packet_cb" where
  "reentering api x t flags h s = do {
     (r, handle) \<leftarrow> mqtt_codec_bytesReceived api None (Some s) (Some [x]) 1;
     handle
   }"

theorem reset_leaks_witness:
  "\<exists>s' t. mqtt_codec_bytesReceived list_buffer None (Some (new_recorder 0))
      (Some [packet_byte PINGRESP_TYPE, of_nat 5]) 2 = Some (MU_FAILURE, Some s') \<and>
    mqtt_codec_reset (Some s') = Some t \<and> idle t \<and> world t = 1"
  using reset_leaks [OF list_buffer_laws list_buffer_total new_recorder_idle, of 5 None 0]
  by (simp add: new_recorder_def)

text \<open>
  C30. If more bytes reach the decoder from inside the completion callback (as when the callback
  runs the transport), the decoder stores the first of them behind the end of the block of the packet
  it is handing over.
\<close>

theorem reentry_overflows:
  assumes laws: "buffer_laws api live" and total: "buffer_total api" and idle: "idle s"
    and ok: "packet_ok (t, flags, body)" and t: "t \<noteq> PINGRESP_TYPE"
  shows "mqtt_codec_bytesReceived api (Some (reentering api x)) (Some s)
    (Some (frame t flags body)) (length (frame t flags body)) = None"
proof -
  obtain b w where b: "buffer_bytes api b = body"
    and run: "receive_loop api (Some (reentering api x)) (frame t flags body @ []) (length (frame t flags body) + 0) s =
        Option.bind (completePacketData api (Some (reentering api x)) (s\<lparr>currPacket := t,
          headerFlags := ucast flags, codecState := CODEC_STATE_VAR_HEADER,
          bufferOffset := length body, headerData := Some b, world := w\<rparr>))
        (receive_loop api (Some (reentering api x)) [] 0)"
    using frame_received [OF laws total idle ok t, of "Some (reentering api x)"] by metis
  have "body \<noteq> []" using ok t by (simp add: packet_ok_def)
  then have "BUFFER_u_char api b = Some body" using b by auto
  then have "completePacketData api (Some (reentering api x)) (s\<lparr>currPacket := t,
          headerFlags := ucast flags, codecState := CODEC_STATE_VAR_HEADER,
          bufferOffset := length body, headerData := Some b, world := w\<rparr>) = None"
    by (simp add: completePacketData_def reentering_def mqtt_codec_bytesReceived_def
        receive_byte_def var_header_byte_def put_byte_def)
  then show ?thesis
    using run by (simp add: mqtt_codec_bytesReceived_def frame_def)
qed

theorem reentry_overflows_witness:
  "mqtt_codec_bytesReceived list_buffer (Some (reentering list_buffer 0xD0)) (Some (new_recorder 0))
    (Some (frame PUBACK_TYPE 0 [0, 7])) (length (frame PUBACK_TYPE 0 [0, 7])) = None"
  by (rule reentry_overflows [OF list_buffer_laws list_buffer_total new_recorder_idle])
    (simp_all add: packet_ok_def header_ok_def wire_types_def)

section \<open>Life cycle\<close>

text \<open>
  C34. \<open>mqtt_codec_create\<close> gives a codec that waits for the first byte of a packet, or null when the
  allocation fails.  Whatever it then receives, and even if an allocation fails in the middle of a
  packet, \<open>mqtt_codec_destroy\<close> frees the instance and the packet being filled, so that everything
  allocated since the creation is released.
\<close>

theorem codec_life_cycle:
  assumes laws: "buffer_laws api live" and heap: "heap_laws h live" and sz: "sz \<le> length bytes"
  shows "case fst (mqtt_codec_create h fresh w) of
      None \<Rightarrow> live (snd (mqtt_codec_create h fresh w)) = live w
    | Some s \<Rightarrow> idle s \<and>
        (\<exists>r s'. mqtt_codec_bytesReceived api (Some (record_packet api)) (Some s) (Some bytes) sz
            = Some (r, Some s') \<and>
          live (mqtt_codec_destroy api h (Some s') (world s')) = live w)"
proof -
  obtain handle w1 where create: "mqtt_codec_create h fresh w = (handle, w1)" by fastforce
  show ?thesis
  proof (cases handle)
    case None
    then show ?thesis using create heap_malloc [OF heap]
      by (auto simp: mqtt_codec_create_def split: prod.splits bool.splits)
  next
    case (Some s)
    then have s: "s = (clear_codec_data fresh)\<lparr>world := w1\<rparr>" "live w1 = live w + 1"
      using create heap_malloc [OF heap]
      by (auto simp: mqtt_codec_create_def split: prod.splits bool.splits)
    then have i: "idle s" "owned live s = live w + 1"
      by (simp_all add: idle_def owned_def clear_codec_data_def)
    obtain r s' where s': "mqtt_codec_bytesReceived api (Some (record_packet api)) (Some s) (Some bytes) sz
        = Some (r, Some s')" "owned live s' = live w + 1"
      using bytesReceived_loop_safe [OF laws record_packet_well_behaved [where base = "live w + 1"]
          idle_inv [OF i(1)] i(2) sz] by blast
    moreover have "live (mqtt_codec_destroy api h (Some s') (world s')) = live w"
      using s'(2) buffer_delete_live [OF laws] heap
      by (cases "headerData s'") (simp_all add: mqtt_codec_destroy_def owned_def)
    ultimately show ?thesis using Some i(1) create by auto
  qed
qed

theorem codec_life_cycle_witness:
  "case fst (mqtt_codec_create count_heap (new_recorder 0) 0) of
      None \<Rightarrow> snd (mqtt_codec_create count_heap (new_recorder 0 :: (byte list, int) recorder) 0) = 0
    | Some s \<Rightarrow> idle s \<and>
        (\<exists>r s'. mqtt_codec_bytesReceived list_buffer (Some (record_packet list_buffer)) (Some s)
            (Some [0x30, 9, 1]) 3 = Some (r, Some s') \<and>
          mqtt_codec_destroy list_buffer count_heap (Some s') (world s') = 0)"
  using codec_life_cycle [OF list_buffer_laws count_heap_laws, of 3 "[0x30, 9, 1]" "new_recorder 0" 0]
  unfolding id_apply by simp

end
