(* ===== verification/Codec_Roundtrip.thy ===== *)
theory Codec_Roundtrip
  imports Codec_Packets Codec_Stream
begin

text \<open>
  The encoder against the decoder: the bytes of a packet the library builds, sent to the library,
  are delivered as that packet.
\<close>

section \<open>Encoders of packets the decoder takes\<close>

locale packet_encoder =
  fixes encode :: "('b, 'w) buffer_api \<Rightarrow> 'w \<Rightarrow> ('b option \<times> 'w) option"
    and p :: packet and valid :: bool
  assumes encodes: "valid \<Longrightarrow> buffer_laws api live \<Longrightarrow> encodes api live w (wire [p]) (encode api w)"
    and wire_ok: "valid \<Longrightarrow> packet_ok p"
begin

lemma delivered:
  assumes "valid" and laws: "buffer_laws api live" and total: "buffer_total api"
    and idle: "idle (s :: ('b, 'w) recorder)"
  shows "\<exists>b w'. encode api w = Some (Some b, w') \<and>
    (\<forall>cs. concat cs = buffer_bytes api b \<longrightarrow> [] \<notin> set cs \<longrightarrow>
      (\<exists>s'. receive_chunks api (Some (record_packet api)) cs (Some s) = Some (ZERO, Some s') \<and>
        idle s' \<and> received s' = received s @ [delivered p]))"
proof -
  have ok: "\<forall>q \<in> set [p]. packet_ok q" using wire_ok [OF assms(1)] by simp
  have "encodes api live w (wire [p]) (encode api w)"
    using encodes assms(1) laws by blast
  then obtain b w' where "encode api w = Some (Some b, w')" "buffer_bytes api b = wire [p]"
    using total by (auto simp: encodes_def split: option.splits)
  moreover have "\<exists>s'. receive_chunks api (Some (record_packet api)) cs (Some s) = Some (ZERO, Some s') \<and>
      idle s' \<and> received s' = received s @ [Codec_Stream.delivered p]"
    if "concat cs = wire [p]" "[] \<notin> set cs" for cs
    using stream_recorded [OF laws total idle ok] that by (auto simp: receive_chunks_concat)
  ultimately show ?thesis by simp
qed

end

lemma wire_single: "wire [(t, flags, body)] = frame t flags body"
  by (simp add: wire_def)

lemma be16_nonempty: "be16 v \<noteq> []" "utf s \<noteq> []"
  by (simp_all add: be16_def utf_def)

lemma body_nonempty:
  "publish_body qos packetId topic payload \<noteq> []" "subscribe_body packetId items \<noteq> []"
  "unsubscribe_body packetId topics \<noteq> []"
  by (simp_all add: publish_body_def subscribe_body_def unsubscribe_body_def be16_nonempty)

lemma publish_flags_ok: "header_ok PUBLISH_TYPE (publish_flags qos dup retain)"
  by (cases qos; cases dup; cases retain) (simp_all add: publish_flags_def header_ok_def wire_types_def)

interpretation publish: packet_encoder
  "\<lambda>api. mqtt_codec_publish api qos dup retain packetId (Some topic) (Some payload) (length payload)"
  "(PUBLISH_TYPE, publish_flags qos dup retain, publish_body qos packetId topic payload)"
  "length topic \<le> USHRT_MAX \<and> length (publish_body qos packetId topic payload) < 2097152"
  for qos dup retain packetId topic payload
  by unfold_locales
    (auto simp: wire_single packet_ok_def publish_flags_ok body_nonempty intro!: publish_encoding)

lemmas reply_defs = mqtt_codec_publishAck_def mqtt_codec_publishReceived_def
  mqtt_codec_publishRelease_def mqtt_codec_publishComplete_def

lemmas packet_forms = wire_single packet_ok_def header_ok_def wire_types_def be16_nonempty

interpretation puback: packet_encoder
  "\<lambda>api. mqtt_codec_publishAck api packetId" "(PUBACK_TYPE, 0, be16 packetId)" True for packetId
  by unfold_locales (simp_all add: packet_forms reply_defs constructPublishReply_encodes)

interpretation pubrec: packet_encoder
  "\<lambda>api. mqtt_codec_publishReceived api packetId" "(PUBREC_TYPE, 0, be16 packetId)" True for packetId
  by unfold_locales (simp_all add: packet_forms reply_defs constructPublishReply_encodes)

interpretation pubrel: packet_encoder
  "\<lambda>api. mqtt_codec_publishRelease api packetId" "(PUBREL_TYPE, 2, be16 packetId)" True for packetId
  by unfold_locales (simp_all add: packet_forms reply_defs constructPublishReply_encodes)

interpretation pubcomp: packet_encoder
  "\<lambda>api. mqtt_codec_publishComplete api packetId" "(PUBCOMP_TYPE, 0, be16 packetId)" True for packetId
  by unfold_locales (simp_all add: packet_forms reply_defs constructPublishReply_encodes)

interpretation subscribe: packet_encoder
  "\<lambda>api. mqtt_codec_subscribe api packetId (Some (sub_items items)) (length items)"
  "(SUBSCRIBE_TYPE, 2, subscribe_body packetId items)"
  "items \<noteq> [] \<and> (\<forall>i \<in> set items. length (fst i) \<le> USHRT_MAX) \<and>
    length (subscribe_body packetId items) < 2097152"
  for packetId items
  by unfold_locales
    (auto simp: packet_forms body_nonempty intro!: subscribe_encoding)

interpretation unsubscribe: packet_encoder
  "\<lambda>api. mqtt_codec_unsubscribe api packetId (Some (map Some topics)) (length topics)"
  "(UNSUBSCRIBE_TYPE, 2, unsubscribe_body packetId topics)"
  "topics \<noteq> [] \<and> (\<forall>s \<in> set topics. length s \<le> USHRT_MAX) \<and>
    length (unsubscribe_body packetId topics) < 2097152"
  for packetId topics
  by unfold_locales
    (auto simp: packet_forms body_nonempty intro!: unsubscribe_encoding)

section \<open>Round trips\<close>

text \<open>The bytes of what \<open>res\<close> holds, in any chunks, are delivered as the packet \<open>p\<close>.\<close>

definition arrives :: "('b, 'w) buffer_api \<Rightarrow> ('b option \<times> 'w) option \<Rightarrow> packet \<Rightarrow> ('b, 'w) recorder \<Rightarrow> bool" where
  "arrives api res p s \<longleftrightarrow> (\<exists>b w'. res = Some (Some b, w') \<and>
    (\<forall>cs. concat cs = buffer_bytes api b \<longrightarrow> [] \<notin> set cs \<longrightarrow>
      (\<exists>s'. receive_chunks api (Some (record_packet api)) cs (Some s) = Some (ZERO, Some s') \<and>
        idle s' \<and> received s' = received s @ [delivered p])))"

text \<open>
  C11. Round trip of a publication: the buffer \<open>mqtt_codec_publish\<close> returns, cut in any way and sent
  to the decoder, is delivered as one PUBLISH packet with the flags of the call and a body of topic,
  packet id and payload, as long as that body is below 2 MB.
\<close>

theorem publish_roundtrip:
  assumes "buffer_laws api live" and "buffer_total api" and "idle s"
    and "length topic \<le> USHRT_MAX" and "length (publish_body qos packetId topic payload) < 2097152"
  shows "arrives api
    (mqtt_codec_publish api qos dup retain packetId (Some topic) (Some payload) (length payload) w)
    (PUBLISH_TYPE, publish_flags qos dup retain, publish_body qos packetId topic payload) s"
  unfolding arrives_def using assms by (intro publish.delivered) simp_all

theorem publish_roundtrip_witness:
  "arrives list_buffer
    (mqtt_codec_publish list_buffer DELIVER_EXACTLY_ONCE True False 9 (Some [0x61]) (Some [1, 2, 3])
      (length [1 :: byte, 2, 3]) 0)
    (PUBLISH_TYPE, 0xC, [0, 1, 0x61, 0, 9, 1, 2, 3]) (new_recorder 5)"
  using publish_roundtrip [OF list_buffer_laws list_buffer_total new_recorder_idle [of 5],
      where topic = "[0x61]" and qos = DELIVER_EXACTLY_ONCE and packetId = 9 and payload = "[1, 2, 3]"
        and dup = True and retain = False and w = 0]
  by (simp add: USHRT_MAX_def publish_body_def publish_flags_def utf_def be16_def)

text \<open>
  C27. Round trip of the acknowledgements: each of the four packets the library answers a publication
  with is delivered with its own type and the packet id it was built for.
\<close>

theorem replies_roundtrip:
  assumes "buffer_laws api live" and "buffer_total api" and "idle s"
  shows "arrives api (mqtt_codec_publishAck api packetId w) (PUBACK_TYPE, 0, be16 packetId) s \<and>
    arrives api (mqtt_codec_publishReceived api packetId w) (PUBREC_TYPE, 0, be16 packetId) s \<and>
    arrives api (mqtt_codec_publishRelease api packetId w) (PUBREL_TYPE, 2, be16 packetId) s \<and>
    arrives api (mqtt_codec_publishComplete api packetId w) (PUBCOMP_TYPE, 0, be16 packetId) s"
  unfolding arrives_def
  by (intro conjI puback.delivered [OF TrueI assms] pubrec.delivered [OF TrueI assms]
      pubrel.delivered [OF TrueI assms] pubcomp.delivered [OF TrueI assms])

theorem replies_roundtrip_witness:
  "arrives list_buffer (mqtt_codec_publishRelease list_buffer 0x0102 0) (PUBREL_TYPE, 2, [1, 2]) (new_recorder 0)"
  using replies_roundtrip [OF list_buffer_laws list_buffer_total new_recorder_idle [of 0],
      where packetId = "0x0102" and w = 0]
  by (simp add: be16_def)

text \<open>
  C28. Round trip of the subscription requests: with topics of at most 65535 bytes and a body below
  2 MB, what \<open>mqtt_codec_subscribe\<close> and \<open>mqtt_codec_unsubscribe\<close> build is delivered as one packet
  that lists every topic in order.
\<close>

theorem subscriptions_roundtrip:
  assumes "buffer_laws api live" and "buffer_total api" and "idle s"
    and "items \<noteq> []" and "\<And>i. i \<in> set items \<Longrightarrow> length (fst i) \<le> USHRT_MAX"
    and "length (subscribe_body packetId items) < 2097152"
    and "topics \<noteq> []" and "\<And>t. t \<in> set topics \<Longrightarrow> length t \<le> USHRT_MAX"
    and "length (unsubscribe_body packetId topics) < 2097152"
  shows "arrives api (mqtt_codec_subscribe api packetId (Some (sub_items items)) (length items) w)
      (SUBSCRIBE_TYPE, 2, subscribe_body packetId items) s \<and>
    arrives api (mqtt_codec_unsubscribe api packetId (Some (map Some topics)) (length topics) w)
      (UNSUBSCRIBE_TYPE, 2, unsubscribe_body packetId topics) s"
  unfolding arrives_def using assms
  by (intro conjI subscribe.delivered unsubscribe.delivered) blast+

theorem subscriptions_roundtrip_witness:
  "arrives list_buffer (mqtt_codec_subscribe list_buffer 1
      (Some (sub_items [([0x61], DELIVER_AT_LEAST_ONCE)])) (length [([0x61 :: byte], DELIVER_AT_LEAST_ONCE)]) 0)
    (SUBSCRIBE_TYPE, 2, subscribe_body 1 [([0x61], DELIVER_AT_LEAST_ONCE)]) (new_recorder 0) \<and>
   arrives list_buffer (mqtt_codec_unsubscribe list_buffer 1 (Some (map Some [[0x61]])) (length [[0x61 :: byte]]) 0)
    (UNSUBSCRIBE_TYPE, 2, unsubscribe_body 1 [[0x61]]) (new_recorder 0)"
  by (rule subscriptions_roundtrip [OF list_buffer_laws list_buffer_total new_recorder_idle])
    (auto simp: USHRT_MAX_def subscribe_body_def subscribe_item_def unsubscribe_body_def)

end
