(* ===== verification/Umqtt_Message.thy ===== *)
theory Umqtt_Message
  imports Umqtt_Buffer
begin

text \<open>
  The messages of \<open>src/mqtt_message.c\<close>: a message owns a copy of its topic and payload, or (created
  in place) borrows both from its creator.  A handle is \<open>None\<close> for the null pointer; operations that
  change a message return it changed.
\<close>

section \<open>Model\<close>

record MQTT_MESSAGE =
  msg_packetId :: u16
  qosInfo :: QOS_VALUE
  msg_topicName :: "c_str option"
  appPayload :: APP_PAYLOAD
  const_topic_name :: "c_str option"
  const_payload :: APP_PAYLOAD
  isDuplicateMsg :: bool
  isMessageRetained :: bool

definition no_payload :: APP_PAYLOAD where
  "no_payload = \<lparr>message = None, payload_length = 0\<rparr>"

definition create_msg_object ::
  "'w heap_api \<Rightarrow> u16 \<Rightarrow> QOS_VALUE \<Rightarrow> 'w \<Rightarrow> MQTT_MESSAGE option \<times> 'w" where
  "create_msg_object h packetId qosValue w =
    (case malloc h 1 w of
       (False, w) \<Rightarrow> (None, w)
     | (True, w) \<Rightarrow>
        (Some \<lparr>msg_packetId = packetId, qosInfo = qosValue, msg_topicName = None,
           appPayload = no_payload, const_topic_name = None, const_payload = no_payload,
           isDuplicateMsg = False, isMessageRetained = False\<rparr>, w))"

definition mqttmessage_create_in_place ::
  "'w heap_api \<Rightarrow> u16 \<Rightarrow> c_str option \<Rightarrow> QOS_VALUE \<Rightarrow> byte list option \<Rightarrow> nat \<Rightarrow> 'w
    \<Rightarrow> MQTT_MESSAGE option \<times> 'w" where
  "mqttmessage_create_in_place h packetId topicName qosValue appMsg appMsgLength w =
    (case topicName of
       None \<Rightarrow> (None, w)
     | Some _ \<Rightarrow>
        (case create_msg_object h packetId qosValue w of
           (None, w) \<Rightarrow> (None, w)
         | (Some result, w) \<Rightarrow>
            (Some (result\<lparr>const_topic_name := topicName,
               const_payload := (const_payload result)\<lparr>
                 payload_length := appMsgLength,
                 message := (if appMsgLength > 0 then appMsg else message (const_payload result))\<rparr>\<rparr>), w)))"

text \<open>The copy of the payload is undefined when \<open>appMsg\<close> is null or shorter than the length says.\<close>

definition memcpy_new :: "byte list option \<Rightarrow> nat \<Rightarrow> byte list option" where
  "memcpy_new src n = (case src of None \<Rightarrow> None | Some m \<Rightarrow> if n \<le> length m then Some (take n m) else None)"

definition mqttmessage_create ::
  "'w heap_api \<Rightarrow> u16 \<Rightarrow> c_str option \<Rightarrow> QOS_VALUE \<Rightarrow> byte list option \<Rightarrow> nat \<Rightarrow> 'w
    \<Rightarrow> (MQTT_MESSAGE option \<times> 'w) option" where
  "mqttmessage_create h packetId topicName qosValue appMsg appMsgLength w =
    (case topicName of
       None \<Rightarrow> Some (None, w)
     | Some topic \<Rightarrow>
        (case create_msg_object h packetId qosValue w of
           (None, w) \<Rightarrow> Some (None, w)
         | (Some result, w) \<Rightarrow>
            (case mallocAndStrcpy_s h topic w of
               (None, w) \<Rightarrow> Some (None, free h w)
             | (Some copy, w) \<Rightarrow>
                (let result = result\<lparr>msg_topicName := Some copy,
                       appPayload := (appPayload result)\<lparr>payload_length := appMsgLength\<rparr>\<rparr>
                 in
                 if appMsgLength > 0 then
                  (case malloc h appMsgLength w of
                     (False, w) \<Rightarrow> Some (None, free h (free h w))
                   | (True, w) \<Rightarrow> do {
                       m \<leftarrow> memcpy_new appMsg appMsgLength;
                       Some (Some (result\<lparr>appPayload := (appPayload result)\<lparr>message := Some m\<rparr>\<rparr>), w)
                     })
                 else
                   Some (Some (result\<lparr>appPayload := (appPayload result)\<lparr>message := None\<rparr>\<rparr>), w)))))"

definition mqttmessage_destroy :: "'w heap_api \<Rightarrow> MQTT_MESSAGE option \<Rightarrow> 'w \<Rightarrow> 'w" where
  "mqttmessage_destroy h handle w =
    (case handle of
       None \<Rightarrow> w
     | Some m \<Rightarrow>
        (let w = (if msg_topicName m \<noteq> None then free h w else w);
             w = (if message (appPayload m) \<noteq> None then free h w else w)
         in free h w))"

definition mqttmessage_clone ::
  "'w heap_api \<Rightarrow> MQTT_MESSAGE option \<Rightarrow> 'w \<Rightarrow> (MQTT_MESSAGE option \<times> 'w) option" where
  "mqttmessage_clone h handle w =
    (case handle of
       None \<Rightarrow> Some (None, w)
     | Some m \<Rightarrow> do {
         (result, w) \<leftarrow> mqttmessage_create h (msg_packetId m) (msg_topicName m) (qosInfo m)
           (message (appPayload m)) (payload_length (appPayload m)) w;
         Some (map_option (\<lambda>r. r\<lparr>isDuplicateMsg := isDuplicateMsg m,
                                isMessageRetained := isMessageRetained m\<rparr>) result, w)
       })"

definition mqttmessage_getPacketId :: "MQTT_MESSAGE option \<Rightarrow> u16" where
  "mqttmessage_getPacketId handle = (case handle of None \<Rightarrow> 0 | Some m \<Rightarrow> msg_packetId m)"

definition mqttmessage_getTopicName :: "MQTT_MESSAGE option \<Rightarrow> c_str option" where
  "mqttmessage_getTopicName handle =
    (case handle of
       None \<Rightarrow> None
     | Some m \<Rightarrow> if msg_topicName m = None then const_topic_name m else msg_topicName m)"

text \<open>
  \<open>StringToken_Split\<close> of the shared utility is a parameter: source, its length, delimiters, and
  whether empty tokens count; \<open>levels\<close> and \<open>count\<close> say whether these pointers are non-null.
\<close>

type_synonym 'w split_fn = "c_str \<Rightarrow> nat \<Rightarrow> c_str list \<Rightarrow> bool \<Rightarrow> 'w \<Rightarrow> c_result \<times> c_str list \<times> 'w"

definition mqttmessage_getTopicLevels ::
  "'w split_fn \<Rightarrow> MQTT_MESSAGE option \<Rightarrow> bool \<Rightarrow> bool \<Rightarrow> 'w \<Rightarrow> c_result \<times> c_str list option \<times> 'w" where
  "mqttmessage_getTopicLevels StringToken_Split handle levels count w =
    (case handle of
       None \<Rightarrow> (MU_FAILURE, None, w)
     | Some msgInfo \<Rightarrow>
        if \<not> levels \<or> \<not> count then (MU_FAILURE, None, w)
        else
         (case (if msg_topicName msgInfo \<noteq> None then msg_topicName msgInfo else const_topic_name msgInfo) of
            None \<Rightarrow> (MU_FAILURE, None, w)
          | Some topic_name \<Rightarrow>
             (case StringToken_Split topic_name (length topic_name) [[0x2F]] False w of
                (r, tokens, w) \<Rightarrow>
                  if r \<noteq> ZERO then (MU_FAILURE, None, w) else (ZERO, Some tokens, w))))"

definition mqttmessage_getQosType :: "MQTT_MESSAGE option \<Rightarrow> QOS_VALUE" where
  "mqttmessage_getQosType handle = (case handle of None \<Rightarrow> DELIVER_AT_MOST_ONCE | Some m \<Rightarrow> qosInfo m)"

definition mqttmessage_getIsDuplicateMsg :: "MQTT_MESSAGE option \<Rightarrow> bool" where
  "mqttmessage_getIsDuplicateMsg handle = (case handle of None \<Rightarrow> False | Some m \<Rightarrow> isDuplicateMsg m)"

definition mqttmessage_getIsRetained :: "MQTT_MESSAGE option \<Rightarrow> bool" where
  "mqttmessage_getIsRetained handle = (case handle of None \<Rightarrow> False | Some m \<Rightarrow> isMessageRetained m)"

definition mqttmessage_setIsDuplicateMsg ::
  "MQTT_MESSAGE option \<Rightarrow> bool \<Rightarrow> c_result \<times> MQTT_MESSAGE option" where
  "mqttmessage_setIsDuplicateMsg handle duplicateMsg =
    (case handle of
       None \<Rightarrow> (MU_FAILURE, None)
     | Some m \<Rightarrow> (ZERO, Some (m\<lparr>isDuplicateMsg := duplicateMsg\<rparr>)))"

definition mqttmessage_setIsRetained ::
  "MQTT_MESSAGE option \<Rightarrow> bool \<Rightarrow> c_result \<times> MQTT_MESSAGE option" where
  "mqttmessage_setIsRetained handle retainMsg =
    (case handle of
       None \<Rightarrow> (MU_FAILURE, None)
     | Some m \<Rightarrow> (ZERO, Some (m\<lparr>isMessageRetained := retainMsg\<rparr>)))"

definition mqttmessage_getApplicationMsg :: "MQTT_MESSAGE option \<Rightarrow> APP_PAYLOAD option" where
  "mqttmessage_getApplicationMsg handle =
    (case handle of
       None \<Rightarrow> None
     | Some m \<Rightarrow>
        if payload_length (const_payload m) > 0 then Some (const_payload m) else Some (appPayload m))"

end
