(* ===== verification/Message_Props.thy ===== *)
theory Message_Props
  imports Umqtt_Message
begin

text \<open>
  What a message promises: the view its getters give, whichever way it was created, the copy a clone
  is, and the release of everything it owns.
\<close>

section \<open>The abstract message\<close>

text \<open>Packet id, quality of service, topic, payload, duplicate flag, retain flag.\<close>

type_synonym message_view = "u16 \<times> QOS_VALUE \<times> c_str option \<times> byte list option \<times> bool \<times> bool"

definition payload_view :: "APP_PAYLOAD \<Rightarrow> byte list option" where
  "payload_view p = (if payload_length p = 0 then Some [] else memcpy_new (message p) (payload_length p))"

definition msg_view :: "MQTT_MESSAGE \<Rightarrow> message_view" where
  "msg_view m =
    (mqttmessage_getPacketId (Some m), mqttmessage_getQosType (Some m),
     mqttmessage_getTopicName (Some m),
     Option.bind (mqttmessage_getApplicationMsg (Some m)) payload_view,
     mqttmessage_getIsDuplicateMsg (Some m), mqttmessage_getIsRetained (Some m))"

text \<open>The blocks a message owns, its own included.\<close>

definition msg_blocks :: "MQTT_MESSAGE \<Rightarrow> int" where
  "msg_blocks m = 1 + (if msg_topicName m = None then 0 else 1)
    + (if message (appPayload m) = None then 0 else 1)"

definition owns_payload :: "MQTT_MESSAGE \<Rightarrow> bool" where
  "owns_payload m \<longleftrightarrow> msg_topicName m \<noteq> None \<and> const_topic_name m = None \<and>
    const_payload m = no_payload \<and>
    (case message (appPayload m) of
       None \<Rightarrow> payload_length (appPayload m) = 0
     | Some bytes \<Rightarrow> 0 < payload_length (appPayload m) \<and> length bytes = payload_length (appPayload m))"

lemmas message_getters = mqttmessage_getPacketId_def mqttmessage_getQosType_def
  mqttmessage_getTopicName_def mqttmessage_getApplicationMsg_def mqttmessage_getIsDuplicateMsg_def
  mqttmessage_getIsRetained_def

lemma no_payload_simps [simp]: "message no_payload = None" "payload_length no_payload = 0"
  by (simp_all add: no_payload_def)

lemma memcpy_new_Some [simp]: "n \<le> length m \<Longrightarrow> memcpy_new (Some m) n = Some (take n m)"
  by (simp add: memcpy_new_def)

lemma destroy_live:
  "heap_laws h live \<Longrightarrow> live (mqttmessage_destroy h (Some m) w) = live w - msg_blocks m"
  by (simp add: mqttmessage_destroy_def msg_blocks_def Let_def)

section \<open>The interface the client builds messages through\<close>

text \<open>
  A way to make a message out of a packet id, a quality of service, a topic and a payload.  When it
  gives one, the message shows exactly these, and what it allocated is what the message owns.
\<close>

locale message_maker =
  fixes make :: "'w heap_api \<Rightarrow> u16 \<Rightarrow> c_str \<Rightarrow> QOS_VALUE \<Rightarrow> byte list \<Rightarrow> 'w \<Rightarrow> (MQTT_MESSAGE option \<times> 'w) option"
  assumes made: "heap_laws h live \<Longrightarrow> make h packetId topic qos body w = Some (Some m, w') \<Longrightarrow>
      msg_view m = (packetId, qos, Some topic, Some body, False, False) \<and> live w' = live w + msg_blocks m"
    and not_made: "heap_laws h live \<Longrightarrow> make h packetId topic qos body w = Some (None, w') \<Longrightarrow>
      \<not> heap_total h \<and> live w' = live w"
    and defined: "heap_laws h live \<Longrightarrow> make h packetId topic qos body w \<noteq> None"
begin

text \<open>A message with its flags set, as the client hands it to the application, and its release.\<close>

lemma flagged:
  assumes "heap_laws h live" and "make h packetId topic qos body w = Some (Some m, w')"
    and "mqttmessage_setIsDuplicateMsg (Some m) dup = (r, handle)"
    and "mqttmessage_setIsRetained handle retain = (r', handle')"
  shows "r = ZERO \<and> r' = ZERO \<and> (\<exists>m'. handle' = Some m' \<and>
    msg_view m' = (packetId, qos, Some topic, Some body, dup, retain) \<and>
    live (mqttmessage_destroy h (Some m') w') = live w)"
proof -
  have m': "r = ZERO" "r' = ZERO" "handle' = Some (m\<lparr>isDuplicateMsg := dup, isMessageRetained := retain\<rparr>)"
    using assms(3,4) by (auto simp: mqttmessage_setIsDuplicateMsg_def mqttmessage_setIsRetained_def)
  moreover have "msg_view (m\<lparr>isDuplicateMsg := dup, isMessageRetained := retain\<rparr>)
      = (packetId, qos, Some topic, Some body, dup, retain)"
    using made [OF assms(1,2)] by (auto simp: msg_view_def message_getters)
  moreover have "msg_blocks (m\<lparr>isDuplicateMsg := dup, isMessageRetained := retain\<rparr>) = msg_blocks m"
    by (simp add: msg_blocks_def)
  ultimately show ?thesis
    using made [OF assms(1,2)] destroy_live [OF assms(1)] by simp
qed

lemma made_or_not:
  assumes "heap_laws h live"
  shows "\<exists>r w'. make h packetId topic qos body w = Some (r, w') \<and>
    (case r of
       Some m \<Rightarrow> msg_view m = (packetId, qos, Some topic, Some body, False, False) \<and>
         live (mqttmessage_destroy h (Some m) w') = live w
     | None \<Rightarrow> \<not> heap_total h \<and> live w' = live w)"
proof -
  obtain r w' where mk: "make h packetId topic qos body w = Some (r, w')"
    using defined [OF assms] by fastforce
  then show ?thesis
    using made [OF assms] not_made [OF assms] destroy_live [OF assms] by (cases r) auto
qed

end

text \<open>The two constructors as makers: the one copies topic and payload, the other borrows them.\<close>

definition make_copy ::
  "'w heap_api \<Rightarrow> u16 \<Rightarrow> c_str \<Rightarrow> QOS_VALUE \<Rightarrow> byte list \<Rightarrow> 'w \<Rightarrow> (MQTT_MESSAGE option \<times> 'w) option" where
  "make_copy h packetId topic qos body w =
    mqttmessage_create h packetId (Some topic) qos (Some body) (length body) w"

definition make_in_place ::
  "'w heap_api \<Rightarrow> u16 \<Rightarrow> c_str \<Rightarrow> QOS_VALUE \<Rightarrow> byte list \<Rightarrow> 'w \<Rightarrow> (MQTT_MESSAGE option \<times> 'w) option" where
  "make_in_place h packetId topic qos body w =
    Some (mqttmessage_create_in_place h packetId (Some topic) qos (Some body) (length body) w)"

lemma create_msg_object_cases:
  assumes "heap_laws h live"
  obtains (ok) w' where "create_msg_object h packetId qos w = (Some \<lparr>msg_packetId = packetId,
      qosInfo = qos, msg_topicName = None, appPayload = no_payload, const_topic_name = None,
      const_payload = no_payload, isDuplicateMsg = False, isMessageRetained = False\<rparr>, w')"
    "live w' = live w + 1"
  | (fail) w' where "create_msg_object h packetId qos w = (None, w')" "\<not> heap_total h" "live w' = live w"
proof -
  obtain r w' where m: "malloc h 1 w = (r, w')" by fastforce
  show thesis
  proof (cases r)
    case True
    then show thesis using ok m heap_malloc [OF assms m] by (simp add: create_msg_object_def)
  next
    case False
    then show thesis using fail m heap_malloc [OF assms m] heap_total_malloc [of h 1 w w']
      by (auto simp: create_msg_object_def)
  qed
qed

lemma create_cases:
  assumes laws: "heap_laws h live" and n: "n \<le> length body"
  obtains (ok) m w' where "mqttmessage_create h packetId (Some topic) qos (Some body) n w = Some (Some m, w')"
    "m = \<lparr>msg_packetId = packetId, qosInfo = qos, msg_topicName = Some topic,
      appPayload = \<lparr>message = if n = 0 then None else Some (take n body), payload_length = n\<rparr>,
      const_topic_name = None, const_payload = no_payload, isDuplicateMsg = False,
      isMessageRetained = False\<rparr>"
    "live w' = live w + msg_blocks m"
  | (fail) w' where "mqttmessage_create h packetId (Some topic) qos (Some body) n w = Some (None, w')"
    "\<not> heap_total h" "live w' = live w"
  using laws
proof (cases rule: create_msg_object_cases [where packetId = packetId and qos = qos and w = w])
  case (fail w1)
  then show thesis using that(2) by (auto simp: mqttmessage_create_def)
next
  case obj: (ok w1)
  obtain c w2 where c: "mallocAndStrcpy_s h topic w1 = (c, w2)" by fastforce
  show thesis
  proof (cases c)
    case None
    then have "live w2 = live w1" "\<not> heap_total h"
      using c heap_strcpy_None [OF laws] heap_total_strcpy [of h topic w1 w2] by auto
    then show thesis using that(2) obj c None laws by (simp add: mqttmessage_create_def)
  next
    case (Some t)
    then have t: "t = topic" "live w2 = live w + 2"
      using c heap_strcpy_Some [OF laws] obj by auto
    show thesis
    proof (cases "n = 0")
      case True
      then show thesis using that(1) obj c Some t
        by (simp add: mqttmessage_create_def no_payload_def msg_blocks_def)
    next
      case False
      obtain r w3 where r: "malloc h n w2 = (r, w3)" by fastforce
      show thesis
      proof (cases r)
        case True
        then show thesis using that(1) obj c Some t r heap_malloc [OF laws r] False n
          by (simp add: mqttmessage_create_def no_payload_def msg_blocks_def)
      next
        case fails: False
        then show thesis
          using that(2) obj c Some t r heap_malloc [OF laws r] False n laws heap_total_malloc [of h n w2 w3]
          by (auto simp: mqttmessage_create_def)
      qed
    qed
  qed
qed

interpretation copied: message_maker make_copy
proof
  fix h live packetId topic qos body w m w'
  assume laws: "heap_laws h live" and mk: "make_copy h packetId topic qos body w = Some (Some m, w')"
  from laws order_refl [of "length body"]
  show "msg_view m = (packetId, qos, Some topic, Some body, False, False) \<and> live w' = live w + msg_blocks m"
  proof (cases rule: create_cases [where packetId = packetId and topic = topic and qos = qos and w = w])
    case (ok m' w'')
    then show ?thesis using mk
      by (auto simp: make_copy_def msg_view_def message_getters payload_view_def)
  next
    case (fail w'')
    then show ?thesis using mk by (simp add: make_copy_def)
  qed
next
  fix h live packetId topic qos body w w'
  assume laws: "heap_laws h live" and mk: "make_copy h packetId topic qos body w = Some (None, w')"
  from laws order_refl [of "length body"]
  show "\<not> heap_total h \<and> live w' = live w"
    by (cases rule: create_cases [where packetId = packetId and topic = topic and qos = qos and w = w])
      (use mk in \<open>auto simp: make_copy_def\<close>)
next
  fix h live packetId topic qos body w
  assume laws: "heap_laws h live"
  from laws order_refl [of "length body"]
  show "make_copy h packetId topic qos body w \<noteq> None"
    by (cases rule: create_cases [where packetId = packetId and topic = topic and qos = qos and w = w])
      (auto simp: make_copy_def)
qed

lemma in_place_cases:
  assumes laws: "heap_laws h live"
  obtains (ok) m w' where
    "mqttmessage_create_in_place h packetId (Some topic) qos body n w = (Some m, w')"
    "m = \<lparr>msg_packetId = packetId, qosInfo = qos, msg_topicName = None, appPayload = no_payload,
      const_topic_name = Some topic,
      const_payload = \<lparr>message = if n = 0 then None else body, payload_length = n\<rparr>,
      isDuplicateMsg = False, isMessageRetained = False\<rparr>"
    "live w' = live w + 1"
  | (fail) w' where "mqttmessage_create_in_place h packetId (Some topic) qos body n w = (None, w')"
    "\<not> heap_total h" "live w' = live w"
  using laws
proof (cases rule: create_msg_object_cases [where packetId = packetId and qos = qos and w = w])
  case (ok w1)
  then show thesis using that(1) by (simp add: mqttmessage_create_in_place_def no_payload_def)
next
  case (fail w1)
  then show thesis using that(2) by (simp add: mqttmessage_create_in_place_def)
qed

interpretation in_place: message_maker make_in_place
proof
  fix h live packetId topic qos body w m w'
  assume laws: "heap_laws h live" and mk: "make_in_place h packetId topic qos body w = Some (Some m, w')"
  from laws
  show "msg_view m = (packetId, qos, Some topic, Some body, False, False) \<and> live w' = live w + msg_blocks m"
  proof (cases rule: in_place_cases [where packetId = packetId and topic = topic and qos = qos
        and body = "Some body" and n = "length body" and w = w])
    case (ok m' w'')
    then show ?thesis using mk
      by (auto simp: make_in_place_def msg_view_def message_getters payload_view_def msg_blocks_def)
  next
    case (fail w'')
    then show ?thesis using mk by (simp add: make_in_place_def)
  qed
next
  fix h live packetId topic qos body w w'
  assume laws: "heap_laws h live" and mk: "make_in_place h packetId topic qos body w = Some (None, w')"
  from laws show "\<not> heap_total h \<and> live w' = live w"
    by (cases rule: in_place_cases [where packetId = packetId and topic = topic and qos = qos
        and body = "Some body" and n = "length body" and w = w])
      (use mk in \<open>auto simp: make_in_place_def\<close>)
qed (simp add: make_in_place_def)

section \<open>Properties\<close>

definition faithful ::
  "'w heap_api \<Rightarrow> ('w \<Rightarrow> int) \<Rightarrow> 'w \<Rightarrow> message_view \<Rightarrow> MQTT_MESSAGE option \<times> 'w \<Rightarrow> bool" where
  "faithful h live w v res = (case res of
     (Some m, w') \<Rightarrow> msg_view m = v \<and> live (mqttmessage_destroy h (Some m) w') = live w
   | (None, w') \<Rightarrow> \<not> heap_total h \<and> live w' = live w)"

text \<open>
  C23. A message made by \<open>mqttmessage_create\<close> and one made by \<open>mqttmessage_create_in_place\<close> of the same
  arguments show the same through the getters: the packet id, quality of service, topic and payload
  they were made of, not a duplicate, not retained.  Null comes back only when an allocation failed,
  and then nothing stays allocated; otherwise \<open>mqttmessage_destroy\<close> releases all of it.
\<close>

theorem message_created:
  assumes "heap_laws h live"
  shows "(\<exists>res. mqttmessage_create h packetId (Some topic) qos (Some body) (length body) w = Some res \<and>
      faithful h live w (packetId, qos, Some topic, Some body, False, False) res) \<and>
    faithful h live w (packetId, qos, Some topic, Some body, False, False)
      (mqttmessage_create_in_place h packetId (Some topic) qos (Some body) (length body) w)"
  using copied.made_or_not [OF assms, of packetId topic qos body w]
    in_place.made_or_not [OF assms, of packetId topic qos body w]
  by (auto simp: make_copy_def make_in_place_def faithful_def split: option.splits prod.splits)

theorem message_created_witness:
  "faithful count_heap id 0 (7, DELIVER_AT_LEAST_ONCE, Some [0x61], Some [1, 2], False, False)
    (mqttmessage_create_in_place count_heap 7 (Some [0x61]) DELIVER_AT_LEAST_ONCE (Some [1, 2]) (length [1 :: byte, 2]) 0)"
  using message_created [OF count_heap_laws] by blast

lemma create_empty:
  "mqttmessage_create h packetId topic qos body 0 w = mqttmessage_create h packetId topic qos body' 0 w"
  by (simp add: mqttmessage_create_def cong: option.case_cong prod.case_cong)

text \<open>
  C24. \<open>mqttmessage_clone\<close> of a message that owns its topic gives a message identical in every field,
  with blocks of its own; destroying the clone leaves the original's.  Null comes back only when an
  allocation failed, and then nothing stays allocated.
\<close>

theorem clone_identical:
  assumes laws: "heap_laws h live" and own: "owns_payload m"
  shows "\<exists>r w'. mqttmessage_clone h (Some m) w = Some (r, w') \<and>
    (case r of
       Some m' \<Rightarrow> m' = m \<and> live w' = live w + msg_blocks m \<and>
         live (mqttmessage_destroy h (Some m') w') = live w
     | None \<Rightarrow> \<not> heap_total h \<and> live w' = live w)"
proof -
  obtain topic where topic: "msg_topicName m = Some topic" using own by (auto simp: owns_payload_def)
  let ?n = "payload_length (appPayload m)"
  let ?c = "mqttmessage_create h (msg_packetId m) (Some topic) (qosInfo m) (message (appPayload m)) ?n w"
  define body where "body = (case message (appPayload m) of None \<Rightarrow> [] | Some b \<Rightarrow> b)"
  have n: "?n = length body" "message (appPayload m) = (if ?n = 0 then None else Some body)"
    using own by (auto simp: owns_payload_def body_def split: option.splits)
  have c: "?c = mqttmessage_create h (msg_packetId m) (Some topic) (qosInfo m) (Some body) (length body) w"
    using n create_empty [of h "msg_packetId m" "Some topic" "qosInfo m" "message (appPayload m)" w "Some body"]
    by (cases "?n = 0") simp_all
  have eq: "(\<lparr>msg_packetId = msg_packetId m, qosInfo = qosInfo m, msg_topicName = Some topic,
      appPayload = \<lparr>message = if length body = 0 then None else Some (take (length body) body),
        payload_length = length body\<rparr>, const_topic_name = None, const_payload = no_payload,
      isDuplicateMsg = isDuplicateMsg m, isMessageRetained = isMessageRetained m\<rparr>) = m"
    using own n topic by (cases m; cases "appPayload m") (auto simp: owns_payload_def)
  from laws order_refl [of "length body"] show ?thesis
  proof (cases rule: create_cases [where packetId = "msg_packetId m" and topic = topic and qos = "qosInfo m" and w = w])
    case (ok m' w')
    then have "mqttmessage_clone h (Some m) w = Some (Some m, w')"
      using c topic eq by (simp add: mqttmessage_clone_def)
    moreover have "msg_blocks m' = msg_blocks m"
      using ok(2) n topic by (simp add: msg_blocks_def)
    ultimately show ?thesis using ok(3) destroy_live [OF laws, of m w'] by simp
  next
    case (fail w')
    then show ?thesis using c topic by (simp add: mqttmessage_clone_def)
  qed
qed

theorem clone_identical_witness:
  "\<exists>r w'. mqttmessage_clone count_heap (Some \<lparr>msg_packetId = 7, qosInfo = DELIVER_AT_MOST_ONCE,
      msg_topicName = Some [0x61], appPayload = \<lparr>message = Some [5], payload_length = 1\<rparr>,
      const_topic_name = None, const_payload = no_payload, isDuplicateMsg = True,
      isMessageRetained = False\<rparr>) 0 = Some (r, w') \<and> r \<noteq> None"
proof -
  have "owns_payload \<lparr>msg_packetId = 7, qosInfo = DELIVER_AT_MOST_ONCE,
      msg_topicName = Some [0x61], appPayload = \<lparr>message = Some [5], payload_length = 1\<rparr>,
      const_topic_name = None, const_payload = no_payload, isDuplicateMsg = True,
      isMessageRetained = False\<rparr>"
    by (simp add: owns_payload_def)
  from clone_identical [OF count_heap_laws this, of 0] show ?thesis
    using count_heap_total by (auto split: option.splits)
qed

text \<open>
  C38. \<open>mqttmessage_clone\<close> does not copy a message created in place, as the client's received messages
  are: it returns null for every such message, with no allocation having failed.
\<close>

theorem clone_in_place_null:
  assumes "mqttmessage_create_in_place h packetId topic qos body n w = (Some m, w')"
  shows "mqttmessage_clone h (Some m) w'' = Some (None, w'')"
  using assms
  by (auto simp: mqttmessage_create_in_place_def create_msg_object_def mqttmessage_clone_def
      mqttmessage_create_def split: option.splits prod.splits bool.splits)

theorem clone_in_place_null_witness:
  "mqttmessage_clone count_heap (Some \<lparr>msg_packetId = 7, qosInfo = DELIVER_AT_MOST_ONCE, msg_topicName = None,
      appPayload = no_payload, const_topic_name = Some [0x61],
      const_payload = \<lparr>message = Some [1], payload_length = 1\<rparr>, isDuplicateMsg = False,
      isMessageRetained = False\<rparr>) 1 = Some (None, 1)"
  by (rule clone_in_place_null [of count_heap 7 "Some [0x61]" DELIVER_AT_MOST_ONCE "Some [1]" 1 0 _ 1])
    (simp add: mqttmessage_create_in_place_def create_msg_object_def count_heap_def no_payload_def)

text \<open>
  Every accessor on a null handle gives its documented default and every modifier fails; on a
  message a modifier changes its own flag and no other part of what the getters show.
\<close>

theorem message_access:
  "mqttmessage_getPacketId None = 0 \<and> mqttmessage_getTopicName None = None \<and>
    mqttmessage_getQosType None = DELIVER_AT_MOST_ONCE \<and> \<not> mqttmessage_getIsDuplicateMsg None \<and>
    \<not> mqttmessage_getIsRetained None \<and> mqttmessage_getApplicationMsg None = None \<and>
    mqttmessage_clone h None w = Some (None, w) \<and> mqttmessage_destroy h None w = w \<and>
    mqttmessage_setIsDuplicateMsg None d = (MU_FAILURE, None) \<and>
    mqttmessage_setIsRetained None d = (MU_FAILURE, None) \<and>
    (\<exists>m1 m2. mqttmessage_setIsDuplicateMsg (Some m) d = (ZERO, Some m1) \<and>
      mqttmessage_setIsRetained (Some m) d = (ZERO, Some m2) \<and>
      (case msg_view m of (i, q, t, p, _, r) \<Rightarrow> msg_view m1 = (i, q, t, p, d, r)) \<and>
      (case msg_view m of (i, q, t, p, u, _) \<Rightarrow> msg_view m2 = (i, q, t, p, u, d)))"
  by (simp add: message_getters mqttmessage_clone_def mqttmessage_destroy_def
      mqttmessage_setIsDuplicateMsg_def mqttmessage_setIsRetained_def msg_view_def)

text \<open>
  \<open>mqttmessage_getTopicLevels\<close> splits the topic the message shows, whole, at the slashes and with
  the empty levels left out; it fails on null arguments, on a message without a topic and when the
  split fails, and then gives no levels.
\<close>

theorem topic_levels:
  "mqttmessage_getTopicLevels split handle levels count w =
    (case mqttmessage_getTopicName handle of
       None \<Rightarrow> (MU_FAILURE, None, w)
     | Some topic \<Rightarrow>
        if \<not> (levels \<and> count) then (MU_FAILURE, None, w)
        else (case split topic (length topic) [[0x2F]] False w of
            (ZERO, tokens, w) \<Rightarrow> (ZERO, Some tokens, w)
          | (MU_FAILURE, _, w) \<Rightarrow> (MU_FAILURE, None, w)))"
  by (cases handle)
    (auto simp: mqttmessage_getTopicLevels_def mqttmessage_getTopicName_def
      split: option.splits prod.splits c_result.splits)

end
