(* ===== verification/Client_Model.thy ===== *)
theory Client_Model
  imports Codec_Encode Codec_Decode Umqtt_Message
begin

text \<open>
  The client of \<open>src/mqtt_client.c\<close>: its state, the environment it runs in, and the functions below
  its entry points (closing, errors, reading of packet bodies, sending, the callbacks it registers
  with the transport other than the one for received bytes).

  The client and its codec are one state, since the codec's callback is the client: the record of the
  client extends the codec's.  Transport, clock and application are a record of functions on the
  whole state, because each of them may call back into the library; \<open>None\<close> is a call that does not
  return to defined behaviour.  The contexts the client registers are its own handle, which is not
  null, so the null tests of the callbacks on it do not appear.  The log output (\<open>LOG\<close>) has no
  effect on the state and is left out.  Of the strings of the trace log (\<open>STRING_*\<close>), which are built
  when \<open>mqtt_flags\<close> asks for them, those are modelled that the code can lose: the ones of the CONNECT
  packet and of a SUBACK.  Every other trace string is created and deleted in one function, with no
  way past its deletion.
\<close>

section \<open>State\<close>

text \<open>A function pointer and a transport handle are numbers; \<open>None\<close> is the null pointer.\<close>

type_synonym fn_ptr = nat
type_synonym ctx_ptr = nat
type_synonym xio_handle = nat

definition MQTT_STATUS_CLIENT_CONNECTED :: u16 where "MQTT_STATUS_CLIENT_CONNECTED = 0x0001"
definition MQTT_STATUS_SOCKET_CONNECTED :: u16 where "MQTT_STATUS_SOCKET_CONNECTED = 0x0002"
definition MQTT_STATUS_PENDING_CLOSE :: u16 where "MQTT_STATUS_PENDING_CLOSE = 0x0004"
definition MQTT_FLAGS_LOG_TRACE :: u16 where "MQTT_FLAGS_LOG_TRACE = 0x0001"
definition MQTT_FLAGS_RAW_TRACE :: u16 where "MQTT_FLAGS_RAW_TRACE = 0x0002"
definition DEFAULT_MAX_PING_RESPONSE_TIME :: u16 where "DEFAULT_MAX_PING_RESPONSE_TIME = 80"
definition MAX_CLOSE_RETRIES :: nat where "MAX_CLOSE_RETRIES = 20"

record ('b, 'w) client = "('b, 'w) codec" +
  xioHandle :: "xio_handle option"
  packetState :: CONTROL_PACKET_TYPE
  packetSendTimeMs :: ms_t
  fnOperationCallback :: "fn_ptr option"
  fnMessageRecv :: "fn_ptr option"
  ctx :: ctx_ptr
  fnOnErrorCallBack :: "fn_ptr option"
  errorCBCtx :: ctx_ptr
  disconnect_cb :: "fn_ptr option"
  disconnect_ctx :: ctx_ptr
  qosValue :: QOS_VALUE
  keepAliveInterval :: u16
  mqttOptions :: MQTT_CLIENT_OPTIONS
  mqtt_status :: u16
  mqtt_flags :: u16
  timeSincePing :: ms_t
  maxPingRespTime :: u16

section \<open>Environment\<close>

text \<open>What \<open>msgInfo\<close> points to in a call of the operation callback.\<close>

datatype msg_info =
    NO_INFO
  | CONNACK_INFO CONNECT_ACK
  | PUBLISH_INFO PUBLISH_ACK
  | SUBACK_INFO SUBSCRIBE_ACK
  | UNSUBACK_INFO UNSUBSCRIBE_ACK

text \<open>
  \<open>tickcounter_get_current_ms\<close> gives the time, or \<open>None\<close> when it fails and stores nothing.  The bytes
  of \<open>xio_send\<close> are the block the pointer refers to, with the length that is passed.
\<close>

record ('b, 'w, 's) client_env =
  buffers :: "('b, 'w) buffer_api"
  heap :: "'w heap_api"
  strings :: "'w string_api"
  safe_add_size_t :: "nat \<Rightarrow> nat \<Rightarrow> nat"
  safe_multiply_size_t :: "nat \<Rightarrow> nat \<Rightarrow> nat"
  tickcounter_create :: "'w \<Rightarrow> bool \<times> 'w"
  tickcounter_destroy :: "'w \<Rightarrow> 'w"
  tickcounter_get_current_ms :: "'s \<Rightarrow> ms_t option \<times> 's"
  xio_open :: "xio_handle \<Rightarrow> 's \<Rightarrow> (c_result \<times> 's) option"
  xio_close :: "xio_handle option \<Rightarrow> 's \<Rightarrow> 's option"
  xio_send :: "xio_handle option \<Rightarrow> byte list option \<Rightarrow> nat \<Rightarrow> 's \<Rightarrow> (c_result \<times> 's) option"
  xio_dowork :: "xio_handle option \<Rightarrow> 's \<Rightarrow> 's option"
  ThreadAPI_Sleep :: "nat \<Rightarrow> 's \<Rightarrow> 's option"
  call_operation_cb :: "fn_ptr \<Rightarrow> ctx_ptr \<Rightarrow> MQTT_CLIENT_EVENT_RESULT \<Rightarrow> msg_info \<Rightarrow> 's \<Rightarrow> 's option"
  call_message_cb :: "fn_ptr \<Rightarrow> ctx_ptr \<Rightarrow> MQTT_MESSAGE option \<Rightarrow> 's \<Rightarrow> (MQTT_CLIENT_ACK_OPTION \<times> 's) option"
  call_error_cb :: "fn_ptr \<Rightarrow> ctx_ptr \<Rightarrow> MQTT_CLIENT_EVENT_ERROR \<Rightarrow> 's \<Rightarrow> 's option"
  call_disconnect_cb :: "fn_ptr \<Rightarrow> ctx_ptr \<Rightarrow> 's \<Rightarrow> 's option"

type_synonym ('b, 'w, 'z) environment = "('b, 'w, ('b, 'w, 'z) client_scheme) client_env"

text \<open>A call through \<open>fnOperationCallback\<close>, which the code makes without a null test.\<close>

definition operation_callback ::
  "('b, 'w, 'z) environment \<Rightarrow> MQTT_CLIENT_EVENT_RESULT \<Rightarrow> msg_info
    \<Rightarrow> ('b, 'w, 'z) client_scheme \<Rightarrow> ('b, 'w, 'z) client_scheme option" where
  "operation_callback env action msgInfo s =
    (case fnOperationCallback s of
       None \<Rightarrow> None
     | Some f \<Rightarrow> call_operation_cb env f (ctx s) action msgInfo s)"

section \<open>Status\<close>

definition status_set :: "u16 \<Rightarrow> ('b, 'w, 'z) client_scheme \<Rightarrow> bool" where
  "status_set bits s \<longleftrightarrow> mqtt_status s AND bits \<noteq> 0"

definition set_status :: "u16 \<Rightarrow> ('b, 'w, 'z) client_scheme \<Rightarrow> ('b, 'w, 'z) client_scheme" where
  "set_status bits s = s\<lparr>mqtt_status := mqtt_status s OR bits\<rparr>"

definition clear_status :: "u16 \<Rightarrow> ('b, 'w, 'z) client_scheme \<Rightarrow> ('b, 'w, 'z) client_scheme" where
  "clear_status bits s = s\<lparr>mqtt_status := mqtt_status s AND NOT bits\<rparr>"

definition is_trace_enabled :: "('b, 'w, 'z) client_scheme \<Rightarrow> bool" where
  "is_trace_enabled s \<longleftrightarrow> mqtt_flags s AND MQTT_FLAGS_LOG_TRACE \<noteq> 0"

definition construct_trace_log_handle ::
  "('b, 'w, 's) client_env \<Rightarrow> ('b, 'w, 'z) client_scheme \<Rightarrow> 'w \<Rightarrow> bool \<times> 'w" where
  "construct_trace_log_handle env s w =
    (if is_trace_enabled s then STRING_new (strings env) w else (False, w))"

section \<open>Closing and errors\<close>

definition on_connection_closed ::
  "('b, 'w, 'z) environment \<Rightarrow> ('b, 'w, 'z) client_scheme \<Rightarrow> ('b, 'w, 'z) client_scheme option" where
  "on_connection_closed env s =
    (let s = clear_status MQTT_STATUS_SOCKET_CONNECTED s in
     case disconnect_cb s of
       None \<Rightarrow> Some s
     | Some f \<Rightarrow> call_disconnect_cb env f (disconnect_ctx s) s)"

text \<open>The \<open>do ... while\<close> loop that waits for the socket to close.\<close>

function close_wait ::
  "('b, 'w, 'z) environment \<Rightarrow> nat \<Rightarrow> ('b, 'w, 'z) client_scheme \<Rightarrow> ('b, 'w, 'z) client_scheme option" where
  "close_wait env counter s = do {
     s \<leftarrow> xio_dowork env (xioHandle s) s;
     s \<leftarrow> ThreadAPI_Sleep env 2 s;
     if status_set MQTT_STATUS_SOCKET_CONNECTED s \<and> counter + 1 < MAX_CLOSE_RETRIES
     then close_wait env (counter + 1) s
     else Some s
   }"
  by pat_completeness auto
termination
  by (relation "measure (\<lambda>(_, counter, _). MAX_CLOSE_RETRIES - counter)") auto

declare close_wait.simps [simp del]

definition close_connection ::
  "('b, 'w, 'z) environment \<Rightarrow> ('b, 'w, 'z) client_scheme \<Rightarrow> ('b, 'w, 'z) client_scheme option" where
  "close_connection env s =
    (if status_set MQTT_STATUS_SOCKET_CONNECTED s then do {
       s \<leftarrow> xio_close env (xioHandle s) s;
       s \<leftarrow> (if disconnect_cb s = None then close_wait env 0 s else Some s);
       Some (s\<lparr>xioHandle := None\<rparr>)
     }
     else
      (let s = clear_status MQTT_STATUS_SOCKET_CONNECTED s in
       case disconnect_cb s of
         None \<Rightarrow> Some s
       | Some f \<Rightarrow> call_disconnect_cb env f (disconnect_ctx s) s))"

definition set_error_callback ::
  "('b, 'w, 'z) environment \<Rightarrow> MQTT_CLIENT_EVENT_ERROR \<Rightarrow> ('b, 'w, 'z) client_scheme
    \<Rightarrow> ('b, 'w, 'z) client_scheme option" where
  "set_error_callback env error_type s = do {
     s \<leftarrow> (case fnOnErrorCallBack s of
             None \<Rightarrow> Some s
           | Some f \<Rightarrow> call_error_cb env f (errorCBCtx s) error_type s);
     close_connection env s
   }"

section \<open>Reading a packet body\<close>

text \<open>
  The readers move a cursor in the body.  \<open>byteutil_read_uint16\<close> tests the length it is given and
  gives 0, without moving, when it is below 2; \<open>byteutil_readByte\<close> tests nothing.
\<close>

definition byteutil_read_uint16 :: "cursor \<Rightarrow> nat \<Rightarrow> (u16 \<times> cursor) option" where
  "byteutil_read_uint16 buffer byteLen =
    (if byteLen \<ge> 2 then do {
       hi \<leftarrow> get_byte buffer;
       next_byte \<leftarrow> advance buffer 1;
       lo \<leftarrow> get_byte next_byte;
       buffer \<leftarrow> advance buffer 2;
       Some (256 * ucast hi + ucast lo, buffer)
     }
     else Some (0, buffer))"

definition byteutil_readByte :: "cursor \<Rightarrow> (byte \<times> cursor) option" where
  "byteutil_readByte buffer = do {
     result \<leftarrow> get_byte buffer;
     buffer \<leftarrow> advance buffer 1;
     Some (result, buffer)
   }"

text \<open>
  The copy of a string of the body: null when it is empty, too long or not allocated.  All its bytes
  are copied and passed over; the C string that is returned ends at the first null among them.
\<close>

definition byteutil_readUTF ::
  "('b, 'w, 's) client_env \<Rightarrow> cursor \<Rightarrow> nat \<Rightarrow> 'w \<Rightarrow> (c_str option \<times> cursor \<times> 'w) option" where
  "byteutil_readUTF env buffer byteLen w =
    (let bufferInitial = snd buffer in do {
       (stringLen, buffer) \<leftarrow> byteutil_read_uint16 buffer byteLen;
       if unat stringLen > 0 \<and> unat stringLen + (snd buffer - bufferInitial) \<le> byteLen then
        (let malloc_size = safe_add_size_t env (unat stringLen) 1 in
         if malloc_size \<noteq> SIZE_MAX then
          (case malloc (heap env) malloc_size w of
             (False, w) \<Rightarrow> Some (None, buffer, w)
           | (True, w) \<Rightarrow>
              if unat stringLen < malloc_size then do {
                next_bytes \<leftarrow> advance buffer (unat stringLen);
                Some (Some (c_string (take (unat stringLen) (drop (snd buffer) (fst buffer)))), next_bytes, w)
              }
              else None)
         else Some (None, buffer, w))
       else Some (None, buffer, w)
     })"

section \<open>Sending\<close>

datatype IO_SEND_RESULT = IO_SEND_OK | IO_SEND_ERROR | IO_SEND_CANCELLED
datatype IO_OPEN_RESULT = IO_OPEN_OK | IO_OPEN_ERROR | IO_OPEN_CANCELLED

definition sendComplete ::
  "('b, 'w, 'z) environment \<Rightarrow> IO_SEND_RESULT \<Rightarrow> ('b, 'w, 'z) client_scheme
    \<Rightarrow> ('b, 'w, 'z) client_scheme option" where
  "sendComplete env send_result s =
    (if send_result = IO_SEND_OK then
       if packetState s = DISCONNECT_TYPE then do {
         s \<leftarrow> (if fnOperationCallback s \<noteq> None
               then operation_callback env MQTT_CLIENT_ON_DISCONNECT NO_INFO s else Some s);
         Some (set_status MQTT_STATUS_PENDING_CLOSE s)
       }
       else Some s
     else if send_result = IO_SEND_ERROR then
       set_error_callback env MQTT_CLIENT_COMMUNICATION_ERROR s
     else Some s)"

definition sendPacketItem ::
  "('b, 'w, 'z) environment \<Rightarrow> byte list option \<Rightarrow> nat \<Rightarrow> ('b, 'w, 'z) client_scheme
    \<Rightarrow> (c_result \<times> ('b, 'w, 'z) client_scheme) option" where
  "sendPacketItem env data len s = do {
     (result, s) \<leftarrow> xio_send env (xioHandle s) data len s;
     if result \<noteq> ZERO then Some (MU_FAILURE, s)
     else
      (case tickcounter_get_current_ms env s of
         (None, s) \<Rightarrow> Some (MU_FAILURE, s)
       | (Some now, s) \<Rightarrow> Some (ZERO, s\<lparr>packetSendTimeMs := now\<rparr>))
   }"

text \<open>The bytes of a packet the codec built, sent and deleted; the status of the send is kept.\<close>

definition send_and_delete ::
  "('b, 'w, 'z) environment \<Rightarrow> 'b \<Rightarrow> ('b, 'w, 'z) client_scheme
    \<Rightarrow> (c_result \<times> ('b, 'w, 'z) client_scheme) option" where
  "send_and_delete env packet s = do {
     (result, s) \<leftarrow> sendPacketItem env (BUFFER_u_char (buffers env) packet)
                       (BUFFER_length (buffers env) packet) s;
     Some (result, s\<lparr>world := BUFFER_delete (buffers env) (Some packet) (world s)\<rparr>)
   }"

section \<open>Callbacks of the transport\<close>

definition onOpenComplete ::
  "('b, 'w, 'z) environment \<Rightarrow> IO_OPEN_RESULT \<Rightarrow> ('b, 'w, 'z) client_scheme
    \<Rightarrow> ('b, 'w, 'z) client_scheme option" where
  "onOpenComplete env open_result s =
    (if open_result = IO_OPEN_OK \<and> \<not> status_set MQTT_STATUS_SOCKET_CONNECTED s then
      (let s = set_status MQTT_STATUS_SOCKET_CONNECTED (s\<lparr>packetState := CONNECT_TYPE\<rparr>);
           (trace_log, w) = construct_trace_log_handle env s (world s)
       in do {
         (connPacket, w) \<leftarrow> mqtt_codec_connect (buffers env) (strings env) (Some (mqttOptions s)) trace_log w;
         let s = s\<lparr>world := w\<rparr>;
         s \<leftarrow> (case connPacket of
                 None \<Rightarrow> Some s
               | Some packet \<Rightarrow> do {
                   (result, s) \<leftarrow> sendPacketItem env (BUFFER_u_char (buffers env) packet)
                                     (BUFFER_length (buffers env) packet) s;
                   s \<leftarrow> (if result \<noteq> ZERO then do {
                           s \<leftarrow> (case fnOnErrorCallBack s of
                                   None \<Rightarrow> Some s
                                 | Some f \<Rightarrow> call_error_cb env f (errorCBCtx s) MQTT_CLIENT_CONNECTION_ERROR s);
                           Some (set_status MQTT_STATUS_PENDING_CLOSE s)
                         }
                         else Some s);
                   Some (s\<lparr>world := BUFFER_delete (buffers env) (Some packet) (world s)\<rparr>)
                 });
         Some (if trace_log then s\<lparr>world := STRING_delete (strings env) trace_log (world s)\<rparr> else s)
       })
     else do {
       s \<leftarrow> (if \<not> status_set MQTT_STATUS_SOCKET_CONNECTED s then
               case fnOnErrorCallBack s of
                 None \<Rightarrow> Some s
               | Some f \<Rightarrow> call_error_cb env f (errorCBCtx s) MQTT_CLIENT_CONNECTION_ERROR s
             else Some s);
       Some (set_status MQTT_STATUS_PENDING_CLOSE s)
     })"

definition onIoError ::
  "('b, 'w, 'z) environment \<Rightarrow> ('b, 'w, 'z) client_scheme \<Rightarrow> ('b, 'w, 'z) client_scheme option" where
  "onIoError env s =
    (if fnOperationCallback s \<noteq> None then set_error_callback env MQTT_CLIENT_CONNECTION_ERROR s
     else Some s)"

end
