(* ===== verification/Client_Recv.thy ===== *)
theory Client_Recv
  imports Client_Model
begin

text \<open>
  What the client does with a packet it has received: \<open>recvCompleteCallback\<close>, with the processing of
  publications and the acknowledgements it sends, and \<open>onBytesReceived\<close>, which feeds the codec.
\<close>

section \<open>Acknowledgements\<close>

text \<open>The tail both senders of replies share: send, report a failure, delete.\<close>

definition send_reply ::
  "('b, 'w, 'z) environment \<Rightarrow> 'b option \<Rightarrow> ('b, 'w, 'z) client_scheme
    \<Rightarrow> ('b, 'w, 'z) client_scheme option" where
  "send_reply env pubRel s =
    (case pubRel of
       None \<Rightarrow> Some s
     | Some packet \<Rightarrow> do {
         (result, s) \<leftarrow> sendPacketItem env (BUFFER_u_char (buffers env) packet)
                           (BUFFER_length (buffers env) packet) s;
         s \<leftarrow> (if result \<noteq> ZERO then set_error_callback env MQTT_CLIENT_COMMUNICATION_ERROR s
               else Some s);
         Some (s\<lparr>world := BUFFER_delete (buffers env) (Some packet) (world s)\<rparr>)
       })"

text \<open>The packet of an encoder, with the error callback when it could not be built.\<close>

definition build_reply ::
  "('b, 'w, 'z) environment \<Rightarrow> (('b, 'w) buffer_api \<Rightarrow> u16 \<Rightarrow> 'w \<Rightarrow> ('b option \<times> 'w) option) \<Rightarrow> u16
    \<Rightarrow> ('b, 'w, 'z) client_scheme \<Rightarrow> ('b option \<times> ('b, 'w, 'z) client_scheme) option" where
  "build_reply env encoder packetId s = do {
     (pubRel, w) \<leftarrow> encoder (buffers env) packetId (world s);
     let s = s\<lparr>world := w\<rparr>;
     s \<leftarrow> (if pubRel = None then set_error_callback env MQTT_CLIENT_MEMORY_ERROR s else Some s);
     Some (pubRel, s)
   }"

definition SendMessageAck ::
  "('b, 'w, 'z) environment \<Rightarrow> u16 \<Rightarrow> QOS_VALUE \<Rightarrow> ('b, 'w, 'z) client_scheme
    \<Rightarrow> ('b, 'w, 'z) client_scheme option" where
  "SendMessageAck env packetId qos s = do {
     (pubRel, s) \<leftarrow>
       (if qos = DELIVER_EXACTLY_ONCE then build_reply env mqtt_codec_publishReceived packetId s
        else if qos = DELIVER_AT_LEAST_ONCE then build_reply env mqtt_codec_publishAck packetId s
        else Some (None, s));
     send_reply env pubRel s
   }"

section \<open>Publications\<close>

text \<open>The quality of service the flags of a received PUBLISH are read as.\<close>

definition flags_qos :: "c_int \<Rightarrow> QOS_VALUE" where
  "flags_qos flags =
    (if flags = 0 then DELIVER_AT_MOST_ONCE
     else if flags AND 0x2 \<noteq> 0 then DELIVER_AT_LEAST_ONCE
     else DELIVER_EXACTLY_ONCE)"

text \<open>The message in place, its flags, the callback, the acknowledgement, the release.\<close>

definition deliver_message ::
  "('b, 'w, 'z) environment \<Rightarrow> u16 \<Rightarrow> c_str \<Rightarrow> QOS_VALUE \<Rightarrow> byte list \<Rightarrow> nat \<Rightarrow> bool \<Rightarrow> bool
    \<Rightarrow> ('b, 'w, 'z) client_scheme \<Rightarrow> ('b, 'w, 'z) client_scheme option" where
  "deliver_message env packetId topicName qos appMsg appMsgLength dup retain s =
    (case mqttmessage_create_in_place (heap env) packetId (Some topicName) qos (Some appMsg)
            appMsgLength (world s) of
       (msgHandle, w) \<Rightarrow>
        (let s = s\<lparr>world := w\<rparr> in
         if msgHandle = None then do {
           s \<leftarrow> set_error_callback env MQTT_CLIENT_MEMORY_ERROR s;
           Some (s\<lparr>world := mqttmessage_destroy (heap env) msgHandle (world s)\<rparr>)
         }
         else
          (let (dupResult, msgHandle) = mqttmessage_setIsDuplicateMsg msgHandle dup;
               (retainResult, msgHandle) =
                 (if dupResult \<noteq> ZERO then (MU_FAILURE, msgHandle)
                  else mqttmessage_setIsRetained msgHandle retain)
           in do {
             s \<leftarrow>
               (if retainResult \<noteq> ZERO then set_error_callback env MQTT_CLIENT_MEMORY_ERROR s
                else
                 (case fnMessageRecv s of
                    None \<Rightarrow> None
                  | Some f \<Rightarrow> do {
                      (ack_option, s) \<leftarrow> call_message_cb env f (ctx s) msgHandle s;
                      if ack_option = MQTT_CLIENT_ACK_SYNC then SendMessageAck env packetId qos s
                      else Some s
                    }));
             Some (s\<lparr>world := mqttmessage_destroy (heap env) msgHandle (world s)\<rparr>)
           })))"

definition ProcessPublishMessage ::
  "('b, 'w, 'z) environment \<Rightarrow> byte list \<Rightarrow> nat \<Rightarrow> c_int \<Rightarrow> ('b, 'w, 'z) client_scheme
    \<Rightarrow> ('b, 'w, 'z) client_scheme option" where
  "ProcessPublishMessage env initialPos packetLength flags s =
    (let dup = (flags AND 0x8 \<noteq> 0);
         retain = (flags AND 0x1 \<noteq> 0);
         qos = flags_qos flags
     in do {
       (topicName, iterator, w) \<leftarrow> byteutil_readUTF env (initialPos, 0) packetLength (world s);
       let s = s\<lparr>world := w\<rparr>;
       case topicName of
         None \<Rightarrow> set_error_callback env MQTT_CLIENT_PARSE_ERROR s
       | Some topic \<Rightarrow> do {
           let numberOfBytesToBeRead = size_sub packetLength (snd iterator);
           (packetId, iterator) \<leftarrow>
             (if qos \<noteq> DELIVER_AT_MOST_ONCE then byteutil_read_uint16 iterator numberOfBytesToBeRead
              else Some (0, iterator));
           s \<leftarrow>
             (if qos \<noteq> DELIVER_AT_MOST_ONCE \<and> packetId = 0 then
                set_error_callback env MQTT_CLIENT_PARSE_ERROR s
              else
                deliver_message env packetId topic qos (drop (snd iterator) (fst iterator))
                  (size_sub packetLength (snd iterator)) dup retain s);
           Some (s\<lparr>world := free (heap env) (world s)\<rparr>)
         }
     })"

section \<open>The other packets\<close>

definition recv_connack ::
  "('b, 'w, 'z) environment \<Rightarrow> byte list \<Rightarrow> nat \<Rightarrow> ('b, 'w, 'z) client_scheme
    \<Rightarrow> ('b, 'w, 'z) client_scheme option" where
  "recv_connack env iterator packetLength s =
    (if packetLength \<noteq> 2 then set_error_callback env MQTT_CLIENT_COMMUNICATION_ERROR s
     else do {
       (connect_acknowledge_flags, iterator) \<leftarrow> byteutil_readByte (iterator, 0);
       if connect_acknowledge_flags AND 0xFE \<noteq> 0 then
         set_error_callback env MQTT_CLIENT_COMMUNICATION_ERROR s
       else do {
         (rc, iterator) \<leftarrow> byteutil_readByte iterator;
         let connack = \<lparr>isSessionPresent = (connect_acknowledge_flags = 1),
                        returnCode = (if unat rc < return_code CONN_REFUSED_UNKNOWN
                                      then return_code_of (unat rc) else CONN_REFUSED_UNKNOWN)\<rparr>;
         s \<leftarrow> operation_callback env MQTT_CLIENT_ON_CONNACK (CONNACK_INFO connack) s;
         Some (if returnCode connack = CONNECTION_ACCEPTED
               then set_status MQTT_STATUS_CLIENT_CONNECTED s else s)
       }
     })"

definition publish_action :: "CONTROL_PACKET_TYPE \<Rightarrow> MQTT_CLIENT_EVENT_RESULT" where
  "publish_action packet =
    (if packet = PUBACK_TYPE then MQTT_CLIENT_ON_PUBLISH_ACK
     else if packet = PUBREC_TYPE then MQTT_CLIENT_ON_PUBLISH_RECV
     else if packet = PUBREL_TYPE then MQTT_CLIENT_ON_PUBLISH_REL
     else MQTT_CLIENT_ON_PUBLISH_COMP)"

definition recv_publish_ack ::
  "('b, 'w, 'z) environment \<Rightarrow> CONTROL_PACKET_TYPE \<Rightarrow> byte list \<Rightarrow> nat \<Rightarrow> ('b, 'w, 'z) client_scheme
    \<Rightarrow> ('b, 'w, 'z) client_scheme option" where
  "recv_publish_ack env packet iterator packetLength s =
    (if packetLength \<noteq> 2 then set_error_callback env MQTT_CLIENT_COMMUNICATION_ERROR s
     else do {
       (packetId, iterator) \<leftarrow> byteutil_read_uint16 (iterator, 0) packetLength;
       s \<leftarrow> operation_callback env (publish_action packet)
             (PUBLISH_INFO \<lparr>puback_packetId = packetId\<rparr>) s;
       (pubRel, s) \<leftarrow>
         (if packet = PUBREC_TYPE then build_reply env mqtt_codec_publishRelease packetId s
          else if packet = PUBREL_TYPE then build_reply env mqtt_codec_publishComplete packetId s
          else Some (None, s));
       send_reply env pubRel s
     })"

text \<open>
  The loop over the return codes of a SUBACK, which fills an array of \<open>capacity\<close> elements; the flag
  says that an invalid code ended it.
\<close>

fun read_suback ::
  "cursor \<Rightarrow> nat \<Rightarrow> nat \<Rightarrow> QOS_VALUE list \<Rightarrow> (bool \<times> QOS_VALUE list) option" where
  "read_suback iterator 0 capacity codes = Some (True, codes)"
| "read_suback iterator (Suc remainLen) capacity codes = do {
     (qosRet, iterator) \<leftarrow> byteutil_readByte iterator;
     if qosRet AND 0x7C \<noteq> 0 then Some (False, codes)
     else if length codes < capacity then
       read_suback iterator remainLen capacity
         (codes @ [if qosRet = 0 then DELIVER_AT_MOST_ONCE
                   else if qosRet = 1 then DELIVER_AT_LEAST_ONCE
                   else if qosRet = 2 then DELIVER_EXACTLY_ONCE
                   else DELIVER_FAILURE])
     else None
   }"

text \<open>
  The string of the trace log: made before the return codes are allocated, and deleted behind the
  loop, if tracing is still on then; nothing deletes it when they cannot be allocated.
\<close>

definition suback_log ::
  "('b, 'w, 'z) environment \<Rightarrow> ('b, 'w, 'z) client_scheme \<Rightarrow> bool \<times> ('b, 'w, 'z) client_scheme" where
  "suback_log env s =
    (if is_trace_enabled s then
       (case STRING_construct_sprintf (strings env) (world s) of (trace_log, w) \<Rightarrow> (trace_log, s\<lparr>world := w\<rparr>))
     else (False, s))"

definition delete_suback_log ::
  "('b, 'w, 'z) environment \<Rightarrow> bool \<Rightarrow> ('b, 'w, 'z) client_scheme \<Rightarrow> ('b, 'w, 'z) client_scheme" where
  "delete_suback_log env trace_log s =
    (if is_trace_enabled s then s\<lparr>world := STRING_delete (strings env) trace_log (world s)\<rparr> else s)"

text \<open>\<open>sizeof(QOS_VALUE)\<close>, the size of an enumeration.\<close>

definition sizeof_QOS_VALUE :: nat where "sizeof_QOS_VALUE = 4"

definition recv_suback ::
  "('b, 'w, 'z) environment \<Rightarrow> byte list \<Rightarrow> nat \<Rightarrow> ('b, 'w, 'z) client_scheme
    \<Rightarrow> ('b, 'w, 'z) client_scheme option" where
  "recv_suback env iterator packetLength s = do {
     (packetId, iterator) \<leftarrow> byteutil_read_uint16 (iterator, 0) packetLength;
     let remainLen = size_sub packetLength 2;
     let (trace_log, s) = suback_log env s;
     let malloc_size = safe_multiply_size_t env sizeof_QOS_VALUE remainLen;
     if malloc_size \<noteq> SIZE_MAX then
      (case malloc (heap env) malloc_size (world s) of
         (False, w) \<Rightarrow> set_error_callback env MQTT_CLIENT_MEMORY_ERROR (s\<lparr>world := w\<rparr>)
       | (True, w) \<Rightarrow> do {
           (ok, codes) \<leftarrow> read_suback iterator remainLen (malloc_size div sizeof_QOS_VALUE) [];
           let s = s\<lparr>world := w\<rparr>;
           s \<leftarrow> (if \<not> ok then set_error_callback env MQTT_CLIENT_COMMUNICATION_ERROR s else Some s);
           s \<leftarrow> operation_callback env MQTT_CLIENT_ON_SUBSCRIBE_ACK
                 (SUBACK_INFO \<lparr>suback_packetId = packetId, suback_qosReturn = codes\<rparr>)
                 (delete_suback_log env trace_log s);
           Some (s\<lparr>world := free (heap env) (world s)\<rparr>)
         })
     else set_error_callback env MQTT_CLIENT_MEMORY_ERROR s
   }"

definition recv_unsuback ::
  "('b, 'w, 'z) environment \<Rightarrow> byte list \<Rightarrow> nat \<Rightarrow> ('b, 'w, 'z) client_scheme
    \<Rightarrow> ('b, 'w, 'z) client_scheme option" where
  "recv_unsuback env iterator packetLength s =
    (if packetLength \<noteq> 2 then set_error_callback env MQTT_CLIENT_COMMUNICATION_ERROR s
     else do {
       (packetId, iterator) \<leftarrow> byteutil_read_uint16 (iterator, 0) packetLength;
       operation_callback env MQTT_CLIENT_ON_UNSUBSCRIBE_ACK
         (UNSUBACK_INFO \<lparr>unsuback_packetId = packetId\<rparr>) s
     })"

definition recv_pingresp ::
  "('b, 'w, 'z) environment \<Rightarrow> ('b, 'w, 'z) client_scheme \<Rightarrow> ('b, 'w, 'z) client_scheme option" where
  "recv_pingresp env s =
    operation_callback env MQTT_CLIENT_ON_PING_RESPONSE NO_INFO (s\<lparr>timeSincePing := 0\<rparr>)"

section \<open>The completion callback and the bytes\<close>

text \<open>
  The branches of the \<open>switch\<close>; the body is the block of \<open>headerData\<close>, null for a packet without
  one.  A PINGRESP has none, every other branch runs on a body of at least one byte.
\<close>

definition recvCompleteCallback ::
  "('b, 'w, 'z) environment \<Rightarrow> ('b, ('b, 'w, 'z) client_scheme) packet_cb" where
  "recvCompleteCallback env packet flags header_data s =
    (let packetLength = (case header_data of None \<Rightarrow> 0 | Some b \<Rightarrow> BUFFER_length (buffers env) b);
         iterator = (case header_data of None \<Rightarrow> None | Some b \<Rightarrow> BUFFER_u_char (buffers env) b)
     in
     if packet = PINGRESP_TYPE then recv_pingresp env s
     else
      (case iterator of
         None \<Rightarrow> Some s
       | Some body \<Rightarrow>
          if packetLength = 0 then Some s
          else
           (case packet of
              CONNACK_TYPE \<Rightarrow> recv_connack env body packetLength s
            | PUBLISH_TYPE \<Rightarrow> ProcessPublishMessage env body packetLength flags s
            | PUBACK_TYPE \<Rightarrow> recv_publish_ack env packet body packetLength s
            | PUBREC_TYPE \<Rightarrow> recv_publish_ack env packet body packetLength s
            | PUBREL_TYPE \<Rightarrow> recv_publish_ack env packet body packetLength s
            | PUBCOMP_TYPE \<Rightarrow> recv_publish_ack env packet body packetLength s
            | SUBACK_TYPE \<Rightarrow> recv_suback env body packetLength s
            | UNSUBACK_TYPE \<Rightarrow> recv_unsuback env body packetLength s
            | _ \<Rightarrow> Some s)))"

definition onBytesReceived ::
  "('b, 'w, 'z) environment \<Rightarrow> byte list option \<Rightarrow> nat \<Rightarrow> ('b, 'w, 'z) client_scheme
    \<Rightarrow> ('b, 'w, 'z) client_scheme option" where
  "onBytesReceived env buffer sz s = do {
     (result, handle) \<leftarrow>
       mqtt_codec_bytesReceived (buffers env) (Some (recvCompleteCallback env)) (Some s) buffer sz;
     if result \<noteq> ZERO then do {
       s \<leftarrow> mqtt_codec_reset handle;
       set_error_callback env MQTT_CLIENT_PARSE_ERROR s
     }
     else handle
   }"

end
