(* ===== verification/Client_Api.thy ===== *)
theory Client_Api
  imports Client_Recv
begin

text \<open>
  The entry points of \<open>src/mqtt_client.c\<close>: creation and destruction of a client, connecting,
  publishing, subscribing, disconnecting, and the periodic work.  A handle is \<open>None\<close> for the null
  pointer, and a call gives its status and the client afterwards.
\<close>

type_synonym ('b, 'w, 'z) api_result = "(c_result \<times> ('b, 'w, 'z) client_scheme option) option"

definition on_client ::
  "('b, 'w, 'z) client_scheme option \<Rightarrow> (('b, 'w, 'z) client_scheme \<Rightarrow> (c_result \<times> ('b, 'w, 'z) client_scheme) option)
    \<Rightarrow> ('b, 'w, 'z) api_result" where
  "on_client handle f =
    (case handle of
       None \<Rightarrow> Some (MU_FAILURE, None)
     | Some s \<Rightarrow> do { (r, s) \<leftarrow> f s; Some (r, Some s) })"

section \<open>Options\<close>

definition free_option :: "'w heap_api \<Rightarrow> c_str option \<Rightarrow> 'w \<Rightarrow> 'w" where
  "free_option h field w = (if field \<noteq> None then free h w else w)"

definition clear_mqtt_options ::
  "('b, 'w, 'z) environment \<Rightarrow> ('b, 'w, 'z) client_scheme \<Rightarrow> ('b, 'w, 'z) client_scheme" where
  "clear_mqtt_options env s =
    (let opts = mqttOptions s;
         w = free_option (heap env) (clientId opts) (world s);
         w = free_option (heap env) (willTopic opts) w;
         w = free_option (heap env) (willMessage opts) w;
         w = free_option (heap env) (username opts) w;
         w = free_option (heap env) (password opts) w
     in s\<lparr>world := w, mqttOptions := opts\<lparr>clientId := None, willTopic := None, willMessage := None,
            username := None, password := None\<rparr>\<rparr>)"

text \<open>One string option: skipped after a failure and when the caller gives none.\<close>

definition clone_field ::
  "'w heap_api \<Rightarrow> (MQTT_CLIENT_OPTIONS \<Rightarrow> c_str option)
    \<Rightarrow> ((c_str option \<Rightarrow> c_str option) \<Rightarrow> MQTT_CLIENT_OPTIONS \<Rightarrow> MQTT_CLIENT_OPTIONS)
    \<Rightarrow> MQTT_CLIENT_OPTIONS \<Rightarrow> c_result \<times> MQTT_CLIENT_OPTIONS \<times> 'w
    \<Rightarrow> c_result \<times> MQTT_CLIENT_OPTIONS \<times> 'w" where
  "clone_field h get upd given st =
    (case st of
       (MU_FAILURE, opts, w) \<Rightarrow> st
     | (ZERO, opts, w) \<Rightarrow>
        (case get given of
           None \<Rightarrow> st
         | Some str \<Rightarrow>
            (case mallocAndStrcpy_s h str w of
               (None, w) \<Rightarrow> (MU_FAILURE, opts, w)
             | (Some temp_option, w) \<Rightarrow>
                (ZERO, upd (\<lambda>_. Some temp_option) opts, free_option h (get opts) w))))"

definition cloneMqttOptions ::
  "('b, 'w, 'z) environment \<Rightarrow> MQTT_CLIENT_OPTIONS \<Rightarrow> ('b, 'w, 'z) client_scheme
    \<Rightarrow> c_result \<times> ('b, 'w, 'z) client_scheme" where
  "cloneMqttOptions env given s =
    (let st = clone_field (heap env) clientId clientId_update given (ZERO, mqttOptions s, world s);
         st = clone_field (heap env) willTopic willTopic_update given st;
         st = clone_field (heap env) willMessage willMessage_update given st;
         st = clone_field (heap env) username username_update given st;
         st = clone_field (heap env) password password_update given st
     in
     case st of
       (ZERO, opts, w) \<Rightarrow>
         (ZERO, s\<lparr>world := w, mqttOptions := opts\<lparr>
            opt_keepAliveInterval := opt_keepAliveInterval given,
            messageRetain := messageRetain given,
            useCleanSession := useCleanSession given,
            qualityOfServiceValue := qualityOfServiceValue given\<rparr>\<rparr>)
     | (MU_FAILURE, opts, w) \<Rightarrow>
         (MU_FAILURE, clear_mqtt_options env (s\<lparr>world := w, mqttOptions := opts\<rparr>)))"

section \<open>Creation and destruction\<close>

definition mqtt_client_clear_xio ::
  "('b, 'w, 'z) client_scheme option \<Rightarrow> ('b, 'w, 'z) client_scheme option" where
  "mqtt_client_clear_xio handle = map_option (\<lambda>s. s\<lparr>xioHandle := None\<rparr>) handle"

definition no_options :: MQTT_CLIENT_OPTIONS where
  "no_options = \<lparr>clientId = None, willTopic = None, willMessage = None, username = None,
     password = None, opt_keepAliveInterval = 0, messageRetain = False, useCleanSession = False,
     qualityOfServiceValue = DELIVER_AT_MOST_ONCE, log_trace = False\<rparr>"

text \<open>The instance after the \<open>memset\<close> and the assignments; \<open>ext\<close> is the extension of the record.\<close>

definition fresh_client ::
  "fn_ptr option \<Rightarrow> fn_ptr option \<Rightarrow> ctx_ptr \<Rightarrow> fn_ptr option \<Rightarrow> ctx_ptr \<Rightarrow> 'z \<Rightarrow> 'w
    \<Rightarrow> ('b, 'w, 'z) client_scheme" where
  "fresh_client msgRecv operation_cb opCallbackCtx onErrorCallBack errorCtx ext w =
    \<lparr>world = w, currPacket = UNKNOWN_TYPE, codecState = CODEC_STATE_FIXED_HEADER, bufferOffset = 0,
     headerFlags = 0, headerData = None, storeRemainLen = replicate 4 0, remainLenIndex = 0,
     xioHandle = None, packetState = UNKNOWN_TYPE, packetSendTimeMs = 0,
     fnOperationCallback = operation_cb, fnMessageRecv = msgRecv, ctx = opCallbackCtx,
     fnOnErrorCallBack = onErrorCallBack, errorCBCtx = errorCtx, disconnect_cb = None,
     disconnect_ctx = 0, qosValue = DELIVER_AT_MOST_ONCE, keepAliveInterval = 0,
     mqttOptions = no_options, mqtt_status = 0, mqtt_flags = 0, timeSincePing = 0,
     maxPingRespTime = DEFAULT_MAX_PING_RESPONSE_TIME, \<dots> = ext\<rparr>"

definition mqtt_client_init ::
  "('b, 'w, 'z) environment \<Rightarrow> fn_ptr option \<Rightarrow> fn_ptr option \<Rightarrow> ctx_ptr \<Rightarrow> fn_ptr option \<Rightarrow> ctx_ptr
    \<Rightarrow> 'z \<Rightarrow> 'w \<Rightarrow> ('b, 'w, 'z) client_scheme option \<times> 'w" where
  "mqtt_client_init env msgRecv operation_cb opCallbackCtx onErrorCallBack errorCtx ext w =
    (if msgRecv = None \<or> operation_cb = None then (None, w)
     else
      (case malloc (heap env) 1 w of
         (False, w) \<Rightarrow> (None, w)
       | (True, w) \<Rightarrow>
          (case tickcounter_create env w of
             (False, w) \<Rightarrow> (None, free (heap env) w)
           | (True, w) \<Rightarrow>
              (case mqtt_codec_create (heap env)
                      (fresh_client msgRecv operation_cb opCallbackCtx onErrorCallBack errorCtx ext w) w of
                 (None, w) \<Rightarrow> (None, free (heap env) (tickcounter_destroy env w))
               | (Some result, w) \<Rightarrow> (Some result, w)))))"

definition mqtt_client_deinit ::
  "('b, 'w, 'z) environment \<Rightarrow> ('b, 'w, 'z) client_scheme option \<Rightarrow> 'w \<Rightarrow> 'w" where
  "mqtt_client_deinit env handle w =
    (case handle of
       None \<Rightarrow> w
     | Some s \<Rightarrow>
        (let s = s\<lparr>world := tickcounter_destroy env w\<rparr>;
             s = s\<lparr>world := mqtt_codec_destroy (buffers env) (heap env) (Some s) (world s)\<rparr>;
             s = clear_mqtt_options env s
         in free (heap env) (world s)))"

section \<open>Connecting\<close>

definition mqtt_client_connect ::
  "('b, 'w, 'z) environment \<Rightarrow> ('b, 'w, 'z) client_scheme option \<Rightarrow> xio_handle option
    \<Rightarrow> MQTT_CLIENT_OPTIONS option \<Rightarrow> ('b, 'w, 'z) api_result" where
  "mqtt_client_connect env handle xio options =
    (case (handle, options, xio) of
       (Some s, Some given, Some x) \<Rightarrow>
        (let half = opt_keepAliveInterval given div 2;
             s = s\<lparr>xioHandle := Some x, packetState := UNKNOWN_TYPE,
                   qosValue := qualityOfServiceValue given,
                   keepAliveInterval := opt_keepAliveInterval given,
                   maxPingRespTime := (if DEFAULT_MAX_PING_RESPONSE_TIME < half
                                       then DEFAULT_MAX_PING_RESPONSE_TIME else half),
                   timeSincePing := 0\<rparr>;
             (result, s) = cloneMqttOptions env given s
         in
         if result \<noteq> ZERO then Some (MU_FAILURE, Some s)
         else do {
           (result, s) \<leftarrow> xio_open env x s;
           if result \<noteq> ZERO then
             Some (MU_FAILURE, Some (clear_mqtt_options env (s\<lparr>xioHandle := None\<rparr>)))
           else Some (ZERO, Some s)
         })
     | _ \<Rightarrow> Some (MU_FAILURE, handle))"

section \<open>Requests\<close>

definition mqtt_client_publish ::
  "('b, 'w, 'z) environment \<Rightarrow> ('b, 'w, 'z) client_scheme option \<Rightarrow> MQTT_MESSAGE option
    \<Rightarrow> ('b, 'w, 'z) api_result" where
  "mqtt_client_publish env handle msgHandle =
    on_client handle (\<lambda>s.
      if msgHandle = None then Some (MU_FAILURE, s)
      else
       (case mqttmessage_getApplicationMsg msgHandle of
          None \<Rightarrow> Some (MU_FAILURE, s)
        | Some payload \<Rightarrow> do {
            (publishPacket, w) \<leftarrow>
              mqtt_codec_publish (buffers env) (mqttmessage_getQosType msgHandle)
                (mqttmessage_getIsDuplicateMsg msgHandle) (mqttmessage_getIsRetained msgHandle)
                (mqttmessage_getPacketId msgHandle) (mqttmessage_getTopicName msgHandle)
                (message payload) (payload_length payload) (world s);
            let s = s\<lparr>world := w\<rparr>;
            case publishPacket of
              None \<Rightarrow> Some (MU_FAILURE, s)
            | Some packet \<Rightarrow> send_and_delete env packet (s\<lparr>packetState := PUBLISH_TYPE\<rparr>)
          }))"

definition mqtt_client_subscribe ::
  "('b, 'w, 'z) environment \<Rightarrow> ('b, 'w, 'z) client_scheme option \<Rightarrow> u16
    \<Rightarrow> SUBSCRIBE_PAYLOAD list option \<Rightarrow> nat \<Rightarrow> ('b, 'w, 'z) api_result" where
  "mqtt_client_subscribe env handle packetId subscribeList count =
    on_client handle (\<lambda>s.
      if subscribeList = None \<or> count = 0 \<or> packetId = 0 then Some (MU_FAILURE, s)
      else do {
        (subPacket, w) \<leftarrow> mqtt_codec_subscribe (buffers env) packetId subscribeList count (world s);
        let s = s\<lparr>world := w\<rparr>;
        case subPacket of
          None \<Rightarrow> Some (MU_FAILURE, s)
        | Some packet \<Rightarrow> send_and_delete env packet (s\<lparr>packetState := SUBSCRIBE_TYPE\<rparr>)
      })"

definition mqtt_client_unsubscribe ::
  "('b, 'w, 'z) environment \<Rightarrow> ('b, 'w, 'z) client_scheme option \<Rightarrow> u16
    \<Rightarrow> c_str option list option \<Rightarrow> nat \<Rightarrow> ('b, 'w, 'z) api_result" where
  "mqtt_client_unsubscribe env handle packetId unsubscribeList count =
    on_client handle (\<lambda>s.
      if unsubscribeList = None \<or> count = 0 \<or> packetId = 0 then Some (MU_FAILURE, s)
      else do {
        (unsubPacket, w) \<leftarrow> mqtt_codec_unsubscribe (buffers env) packetId unsubscribeList count (world s);
        let s = s\<lparr>world := w\<rparr>;
        case unsubPacket of
          None \<Rightarrow> Some (MU_FAILURE, s)
        | Some packet \<Rightarrow> send_and_delete env packet (s\<lparr>packetState := UNSUBSCRIBE_TYPE\<rparr>)
      })"

definition mqtt_client_send_message_response ::
  "('b, 'w, 'z) environment \<Rightarrow> ('b, 'w, 'z) client_scheme option \<Rightarrow> u16 \<Rightarrow> QOS_VALUE
    \<Rightarrow> ('b, 'w, 'z) api_result" where
  "mqtt_client_send_message_response env handle packetId qos =
    on_client handle (\<lambda>s.
      if packetId = 0 then Some (MU_FAILURE, s)
      else do { s \<leftarrow> SendMessageAck env packetId qos s; Some (ZERO, s) })"

section \<open>Disconnecting\<close>

definition mqtt_client_disconnect ::
  "('b, 'w, 'z) environment \<Rightarrow> ('b, 'w, 'z) client_scheme option \<Rightarrow> fn_ptr option \<Rightarrow> ctx_ptr
    \<Rightarrow> ('b, 'w, 'z) api_result" where
  "mqtt_client_disconnect env handle callback cb_ctx =
    on_client handle (\<lambda>s.
      if status_set MQTT_STATUS_CLIENT_CONNECTED s then do {
        (disconnectPacket, w) \<leftarrow> mqtt_codec_disconnect (buffers env) (world s);
        let s = s\<lparr>world := w\<rparr>;
        (result, s) \<leftarrow>
          (case disconnectPacket of
             None \<Rightarrow> Some (MU_FAILURE, s\<lparr>packetState := PACKET_TYPE_ERROR\<rparr>)
           | Some packet \<Rightarrow>
               send_and_delete env packet (s\<lparr>disconnect_cb := callback, disconnect_ctx := cb_ctx,
                 packetState := DISCONNECT_TYPE\<rparr>));
        Some (result, clear_mqtt_options env s)
      }
      else do {
        s \<leftarrow> close_connection env (s\<lparr>disconnect_cb := callback, disconnect_ctx := cb_ctx\<rparr>);
        Some (ZERO, clear_mqtt_options env s)
      })"

section \<open>Periodic work\<close>

definition forget_ping :: "('b, 'w, 'z) client_scheme \<Rightarrow> ('b, 'w, 'z) client_scheme" where
  "forget_ping s = s\<lparr>timeSincePing := 0, packetSendTimeMs := 0, packetState := UNKNOWN_TYPE\<rparr>"

definition send_ping ::
  "('b, 'w, 'z) environment \<Rightarrow> ('b, 'w, 'z) client_scheme \<Rightarrow> ('b, 'w, 'z) client_scheme option" where
  "send_ping env s = do {
     (pingPacket, w) \<leftarrow> mqtt_codec_ping (buffers env) (world s);
     let s = s\<lparr>world := w\<rparr>;
     case pingPacket of
       None \<Rightarrow> Some s
     | Some packet \<Rightarrow> do {
         (send_result, s) \<leftarrow> send_and_delete env packet s;
         if send_result \<noteq> ZERO then
           set_error_callback env MQTT_CLIENT_COMMUNICATION_ERROR (forget_ping s)
         else
          (case tickcounter_get_current_ms env s of
             (None, s) \<Rightarrow> Some s
           | (Some now, s) \<Rightarrow> Some (s\<lparr>timeSincePing := now\<rparr>))
       }
   }"

text \<open>The part of \<open>mqtt_client_dowork\<close> behind the call of \<open>xio_dowork\<close>.\<close>

definition keep_alive ::
  "('b, 'w, 'z) environment \<Rightarrow> ('b, 'w, 'z) client_scheme \<Rightarrow> ('b, 'w, 'z) client_scheme option" where
  "keep_alive env s =
    (if status_set MQTT_STATUS_SOCKET_CONNECTED s \<and> status_set MQTT_STATUS_CLIENT_CONNECTED s \<and>
        keepAliveInterval s > 0
     then
      (case tickcounter_get_current_ms env s of
         (None, s) \<Rightarrow> Some s
       | (Some current_ms, s) \<Rightarrow>
          if timeSincePing s > 0 \<and> (current_ms - timeSincePing s) div 1000 > ucast (maxPingRespTime s)
          then do {
            s \<leftarrow> set_error_callback env MQTT_CLIENT_NO_PING_RESPONSE s;
            Some (forget_ping s)
          }
          else if (current_ms - packetSendTimeMs s) div 1000 \<ge> ucast (keepAliveInterval s)
          then send_ping env s
          else Some s)
     else Some s)"

definition mqtt_client_dowork ::
  "('b, 'w, 'z) environment \<Rightarrow> ('b, 'w, 'z) client_scheme option
    \<Rightarrow> ('b, 'w, 'z) client_scheme option option" where
  "mqtt_client_dowork env handle =
    (case handle of
       None \<Rightarrow> Some None
     | Some s \<Rightarrow>
        if xioHandle s = None then Some (Some s)
        else if status_set MQTT_STATUS_PENDING_CLOSE s then do {
          s \<leftarrow> close_connection env s;
          Some (Some (clear_status MQTT_STATUS_PENDING_CLOSE s))
        }
        else do {
          s \<leftarrow> xio_dowork env (xioHandle s) s;
          s \<leftarrow> keep_alive env s;
          Some (Some s)
        })"

text \<open>
  As it is built by default, with logging and without \<open>ENABLE_RAW_TRACE\<close>: \<open>rawBytesOn\<close> is not used.
\<close>

definition mqtt_client_set_trace ::
  "('b, 'w, 'z) client_scheme option \<Rightarrow> bool \<Rightarrow> bool \<Rightarrow> ('b, 'w, 'z) client_scheme option" where
  "mqtt_client_set_trace handle traceOn rawBytesOn =
    map_option (\<lambda>s. s\<lparr>mqtt_flags := (if traceOn then mqtt_flags s OR MQTT_FLAGS_LOG_TRACE
                                   else mqtt_flags s AND NOT MQTT_FLAGS_LOG_TRACE)\<rparr>) handle"

end
