(* ===== verification/Client_Env.thy ===== *)
theory Client_Env
  imports Client_Api Codec_Packets Codec_Stream Message_Props
begin

text \<open>
  The contract between the client and its environment, as a locale, and what the client's internal
  functions keep under it: the codec's fields, the callbacks that were set, the connected bit, and
  the balance of what is allocated.
\<close>

section \<open>What is kept\<close>

text \<open>
  The callbacks \<open>mqtt_client_init\<close> insists on, which the code calls without a null test, and options
  that a CONNECT packet can be built of.
\<close>

definition client_ok :: "('b, 'w, 'z) client_scheme \<Rightarrow> bool" where
  "client_ok s \<longleftrightarrow> fnOperationCallback s \<noteq> None \<and> fnMessageRecv s \<noteq> None \<and>
    options_ok (mqttOptions s)"

text \<open>The blocks the copied options hold, and what is allocated apart from them.\<close>

definition opt_blocks :: "MQTT_CLIENT_OPTIONS \<Rightarrow> int" where
  "opt_blocks opts = int (length (filter (\<lambda>f. f \<noteq> None)
    [clientId opts, willTopic opts, willMessage opts, username opts, password opts]))"

definition balance :: "('w \<Rightarrow> int) \<Rightarrow> ('b, 'w, 'z) client_scheme \<Rightarrow> int" where
  "balance live s = live (world s) - opt_blocks (mqttOptions s)"

text \<open>
  \<open>keeps live d s s'\<close>: from \<open>s\<close> to \<open>s'\<close> the codec is untouched, the callbacks stay set, a client that
  was connected stays marked so, and \<open>d\<close> more blocks are allocated than the options account for.
\<close>

definition keeps ::
  "('w \<Rightarrow> int) \<Rightarrow> int \<Rightarrow> ('b, 'w, 'z) client_scheme \<Rightarrow> ('b, 'w, 'z) client_scheme \<Rightarrow> bool" where
  "keeps live d s s' \<longleftrightarrow> same_codec s s' \<and> client_ok s' \<and>
    (status_set MQTT_STATUS_CLIENT_CONNECTED s \<longrightarrow> status_set MQTT_STATUS_CLIENT_CONNECTED s') \<and>
    balance live s' = balance live s + d"

definition keeping ::
  "('w \<Rightarrow> int) \<Rightarrow> int \<Rightarrow> ('b, 'w, 'z) client_scheme \<Rightarrow> ('b, 'w, 'z) client_scheme option \<Rightarrow> bool" where
  "keeping live d s res \<longleftrightarrow> (\<exists>s'. res = Some s' \<and> keeps live d s s')"

lemma keeps_refl [intro]: "client_ok s \<Longrightarrow> keeps live 0 s s"
  by (simp add: keeps_def)

lemma keeps_handlers: "keeps live d s s' \<Longrightarrow> client_ok s'"
  by (simp add: keeps_def)

lemma keeps_trans:
  "keeps live d s t \<Longrightarrow> keeps live e t u \<Longrightarrow> c = d + e \<Longrightarrow> keeps live c s u"
  by (auto simp: keeps_def intro: same_codec_trans)

lemma keeping_Some [simp]: "keeping live d s (Some s') \<longleftrightarrow> keeps live d s s'"
  by (simp add: keeping_def)

lemma keeping_bind:
  assumes "keeping live d s m" and "\<And>t. keeps live d s t \<Longrightarrow> keeping live e t (f t)" and "c = d + e"
  shows "keeping live c s (Option.bind m f)"
  using assms by (fastforce simp: keeping_def intro: keeps_trans)

lemma keeping_step:
  "keeps live d s t \<Longrightarrow> keeping live e t res \<Longrightarrow> c = d + e \<Longrightarrow> keeping live c s res"
  by (auto simp: keeping_def intro: keeps_trans)

lemma keeping_then:
  "keeping live d s m \<Longrightarrow> (\<And>t. keeps live d s t \<Longrightarrow> keeps live e t (f t)) \<Longrightarrow> c = d + e \<Longrightarrow>
   keeping live c s (Option.bind m (\<lambda>t. Some (f t)))"
  by (rule keeping_bind) simp_all

text \<open>The updates of the client's own fields.\<close>

lemma status_connected_bits:
  "status_set MQTT_STATUS_CLIENT_CONNECTED (set_status bits s) \<longleftrightarrow>
    status_set MQTT_STATUS_CLIENT_CONNECTED s \<or> bits AND MQTT_STATUS_CLIENT_CONNECTED \<noteq> 0"
  by (simp add: status_set_def set_status_def bit.conj_disj_distrib2 or_eq_0_iff)

lemma keeps_fields:
  assumes "client_ok s"
  shows "keeps live 0 s (s\<lparr>xioHandle := x\<rparr>)" "keeps live 0 s (s\<lparr>packetState := t\<rparr>)"
    "keeps live 0 s (s\<lparr>packetSendTimeMs := m\<rparr>)" "keeps live 0 s (s\<lparr>timeSincePing := m\<rparr>)"
    "keeps live 0 s (s\<lparr>disconnect_cb := f, disconnect_ctx := c\<rparr>)"
    "keeps live 0 s (set_status bits s)"
    "keeps live 0 s (clear_status MQTT_STATUS_SOCKET_CONNECTED s)"
    "keeps live 0 s (clear_status MQTT_STATUS_PENDING_CLOSE s)"
  using assms status_connected_bits [of bits s]
  by (simp_all add: keeps_def same_codec_def client_ok_def status_set_def set_status_def
      balance_def clear_status_def MQTT_STATUS_CLIENT_CONNECTED_def MQTT_STATUS_SOCKET_CONNECTED_def
      MQTT_STATUS_PENDING_CLOSE_def and.assoc)

lemma keeps_world:
  "client_ok s \<Longrightarrow> live w = live (world s) + d \<Longrightarrow> keeps live d s (s\<lparr>world := w\<rparr>)"
  by (simp add: keeps_def same_codec_def client_ok_def status_set_def balance_def)

lemma keeps_options:
  "client_ok s \<Longrightarrow> live w - opt_blocks opts = balance live s \<Longrightarrow> options_ok opts \<Longrightarrow>
   keeps live 0 s (s\<lparr>world := w, mqttOptions := opts\<rparr>)"
  by (simp add: keeps_def same_codec_def client_ok_def status_set_def balance_def)

text \<open>The same for a function that also gives a value.\<close>

definition giving ::
  "('w \<Rightarrow> int) \<Rightarrow> int \<Rightarrow> ('b, 'w, 'z) client_scheme \<Rightarrow> ('r \<times> ('b, 'w, 'z) client_scheme) option \<Rightarrow> bool" where
  "giving live d s res \<longleftrightarrow> (\<exists>r s'. res = Some (r, s') \<and> keeps live d s s')"

lemma giving_Some [simp]: "giving live d s (Some (r, s')) \<longleftrightarrow> keeps live d s s'"
  by (simp add: giving_def)

lemma giving_bind:
  assumes "giving live d s m" and "\<And>r t. keeps live d s t \<Longrightarrow> keeping live e t (f r t)" and "c = d + e"
  shows "keeping live c s (Option.bind m (\<lambda>(r, t). f r t))"
  using assms by (fastforce simp: giving_def keeping_def intro: keeps_trans)

lemma giving_bind_giving:
  assumes "giving live d s m" and "\<And>r t. keeps live d s t \<Longrightarrow> giving live e t (f r t)" and "c = d + e"
  shows "giving live c s (Option.bind m (\<lambda>(r, t). f r t))"
  using assms by (fastforce simp: giving_def intro: keeps_trans)

text \<open>The rules for calls that balance, which are most of them.\<close>

lemma keeping0_bind:
  assumes "keeping live 0 s m" and "\<And>t. client_ok t \<Longrightarrow> keeping live d t (f t)"
  shows "keeping live d s (Option.bind m f)"
  using assms by (auto intro!: keeping_bind dest: keeps_handlers)

lemma giving0_bind:
  assumes "giving live 0 s m" and "\<And>r t. client_ok t \<Longrightarrow> keeping live d t (f r t)"
  shows "keeping live d s (Option.bind m (\<lambda>(r, t). f r t))"
  using assms by (auto intro!: giving_bind dest: keeps_handlers)

lemma giving0_bind_giving:
  assumes "giving live 0 s m" and "\<And>r t. client_ok t \<Longrightarrow> giving live d t (f r t)"
  shows "giving live d s (Option.bind m (\<lambda>(r, t). f r t))"
  using assms by (auto intro!: giving_bind_giving dest: keeps_handlers)

lemma keeping0_step:
  assumes "keeps live 0 s t" and "client_ok t \<Longrightarrow> keeping live d t res"
  shows "keeping live d s res"
  using keeping_step [OF assms(1) assms(2) [OF keeps_handlers [OF assms(1)]]] by simp

section \<open>The environment's contract\<close>

text \<open>
  The step of a call that may hand bytes to the codec, as the transport's pump does: the invariants of
  codec and client hold afterwards, a connected client stays marked so, and nothing the library holds
  is released behind its back.  What the codec holds is not counted in \<open>client_balance\<close>.
\<close>

definition client_balance :: "('w \<Rightarrow> int) \<Rightarrow> ('b, 'w, 'z) client_scheme \<Rightarrow> int" where
  "client_balance live s = owned live s - opt_blocks (mqttOptions s)"

lemma client_balance_keeps: "keeps live d s s' \<Longrightarrow> client_balance live s' = client_balance live s + d"
  by (simp add: keeps_def same_codec_def client_balance_def balance_def owned_def)

definition moves ::
  "('b, 'w) buffer_api \<Rightarrow> ('w \<Rightarrow> int) \<Rightarrow> ('b, 'w, 'z) client_scheme \<Rightarrow> ('b, 'w, 'z) client_scheme \<Rightarrow> bool" where
  "moves api live s s' \<longleftrightarrow> codec_inv api s' \<and> client_ok s' \<and>
    (status_set MQTT_STATUS_CLIENT_CONNECTED s \<longrightarrow> status_set MQTT_STATUS_CLIENT_CONNECTED s') \<and>
    client_balance live s \<le> client_balance live s'"

lemma moves_trans: "moves api live s t \<Longrightarrow> moves api live t u \<Longrightarrow> moves api live s u"
  by (auto simp: moves_def)

lemma keeps_moves: "codec_inv api s \<Longrightarrow> keeps live 0 s s' \<Longrightarrow> moves api live s s'"
  using client_balance_keeps [of live 0 s s'] same_codec_inv [of s s']
  by (auto simp: moves_def keeps_def)

text \<open>A message whose topic is there and whose payload has the length it says.\<close>

definition readable :: "MQTT_MESSAGE \<Rightarrow> bool" where
  "readable m \<longleftrightarrow> mqttmessage_getTopicName (Some m) \<noteq> None \<and>
    Option.bind (mqttmessage_getApplicationMsg (Some m)) payload_view \<noteq> None"

text \<open>
  What the client relies on: the laws of the allocation interfaces (\<open>live\<close> counts every block but the
  strings of the trace log, which weigh nothing in it: the code can lose these, as \<open>connect_refuses\<close>
  of \<open>Codec_Packets\<close> shows), the documented results of the checked arithmetic, and for every call that leaves the library that it returns, hands no bytes to
  the codec while it runs, does not take back the callbacks or the connected bit, and leaves nothing
  allocated in the library's name.  Only the pump \<open>xio_dowork\<close> may hand over bytes, and it has
  stopped doing so when the transport was told to close: the predicate \<open>closing\<close> names the states
  in which it was.
\<close>

locale client_environment =
  fixes env :: "('b, 'w, 'z) environment" and live :: "'w \<Rightarrow> int"
    and closing :: "('b, 'w, 'z) client_scheme \<Rightarrow> bool"
  assumes buf: "buffer_laws (buffers env) live"
    and hp: "heap_laws (heap env) live"
    and str: "string_laws (strings env) live 0"
    and add: "safe_add_size_t env a b = (if a + b > SIZE_MAX then SIZE_MAX else a + b)"
    and mult: "safe_multiply_size_t env a b = (if a * b > SIZE_MAX then SIZE_MAX else a * b)"
    and tick_new: "tickcounter_create env w = (ok, w') \<Longrightarrow> live w' = live w + (if ok then 1 else 0)"
    and tick_free: "live (tickcounter_destroy env w) = live w - 1"
    and clock: "client_ok s \<Longrightarrow> giving live 0 s (Some (tickcounter_get_current_ms env s))"
    and xopen: "client_ok s \<Longrightarrow> giving live 0 s (xio_open env h s)"
    and xclose: "client_ok s \<Longrightarrow> \<exists>t. xio_close env x s = Some t \<and> keeps live 0 s t \<and> closing t"
    and xsend: "client_ok s \<Longrightarrow> giving live 0 s (xio_send env x data n s)"
    and drain: "client_ok s \<Longrightarrow> closing s \<Longrightarrow>
      \<exists>t. xio_dowork env x s = Some t \<and> keeps live 0 s t \<and> closing t"
    and pump: "client_ok s \<Longrightarrow> codec_inv (buffers env) s \<Longrightarrow>
      \<exists>t. xio_dowork env x s = Some t \<and> moves (buffers env) live s t"
    and sleep: "client_ok s \<Longrightarrow> closing s \<Longrightarrow>
      \<exists>t. ThreadAPI_Sleep env n s = Some t \<and> keeps live 0 s t \<and> closing t"
    and operation_cb: "client_ok s \<Longrightarrow> keeping live 0 s (call_operation_cb env f c action info s)"
    and message_cb: "client_ok s \<Longrightarrow> readable m \<Longrightarrow> giving live 0 s (call_message_cb env f c (Some m) s)"
    and error_cb: "client_ok s \<Longrightarrow> keeping live 0 s (call_error_cb env f c e s)"
    and disconnect_cb: "client_ok s \<Longrightarrow> keeping live 0 s (call_disconnect_cb env f c s)"
begin

lemma close_round:
  assumes "client_ok s" "closing s"
  shows "\<exists>t u. xio_dowork env x s = Some t \<and> ThreadAPI_Sleep env n t = Some u \<and> keeps live 0 s u \<and> closing u"
proof -
  obtain t where t: "xio_dowork env x s = Some t" "keeps live 0 s t" "closing t"
    using drain [OF assms] by blast
  obtain u where u: "ThreadAPI_Sleep env n t = Some u" "keeps live 0 t u" "closing u"
    using sleep [OF keeps_handlers [OF t(2)] t(3)] by blast
  show ?thesis using t u keeps_trans [OF t(2) u(2)] by auto
qed

lemma close_wait_keeps: "client_ok s \<Longrightarrow> closing s \<Longrightarrow> keeping live 0 s (close_wait env n s)"
proof (induction "MAX_CLOSE_RETRIES - n" arbitrary: n s)
  case 0
  then show ?case
    using close_round [OF 0(2,3), of "xioHandle s" 2] by (subst close_wait.simps) auto
next
  case (Suc k)
  have k: "k = MAX_CLOSE_RETRIES - (n + 1)" using Suc(2) by simp
  obtain t u where t: "xio_dowork env (xioHandle s) s = Some t" "ThreadAPI_Sleep env 2 t = Some u"
      "keeps live 0 s u" "closing u"
    using close_round [OF Suc(3,4)] by blast
  have "keeping live 0 s (close_wait env (n + 1) u)"
    by (rule keeping_step [OF t(3) Suc(1) [OF k keeps_handlers [OF t(3)] t(4)]]) simp
  then show ?case using t by (subst close_wait.simps) simp
qed

lemma close_connection_keeps:
  assumes "client_ok s"
  shows "keeping live 0 s (close_connection env s)"
proof (cases "status_set MQTT_STATUS_SOCKET_CONNECTED s")
  case True
  obtain t where t: "xio_close env (xioHandle s) s = Some t" "keeps live 0 s t" "closing t"
    using xclose [OF assms] by blast
  note okt = keeps_handlers [OF t(2)]
  have "keeping live 0 t (Option.bind (if Client_Model.disconnect_cb t = None then close_wait env 0 t else Some t)
      (\<lambda>s. Some (s\<lparr>xioHandle := None\<rparr>)))"
    by (intro keeping0_bind) (auto intro: okt close_wait_keeps t(3) keeps_fields)
  from keeping_step [OF t(2) this] show ?thesis
    unfolding close_connection_def if_P [OF True] t(1) by simp
next
  case False
  let ?s = "clear_status MQTT_STATUS_SOCKET_CONNECTED s"
  show ?thesis
    unfolding close_connection_def if_not_P [OF False] Let_def
    by (rule keeping0_step [OF keeps_fields(7) [OF assms]])
      (auto intro: disconnect_cb split: option.split)
qed

lemma set_error_keeps:
  "client_ok s \<Longrightarrow> keeping live 0 s (set_error_callback env e s)"
  unfolding set_error_callback_def
  by (intro keeping0_bind close_connection_keeps) (auto intro: error_cb split: option.split)

lemma operation_callback_keeps:
  "client_ok s \<Longrightarrow> keeping live 0 s (operation_callback env action info s)"
  by (auto simp: operation_callback_def client_ok_def intro!: operation_cb)

lemma sendPacketItem_keeps:
  "client_ok s \<Longrightarrow> giving live 0 s (sendPacketItem env data n s)"
  unfolding sendPacketItem_def
proof (rule giving0_bind_giving [OF xsend])
  fix r t assume h: "client_ok (t :: ('b, 'w, 'z) client_scheme)"
  obtain now u where c: "tickcounter_get_current_ms env t = (now, u)" by fastforce
  have u: "keeps live 0 t u" using clock [OF h] c by simp
  show "giving live 0 t (if r \<noteq> ZERO then Some (MU_FAILURE, t)
    else case tickcounter_get_current_ms env t of (None, s) \<Rightarrow> Some (MU_FAILURE, s)
      | (Some now, s) \<Rightarrow> Some (ZERO, s\<lparr>packetSendTimeMs := now\<rparr>))"
    using h u c keeps_trans [OF u keeps_fields(3) [OF keeps_handlers [OF u]]]
    by (auto split: option.split)
qed

text \<open>Building and sending a reply.\<close>

lemma build_reply_keeps:
  assumes h: "client_ok s"
    and enc: "encodes (buffers env) live (world s) bs (encoder (buffers env) packetId (world s))"
  shows "\<exists>r s'. build_reply env encoder packetId s = Some (r, s') \<and> keeps live (if r = None then 0 else 1) s s'"
proof -
  obtain r w where r: "encoder (buffers env) packetId (world s) = Some (r, w)"
    "live w = live (world s) + (if r = None then 0 else 1)"
    using enc by (auto simp: encodes_def split: option.splits)
  have k: "keeps live (if r = None then 0 else 1) s (s\<lparr>world := w\<rparr>)"
    by (rule keeps_world [OF h r(2)])
  show ?thesis
  proof (cases r)
    case None
    obtain t where "set_error_callback env MQTT_CLIENT_MEMORY_ERROR (s\<lparr>world := w\<rparr>) = Some t"
      "keeps live 0 (s\<lparr>world := w\<rparr>) t"
      using set_error_keeps [OF keeps_handlers [OF k]] by (auto simp: keeping_def)
    then show ?thesis using r k None keeps_trans [OF k, of 0 t] by (simp add: build_reply_def Let_def)
  next
    case (Some b)
    then show ?thesis using r k by (simp add: build_reply_def Let_def)
  qed
qed

lemma delete_keeps:
  "client_ok s \<Longrightarrow> keeps live (-1) s (s\<lparr>world := BUFFER_delete (buffers env) (Some b) (world s)\<rparr>)"
  by (rule keeps_world) (simp_all add: buffer_delete_live [OF buf])

lemma free_keeps:
  "client_ok s \<Longrightarrow> keeps live (-1) s (s\<lparr>world := free (heap env) (world s)\<rparr>)"
  by (rule keeps_world) (simp_all add: heap_free [OF hp])

lemma send_reply_keeps:
  assumes "client_ok s"
  shows "keeping live (if r = None then 0 else -1) s (send_reply env r s)"
proof (cases r)
  case None
  then show ?thesis using assms by (auto simp: send_reply_def)
next
  case (Some b)
  then show ?thesis
    unfolding send_reply_def option.case
    using assms
    by (auto intro!: giving0_bind [OF sendPacketItem_keeps] keeping0_bind delete_keeps set_error_keeps
        intro: keeps_refl)
qed

lemma reply_keeps:
  assumes h: "client_ok s"
    and enc: "encodes (buffers env) live (world s) bs (encoder (buffers env) packetId (world s))"
  shows "keeping live 0 s (Option.bind (build_reply env encoder packetId s) (\<lambda>(r, s). send_reply env r s))"
proof -
  obtain r t where t: "build_reply env encoder packetId s = Some (r, t)"
    "keeps live (if r = None then 0 else 1) s t"
    using build_reply_keeps [where encoder = encoder, OF h enc] by blast
  show ?thesis
    unfolding t(1) using keeping_step [OF t(2) send_reply_keeps [OF keeps_handlers [OF t(2)]], of 0 r]
    by simp
qed

lemma SendMessageAck_keeps:
  assumes "client_ok s"
  shows "keeping live 0 s (SendMessageAck env packetId qos s)"
  unfolding SendMessageAck_def
  using assms
  by (auto intro!: reply_keeps constructPublishReply_encodes [OF buf] simp: mqtt_codec_publishReceived_def
      mqtt_codec_publishAck_def send_reply_def)

text \<open>The readers on a body \<open>m\<close> whose length is the one passed.\<close>

definition prefix_length :: "byte list \<Rightarrow> nat" where
  "prefix_length m = unat (256 * ucast (m ! 0) + ucast (m ! 1) :: u16)"

lemma readUTF_run:
  "byteutil_readUTF env (m, 0) (length m) w =
    (if length m < 2 then Some (None, (m, 0), w)
     else if 0 < prefix_length m \<and> prefix_length m + 2 \<le> length m then
      (case malloc (heap env) (prefix_length m + 1) w of
         (False, w) \<Rightarrow> Some (None, (m, 2), w)
       | (True, w) \<Rightarrow>
          Some (Some (c_string (take (prefix_length m) (drop 2 m))), (m, prefix_length m + 2), w))
     else Some (None, (m, 2), w))"
proof (cases "length m < 2")
  case True
  then show ?thesis by (simp add: byteutil_readUTF_def byteutil_read_uint16_def)
next
  case False
  have n: "prefix_length m < 65536"
    using unsigned_less [of "256 * ucast (m ! 0) + ucast (m ! 1) :: u16", where ?'a = nat]
    by (simp add: prefix_length_def)
  have "0 < length m" "1 < length m" using False by linarith+
  then obtain v where rd: "byteutil_read_uint16 (m, 0) (length m) = Some (v, m, 2)"
    and v: "unat v = prefix_length m"
    using False by (simp add: byteutil_read_uint16_def get_byte_def advance_def prefix_length_def)
  have add: "safe_add_size_t env (prefix_length m) 1 = prefix_length m + 1"
    "prefix_length m + 1 \<noteq> SIZE_MAX"
    using n by (simp_all add: add SIZE_MAX_def)
  obtain r w' where "malloc (heap env) (prefix_length m + 1) w = (r, w')" by fastforce
  then show ?thesis
    using False add unfolding byteutil_readUTF_def rd
    by (cases r) (auto simp: v Let_def advance_def)
qed

lemma readUTF_cases:
  obtains (read) topic off w' where "byteutil_readUTF env (m, 0) (length m) w = Some (Some topic, (m, off), w')"
    "off \<le> length m" "live w' = live w + 1"
  | (fail) it w' where "byteutil_readUTF env (m, 0) (length m) w = Some (None, it, w')" "live w' = live w"
proof -
  obtain r w' where mal: "malloc (heap env) (prefix_length m + 1) w = (r, w')" by fastforce
  show thesis
  proof (cases "2 \<le> length m \<and> 0 < prefix_length m \<and> prefix_length m + 2 \<le> length m")
    case True
    show thesis
    proof (cases r)
      case r: True
      show thesis
        using True r mal read [of "c_string (take (prefix_length m) (drop 2 m))" "prefix_length m + 2" w']
          heap_malloc [OF hp mal]
        by (simp add: readUTF_run)
    next
      case r: False
      have "byteutil_readUTF env (m, 0) (length m) w = Some (None, (m, 2), w')"
        using True r mal by (simp add: readUTF_run)
      then show thesis by (rule fail) (use r heap_malloc [OF hp mal] in simp)
    qed
  next
    case False
    have "byteutil_readUTF env (m, 0) (length m) w = Some (None, (m, if length m < 2 then 0 else 2), w)"
      using False by (auto simp: readUTF_run)
    then show thesis by (rule fail) simp
  qed
qed

lemma read_uint16_defined:
  "n \<le> length m - i \<Longrightarrow> i \<le> length m \<Longrightarrow>
   \<exists>v j. byteutil_read_uint16 (m, i) n = Some (v, m, j) \<and> i \<le> j \<and> j \<le> length m"
  by (auto simp: byteutil_read_uint16_def get_byte_def advance_def)

lemma deliver_message_keeps:
  assumes h: "client_ok s" and n: "n \<le> length appMsg"
  shows "keeping live 0 s (deliver_message env packetId topic qos appMsg n dup retain s)"
  using hp
proof (cases rule: in_place_cases [where packetId = packetId and topic = topic and qos = qos
      and body = "Some appMsg" and n = n and w = "world s"])
  case (fail w)
  have k: "keeps live 0 s (s\<lparr>world := w\<rparr>)" by (rule keeps_world) (simp_all add: h fail)
  have "keeping live 0 (s\<lparr>world := w\<rparr>) (set_error_callback env MQTT_CLIENT_MEMORY_ERROR (s\<lparr>world := w\<rparr>))"
    by (rule set_error_keeps [OF keeps_handlers [OF k]])
  from keeping_step [OF k this, of 0] show ?thesis
    by (simp add: deliver_message_def fail mqttmessage_destroy_def)
next
  case (ok m w)
  have k: "keeps live 1 s (s\<lparr>world := w\<rparr>)" by (rule keeps_world) (simp_all add: h ok)
  let ?m = "m\<lparr>isDuplicateMsg := dup, isMessageRetained := retain\<rparr>"
  have blocks: "msg_blocks ?m = 1" using ok(2) by (simp add: msg_blocks_def)
  have rd: "readable ?m" using ok(2) n by (auto simp: readable_def message_getters payload_view_def)
  have del: "keeps live (-1) t (t\<lparr>world := mqttmessage_destroy (heap env) (Some ?m) (world t)\<rparr>)"
    if "client_ok t" for t :: "('b, 'w, 'z) client_scheme"
    by (rule keeps_world) (simp_all only: that destroy_live [OF hp] blocks)
  obtain f where f: "fnMessageRecv (s\<lparr>world := w\<rparr>) = Some f"
    using h by (auto simp: client_ok_def)
  have run: "deliver_message env packetId topic qos appMsg n dup retain s =
    Option.bind (Option.bind (call_message_cb env f (ctx s) (Some ?m) (s\<lparr>world := w\<rparr>))
      (\<lambda>(ack_option, s). if ack_option = MQTT_CLIENT_ACK_SYNC then SendMessageAck env packetId qos s else Some s))
      (\<lambda>s. Some (s\<lparr>world := mqttmessage_destroy (heap env) (Some ?m) (world s)\<rparr>))"
    using f by (simp add: deliver_message_def ok(1) mqttmessage_setIsDuplicateMsg_def
        mqttmessage_setIsRetained_def)
  have "keeping live (-1) (s\<lparr>world := w\<rparr>) (deliver_message env packetId topic qos appMsg n dup retain s)"
    unfolding run
  proof (rule keeping0_bind)
    show "keeping live 0 (s\<lparr>world := w\<rparr>) (Option.bind (call_message_cb env f (ctx s) (Some ?m) (s\<lparr>world := w\<rparr>))
      (\<lambda>(ack_option, s). if ack_option = MQTT_CLIENT_ACK_SYNC then SendMessageAck env packetId qos s else Some s))"
      by (rule giving0_bind [OF message_cb [OF keeps_handlers [OF k] rd]])
        (auto intro: SendMessageAck_keeps keeps_refl)
  qed (simp add: del)
  from keeping_step [OF k this, of 0] show ?thesis by simp
qed

end

end
