(* ===== verification/Client_Safety.thy ===== *)
theory Client_Safety
  imports Client_Env
begin

text \<open>
  The receiving side of the client under the contract of \<open>client_environment\<close>: every packet, well
  formed or not, is processed within the bounds of its body and without leaking, so that
  \<open>recvCompleteCallback\<close> is a callback as the codec asks of it.
\<close>

section \<open>The packets one by one\<close>

context client_environment
begin

lemma ProcessPublishMessage_keeps:
  assumes h: "client_ok s"
  shows "keeping live 0 s (ProcessPublishMessage env m (length m) flags s)"
proof (cases rule: readUTF_cases [where m = m and w = "world s"])
  case (fail it w)
  have k: "keeps live 0 s (s\<lparr>world := w\<rparr>)" by (rule keeps_world) (simp_all add: h fail)
  from keeping_step [OF k set_error_keeps [OF keeps_handlers [OF k]], of 0]
  show ?thesis by (simp add: ProcessPublishMessage_def fail)
next
  case (read topic off w)
  have k: "keeps live 1 s (s\<lparr>world := w\<rparr>)" by (rule keeps_world) (simp_all add: h read)
  have sz: "size_sub (length m) off = length m - off" using read(2) by simp
  obtain packetId j where pid: "(if flags_qos flags \<noteq> DELIVER_AT_MOST_ONCE
      then byteutil_read_uint16 (m, off) (length m - off) else Some (0, (m, off))) = Some (packetId, m, j)"
    and j: "j \<le> length m"
  proof (cases "flags_qos flags \<noteq> DELIVER_AT_MOST_ONCE")
    case True
    then show thesis using that read_uint16_defined [of "length m - off" m off] read(2) by auto
  next
    case False
    then show thesis using that [of 0 off] read(2) by simp
  qed
  have run: "ProcessPublishMessage env m (length m) flags s = Option.bind
      (if flags_qos flags \<noteq> DELIVER_AT_MOST_ONCE \<and> packetId = 0
       then set_error_callback env MQTT_CLIENT_PARSE_ERROR (s\<lparr>world := w\<rparr>)
       else deliver_message env packetId topic (flags_qos flags) (drop j m) (size_sub (length m) j)
         (flags AND 0x8 \<noteq> 0) (flags AND 0x1 \<noteq> 0) (s\<lparr>world := w\<rparr>))
      (\<lambda>s. Some (s\<lparr>world := free (heap env) (world s)\<rparr>))"
    by (simp only: ProcessPublishMessage_def read(1) Let_def prod.case option.case Option.bind.bind_lunit
        fst_conv snd_conv sz pid)
  have "keeping live (-1) (s\<lparr>world := w\<rparr>) (ProcessPublishMessage env m (length m) flags s)"
    unfolding run using keeps_handlers [OF k]
    using j by (auto intro!: keeping0_bind intro: set_error_keeps deliver_message_keeps free_keeps)
  from keeping_step [OF k this, of 0] show ?thesis by simp
qed

lemma recv_connack_keeps:
  assumes "client_ok s"
  shows "keeping live 0 s (recv_connack env m (length m) s)"
proof (cases "length m = 2")
  case False
  then show ?thesis using assms by (simp add: recv_connack_def set_error_keeps)
next
  case True
  then obtain x y where "m = [x, y]" by (auto simp: numeral_eq_Suc length_Suc_conv)
  then show ?thesis
    using assms
    by (auto simp: recv_connack_def byteutil_readByte_def get_byte_def advance_def
        simp del: return_code_of.simps
        intro!: set_error_keeps operation_callback_keeps keeping0_bind [OF operation_callback_keeps]
          keeps_fields)
qed

lemma recv_publish_ack_keeps:
  assumes "client_ok s"
  shows "keeping live 0 s (recv_publish_ack env packet m (length m) s)"
proof (cases "length m = 2")
  case False
  then show ?thesis using assms by (simp add: recv_publish_ack_def set_error_keeps)
next
  case True
  then obtain v j where "byteutil_read_uint16 (m, 0) (length m) = Some (v, m, j)"
    using read_uint16_defined [of 2 m 0] by auto
  then show ?thesis
    using assms True
    by (auto simp: recv_publish_ack_def send_reply_def mqtt_codec_publishRelease_def
        mqtt_codec_publishComplete_def
        intro!: keeping0_bind [OF operation_callback_keeps] reply_keeps constructPublishReply_encodes [OF buf])
qed

lemma read_suback_defined:
  "i + n \<le> length m \<Longrightarrow> length codes + n \<le> capacity \<Longrightarrow>
   \<exists>ok codes'. read_suback (m, i) n capacity codes = Some (ok, codes')"
proof (induction n arbitrary: i codes)
  case (Suc n)
  then show ?case
    using Suc.IH [of "Suc i" "codes @ [x]" for x]
    by (auto simp: byteutil_readByte_def get_byte_def advance_def Let_def)
qed auto

lemma suback_capacity:
  assumes "safe_multiply_size_t env sizeof_QOS_VALUE (size_sub n 2) = sz" and "sz \<noteq> SIZE_MAX" and "0 < n"
  shows "2 \<le> n \<and> sz div sizeof_QOS_VALUE = n - 2"
proof -
  have "2 \<le> n"
  proof (rule ccontr)
    assume "\<not> 2 \<le> n"
    then have "n = 1" using assms(3) by simp
    then show False using assms(1,2) by (simp add: mult sizeof_QOS_VALUE_def size_sub_def SIZE_MAX_def)
  qed
  then show ?thesis using assms(1,2) by (auto simp: mult sizeof_QOS_VALUE_def split: if_splits)
qed

lemma suback_log_keeps:
  assumes "client_ok s"
  obtains trace_log t where "suback_log env s = (trace_log, t)" "keeps live 0 s t"
proof -
  obtain ok w where w: "STRING_construct_sprintf (strings env) (world s) = (ok, w)" by fastforce
  have "keeps live 0 s (s\<lparr>world := w\<rparr>)"
    by (rule keeps_world [OF assms]) (use string_construct_live [OF str w] in simp)
  then show thesis
    using w that keeps_refl [OF assms] by (cases "is_trace_enabled s") (auto simp: suback_log_def)
qed

lemma delete_suback_log_keeps:
  assumes "client_ok s"
  shows "keeps live 0 s (delete_suback_log env trace_log s)"
proof -
  have "keeps live 0 s (s\<lparr>world := STRING_delete (strings env) trace_log (world s)\<rparr>)"
    by (rule keeps_world [OF assms]) (simp add: string_delete_live [OF str])
  then show ?thesis using keeps_refl [OF assms] by (simp add: delete_suback_log_def)
qed

lemma recv_suback_keeps:
  assumes h: "client_ok s" and m: "m \<noteq> []"
  shows "keeping live 0 s (recv_suback env m (length m) s)"
proof -
  have "\<exists>v j. byteutil_read_uint16 (m, 0) (length m) = Some (v, m, j) \<and> (2 \<le> length m \<longrightarrow> j = 2)"
    using m by (auto simp: byteutil_read_uint16_def get_byte_def advance_def)
  then obtain v j where rd: "byteutil_read_uint16 (m, 0) (length m) = Some (v, m, j)"
    "2 \<le> length m \<longrightarrow> j = 2" by blast
  obtain trace_log t where log: "suback_log env s = (trace_log, t)" and kt: "keeps live 0 s t"
    using suback_log_keeps [OF h] by blast
  note okt = keeps_handlers [OF kt]
  obtain sz where sz: "safe_multiply_size_t env sizeof_QOS_VALUE (size_sub (length m) 2) = sz" by blast
  have "keeping live 0 t (recv_suback env m (length m) s)"
  proof (cases "sz = SIZE_MAX")
    case True
    then show ?thesis using okt by (simp add: recv_suback_def rd log Let_def sz set_error_keeps)
  next
    case False
    then have cap: "2 \<le> length m" "sz div sizeof_QOS_VALUE = length m - 2"
      using suback_capacity [OF sz False] m by auto
    obtain r w where mal: "malloc (heap env) sz (world t) = (r, w)" by fastforce
    show ?thesis
    proof (cases r)
      case False
      have k: "keeps live 0 t (t\<lparr>world := w\<rparr>)"
        by (rule keeps_world) (use okt False heap_malloc [OF hp mal] in simp_all)
      from keeping_step [OF k set_error_keeps [OF keeps_handlers [OF k]], of 0]
      show ?thesis using \<open>sz \<noteq> SIZE_MAX\<close> False by (simp add: recv_suback_def rd log Let_def sz mal)
    next
      case True
      have k: "keeps live 1 t (t\<lparr>world := w\<rparr>)"
        by (rule keeps_world) (use okt True heap_malloc [OF hp mal] in simp_all)
      have "2 + (length m - 2) \<le> length m" using cap(1) by linarith
      then obtain ok codes where codes: "read_suback (m, 2) (length m - 2) (length m - 2) [] = Some (ok, codes)"
        using read_suback_defined [of 2 "length m - 2" m "[]" "length m - 2"] by auto
      have run: "recv_suback env m (length m) s = Option.bind
          (if \<not> ok then set_error_callback env MQTT_CLIENT_COMMUNICATION_ERROR (t\<lparr>world := w\<rparr>)
           else Some (t\<lparr>world := w\<rparr>))
          (\<lambda>s. Option.bind (operation_callback env MQTT_CLIENT_ON_SUBSCRIBE_ACK
              (SUBACK_INFO \<lparr>suback_packetId = v, suback_qosReturn = codes\<rparr>) (delete_suback_log env trace_log s))
            (\<lambda>s. Some (s\<lparr>world := free (heap env) (world s)\<rparr>)))"
        using \<open>sz \<noteq> SIZE_MAX\<close> True rd cap log sz mal codes
        by (simp add: recv_suback_def Let_def)
      have logged: "keeping live 0 u (operation_callback env action info (delete_suback_log env trace_log u))"
        if "client_ok u" for u action info
        using delete_suback_log_keeps [OF that] operation_callback_keeps by (rule keeping0_step)
      have "keeping live (-1) (t\<lparr>world := w\<rparr>) (recv_suback env m (length m) s)"
        unfolding run using keeps_handlers [OF k]
        by (intro keeping0_bind) (auto intro: set_error_keeps logged free_keeps)
      from keeping_step [OF k this, of 0] show ?thesis by simp
    qed
  qed
  from keeping_step [OF kt this, of 0] show ?thesis by simp
qed

lemma recv_unsuback_keeps:
  assumes "client_ok s"
  shows "keeping live 0 s (recv_unsuback env m (length m) s)"
  using assms read_uint16_defined [of 2 m 0]
  by (auto simp: recv_unsuback_def intro!: set_error_keeps operation_callback_keeps)

lemma recv_pingresp_keeps:
  assumes "client_ok s"
  shows "keeping live 0 s (recv_pingresp env s)"
  unfolding recv_pingresp_def
  by (rule keeping0_step [OF keeps_fields(4) [OF assms] operation_callback_keeps])

lemma recvCompleteCallback_keeps:
  assumes h: "client_ok s"
  shows "keeping live 0 s (recvCompleteCallback env packet flags data s)"
proof (cases "packet = PINGRESP_TYPE")
  case True
  then show ?thesis using h by (simp add: recvCompleteCallback_def recv_pingresp_keeps)
next
  case other: False
  show ?thesis
  proof (cases "\<exists>b m. data = Some b \<and> BUFFER_u_char (buffers env) b = Some m")
    case False
    then show ?thesis using other h
      by (auto simp: recvCompleteCallback_def Let_def split: option.splits)
  next
    case True
    then obtain b m where b: "data = Some b" "BUFFER_u_char (buffers env) b = Some m" by blast
    then have m: "BUFFER_length (buffers env) b = length m" "m \<noteq> []"
      using buffer_u_char_bytes [OF buf b(2)] buffer_length [OF buf, of b] by auto
    show ?thesis
      using other h m
      by (cases packet) (auto simp: recvCompleteCallback_def Let_def b recv_connack_keeps
          recv_publish_ack_keeps recv_suback_keeps recv_unsuback_keeps ProcessPublishMessage_keeps)
  qed
qed

end

section \<open>The client as the codec's callback\<close>

text \<open>
  The callbacks and the connected bit, as a property of the fields behind the codec's: they are read
  off a state with these fields and a blank codec.
\<close>

definition blank_codec :: "(unit, unit) codec" where
  "blank_codec = \<lparr>world = (), currPacket = UNKNOWN_TYPE, codecState = CODEC_STATE_FIXED_HEADER,
    bufferOffset = 0, headerFlags = 0, headerData = None, storeRemainLen = [], remainLenIndex = 0\<rparr>"

definition rest_ok :: "int \<Rightarrow> bool \<Rightarrow> int \<Rightarrow> 'z client_ext \<Rightarrow> bool" where
  "rest_ok base connected n rest \<longleftrightarrow>
    n - opt_blocks (mqttOptions (codec.extend blank_codec rest)) = base \<and>
    client_ok (codec.extend blank_codec rest) \<and>
    (connected \<longrightarrow> status_set MQTT_STATUS_CLIENT_CONNECTED (codec.extend blank_codec rest))"

lemma rest_ok_iff:
  "rest_ok base connected n (codec.more s) \<longleftrightarrow> n - opt_blocks (mqttOptions s) = base \<and> client_ok s \<and>
    (connected \<longrightarrow> status_set MQTT_STATUS_CLIENT_CONNECTED s)"
  by (cases s) (simp add: rest_ok_def client_ok_def status_set_def codec.extend_def)

context client_environment
begin

sublocale sink: packet_sink "buffers env" live "Some (recvCompleteCallback env)" "rest_ok base connected"
  for base connected
proof
  show "buffer_laws (buffers env) live" by (rule buf)
  fix cb t f and hd :: "'b option" and s :: "('b, 'w, 'z) client_scheme"
  assume "Some (recvCompleteCallback env) = Some cb"
    and I: "rest_ok base connected (owned live s) (codec.more s)"
  then have cb: "cb = recvCompleteCallback env" by simp
  have h: "client_ok s" using I by (simp add: rest_ok_iff)
  obtain s' where "recvCompleteCallback env t f hd s = Some s'" "keeps live 0 s s'"
    using recvCompleteCallback_keeps [OF h, of t f hd] unfolding keeping_def by blast
  then show "\<exists>s'. cb t f hd s = Some s' \<and> same_codec s s' \<and> rest_ok base connected (owned live s') (codec.more s')"
    using I cb by (auto simp: rest_ok_iff keeps_def owned_def same_codec_def balance_def)
qed

text \<open>
  Any bytes: the client stays sound, and all that may stay allocated is the one buffer a reset
  forgets.
\<close>

lemma onBytesReceived_sound:
  assumes inv: "codec_inv (buffers env) s" and h: "client_ok s" and sz: "sz \<le> length bytes"
  shows "\<exists>s'. onBytesReceived env (Some bytes) sz s = Some s' \<and> codec_inv (buffers env) s' \<and>
    client_ok s' \<and>
    (status_set MQTT_STATUS_CLIENT_CONNECTED s \<longrightarrow> status_set MQTT_STATUS_CLIENT_CONNECTED s') \<and>
    client_balance live s \<le> client_balance live s' \<and> client_balance live s' \<le> client_balance live s + 1"
proof -
  define c where "c = status_set MQTT_STATUS_CLIENT_CONNECTED s"
  have I: "rest_ok (client_balance live s) c (owned live s) (codec.more s)"
    using h by (simp add: rest_ok_iff c_def client_balance_def)
  have "\<exists>r t. mqtt_codec_bytesReceived (buffers env) (Some (recvCompleteCallback env)) (Some s) (Some bytes) sz
      = Some (r, Some t) \<and> codec_inv (buffers env) t \<and> rest_ok (client_balance live s) c (owned live t) (codec.more t)"
  proof (cases "sz = 0")
    case True
    then show ?thesis using inv I
      by (auto simp: mqtt_codec_bytesReceived_def rest_ok_iff status_set_def client_ok_def)
  next
    case False
    then show ?thesis using sink.receive_loop_safe [OF inv I sz]
      by (auto simp: mqtt_codec_bytesReceived_def sink.safe_def)
  qed
  then obtain r t where t: "mqtt_codec_bytesReceived (buffers env) (Some (recvCompleteCallback env)) (Some s)
      (Some bytes) sz = Some (r, Some t)" "codec_inv (buffers env) t" "client_balance live t = client_balance live s"
    "client_ok t" "c \<longrightarrow> status_set MQTT_STATUS_CLIENT_CONNECTED t"
    by (auto simp: rest_ok_iff client_balance_def)
  show ?thesis
  proof (cases r)
    case ZERO
    then show ?thesis using t by (simp add: onBytesReceived_def c_def)
  next
    case MU_FAILURE
    let ?t = "clear_codec_data t"
    have "client_ok ?t" using t(4) by (simp add: client_ok_def clear_codec_data_def)
    then obtain u where u: "set_error_callback env MQTT_CLIENT_PARSE_ERROR ?t = Some u" "keeps live 0 ?t u"
      using set_error_keeps by (auto simp: keeping_def)
    have "codec_inv (buffers env) u"
      using u(2) same_codec_inv [of ?t u] by (simp add: keeps_def)
    moreover have "client_balance live u = client_balance live ?t"
      using client_balance_keeps [OF u(2)] by simp
    moreover have "client_balance live t \<le> client_balance live ?t"
      "client_balance live ?t \<le> client_balance live t + 1"
      by (simp_all add: client_balance_def owned_def clear_codec_data_def)
    moreover have "status_set MQTT_STATUS_CLIENT_CONNECTED ?t = status_set MQTT_STATUS_CLIENT_CONNECTED t"
      by (simp add: status_set_def clear_codec_data_def)
    ultimately show ?thesis
      using t u MU_FAILURE by (simp add: onBytesReceived_def mqtt_codec_reset_def c_def keeps_def)
  qed
qed

end

end
