(* ===== verification/Client_Steps.thy ===== *)
theory Client_Steps
  imports Client_Safety
begin

text \<open>
  The client as a state machine: the events that reach it from its transport and its application,
  the states it can get into, and what holds in all of them.
\<close>

section \<open>The entry points keep the client sound\<close>

definition api_keeps :: "('w \<Rightarrow> int) \<Rightarrow> ('b, 'w, 'z) client_scheme \<Rightarrow> ('b, 'w, 'z) api_result \<Rightarrow> bool" where
  "api_keeps live s res \<longleftrightarrow> (\<exists>r s'. res = Some (r, Some s') \<and> keeps live 0 s s')"

lemma on_client_keeps: "giving live 0 s (f s) \<Longrightarrow> api_keeps live s (on_client (Some s) f)"
  by (auto simp: giving_def on_client_def api_keeps_def)

lemma giving_step:
  assumes "keeps live d s t" and "client_ok t \<Longrightarrow> giving live e t res" and "c = d + e"
  shows "giving live c s res"
  using assms keeps_handlers [OF assms(1)] by (auto simp: giving_def intro: keeps_trans)

lemma keeping_giving:
  "keeping live d s m \<Longrightarrow> (\<And>t. keeps live d s t \<Longrightarrow> giving live e t (f t)) \<Longrightarrow> c = d + e \<Longrightarrow>
   giving live c s (Option.bind m f)"
  by (fastforce simp: keeping_def giving_def intro: keeps_trans)

text \<open>A payload the encoder of PUBLISH may read, in a packet whose length can be written.\<close>

definition payload_bytes :: "APP_PAYLOAD \<Rightarrow> byte list" where
  "payload_bytes p = (case message p of None \<Rightarrow> [] | Some b \<Rightarrow> b)"

definition sendable :: "MQTT_MESSAGE \<Rightarrow> bool" where
  "sendable m \<longleftrightarrow>
    (case mqttmessage_getApplicationMsg (Some m) of
       None \<Rightarrow> False
     | Some p \<Rightarrow>
         payload_length p = length (payload_bytes p) \<and>
         length (publish_body (qosInfo m) (msg_packetId m) (opt_str (mqttmessage_getTopicName (Some m)))
           (payload_bytes p)) < 268435456)"

lemma publish_no_payload:
  "mqtt_codec_publish api qos dup retain packetId topic None 0 w
    = mqtt_codec_publish api qos dup retain packetId topic (Some []) 0 w"
proof -
  have none: "publish_payload api b None 0 v = publish_payload api b (Some []) 0 v" for b v
    by (simp add: publish_payload_def)
  show ?thesis unfolding mqtt_codec_publish_def none ..
qed

context client_environment
begin

lemma send_and_delete_keeps:
  assumes "client_ok s"
  shows "giving live (-1) s (send_and_delete env b s)"
proof -
  obtain r t where t: "sendPacketItem env (BUFFER_u_char (buffers env) b) (BUFFER_length (buffers env) b) s
      = Some (r, t)" "keeps live 0 s t"
    using sendPacketItem_keeps [OF assms] unfolding giving_def by blast
  then show ?thesis
    using keeps_trans [OF t(2) delete_keeps [OF keeps_handlers [OF t(2)]], of "-1" b]
    by (simp add: send_and_delete_def)
qed

text \<open>The shape all requests share: build a packet, note its type, send it, delete it.\<close>

lemma request_keeps:
  assumes ok: "client_ok s" and b: "builds live (world s) res"
    and note_type: "\<And>t. client_ok t \<Longrightarrow> keeps live 0 t (upd t)"
    and none: "\<And>t. client_ok t \<Longrightarrow> keeps live 0 t (upd' t)"
  shows "giving live 0 s (Option.bind res (\<lambda>(packet, w).
    case packet of None \<Rightarrow> Some (MU_FAILURE, upd' (s\<lparr>world := w\<rparr>))
      | Some b \<Rightarrow> send_and_delete env b (upd (s\<lparr>world := w\<rparr>))))"
proof -
  obtain r w where r: "res = Some (r, w)" "live w = live (world s) + (if r = None then 0 else 1)"
    using b by (auto simp: builds_def)
  have k: "keeps live (if r = None then 0 else 1) s (s\<lparr>world := w\<rparr>)"
    by (rule keeps_world [OF ok r(2)])
  show ?thesis
  proof (cases r)
    case None
    then show ?thesis using r keeps_trans [OF k none [OF keeps_handlers [OF k]], of 0] by simp
  next
    case (Some p)
    have "keeps live 1 s (upd (s\<lparr>world := w\<rparr>))"
      using keeps_trans [OF k note_type [OF keeps_handlers [OF k]], of 1] Some by simp
    then have "giving live 0 s (send_and_delete env p (upd (s\<lparr>world := w\<rparr>)))"
      by (rule giving_step [where e = "-1"]) (simp_all add: send_and_delete_keeps)
    then show ?thesis using r Some by simp
  qed
qed

lemma publish_keeps:
  assumes ok: "client_ok s" and m: "msgHandle = None \<or> (\<exists>m. msgHandle = Some m \<and> sendable m)"
  shows "api_keeps live s (mqtt_client_publish env (Some s) msgHandle)"
  unfolding mqtt_client_publish_def Let_def
proof (rule on_client_keeps)
  let ?run = "\<lambda>payload. Option.bind (mqtt_codec_publish (buffers env) (mqttmessage_getQosType msgHandle)
      (mqttmessage_getIsDuplicateMsg msgHandle) (mqttmessage_getIsRetained msgHandle)
      (mqttmessage_getPacketId msgHandle) (mqttmessage_getTopicName msgHandle)
      (message payload) (payload_length payload) (world s))
    (\<lambda>(packet, w). case packet of None \<Rightarrow> Some (MU_FAILURE, s\<lparr>world := w\<rparr>)
      | Some b \<Rightarrow> send_and_delete env b (s\<lparr>world := w, packetState := PUBLISH_TYPE\<rparr>))"
  show "giving live 0 s (if msgHandle = None then Some (MU_FAILURE, s)
    else case mqttmessage_getApplicationMsg msgHandle of None \<Rightarrow> Some (MU_FAILURE, s)
      | Some payload \<Rightarrow> ?run payload)"
  proof (cases msgHandle)
    case None
    then show ?thesis using ok by auto
  next
    case (Some m)
    then have "sendable m" using assms by simp
    then obtain p where p: "mqttmessage_getApplicationMsg (Some m) = Some p"
      "payload_length p = length (payload_bytes p)"
      "length (publish_body (qosInfo m) (msg_packetId m) (opt_str (mqttmessage_getTopicName (Some m)))
         (payload_bytes p)) < 268435456"
      by (auto simp: sendable_def split: option.splits)
    have b: "builds live (world s) (mqtt_codec_publish (buffers env) (mqttmessage_getQosType msgHandle)
      (mqttmessage_getIsDuplicateMsg msgHandle) (mqttmessage_getIsRetained msgHandle)
      (mqttmessage_getPacketId msgHandle) (mqttmessage_getTopicName msgHandle)
      (message p) (payload_length p) (world s))"
      using publish_builds [OF buf p(2) p(3), where w = "world s"] p(2) Some
      by (cases "message p") (simp_all add: payload_bytes_def publish_no_payload message_getters)
    have "giving live 0 s (?run p)"
      using request_keeps [OF ok b, where upd = "\<lambda>s. s\<lparr>packetState := PUBLISH_TYPE\<rparr>" and upd' = "\<lambda>s. s",
          OF keeps_fields(2) keeps_refl] by simp
    then show ?thesis using Some p(1) by simp
  qed
qed

lemma subscribe_keeps:
  assumes ok: "client_ok s" and len: "length (subscribe_body packetId items) < 268435456"
  shows "api_keeps live s (mqtt_client_subscribe env (Some s) packetId (Some (sub_items items)) (length items))"
  unfolding mqtt_client_subscribe_def
proof (rule on_client_keeps)
  show "giving live 0 s (if Some (sub_items items) = None \<or> length items = 0 \<or> packetId = 0 then Some (MU_FAILURE, s)
      else Option.bind (mqtt_codec_subscribe (buffers env) packetId (Some (sub_items items)) (length items) (world s))
        (\<lambda>(subPacket, w). let s = s\<lparr>world := w\<rparr> in
          case subPacket of None \<Rightarrow> Some (MU_FAILURE, s)
          | Some packet \<Rightarrow> send_and_delete env packet (s\<lparr>packetState := SUBSCRIBE_TYPE\<rparr>)))"
  proof (cases "items = [] \<or> packetId = 0")
    case True
    then show ?thesis using ok by auto
  next
    case False
    have b: "builds live (world s)
        (mqtt_codec_subscribe (buffers env) packetId (Some (sub_items items)) (length items) (world s))"
    proof (cases "\<exists>i \<in> set items. USHRT_MAX < length (fst i)")
      case True
      then show ?thesis by (rule refuses_builds [OF subscribe_rejects_items [OF buf]])
    next
      case False
      then show ?thesis
        using len \<open>\<not> (items = [] \<or> packetId = 0)\<close>
        by (intro encodes_builds [OF subscribe_encoding [OF buf]]) (auto simp: not_less)
    qed
    show ?thesis
      using request_keeps [OF ok b, where upd = "\<lambda>s. s\<lparr>packetState := SUBSCRIBE_TYPE\<rparr>" and upd' = "\<lambda>s. s",
          OF keeps_fields(2) keeps_refl] False by (simp add: Let_def)
  qed
qed

lemma unsubscribe_keeps:
  assumes ok: "client_ok s" and len: "length (unsubscribe_body packetId topics) < 268435456"
  shows "api_keeps live s (mqtt_client_unsubscribe env (Some s) packetId (Some (map Some topics)) (length topics))"
  unfolding mqtt_client_unsubscribe_def
proof (rule on_client_keeps)
  show "giving live 0 s (if Some (map Some topics) = None \<or> length topics = 0 \<or> packetId = 0 then Some (MU_FAILURE, s)
      else Option.bind (mqtt_codec_unsubscribe (buffers env) packetId (Some (map Some topics)) (length topics) (world s))
        (\<lambda>(unsubPacket, w). let s = s\<lparr>world := w\<rparr> in
          case unsubPacket of None \<Rightarrow> Some (MU_FAILURE, s)
          | Some packet \<Rightarrow> send_and_delete env packet (s\<lparr>packetState := UNSUBSCRIBE_TYPE\<rparr>)))"
  proof (cases "topics = [] \<or> packetId = 0")
    case True
    then show ?thesis using ok by auto
  next
    case False
    have b: "builds live (world s)
        (mqtt_codec_unsubscribe (buffers env) packetId (Some (map Some topics)) (length topics) (world s))"
    proof (cases "\<exists>t \<in> set topics. USHRT_MAX < length t")
      case True
      then show ?thesis by (rule refuses_builds [OF unsubscribe_rejects_topics [OF buf]])
    next
      case False
      then show ?thesis
        using len \<open>\<not> (topics = [] \<or> packetId = 0)\<close>
        by (intro encodes_builds [OF unsubscribe_encoding [OF buf]]) (auto simp: not_less)
    qed
    show ?thesis
      using request_keeps [OF ok b, where upd = "\<lambda>s. s\<lparr>packetState := UNSUBSCRIBE_TYPE\<rparr>" and upd' = "\<lambda>s. s",
          OF keeps_fields(2) keeps_refl] False by (simp add: Let_def)
  qed
qed

lemma respond_keeps:
  assumes "client_ok s"
  shows "api_keeps live s (mqtt_client_send_message_response env (Some s) packetId qos)"
  using SendMessageAck_keeps [OF assms, of packetId qos] assms
  by (auto simp: mqtt_client_send_message_response_def on_client_def api_keeps_def keeping_def)

text \<open>Options.\<close>

lemma opt_blocks_clear:
  "live (world (clear_mqtt_options env s)) = live (world s) - opt_blocks (mqttOptions s)"
  by (simp add: clear_mqtt_options_def free_option_def opt_blocks_def Let_def heap_free [OF hp])

lemma clear_mqtt_options_keeps:
  assumes "client_ok s"
  shows "keeps live 0 s (clear_mqtt_options env s)"
proof -
  have "clear_mqtt_options env s = s\<lparr>world := world (clear_mqtt_options env s),
      mqttOptions := mqttOptions (clear_mqtt_options env s)\<rparr>"
    by (simp add: clear_mqtt_options_def Let_def)
  moreover have "opt_blocks (mqttOptions (clear_mqtt_options env s)) = 0"
    "options_ok (mqttOptions (clear_mqtt_options env s))"
    by (simp_all add: clear_mqtt_options_def Let_def opt_blocks_def options_ok_def no_strings_def)
  ultimately show ?thesis
    using keeps_options [OF assms] opt_blocks_clear [of s] by (metis balance_def diff_zero)
qed

lemma clone_field_balance:
  assumes "\<And>c opts. opt_blocks (upd (\<lambda>_. Some c) opts) = opt_blocks opts + (if get opts = None then 1 else 0)"
    and "clone_field (heap env) get upd given (r, opts, w) = (r', opts', w')"
  shows "live w' - opt_blocks opts' = live w - opt_blocks opts"
proof (cases r)
  case MU_FAILURE
  then show ?thesis using assms(2) by (simp add: clone_field_def)
next
  case ZERO
  show ?thesis
  proof (cases "get given")
    case None
    then show ?thesis using assms(2) ZERO by (simp add: clone_field_def)
  next
    case (Some str)
    obtain c v where c: "mallocAndStrcpy_s (heap env) str w = (c, v)" by fastforce
    then show ?thesis
      using assms ZERO Some heap_strcpy_Some [OF hp] heap_strcpy_None [OF hp] heap_free [OF hp]
      by (cases c) (auto simp: clone_field_def free_option_def)
  qed
qed

lemma clone_field_keeps_id:
  assumes "clone_field h get upd given (r, opts, w) = (ZERO, opts', w')"
    and "\<And>c opts. clientId opts \<noteq> None \<Longrightarrow> clientId (upd (\<lambda>_. Some c) opts) \<noteq> None"
  shows "r = ZERO" "clientId opts \<noteq> None \<Longrightarrow> clientId opts' \<noteq> None" "get given = None \<Longrightarrow> opts' = opts"
  using assms by (auto simp: clone_field_def split: option.splits prod.splits c_result.splits)

lemma cloneMqttOptions_keeps:
  assumes ok: "client_ok s" and given: "clientId given \<noteq> None \<or> no_strings given"
      "qualityOfServiceValue given \<noteq> QOS_VALUE_INVALID"
    and res: "cloneMqttOptions env given s = (r, s')"
  shows "keeps live 0 s s'"
proof -
  let ?f1 = "clone_field (heap env) clientId clientId_update given (ZERO, mqttOptions s, world s)"
  obtain r1 o1 w1 where s1: "?f1 = (r1, o1, w1)" by (metis prod_cases3)
  obtain r2 o2 w2 where s2: "clone_field (heap env) willTopic willTopic_update given (r1, o1, w1) = (r2, o2, w2)"
    by (metis prod_cases3)
  obtain r3 o3 w3 where s3: "clone_field (heap env) willMessage willMessage_update given (r2, o2, w2) = (r3, o3, w3)"
    by (metis prod_cases3)
  obtain r4 o4 w4 where s4: "clone_field (heap env) username username_update given (r3, o3, w3) = (r4, o4, w4)"
    by (metis prod_cases3)
  obtain r5 o5 w5 where s5: "clone_field (heap env) password password_update given (r4, o4, w4) = (r5, o5, w5)"
    by (metis prod_cases3)
  have bal: "live w5 - opt_blocks o5 = balance live s"
    using clone_field_balance [OF _ s1] clone_field_balance [OF _ s2] clone_field_balance [OF _ s3]
      clone_field_balance [OF _ s4] clone_field_balance [OF _ s5]
    by (simp add: opt_blocks_def balance_def)
  show ?thesis
  proof (cases r5)
    case ZERO
    note c5 = clone_field_keeps_id [OF s5 [unfolded ZERO], simplified]
    note c4 = clone_field_keeps_id [OF s4 [unfolded c5(1)], simplified]
    note c3 = clone_field_keeps_id [OF s3 [unfolded c4(1)], simplified]
    note c2 = clone_field_keeps_id [OF s2 [unfolded c3(1)], simplified]
    note c1 = clone_field_keeps_id [OF s1 [unfolded c2(1)], simplified]
    have id: "clientId o5 \<noteq> None \<or> no_strings o5"
    proof (cases "no_strings given")
      case True
      then have "o5 = mqttOptions s" using c1(3) c2(3) c3(3) c4(3) c5(3) by (simp add: no_strings_def)
      then show ?thesis using ok by (auto simp: client_ok_def options_ok_def)
    next
      case False
      then have "clientId o1 \<noteq> None"
        using s1 given c2(1) by (auto simp: clone_field_def split: option.splits prod.splits)
      then show ?thesis using c2(2) c3(2) c4(2) c5(2) by simp
    qed
    let ?o = "o5\<lparr>opt_keepAliveInterval := opt_keepAliveInterval given, messageRetain := messageRetain given,
      useCleanSession := useCleanSession given, qualityOfServiceValue := qualityOfServiceValue given\<rparr>"
    have "opt_blocks ?o = opt_blocks o5" "options_ok ?o"
      using id given by (auto simp: opt_blocks_def options_ok_def no_strings_def)
    then have "keeps live 0 s (s\<lparr>world := w5, mqttOptions := ?o\<rparr>)"
      using bal by (intro keeps_options [OF ok]) simp_all
    then show ?thesis
      using res s1 s2 s3 s4 s5 ZERO by (simp add: cloneMqttOptions_def Let_def)
  next
    case MU_FAILURE
    let ?s = "s\<lparr>world := w5, mqttOptions := o5\<rparr>"
    have c: "clear_mqtt_options env ?s = s\<lparr>world := world (clear_mqtt_options env ?s),
        mqttOptions := mqttOptions (clear_mqtt_options env ?s)\<rparr>"
      by (simp add: clear_mqtt_options_def Let_def)
    have "opt_blocks (mqttOptions (clear_mqtt_options env ?s)) = 0"
      "options_ok (mqttOptions (clear_mqtt_options env ?s))"
      by (simp_all add: clear_mqtt_options_def Let_def opt_blocks_def options_ok_def no_strings_def)
    then have "keeps live 0 s (clear_mqtt_options env ?s)"
      using opt_blocks_clear [of ?s] bal by (subst c, intro keeps_options [OF ok]) simp_all
    then show ?thesis
      using res s1 s2 s3 s4 s5 MU_FAILURE by (simp add: cloneMqttOptions_def Let_def)
  qed
qed

lemma connect_keeps:
  assumes ok: "client_ok s" and given: "clientId given \<noteq> None \<or> no_strings given"
      "qualityOfServiceValue given \<noteq> QOS_VALUE_INVALID"
  shows "api_keeps live s (mqtt_client_connect env (Some s) (Some x) (Some given))"
proof -
  let ?half = "opt_keepAliveInterval given div 2"
  let ?s = "s\<lparr>xioHandle := Some x, packetState := UNKNOWN_TYPE, qosValue := qualityOfServiceValue given,
    keepAliveInterval := opt_keepAliveInterval given,
    maxPingRespTime := (if DEFAULT_MAX_PING_RESPONSE_TIME < ?half then DEFAULT_MAX_PING_RESPONSE_TIME else ?half),
    timeSincePing := 0\<rparr>"
  have k: "keeps live 0 s ?s"
    using ok by (simp add: keeps_def same_codec_def client_ok_def status_set_def balance_def)
  obtain r t where t: "cloneMqttOptions env given ?s = (r, t)" by fastforce
  have kt: "keeps live 0 s t"
    using keeps_trans [OF k cloneMqttOptions_keeps [OF keeps_handlers [OF k] given t]] by simp
  show ?thesis
  proof (cases r)
    case MU_FAILURE
    then show ?thesis using t kt by (simp add: mqtt_client_connect_def Let_def api_keeps_def)
  next
    case ZERO
    obtain r' u where u: "xio_open env x t = Some (r', u)" "keeps live 0 t u"
      using xopen [OF keeps_handlers [OF kt], of x] by (auto simp: giving_def)
    have ku: "keeps live 0 s u" using keeps_trans [OF kt u(2)] by simp
    have "keeps live 0 s (clear_mqtt_options env (u\<lparr>xioHandle := None\<rparr>))"
      using keeps_trans [OF ku keeps_trans [OF keeps_fields(1) [OF keeps_handlers [OF ku]]
          clear_mqtt_options_keeps [OF keeps_handlers [OF keeps_fields(1) [OF keeps_handlers [OF ku]]]]]]
      by simp
    then show ?thesis
      using t u ku ZERO by (cases r') (simp_all add: mqtt_client_connect_def Let_def api_keeps_def)
  qed
qed

lemma disconnect_keeps:
  assumes ok: "client_ok s"
  shows "api_keeps live s (mqtt_client_disconnect env (Some s) callback cb_ctx)"
  unfolding mqtt_client_disconnect_def
proof (rule on_client_keeps)
  show "giving live 0 s
     (if status_set MQTT_STATUS_CLIENT_CONNECTED s then do {
        (disconnectPacket, w) \<leftarrow> mqtt_codec_disconnect (buffers env) (world s);
        let s = s\<lparr>world := w\<rparr>;
        (result, s) \<leftarrow>
          (case disconnectPacket of
             None \<Rightarrow> Some (MU_FAILURE, s\<lparr>packetState := PACKET_TYPE_ERROR\<rparr>)
           | Some packet \<Rightarrow>
               send_and_delete env packet (s\<lparr>disconnect_cb := callback, disconnect_ctx := cb_ctx,
                 packetState := DISCONNECT_TYPE\<rparr>));
        Some (result, clear_mqtt_options env s)
      }
      else do {
        s \<leftarrow> close_connection env (s\<lparr>disconnect_cb := callback, disconnect_ctx := cb_ctx\<rparr>);
        Some (ZERO, clear_mqtt_options env s)
      })"
  proof (cases "status_set MQTT_STATUS_CLIENT_CONNECTED s")
    case False
    have k: "keeps live 0 s (s\<lparr>disconnect_cb := callback, disconnect_ctx := cb_ctx\<rparr>)"
      by (rule keeps_fields(5) [OF ok])
    obtain t where t: "close_connection env (s\<lparr>disconnect_cb := callback, disconnect_ctx := cb_ctx\<rparr>) = Some t"
      "keeps live 0 (s\<lparr>disconnect_cb := callback, disconnect_ctx := cb_ctx\<rparr>) t"
      using close_connection_keeps [OF keeps_handlers [OF k]] by (auto simp: keeping_def)
    have kt: "keeps live 0 s t" using keeps_trans [OF k t(2)] by simp
    show ?thesis
      using False t keeps_trans [OF kt clear_mqtt_options_keeps [OF keeps_handlers [OF kt]], of 0] by simp
  next
    case True
    have b: "builds live (world s) (mqtt_codec_disconnect (buffers env) (world s))"
      using ping_disconnect_encoding [OF buf] by (blast intro: encodes_builds)
    let ?res = "Option.bind (mqtt_codec_disconnect (buffers env) (world s)) (\<lambda>(disconnectPacket, w).
          case disconnectPacket of
             None \<Rightarrow> Some (MU_FAILURE, s\<lparr>world := w, packetState := PACKET_TYPE_ERROR\<rparr>)
           | Some packet \<Rightarrow> send_and_delete env packet (s\<lparr>world := w, disconnect_cb := callback,
               disconnect_ctx := cb_ctx, packetState := DISCONNECT_TYPE\<rparr>))"
    have kc: "keeps live 0 t (t\<lparr>disconnect_cb := callback, disconnect_ctx := cb_ctx, packetState := DISCONNECT_TYPE\<rparr>)"
      if "client_ok t" for t :: "('b, 'w, 'z) client_scheme"
      using that by (simp add: keeps_def same_codec_def client_ok_def status_set_def balance_def)
    have "giving live 0 s ?res"
      using request_keeps [OF ok b, where upd = "\<lambda>s. s\<lparr>disconnect_cb := callback,
          disconnect_ctx := cb_ctx, packetState := DISCONNECT_TYPE\<rparr>"
          and upd' = "\<lambda>s. s\<lparr>packetState := PACKET_TYPE_ERROR\<rparr>", OF kc keeps_fields(2)] by simp
    then obtain r t where t: "?res = Some (r, t)" "keeps live 0 s t" by (auto simp: giving_def)
    have run: "(if status_set MQTT_STATUS_CLIENT_CONNECTED s then do {
        (disconnectPacket, w) \<leftarrow> mqtt_codec_disconnect (buffers env) (world s);
        let s = s\<lparr>world := w\<rparr>;
        (result, s) \<leftarrow>
          (case disconnectPacket of
             None \<Rightarrow> Some (MU_FAILURE, s\<lparr>packetState := PACKET_TYPE_ERROR\<rparr>)
           | Some packet \<Rightarrow>
               send_and_delete env packet (s\<lparr>disconnect_cb := callback, disconnect_ctx := cb_ctx,
                 packetState := DISCONNECT_TYPE\<rparr>));
        Some (result, clear_mqtt_options env s)
      }
      else close) = Option.bind ?res (\<lambda>(result, s). Some (result, clear_mqtt_options env s))" for close
      using True by (cases "mqtt_codec_disconnect (buffers env) (world s)") (auto simp: Let_def)
    show ?thesis
      unfolding run t(1) using keeps_trans [OF t(2) clear_mqtt_options_keeps [OF keeps_handlers [OF t(2)]], of 0]
      by simp
  qed
qed

lemma forget_ping_keeps: "client_ok s \<Longrightarrow> keeps live 0 s (forget_ping s)"
  by (simp add: forget_ping_def keeps_def same_codec_def client_ok_def status_set_def balance_def)

lemma send_ping_keeps:
  assumes ok: "client_ok s"
  shows "keeping live 0 s (send_ping env s)"
proof -
  have "builds live (world s) (mqtt_codec_ping (buffers env) (world s))"
    using ping_disconnect_encoding [OF buf] by (blast intro: encodes_builds)
  then obtain r w where r: "mqtt_codec_ping (buffers env) (world s) = Some (r, w)"
      "live w = live (world s) + (if r = None then 0 else 1)"
    by (auto simp: builds_def)
  have k: "keeps live (if r = None then 0 else 1) s (s\<lparr>world := w\<rparr>)" by (rule keeps_world [OF ok r(2)])
  show ?thesis
  proof (cases r)
    case None
    then show ?thesis using r k by (simp add: send_ping_def Let_def)
  next
    case (Some b)
    obtain res t where t: "send_and_delete env b (s\<lparr>world := w\<rparr>) = Some (res, t)"
        "keeps live (-1) (s\<lparr>world := w\<rparr>) t"
      using send_and_delete_keeps [OF keeps_handlers [OF k], of b] unfolding giving_def by blast
    have kt: "keeps live 0 s t" using keeps_trans [OF k t(2), of 0] Some by simp
    note okt = keeps_handlers [OF kt]
    obtain now u where u: "tickcounter_get_current_ms env t = (now, u)" by fastforce
    have ku: "keeps live 0 s u" using keeps_trans [OF kt, of 0 u] clock [OF okt] u by simp
    show ?thesis
    proof (cases res)
      case MU_FAILURE
      have kf: "keeps live 0 s (forget_ping t)" using keeps_trans [OF kt forget_ping_keeps [OF okt]] by simp
      show ?thesis
        using MU_FAILURE Some r t keeping0_step [OF kf set_error_keeps] by (simp add: send_ping_def Let_def)
    next
      case ZERO
      have "keeps live 0 s (u\<lparr>timeSincePing := m\<rparr>)" for m
        using keeps_trans [OF ku keeps_fields(4) [OF keeps_handlers [OF ku]]] by simp
      then show ?thesis
        using ZERO Some r t u ku by (cases now) (simp_all add: send_ping_def Let_def)
    qed
  qed
qed

lemma keep_alive_keeps:
  assumes ok: "client_ok s"
  shows "keeping live 0 s (keep_alive env s)"
proof -
  obtain now u where u: "tickcounter_get_current_ms env s = (now, u)" by fastforce
  have ku: "keeps live 0 s u" using clock [OF ok] u by simp
  note oku = keeps_handlers [OF ku]
  have err: "keeping live 0 u (Option.bind (set_error_callback env MQTT_CLIENT_NO_PING_RESPONSE u)
      (\<lambda>s. Some (forget_ping s)))"
    by (intro keeping0_bind [OF set_error_keeps [OF oku]]) (simp add: forget_ping_keeps)
  show ?thesis
  proof (cases now)
    case None
    then show ?thesis using u ku ok by (auto simp: keep_alive_def)
  next
    case (Some m)
    have "keep_alive env s = Some s \<or>
        keep_alive env s = Option.bind (set_error_callback env MQTT_CLIENT_NO_PING_RESPONSE u) (\<lambda>s. Some (forget_ping s)) \<or>
        keep_alive env s = send_ping env u \<or> keep_alive env s = Some u"
      using Some u by (simp add: keep_alive_def)
    then show ?thesis
      using ok ku keeping0_step [OF ku err] keeping0_step [OF ku send_ping_keeps] by auto
  qed
qed

lemma dowork_moves:
  assumes ok: "client_ok s" and inv: "codec_inv (buffers env) s"
  shows "\<exists>s'. mqtt_client_dowork env (Some s) = Some (Some s') \<and> moves (buffers env) live s s'"
proof -
  have "keeping live 0 s (Option.bind (close_connection env s) (\<lambda>s. Some (clear_status MQTT_STATUS_PENDING_CLOSE s)))"
    by (intro keeping0_bind [OF close_connection_keeps [OF ok]]) (simp add: keeps_fields)
  then obtain u where u: "Option.bind (close_connection env s) (\<lambda>s. Some (clear_status MQTT_STATUS_PENDING_CLOSE s)) = Some u"
      "moves (buffers env) live s u"
    using keeps_moves [OF inv] by (auto simp: keeping_def)
  obtain t where t: "xio_dowork env (xioHandle s) s = Some t" "moves (buffers env) live s t"
    using pump [OF ok inv] by blast
  then have okt: "client_ok t" "codec_inv (buffers env) t" by (auto simp: moves_def)
  obtain v where v: "keep_alive env t = Some v" "keeps live 0 t v"
    using keep_alive_keeps [OF okt(1)] by (auto simp: keeping_def)
  have "moves (buffers env) live s v" by (rule moves_trans [OF t(2) keeps_moves [OF okt(2) v(2)]])
  moreover have "moves (buffers env) live s s" by (rule keeps_moves [OF inv keeps_refl [OF ok]])
  ultimately show ?thesis
    using u t(1) v(1) by (auto simp: mqtt_client_dowork_def bind_eq_Some_conv)
qed

section \<open>The callbacks of the transport keep it sound\<close>

lemma sendComplete_keeps:
  assumes ok: "client_ok s"
  shows "keeping live 0 s (sendComplete env r s)"
  unfolding sendComplete_def
  using ok by (auto intro!: keeping0_bind set_error_keeps operation_callback_keeps keeps_fields)

lemma onIoError_keeps: "client_ok s \<Longrightarrow> keeping live 0 s (onIoError env s)"
  by (auto simp: onIoError_def set_error_keeps)

lemma on_connection_closed_keeps:
  assumes ok: "client_ok s"
  shows "keeping live 0 s (on_connection_closed env s)"
  unfolding on_connection_closed_def Let_def
  by (rule keeping0_step [OF keeps_fields(7) [OF ok]]) (auto intro: disconnect_cb split: option.split)

lemma onOpenComplete_keeps:
  assumes ok: "client_ok s"
  shows "keeping live 0 s (onOpenComplete env r s)"
proof (cases "r = IO_OPEN_OK \<and> \<not> status_set MQTT_STATUS_SOCKET_CONNECTED s")
  case False
  then show ?thesis
    unfolding onOpenComplete_def if_not_P [OF False]
    using ok by (auto intro!: keeping0_bind error_cb keeps_fields split: option.split)
next
  case True
  let ?s = "set_status MQTT_STATUS_SOCKET_CONNECTED (s\<lparr>packetState := CONNECT_TYPE\<rparr>)"
  have k: "keeps live 0 s ?s"
    using keeps_trans [OF keeps_fields(2) [OF ok] keeps_fields(6) [OF keeps_handlers [OF keeps_fields(2) [OF ok]]]]
    by simp
  note okk = keeps_handlers [OF k]
  obtain trace_log w1 where log: "construct_trace_log_handle env ?s (world ?s) = (trace_log, w1)" by fastforce
  have w1: "live w1 = live (world ?s)"
    using log string_new_live [OF str] by (auto simp: construct_trace_log_handle_def split: if_splits)
  have "builds live w1 (mqtt_codec_connect (buffers env) (strings env) (Some (mqttOptions ?s)) trace_log w1)"
    using okk by (intro connect_builds [OF buf str]) (simp add: client_ok_def)
  then obtain p w where p: "mqtt_codec_connect (buffers env) (strings env) (Some (mqttOptions ?s)) trace_log w1
        = Some (p, w)"
      "live w = live (world ?s) + (if p = None then 0 else 1)"
    by (auto simp: builds_def w1)
  have kp: "keeps live (if p = None then 0 else 1) ?s (?s\<lparr>world := w\<rparr>)"
    by (rule keeps_world [OF okk p(2)])
  have del: "keeps live 0 t (if trace_log then t\<lparr>world := STRING_delete (strings env) trace_log (world t)\<rparr> else t)"
    if "client_ok t" for t :: "('b, 'w, 'z) client_scheme"
    using that keeps_world [OF that, of live _ 0] by (auto simp: string_delete_live [OF str])
  have "keeping live (if p = None then 0 else -1) (?s\<lparr>world := w\<rparr>) (onOpenComplete env r s)"
  proof (cases p)
    case None
    then show ?thesis
      unfolding onOpenComplete_def if_P [OF True] Let_def log prod.case p(1)
      using del [OF keeps_handlers [OF kp]] by simp
  next
    case (Some b)
    have sending: "keeping live (-1) t (do {
        (result, s) \<leftarrow> sendPacketItem env (BUFFER_u_char (buffers env) b) (BUFFER_length (buffers env) b) t;
        s \<leftarrow> (if result \<noteq> ZERO then do {
                s \<leftarrow> (case fnOnErrorCallBack s of
                        None \<Rightarrow> Some s
                      | Some f \<Rightarrow> call_error_cb env f (errorCBCtx s) MQTT_CLIENT_CONNECTION_ERROR s);
                Some (set_status MQTT_STATUS_PENDING_CLOSE s)
              }
              else Some s);
        Some (s\<lparr>world := BUFFER_delete (buffers env) (Some b) (world s)\<rparr>)
      })" if "client_ok t" for t :: "('b, 'w, 'z) client_scheme"
      using that by (auto intro!: giving0_bind [OF sendPacketItem_keeps] keeping0_bind delete_keeps error_cb
          keeps_fields split: option.split)
    have "keeping live (-1) (?s\<lparr>world := w\<rparr>) (onOpenComplete env r s)"
      unfolding onOpenComplete_def if_P [OF True] Let_def log prod.case p(1) Some Option.bind.bind_lunit option.case
      by (rule keeping_then [OF sending [OF keeps_handlers [OF kp]]]) (rule del, erule keeps_handlers, simp)
    then show ?thesis using Some by simp
  qed
  from keeping_step [OF k keeping_step [OF kp this refl]] show ?thesis by (cases p) simp_all
qed

end

end
