(* ===== verification/Client_Machine.thy ===== *)
theory Client_Machine
  imports Client_Steps
begin

text \<open>
  The client as a state machine.  Its events are the calls of its transport (received bytes, opened,
  sent, failed, closed) and of its application (the entry points of \<open>mqtt_client.h\<close>); a trace from
  \<open>mqtt_client_init\<close> is a sequence of events within the limits of \<open>allowed\<close>.  The last section counts
  the pieces of data a client receives, for the statement that memory is released.
\<close>

section \<open>Events\<close>

datatype client_event =
    Bytes_Received "byte list"
  | Open_Complete IO_OPEN_RESULT
  | Send_Complete IO_SEND_RESULT
  | Io_Error
  | Connection_Closed
  | Connect xio_handle MQTT_CLIENT_OPTIONS
  | Publish "MQTT_MESSAGE option"
  | Subscribe u16 "(c_str \<times> QOS_VALUE) list"
  | Unsubscribe u16 "c_str list"
  | Respond u16 QOS_VALUE
  | Disconnect "fn_ptr option" ctx_ptr
  | Do_Work
  | Clear_Xio
  | Set_Trace bool bool

definition called :: "('b, 'w, 'z) api_result \<Rightarrow> ('b, 'w, 'z) client_scheme option" where
  "called res = Option.bind res snd"

fun run_event ::
  "('b, 'w, 'z) environment \<Rightarrow> client_event \<Rightarrow> ('b, 'w, 'z) client_scheme
    \<Rightarrow> ('b, 'w, 'z) client_scheme option" where
  "run_event env (Bytes_Received bytes) s = onBytesReceived env (Some bytes) (length bytes) s"
| "run_event env (Open_Complete r) s = onOpenComplete env r s"
| "run_event env (Send_Complete r) s = sendComplete env r s"
| "run_event env Io_Error s = onIoError env s"
| "run_event env Connection_Closed s = on_connection_closed env s"
| "run_event env (Connect x given) s = called (mqtt_client_connect env (Some s) (Some x) (Some given))"
| "run_event env (Publish m) s = called (mqtt_client_publish env (Some s) m)"
| "run_event env (Subscribe packetId items) s =
    called (mqtt_client_subscribe env (Some s) packetId (Some (sub_items items)) (length items))"
| "run_event env (Unsubscribe packetId topics) s =
    called (mqtt_client_unsubscribe env (Some s) packetId (Some (map Some topics)) (length topics))"
| "run_event env (Respond packetId qos) s =
    called (mqtt_client_send_message_response env (Some s) packetId qos)"
| "run_event env (Disconnect callback cb_ctx) s =
    called (mqtt_client_disconnect env (Some s) callback cb_ctx)"
| "run_event env Do_Work s = Option.bind (mqtt_client_dowork env (Some s)) id"
| "run_event env Clear_Xio s = mqtt_client_clear_xio (Some s)"
| "run_event env (Set_Trace on raw) s = mqtt_client_set_trace (Some s) on raw"

fun run_events ::
  "('b, 'w, 'z) environment \<Rightarrow> client_event list \<Rightarrow> ('b, 'w, 'z) client_scheme
    \<Rightarrow> ('b, 'w, 'z) client_scheme option" where
  "run_events env [] s = Some s"
| "run_events env (ev # evs) s = Option.bind (run_event env ev s) (run_events env evs)"

lemma run_events_append:
  "run_events env (xs @ ys) s = Option.bind (run_events env xs s) (run_events env ys)"
proof (induction xs arbitrary: s)
  case (Cons ev evs)
  then show ?case by (cases "run_event env ev s") simp_all
qed simp

text \<open>
  What a caller has to respect.  The options of a connection name a client id, or no string at all
  (then the strings of an earlier connection stay; without any, no CONNECT packet is built), and a
  quality of service that is not \<open>QOS_VALUE_INVALID\<close>, since that is shifted into the flags of the packet.  A
  message has the payload it says, lists have as many topics as their count says and none is null (the
  events are built so), and packets have a length of at most four bytes.  Beyond these limits
  the code does run into undefined behaviour: \<open>connect_overflow\<close> and \<open>publish_overflow\<close> show it for the
  client id and the length.  Everything the network does is allowed.
\<close>

fun allowed :: "client_event \<Rightarrow> bool" where
  "allowed (Connect x given) \<longleftrightarrow>
    (clientId given \<noteq> None \<or> no_strings given) \<and> qualityOfServiceValue given \<noteq> QOS_VALUE_INVALID"
| "allowed (Publish m) \<longleftrightarrow> (case m of None \<Rightarrow> True | Some m \<Rightarrow> sendable m)"
| "allowed (Subscribe packetId items) \<longleftrightarrow>
    length (subscribe_body packetId items) < 268435456"
| "allowed (Unsubscribe packetId topics) \<longleftrightarrow>
    length (unsubscribe_body packetId topics) < 268435456"
| "allowed _ \<longleftrightarrow> True"

inductive client_step ::
  "('b, 'w, 'z) environment \<Rightarrow> ('b, 'w, 'z) client_scheme \<Rightarrow> client_event
    \<Rightarrow> ('b, 'w, 'z) client_scheme \<Rightarrow> bool" for env where
  step: "allowed ev \<Longrightarrow> run_event env ev s = Some s' \<Longrightarrow> client_step env s ev s'"

inductive_simps client_step_iff: "client_step env s ev s'"

text \<open>The states after \<open>mqtt_client_init\<close> and a list of events, from the world \<open>w\<close>.\<close>

inductive client_trace ::
  "('b, 'w, 'z) environment \<Rightarrow> 'w \<Rightarrow> client_event list \<Rightarrow> ('b, 'w, 'z) client_scheme \<Rightarrow> bool"
  for env w where
  init: "mqtt_client_init env msgRecv operation_cb opCallbackCtx onErrorCallBack errorCtx ext w
      = (Some s, w') \<Longrightarrow> client_trace env w [] s"
| event: "client_trace env w evs s \<Longrightarrow> client_step env s ev s' \<Longrightarrow> client_trace env w (evs @ [ev]) s'"

inductive_cases client_trace_NilE: "client_trace env w [] s"

section \<open>What a trace keeps\<close>

definition sound :: "('b, 'w) buffer_api \<Rightarrow> ('b, 'w, 'z) client_scheme \<Rightarrow> bool" where
  "sound api s \<longleftrightarrow> codec_inv api s \<and> client_ok s"

lemma moves_sound: "moves api live s s' \<Longrightarrow> sound api s'"
  by (simp add: moves_def sound_def)

text \<open>The client \<open>mqtt_client_init\<close> creates: three blocks, no options, an idle codec.\<close>

lemma init_created:
  assumes "mqtt_client_init env msgRecv operation_cb c onErrorCallBack e ext w = (Some s, w')"
  obtains w1 w2 where "msgRecv \<noteq> None" "operation_cb \<noteq> None" "malloc (heap env) 1 w = (True, w1)"
    "tickcounter_create env w1 = (True, w2)" "malloc (heap env) 1 w2 = (True, w')"
    "s = (clear_codec_data (fresh_client msgRecv operation_cb c onErrorCallBack e ext w2))\<lparr>world := w'\<rparr>"
  using assms
  by (auto simp: mqtt_client_init_def mqtt_codec_create_def split: if_splits prod.splits bool.splits option.splits)

context client_environment
begin

lemma init_balance:
  assumes "mqtt_client_init env msgRecv operation_cb c onErrorCallBack e ext w = (Some s, w')"
  shows "client_balance live s = live w + 3"
  using assms
proof (rule init_created)
  fix w1 w2
  assume "malloc (heap env) 1 w = (True, w1)" "tickcounter_create env w1 = (True, w2)"
    "malloc (heap env) 1 w2 = (True, w')"
    and s: "s = (clear_codec_data (fresh_client msgRecv operation_cb c onErrorCallBack e ext w2))\<lparr>world := w'\<rparr>"
  then have "live w' = live w + 3"
    using heap_malloc [OF hp] tick_new by fastforce
  then show ?thesis
    by (simp add: s clear_codec_data_def fresh_client_def client_balance_def owned_def opt_blocks_def no_options_def)
qed

lemma init_sound:
  assumes "mqtt_client_init env msgRecv operation_cb c onErrorCallBack e ext w = (Some s, w')"
  shows "sound (buffers env) s"
  using assms
  by (rule init_created)
    (simp add: sound_def codec_inv_def client_ok_def clear_codec_data_def fresh_client_def
      options_ok_def no_strings_def no_options_def)

text \<open>A step that neither leaks nor releases.\<close>

definition holds :: "('b, 'w, 'z) client_scheme \<Rightarrow> ('b, 'w, 'z) client_scheme \<Rightarrow> bool" where
  "holds s s' \<longleftrightarrow> moves (buffers env) live s s' \<and> client_balance live s' = client_balance live s"

lemma keeps_holds: "codec_inv (buffers env) s \<Longrightarrow> keeps live 0 s s' \<Longrightarrow> holds s s'"
  by (simp add: holds_def keeps_moves client_balance_keeps)

lemma api_holds:
  "codec_inv (buffers env) s \<Longrightarrow> api_keeps live s res \<Longrightarrow> \<exists>s'. called res = Some s' \<and> holds s s'"
  by (auto simp: api_keeps_def called_def intro: keeps_holds)

lemma keeping_holds:
  "codec_inv (buffers env) s \<Longrightarrow> keeping live 0 s res \<Longrightarrow> \<exists>s'. res = Some s' \<and> holds s s'"
  by (auto simp: keeping_def intro: keeps_holds)

lemma field_holds:
  assumes "sound (buffers env) s"
  shows "holds s (s\<lparr>xioHandle := x\<rparr>)" "holds s (s\<lparr>mqtt_flags := f\<rparr>)"
  using assms
  by (auto simp: holds_def moves_def sound_def codec_inv_def client_ok_def status_set_def
      client_balance_def owned_def)

text \<open>Every allowed event is defined and keeps the invariants.\<close>

lemma event_holds:
  assumes ok: "sound (buffers env) s" and ev: "allowed ev" "ev \<noteq> Do_Work" "\<And>bytes. ev \<noteq> Bytes_Received bytes"
  shows "\<exists>s'. run_event env ev s = Some s' \<and> holds s s'"
proof -
  have inv: "codec_inv (buffers env) s" and cl: "client_ok s" using ok by (simp_all add: sound_def)
  note api = api_holds [OF inv] and cb = keeping_holds [OF inv]
  show ?thesis
  proof (cases ev)
    case (Open_Complete r)
    then show ?thesis using cb [OF onOpenComplete_keeps [OF cl]] by simp
  next
    case (Send_Complete r)
    then show ?thesis using cb [OF sendComplete_keeps [OF cl]] by simp
  next
    case Io_Error
    then show ?thesis using cb [OF onIoError_keeps [OF cl]] by simp
  next
    case Connection_Closed
    then show ?thesis using cb [OF on_connection_closed_keeps [OF cl]] by simp
  next
    case (Connect x given)
    then show ?thesis using ev api [OF connect_keeps [OF cl]] by simp
  next
    case (Publish m)
    then show ?thesis using ev api [OF publish_keeps [OF cl, of m]] by (cases m) auto
  next
    case (Subscribe packetId items)
    then show ?thesis using ev api [OF subscribe_keeps [OF cl]] by simp
  next
    case (Unsubscribe packetId topics)
    then show ?thesis using ev api [OF unsubscribe_keeps [OF cl]] by simp
  next
    case (Respond packetId qos)
    then show ?thesis using api [OF respond_keeps [OF cl]] by simp
  next
    case (Disconnect callback cb_ctx)
    then show ?thesis using api [OF disconnect_keeps [OF cl]] by simp
  qed (use ev in \<open>simp_all add: mqtt_client_clear_xio_def mqtt_client_set_trace_def field_holds [OF ok]\<close>)
qed

lemma bytes_moves:
  assumes "sound (buffers env) s"
  shows "\<exists>s'. run_event env (Bytes_Received bytes) s = Some s' \<and> moves (buffers env) live s s' \<and>
    client_balance live s' \<le> client_balance live s + 1"
  using assms onBytesReceived_sound [of s "length bytes" bytes] by (auto simp: sound_def moves_def)

lemma event_moves:
  assumes ok: "sound (buffers env) s" and ev: "allowed ev"
  shows "\<exists>s'. run_event env ev s = Some s' \<and> moves (buffers env) live s s'"
proof -
  consider bytes where "ev = Bytes_Received bytes" | "ev = Do_Work" |
    "ev \<noteq> Do_Work" "\<And>bytes. ev \<noteq> Bytes_Received bytes" by blast
  then show ?thesis
  proof cases
    case 1
    then show ?thesis using bytes_moves [OF ok] by blast
  next
    case 2
    then show ?thesis using dowork_moves [of s] ok by (fastforce simp: sound_def)
  next
    case 3
    then show ?thesis using event_holds [OF ok ev] by (auto simp: holds_def)
  qed
qed

lemma trace_sound: "client_trace env w evs s \<Longrightarrow> sound (buffers env) s"
proof (induction rule: client_trace.induct)
  case (init msgRecv operation_cb opCallbackCtx onErrorCallBack errorCtx ext s w')
  then show ?case by (rule init_sound)
next
  case (event evs s ev s')
  then show ?case using event_moves [OF event.IH, of ev] moves_sound by (auto simp: client_step_iff)
qed

lemma deinit_live:
  "live (mqtt_client_deinit env (Some s) (world s)) = client_balance live s - 3"
  by (cases "headerData s")
    (simp_all add: mqtt_client_deinit_def mqtt_codec_destroy_def opt_blocks_clear tick_free heap_free [OF hp]
      buffer_delete_live [OF buf] client_balance_def owned_def Let_def)

end

section \<open>Counting what is received\<close>

text \<open>
  What a call of the transport's pump is made of: pieces of received data, which go through
  \<open>onBytesReceived\<close>, and between them steps that balance, among them every other callback of the
  transport.  The number is that of the pieces.
\<close>

inductive pumped ::
  "('b, 'w, 'z) environment \<Rightarrow> ('w \<Rightarrow> int) \<Rightarrow> nat \<Rightarrow> ('b, 'w, 'z) client_scheme
    \<Rightarrow> ('b, 'w, 'z) client_scheme \<Rightarrow> bool" for env live where
  pumped_start: "pumped env live 0 s s"
| pumped_step: "pumped env live n s t \<Longrightarrow> keeps live 0 t u \<Longrightarrow> pumped env live n s u"
| pumped_piece: "pumped env live n s t \<Longrightarrow> onBytesReceived env (Some bytes) (length bytes) t = Some u \<Longrightarrow>
    pumped env live (Suc n) s u"

context client_environment
begin

text \<open>A piece of data loses at most one block: the packet buffer a reset of the codec forgets.\<close>

lemma pumped_growth:
  assumes "pumped env live n s t" and "sound (buffers env) s"
  shows "sound (buffers env) t \<and> client_balance live t \<le> client_balance live s + int n"
  using assms
proof (induction rule: pumped.induct)
  case (pumped_step n s t u)
  then show ?case
    using keeps_moves [of "buffers env" t live u] client_balance_keeps [of live 0 t u]
    by (auto simp: sound_def moves_def)
next
  case (pumped_piece n s t bytes u)
  then show ?case
    using onBytesReceived_sound [of t "length bytes" bytes] by (auto simp: sound_def)
qed simp

end

text \<open>
  The contract with the pump counted: in the state \<open>s\<close> it hands over at most \<open>delivers s\<close> pieces.  They are
  processed in the environment \<open>inner\<close>, where the client pumps only a transport it has closed; it may
  be \<open>env\<close> itself.
\<close>

locale counted_environment = client_environment env live closing
  for env :: "('b, 'w, 'z) environment" and live :: "'w \<Rightarrow> int"
    and closing :: "('b, 'w, 'z) client_scheme \<Rightarrow> bool" +
  fixes inner :: "('b, 'w, 'z) environment" and delivers :: "('b, 'w, 'z) client_scheme \<Rightarrow> nat"
  assumes inner: "client_environment inner live closing" and same_buffers: "buffers inner = buffers env"
    and counted: "client_ok s \<Longrightarrow> codec_inv (buffers env) s \<Longrightarrow> xio_dowork env x s = Some t \<Longrightarrow>
      \<exists>n \<le> delivers s. pumped inner live n s t"

text \<open>The pieces of data a client receives in a run: as events of their own, and while it pumps.\<close>

fun pieces :: "(('b, 'w, 'z) client_scheme \<Rightarrow> nat) \<Rightarrow> client_event \<Rightarrow> ('b, 'w, 'z) client_scheme \<Rightarrow> nat" where
  "pieces delivers (Bytes_Received bytes) s = 1"
| "pieces delivers Do_Work s = delivers s"
| "pieces delivers ev s = 0"

fun pieces_received ::
  "('b, 'w, 'z) environment \<Rightarrow> (('b, 'w, 'z) client_scheme \<Rightarrow> nat) \<Rightarrow> client_event list
    \<Rightarrow> ('b, 'w, 'z) client_scheme \<Rightarrow> nat" where
  "pieces_received env delivers [] s = 0"
| "pieces_received env delivers (ev # evs) s = pieces delivers ev s +
    (case run_event env ev s of None \<Rightarrow> 0 | Some t \<Rightarrow> pieces_received env delivers evs t)"

context counted_environment
begin

lemma dowork_growth:
  assumes ok: "sound (buffers env) s" and run: "run_event env Do_Work s = Some s'"
  shows "client_balance live s' \<le> client_balance live s + int (delivers s)"
proof -
  have inv: "codec_inv (buffers env) s" and cl: "client_ok s" using ok by (simp_all add: sound_def)
  have "keeping live 0 s (Option.bind (close_connection env s) (\<lambda>s. Some (clear_status MQTT_STATUS_PENDING_CLOSE s)))"
    by (intro keeping0_bind [OF close_connection_keeps [OF cl]]) (simp add: keeps_fields)
  then obtain u where u: "Option.bind (close_connection env s) (\<lambda>s. Some (clear_status MQTT_STATUS_PENDING_CLOSE s)) = Some u"
      "client_balance live u = client_balance live s"
    using client_balance_keeps by (fastforce simp: keeping_def)
  obtain t where t: "xio_dowork env (xioHandle s) s = Some t" using pump [OF cl inv] by blast
  obtain n where n: "n \<le> delivers s" "pumped inner live n s t" using counted [OF cl inv t] by blast
  have t': "client_ok t" "client_balance live t \<le> client_balance live s + int n"
    using client_environment.pumped_growth [OF inner n(2)] ok by (simp_all add: same_buffers sound_def)
  obtain v where v: "keep_alive env t = Some v" "keeps live 0 t v"
    using keep_alive_keeps [OF t'(1)] by (auto simp: keeping_def)
  have "client_balance live v \<le> client_balance live s + int (delivers s)"
    using client_balance_keeps [OF v(2)] t'(2) n(1) by simp
  then show ?thesis
    using run u t v(1) by (auto simp: mqtt_client_dowork_def bind_eq_Some_conv split: if_splits)
qed

lemma event_growth:
  assumes ok: "sound (buffers env) s" and ev: "allowed ev" and run: "run_event env ev s = Some s'"
  shows "client_balance live s' \<le> client_balance live s + int (pieces delivers ev s)"
proof -
  consider bytes where "ev = Bytes_Received bytes" | "ev = Do_Work" |
    "ev \<noteq> Do_Work" "\<And>bytes. ev \<noteq> Bytes_Received bytes" by blast
  then show ?thesis
  proof cases
    case 1
    then show ?thesis using bytes_moves [OF ok, of bytes] run by auto
  next
    case 2
    then show ?thesis using dowork_growth [OF ok] run by simp
  next
    case 3
    then show ?thesis using event_holds [OF ok ev 3] run by (cases ev) (auto simp: holds_def)
  qed
qed

lemma run_growth:
  "sound (buffers env) s \<Longrightarrow> \<forall>ev \<in> set evs. allowed ev \<Longrightarrow>
   \<exists>s'. run_events env evs s = Some s' \<and> client_balance live s \<le> client_balance live s' \<and>
     client_balance live s' \<le> client_balance live s + int (pieces_received env delivers evs s)"
proof (induction evs arbitrary: s)
  case (Cons ev evs)
  obtain t where t: "run_event env ev s = Some t" "moves (buffers env) live s t"
    using event_moves [OF Cons.prems(1), of ev] Cons.prems(2) by auto
  then obtain s' where "run_events env evs t = Some s'" "client_balance live t \<le> client_balance live s'"
      "client_balance live s' \<le> client_balance live t + int (pieces_received env delivers evs t)"
    using Cons.IH [OF moves_sound [OF t(2)]] Cons.prems(2) by auto
  then show ?case
    using t event_growth [OF Cons.prems(1) _ t(1)] Cons.prems(2) by (auto simp: moves_def)
qed simp

end

end
