(* ===== verification/Client_Net.thy ===== *)
theory Client_Net
  imports Client_Machine
begin

text \<open>
  An environment to observe the client in: a transport that records what it is asked to do, a clock
  that is read off the state, and any application.  It interprets the contract of
  \<open>Client_Env\<close>, and its calls have exact results, on which the theorems about what the client does
  (rather than that it is safe) are stated.
\<close>

section \<open>The observable state\<close>

text \<open>What the client does to the outside: to the transport, and to the application.\<close>

datatype effect =
    Opened xio_handle
  | Closed
  | Sent "byte list"
  | Told MQTT_CLIENT_EVENT_RESULT msg_info
  | Delivered message_view
  | Failed MQTT_CLIENT_EVENT_ERROR
  | Disconnected

text \<open>
  \<open>inbox\<close> holds the pieces of data the transport hands over, one to a call of \<open>xio_dowork\<close>; after
  \<open>xio_close\<close> it is \<open>shut\<close>, hands over no more, and reports the close at its next pump.
\<close>

record ('b, 'w) net = "('b, 'w) client" +
  effects :: "effect list"
  now_ms :: ms_t
  link_down :: bool
  shut :: bool
  inbox :: "byte list list"

definition emit :: "effect \<Rightarrow> ('b, 'w, 'z) net_scheme \<Rightarrow> ('b, 'w, 'z) net_scheme" where
  "emit e s = s\<lparr>effects := effects s @ [e]\<rparr>"

lemma emit_shut [simp]: "shut (emit e s) = shut s"
  by (simp add: emit_def)

record 's application =
  on_operation :: "fn_ptr \<Rightarrow> ctx_ptr \<Rightarrow> MQTT_CLIENT_EVENT_RESULT \<Rightarrow> msg_info \<Rightarrow> 's \<Rightarrow> 's option"
  on_message :: "fn_ptr \<Rightarrow> ctx_ptr \<Rightarrow> MQTT_MESSAGE option \<Rightarrow> 's \<Rightarrow> (MQTT_CLIENT_ACK_OPTION \<times> 's) option"
  on_error :: "fn_ptr \<Rightarrow> ctx_ptr \<Rightarrow> MQTT_CLIENT_EVENT_ERROR \<Rightarrow> 's \<Rightarrow> 's option"
  on_closed :: "fn_ptr \<Rightarrow> ctx_ptr \<Rightarrow> 's \<Rightarrow> 's option"

section \<open>The environment\<close>

definition send_bytes ::
  "xio_handle option \<Rightarrow> byte list option \<Rightarrow> nat \<Rightarrow> ('b, 'w, 'z) net_scheme
    \<Rightarrow> (c_result \<times> ('b, 'w, 'z) net_scheme) option" where
  "send_bytes x data n s =
    (if link_down s then Some (MU_FAILURE, s)
     else case data of
       None \<Rightarrow> Some (MU_FAILURE, s)
     | Some m \<Rightarrow> Some (ZERO, emit (Sent (take n m)) s))"

text \<open>The calls without the pump; the pump of a transport that is shut; the pump.\<close>

definition net_calls ::
  "(byte list, int, 'z) net_scheme application \<Rightarrow> (byte list, int, (byte list, int, 'z) net_scheme) client_env" where
  "net_calls app = \<lparr>
     buffers = list_buffer,
     heap = count_heap,
     strings = weighed_strings 0,
     safe_add_size_t = (\<lambda>a b. if a + b > SIZE_MAX then SIZE_MAX else a + b),
     safe_multiply_size_t = (\<lambda>a b. if a * b > SIZE_MAX then SIZE_MAX else a * b),
     tickcounter_create = (\<lambda>w. (True, w + 1)),
     tickcounter_destroy = (\<lambda>w. w - 1),
     tickcounter_get_current_ms = (\<lambda>s. (Some (now_ms s), s)),
     xio_open = (\<lambda>x s. Some (ZERO, emit (Opened x) (s\<lparr>shut := False\<rparr>))),
     xio_close = (\<lambda>x s. Some (emit Closed (s\<lparr>shut := True\<rparr>))),
     xio_send = send_bytes,
     xio_dowork = (\<lambda>x s. Some s),
     ThreadAPI_Sleep = (\<lambda>n s. Some s),
     call_operation_cb = on_operation app,
     call_message_cb = on_message app,
     call_error_cb = on_error app,
     call_disconnect_cb = on_closed app\<rparr>"

definition drain_closed ::
  "(byte list, int, 'z) net_scheme application \<Rightarrow> (byte list, int, 'z) net_scheme
    \<Rightarrow> (byte list, int, 'z) net_scheme option" where
  "drain_closed app s =
    (if status_set MQTT_STATUS_SOCKET_CONNECTED s then on_connection_closed (net_calls app) s else Some s)"

definition net_closing ::
  "(byte list, int, 'z) net_scheme application \<Rightarrow> (byte list, int, (byte list, int, 'z) net_scheme) client_env" where
  "net_closing app = (net_calls app)\<lparr>
     xio_dowork := (\<lambda>x s. if shut s then drain_closed app s else Some s)\<rparr>"

definition hand_over ::
  "(byte list, int, 'z) net_scheme application \<Rightarrow> (byte list, int, 'z) net_scheme
    \<Rightarrow> (byte list, int, 'z) net_scheme option" where
  "hand_over app s =
    (case inbox s of
       [] \<Rightarrow> Some s
     | bytes # rest \<Rightarrow> onBytesReceived (net_closing app) (Some bytes) (length bytes) (s\<lparr>inbox := rest\<rparr>))"

text \<open>
  While bytes are handed over, the client pumps only a transport it has closed, so the processing
  behind \<open>hand_over\<close> runs with the pump of a closing transport.
\<close>

definition net_env ::
  "(byte list, int, 'z) net_scheme application \<Rightarrow> (byte list, int, (byte list, int, 'z) net_scheme) client_env" where
  "net_env app = (net_calls app)\<lparr>
     xio_dowork := (\<lambda>x s. if shut s then drain_closed app s else hand_over app s)\<rparr>"

lemmas net_env_defs = net_env_def net_closing_def net_calls_def

section \<open>It meets the contract\<close>

text \<open>An application that leaves the client's state sound and allocates nothing it does not free.\<close>

locale sound_application =
  fixes app :: "(byte list, int, 'z) net_scheme application"
  assumes operation: "client_ok s \<Longrightarrow> keeping id 0 s (on_operation app f c action info s)"
    and message: "client_ok s \<Longrightarrow> readable m \<Longrightarrow> giving id 0 s (on_message app f c (Some m) s)"
    and error: "client_ok s \<Longrightarrow> keeping id 0 s (on_error app f c e s)"
    and closed: "client_ok s \<Longrightarrow> \<exists>t. on_closed app f c s = Some t \<and> keeps id 0 s t \<and> (shut s \<longrightarrow> shut t)"
begin

lemma emit_keeps: "client_ok s \<Longrightarrow> keeps live 0 s (emit e s)"
  by (simp add: emit_def keeps_def same_codec_def client_ok_def status_set_def balance_def)

lemma shut_keeps: "client_ok s \<Longrightarrow> keeps live 0 s (emit e (s\<lparr>shut := b\<rparr>))"
  by (simp add: emit_def keeps_def same_codec_def client_ok_def status_set_def balance_def)

lemma send_bytes_keeps: "client_ok s \<Longrightarrow> giving live 0 s (send_bytes x data n s)"
  by (auto simp: send_bytes_def emit_keeps split: option.split)

lemma closed_keeping: "client_ok s \<Longrightarrow> keeping id 0 s (on_closed app f c s)"
  using closed by (fastforce simp: keeping_def)

lemma drain_closed_keeps:
  assumes ok: "client_ok s" and shut: "shut s"
  shows "\<exists>t. drain_closed app s = Some t \<and> keeps id 0 s t \<and> shut t"
proof (cases "status_set MQTT_STATUS_SOCKET_CONNECTED s")
  case False
  then show ?thesis using ok shut by (auto simp: drain_closed_def)
next
  case True
  let ?s = "clear_status MQTT_STATUS_SOCKET_CONNECTED s"
  have k: "keeps id 0 s ?s" by (rule keeps_fields(7) [OF ok])
  have sh: "shut ?s" using shut by (simp add: clear_status_def)
  show ?thesis
  proof (cases "Client_Model.disconnect_cb ?s")
    case None
    then show ?thesis using True k sh by (simp add: drain_closed_def on_connection_closed_def Let_def)
  next
    case (Some f)
    obtain t where t: "on_closed app f (disconnect_ctx ?s) ?s = Some t" "keeps id 0 ?s t" "shut t"
      using closed [OF keeps_handlers [OF k]] sh by blast
    then show ?thesis using True Some keeps_trans [OF k t(2)]
      by (simp add: drain_closed_def on_connection_closed_def net_calls_def)
  qed
qed

end

lemma net_calls_simps [simp]:
  "buffers (net_calls app) = list_buffer" "heap (net_calls app) = count_heap"
  "strings (net_calls app) = weighed_strings 0"
  "safe_add_size_t (net_calls app) = (\<lambda>a b. if a + b > SIZE_MAX then SIZE_MAX else a + b)"
  "safe_multiply_size_t (net_calls app) = (\<lambda>a b. if a * b > SIZE_MAX then SIZE_MAX else a * b)"
  "tickcounter_create (net_calls app) = (\<lambda>w. (True, w + 1))"
  "tickcounter_destroy (net_calls app) = (\<lambda>w. w - 1)"
  "tickcounter_get_current_ms (net_calls app) = (\<lambda>s. (Some (now_ms s), s))"
  "xio_open (net_calls app) = (\<lambda>x s. Some (ZERO, emit (Opened x) (s\<lparr>shut := False\<rparr>)))"
  "xio_close (net_calls app) = (\<lambda>x s. Some (emit Closed (s\<lparr>shut := True\<rparr>)))"
  "xio_send (net_calls app) = send_bytes"
  "xio_dowork (net_calls app) = (\<lambda>x s. Some s)"
  "ThreadAPI_Sleep (net_calls app) = (\<lambda>n s. Some s)"
  "call_operation_cb (net_calls app) = on_operation app"
  "call_message_cb (net_calls app) = on_message app"
  "call_error_cb (net_calls app) = on_error app"
  "call_disconnect_cb (net_calls app) = on_closed app"
  by (simp_all add: net_calls_def)

sublocale sound_application \<subseteq> closing_net: client_environment "net_closing app" id shut
proof
  fix s x assume ok: "client_ok (s :: (byte list, int, 'z) net_scheme)"
  have "keeping id 0 s (xio_dowork (net_closing app) x s)"
    using drain_closed_keeps [OF ok] ok by (auto simp: net_closing_def keeping_def)
  then show "\<exists>t. xio_dowork (net_closing app) x s = Some t \<and> moves (buffers (net_closing app)) id s t"
    if "codec_inv (buffers (net_closing app)) s"
    using keeps_moves [OF that] by (auto simp: keeping_def)
qed (auto simp: net_closing_def operation message error closed emit_keeps shut_keeps send_bytes_keeps
    list_buffer_laws count_heap_laws weighed_strings_laws drain_closed_keeps closed_keeping intro: keeps_refl)

context sound_application
begin

lemma hand_over_moves:
  assumes "client_ok s" "codec_inv list_buffer s"
  shows "\<exists>t. hand_over app s = Some t \<and> moves list_buffer id s t"
proof (cases "inbox s")
  case Nil
  then show ?thesis using assms by (auto simp: hand_over_def intro: keeps_moves)
next
  case (Cons bytes rest)
  let ?s = "s\<lparr>inbox := rest\<rparr>"
  have "keeps id 0 s ?s"
    using assms by (simp add: keeps_def same_codec_def client_ok_def status_set_def balance_def)
  then have m: "moves list_buffer id s ?s" by (rule keeps_moves [OF assms(2)])
  then have "codec_inv list_buffer ?s" "client_ok ?s" by (simp_all add: moves_def)
  then obtain t where "onBytesReceived (net_closing app) (Some bytes) (length bytes) ?s = Some t"
      "moves list_buffer id ?s t"
    using closing_net.onBytesReceived_sound [of ?s "length bytes" bytes]
    by (auto simp: net_closing_def moves_def)
  then show ?thesis using Cons moves_trans [OF m] by (auto simp: hand_over_def)
qed

end

sublocale sound_application \<subseteq> open_net: client_environment "net_env app" id shut
proof
  fix s x assume ok: "client_ok (s :: (byte list, int, 'z) net_scheme)"
    and inv: "codec_inv (buffers (net_env app)) s"
  show "\<exists>t. xio_dowork (net_env app) x s = Some t \<and> moves (buffers (net_env app)) id s t"
  proof (cases "shut s")
    case True
    then show ?thesis using drain_closed_keeps [OF ok] keeps_moves inv by (auto simp: net_env_def)
  next
    case False
    then show ?thesis using hand_over_moves [OF ok] inv by (auto simp: net_env_def)
  qed
qed (auto simp: net_env_def operation message error closed emit_keeps shut_keeps send_bytes_keeps
    list_buffer_laws count_heap_laws weighed_strings_laws drain_closed_keeps closed_keeping intro: keeps_refl)

text \<open>What its pump hands over is counted: one piece, when the transport is open and there is one.\<close>

definition pending :: "('b, 'w, 'z) net_scheme \<Rightarrow> nat" where
  "pending s = (if shut s \<or> inbox s = [] then 0 else 1)"

context sound_application
begin

lemma pump_counted:
  assumes ok: "client_ok s" and run: "xio_dowork (net_env app) x s = Some t"
  shows "\<exists>n \<le> pending s. pumped (net_closing app) id n s t"
proof (cases "shut s")
  case True
  then have "keeps id 0 s t" using drain_closed_keeps [OF ok] run by (auto simp: net_env_def)
  then show ?thesis by (auto intro: pumped_step [OF pumped_start])
next
  case open_link: False
  show ?thesis
  proof (cases "inbox s")
    case Nil
    then have "t = s" using open_link run by (simp add: net_env_def hand_over_def)
    then show ?thesis by (auto intro: pumped_start)
  next
    case (Cons bytes rest)
    let ?s = "s\<lparr>inbox := rest\<rparr>"
    have "onBytesReceived (net_closing app) (Some bytes) (length bytes) ?s = Some t"
      using Cons open_link run by (simp add: net_env_def hand_over_def)
    moreover have "keeps id 0 s ?s"
      using ok by (simp add: keeps_def same_codec_def client_ok_def status_set_def balance_def)
    ultimately have "pumped (net_closing app) id (Suc 0) s t"
      by (intro pumped_piece [OF pumped_step [OF pumped_start]])
    then show ?thesis using Cons open_link by (auto simp: pending_def)
  qed
qed

end

sublocale sound_application \<subseteq> counted_net: counted_environment "net_env app" id shut "net_closing app" pending
proof
  show "buffers (net_closing app) = buffers (net_env app)" by (simp add: net_env_def net_closing_def)
  show "\<exists>n \<le> pending s. pumped (net_closing app) id n s t"
    if "client_ok s" "xio_dowork (net_env app) x s = Some t" for s x t
    by (rule pump_counted [OF that])
qed

section \<open>An application that notes its calls\<close>

text \<open>It answers a message as \<open>answer\<close> says.\<close>

definition observer ::
  "(message_view \<Rightarrow> MQTT_CLIENT_ACK_OPTION) \<Rightarrow> ('b, 'w, 'z) net_scheme application" where
  "observer answer = \<lparr>
     on_operation = (\<lambda>f c action info s. Some (emit (Told action info) s)),
     on_message = (\<lambda>f c m s. case m of
         None \<Rightarrow> Some (MQTT_CLIENT_ACK_NONE, s)
       | Some m \<Rightarrow> Some (answer (msg_view m), emit (Delivered (msg_view m)) s)),
     on_error = (\<lambda>f c e s. Some (emit (Failed e) s)),
     on_closed = (\<lambda>f c s. Some (emit Disconnected s))\<rparr>"

interpretation observed: sound_application "observer answer" for answer
  by unfold_locales
    (auto simp: observer_def emit_def keeps_def same_codec_def client_ok_def status_set_def balance_def
      split: option.split)

end
