(* ===== verification/Client_Exact.thy ===== *)
theory Client_Exact
  imports Client_Net Codec_Roundtrip
begin

text \<open>
  What the client does in the recording environment, call by call and exactly: the replies it sends,
  the packets it takes from the codec, and the state afterwards.  The pump is a parameter, since the
  environments of \<open>Client_Net\<close> only differ in it.
\<close>

section \<open>Sending\<close>

abbreviation net_with ::
  "(byte list, int, 'z) net_scheme application
    \<Rightarrow> (xio_handle option \<Rightarrow> (byte list, int, 'z) net_scheme \<Rightarrow> (byte list, int, 'z) net_scheme option)
    \<Rightarrow> (byte list, int, (byte list, int, 'z) net_scheme) client_env" where
  "net_with app pump \<equiv> (net_calls app)\<lparr>xio_dowork := pump\<rparr>"

definition sent :: "byte list \<Rightarrow> (byte list, int, 'z) net_scheme \<Rightarrow> (byte list, int, 'z) net_scheme" where
  "sent bytes s = (emit (Sent bytes) s)\<lparr>packetSendTimeMs := now_ms s\<rparr>"

lemma encodes_exactly:
  "encodes list_buffer id w bytes res \<Longrightarrow> res = Some (Some bytes, w + 1)"
  using list_buffer_total by (auto simp: encodes_def split: option.splits)

lemma list_buffer_simps [simp]:
  "BUFFER_length list_buffer = length" "BUFFER_u_char list_buffer b = (if b = [] then None else Some b)"
  "BUFFER_delete list_buffer (Some b) w = w - 1" "BUFFER_delete list_buffer None w = w"
  by (simp_all add: list_buffer_def)

lemma count_heap_simps [simp]:
  "malloc count_heap n w = (True, w + 1)" "mallocAndStrcpy_s count_heap str w = (Some str, w + 1)"
  "free count_heap w = w - 1"
  by (simp_all add: count_heap_def)

lemma sendPacketItem_sent [simp]:
  "\<not> link_down s \<Longrightarrow> sendPacketItem (net_with app pump) (Some bytes) (length bytes) s = Some (ZERO, sent bytes s)"
  by (simp add: sendPacketItem_def send_bytes_def sent_def emit_def)

lemma sendPacketItem_down:
  "link_down s \<Longrightarrow> sendPacketItem (net_with app pump) data n s = Some (MU_FAILURE, s)"
  by (simp add: sendPacketItem_def send_bytes_def)

lemma send_and_delete_sent:
  "\<not> link_down s \<Longrightarrow> bytes \<noteq> [] \<Longrightarrow>
   send_and_delete (net_with app pump) bytes s = Some (ZERO, (sent bytes s)\<lparr>world := world s - 1\<rparr>)"
  by (simp add: send_and_delete_def sent_def emit_def)

lemma reply_sent:
  assumes enc: "encodes list_buffer id (world s) bytes (encoder list_buffer packetId (world s))"
    and "bytes \<noteq> []" and "\<not> link_down s"
  shows "Option.bind (build_reply (net_with app pump) encoder packetId s) (\<lambda>(r, s). send_reply (net_with app pump) r s)
    = Some (sent bytes s)"
  using assms(2,3) encodes_exactly [OF enc]
  by (simp add: build_reply_def send_reply_def sent_def emit_def)

text \<open>The four acknowledgements as bytes.\<close>

definition reply_bytes :: "CONTROL_PACKET_TYPE \<Rightarrow> u16 \<Rightarrow> byte list" where
  "reply_bytes t packetId = frame t (if t = PUBREL_TYPE then 2 else 0) (be16 packetId)"

lemma reply_bytes_nonempty [simp]: "reply_bytes t packetId \<noteq> []"
  by (simp add: reply_bytes_def frame_def)

lemma reply_encodings:
  "encodes list_buffer id w (reply_bytes PUBACK_TYPE packetId) (mqtt_codec_publishAck list_buffer packetId w)"
  "encodes list_buffer id w (reply_bytes PUBREC_TYPE packetId) (mqtt_codec_publishReceived list_buffer packetId w)"
  "encodes list_buffer id w (reply_bytes PUBREL_TYPE packetId) (mqtt_codec_publishRelease list_buffer packetId w)"
  "encodes list_buffer id w (reply_bytes PUBCOMP_TYPE packetId) (mqtt_codec_publishComplete list_buffer packetId w)"
  using constructPublishReply_encodes [OF list_buffer_laws]
  by (simp_all add: reply_bytes_def reply_defs)

lemma replies_sent:
  assumes up: "\<not> link_down s"
  shows "Option.bind (build_reply (net_with app pump) mqtt_codec_publishAck packetId s)
      (\<lambda>(r, s). send_reply (net_with app pump) r s) = Some (sent (reply_bytes PUBACK_TYPE packetId) s)"
    "Option.bind (build_reply (net_with app pump) mqtt_codec_publishReceived packetId s)
      (\<lambda>(r, s). send_reply (net_with app pump) r s) = Some (sent (reply_bytes PUBREC_TYPE packetId) s)"
    "Option.bind (build_reply (net_with app pump) mqtt_codec_publishRelease packetId s)
      (\<lambda>(r, s). send_reply (net_with app pump) r s) = Some (sent (reply_bytes PUBREL_TYPE packetId) s)"
    "Option.bind (build_reply (net_with app pump) mqtt_codec_publishComplete packetId s)
      (\<lambda>(r, s). send_reply (net_with app pump) r s) = Some (sent (reply_bytes PUBCOMP_TYPE packetId) s)"
  apply (rule reply_sent [where encoder = mqtt_codec_publishAck, OF reply_encodings(1) reply_bytes_nonempty up])
  apply (rule reply_sent [where encoder = mqtt_codec_publishReceived, OF reply_encodings(2) reply_bytes_nonempty up])
  apply (rule reply_sent [where encoder = mqtt_codec_publishRelease, OF reply_encodings(3) reply_bytes_nonempty up])
  by (rule reply_sent [where encoder = mqtt_codec_publishComplete, OF reply_encodings(4) reply_bytes_nonempty up])

text \<open>The reply to a delivered message, by its quality of service.\<close>

definition acknowledged ::
  "u16 \<Rightarrow> QOS_VALUE \<Rightarrow> (byte list, int, 'z) net_scheme \<Rightarrow> (byte list, int, 'z) net_scheme" where
  "acknowledged packetId qos s =
    (if qos = DELIVER_EXACTLY_ONCE then sent (reply_bytes PUBREC_TYPE packetId) s
     else if qos = DELIVER_AT_LEAST_ONCE then sent (reply_bytes PUBACK_TYPE packetId) s
     else s)"

lemma SendMessageAck_sent:
  assumes "\<not> link_down s"
  shows "SendMessageAck (net_with app pump) packetId qos s = Some (acknowledged packetId qos s)"
proof (cases "qos = DELIVER_EXACTLY_ONCE \<or> qos = DELIVER_AT_LEAST_ONCE")
  case True
  then show ?thesis
    using replies_sent(1,2) [OF assms] by (auto simp: SendMessageAck_def acknowledged_def)
next
  case False
  then show ?thesis by (simp add: SendMessageAck_def acknowledged_def send_reply_def)
qed

section \<open>Reading a body\<close>

lemma read_be16:
  assumes "2 \<le> n"
  shows "byteutil_read_uint16 (pre @ be16 v @ rest, length pre) n
    = Some (v, (pre @ be16 v @ rest, length pre + 2))"
proof -
  have "256 * ucast (be16 v ! 0) + ucast (be16 v ! 1) = v"
  proof -
    have "of_nat (256 * unat (be16 v ! 0) + unat (be16 v ! 1)) = v" by (rule be16_value)
    then show ?thesis by (simp add: of_nat_unat)
  qed
  then show ?thesis
    using assms by (simp add: byteutil_read_uint16_def get_byte_def advance_def be16_def nth_append)
qed

lemma read_topic:
  assumes "topic \<noteq> []" "length topic \<le> USHRT_MAX"
  shows "byteutil_readUTF (net_with app pump) (utf topic @ rest, 0) (length topic + 2 + length rest) w
    = Some (Some (c_string topic), (utf topic @ rest, length topic + 2), w + 1)"
proof -
  have len: "unat (of_nat (length topic) :: u16) = length topic"
    using assms(2) by (simp add: USHRT_MAX_def unsigned_of_nat take_bit_nat_eq_self)
  have big: "length topic + 1 \<le> SIZE_MAX" "Suc (length topic) \<noteq> SIZE_MAX"
    using assms(2) by (simp_all add: USHRT_MAX_def SIZE_MAX_def)
  have "byteutil_read_uint16 (utf topic @ rest, 0) (length topic + 2 + length rest)
      = Some (of_nat (length topic), (utf topic @ rest, 2))"
    using read_be16 [of "length topic + 2 + length rest" "[]" "of_nat (length topic)" "topic @ rest"]
    by (simp add: utf_def)
  then show ?thesis
    using assms len big by (simp add: byteutil_readUTF_def advance_def Let_def utf_def be16_def)
qed

section \<open>Publications\<close>

text \<open>The message the application is shown.\<close>

definition shown_message :: "u16 \<Rightarrow> c_str \<Rightarrow> QOS_VALUE \<Rightarrow> byte list \<Rightarrow> bool \<Rightarrow> bool \<Rightarrow> MQTT_MESSAGE" where
  "shown_message packetId topic qos body dup retain =
    \<lparr>msg_packetId = packetId, qosInfo = qos, msg_topicName = None, appPayload = no_payload,
     const_topic_name = Some topic,
     const_payload = \<lparr>message = (if body = [] then None else Some body), payload_length = length body\<rparr>,
     isDuplicateMsg = dup, isMessageRetained = retain\<rparr>"

lemma shown_view:
  "msg_view (shown_message packetId topic qos body dup retain) = (packetId, qos, Some topic, Some body, dup, retain)"
  by (auto simp: msg_view_def shown_message_def message_getters payload_view_def no_payload_def)

lemma deliver_message_exact:
  assumes "fnMessageRecv s = Some f" and n: "n = length body"
  shows "deliver_message (net_with app pump) packetId topic qos body n dup retain s = do {
    (ack, t) \<leftarrow> on_message app f (ctx s) (Some (shown_message packetId topic qos body dup retain))
                (s\<lparr>world := world s + 1\<rparr>);
    t \<leftarrow> (if ack = MQTT_CLIENT_ACK_SYNC then SendMessageAck (net_with app pump) packetId qos t else Some t);
    Some (t\<lparr>world := world t - 1\<rparr>)
  }"
  using assms
  by (simp add: deliver_message_def mqttmessage_create_in_place_def create_msg_object_def Let_def
      mqttmessage_setIsDuplicateMsg_def mqttmessage_setIsRetained_def mqttmessage_destroy_def
      shown_message_def no_payload_def case_prod_unfold)

text \<open>A well-formed body: the type byte's flags name the quality of service of the body.\<close>

lemma ProcessPublishMessage_exact:
  assumes topic: "topic \<noteq> []" "length topic \<le> USHRT_MAX"
    and qos: "flags_qos flags = qos" and id: "packetId = 0 \<longleftrightarrow> qos = DELIVER_AT_MOST_ONCE"
    and body: "body = publish_body qos packetId topic payload" and n: "n = length body"
  shows "ProcessPublishMessage (net_with app pump) body n flags s = do {
    t \<leftarrow> deliver_message (net_with app pump) packetId (c_string topic) qos payload (length payload)
          (flags AND 0x8 \<noteq> 0) (flags AND 0x1 \<noteq> 0) (s\<lparr>world := world s + 1\<rparr>);
    Some (t\<lparr>world := world t - 1\<rparr>)
  }"
proof -
  let ?rest = "(if qos \<noteq> DELIVER_AT_MOST_ONCE then be16 packetId else []) @ payload"
  have b: "body = utf topic @ ?rest" by (simp add: body publish_body_def)
  have len: "n = length topic + 2 + length ?rest" by (simp add: n b)
  have read: "byteutil_readUTF (net_with app pump) (body, 0) n (world s)
      = Some (Some (c_string topic), (body, length topic + 2), world s + 1)"
    unfolding b len by (rule read_topic [OF topic])
  show ?thesis
  proof (cases "qos = DELIVER_AT_MOST_ONCE")
    case True
    then show ?thesis
      using id qos by (simp add: ProcessPublishMessage_def read) (simp add: b len)
  next
    case False
    have "byteutil_read_uint16 (body, length topic + 2) (n - (length topic + 2))
        = Some (packetId, (body, length topic + 4))"
      using read_be16 [of "n - (length topic + 2)" "utf topic" packetId payload] False by (simp add: b len)
    then show ?thesis
      using False id qos by (simp add: ProcessPublishMessage_def read) (simp add: b len)
  qed
qed

end
