(* ===== verification/Client_Session.thy ===== *)
theory Client_Session
  imports Client_Exact
begin

text \<open>
  The protocol the client is to follow towards its server, as an abstract session, and the proof that
  the client refines it: whatever well-formed packets arrive, and however the transport cuts their
  bytes, the application is told of each and the replies MQTT asks for are sent, in order.
\<close>

section \<open>Packets of a server\<close>

datatype server_packet =
    Connack bool CONNECT_RETURN_CODE
  | Message QOS_VALUE bool bool u16 c_str "byte list"
  | Puback u16
  | Pubrec u16
  | Pubrel u16
  | Pubcomp u16
  | Suback u16 "QOS_VALUE list"
  | Unsuback u16
  | Pingresp

fun packet_of :: "server_packet \<Rightarrow> packet" where
  "packet_of (Connack present code) =
    (CONNACK_TYPE, 0, [if present then 1 else 0, of_nat (return_code code)])"
| "packet_of (Message qos dup retain packetId topic payload) =
    (PUBLISH_TYPE, publish_flags qos dup retain, publish_body qos packetId topic payload)"
| "packet_of (Puback packetId) = (PUBACK_TYPE, 0, be16 packetId)"
| "packet_of (Pubrec packetId) = (PUBREC_TYPE, 0, be16 packetId)"
| "packet_of (Pubrel packetId) = (PUBREL_TYPE, 2, be16 packetId)"
| "packet_of (Pubcomp packetId) = (PUBCOMP_TYPE, 0, be16 packetId)"
| "packet_of (Suback packetId codes) = (SUBACK_TYPE, 0, be16 packetId @ map qos_byte codes)"
| "packet_of (Unsuback packetId) = (UNSUBACK_TYPE, 0, be16 packetId)"
| "packet_of Pingresp = (PINGRESP_TYPE, 0, [])"

text \<open>
  What MQTT allows a server to send, short of 2 MB, less the publications of quality of service 0
  with the retain flag: \<open>retained_misread\<close> says what becomes of these.
\<close>

fun server_ok :: "server_packet \<Rightarrow> bool" where
  "server_ok (Message qos dup retain packetId topic payload) \<longleftrightarrow>
    qos \<in> {DELIVER_AT_MOST_ONCE, DELIVER_AT_LEAST_ONCE, DELIVER_EXACTLY_ONCE} \<and>
    (packetId = 0 \<longleftrightarrow> qos = DELIVER_AT_MOST_ONCE) \<and>
    (qos = DELIVER_AT_MOST_ONCE \<longrightarrow> \<not> dup \<and> \<not> retain) \<and>
    topic \<noteq> [] \<and> length topic \<le> USHRT_MAX \<and> length (publish_body qos packetId topic payload) < 2097152"
| "server_ok (Suback packetId codes) \<longleftrightarrow>
    QOS_VALUE_INVALID \<notin> set codes \<and> codes \<noteq> [] \<and> length codes < 2097150"
| "server_ok _ \<longleftrightarrow> True"

section \<open>The abstract session\<close>

text \<open>
  The topic of a message is shown to the application as a C string, which ends at the first null byte
  of a topic; MQTT forbids a null in a topic, so this is the topic that was sent.
\<close>

record session =
  accepted :: bool
  ping_open :: bool
  outputs :: "effect list"

definition put :: "effect list \<Rightarrow> session \<Rightarrow> session" where
  "put es S = S\<lparr>outputs := outputs S @ es\<rparr>"

fun session_step :: "(message_view \<Rightarrow> MQTT_CLIENT_ACK_OPTION) \<Rightarrow> server_packet \<Rightarrow> session \<Rightarrow> session" where
  "session_step answer (Connack present code) S =
    put [Told MQTT_CLIENT_ON_CONNACK (CONNACK_INFO \<lparr>isSessionPresent = present, returnCode = code\<rparr>)]
      (S\<lparr>accepted := accepted S \<or> code = CONNECTION_ACCEPTED\<rparr>)"
| "session_step answer (Message qos dup retain packetId topic payload) S =
    (let m = (packetId, qos, Some (c_string topic), Some payload, dup, retain) in
     put (Delivered m #
       (if answer m \<noteq> MQTT_CLIENT_ACK_SYNC then []
        else if qos = DELIVER_EXACTLY_ONCE then [Sent (reply_bytes PUBREC_TYPE packetId)]
        else if qos = DELIVER_AT_LEAST_ONCE then [Sent (reply_bytes PUBACK_TYPE packetId)]
        else [])) S)"
| "session_step answer (Puback packetId) S =
    put [Told MQTT_CLIENT_ON_PUBLISH_ACK (PUBLISH_INFO \<lparr>puback_packetId = packetId\<rparr>)] S"
| "session_step answer (Pubrec packetId) S =
    put [Told MQTT_CLIENT_ON_PUBLISH_RECV (PUBLISH_INFO \<lparr>puback_packetId = packetId\<rparr>),
         Sent (reply_bytes PUBREL_TYPE packetId)] S"
| "session_step answer (Pubrel packetId) S =
    put [Told MQTT_CLIENT_ON_PUBLISH_REL (PUBLISH_INFO \<lparr>puback_packetId = packetId\<rparr>),
         Sent (reply_bytes PUBCOMP_TYPE packetId)] S"
| "session_step answer (Pubcomp packetId) S =
    put [Told MQTT_CLIENT_ON_PUBLISH_COMP (PUBLISH_INFO \<lparr>puback_packetId = packetId\<rparr>)] S"
| "session_step answer (Suback packetId codes) S =
    put [Told MQTT_CLIENT_ON_SUBSCRIBE_ACK
           (SUBACK_INFO \<lparr>suback_packetId = packetId, suback_qosReturn = codes\<rparr>)] S"
| "session_step answer (Unsuback packetId) S =
    put [Told MQTT_CLIENT_ON_UNSUBSCRIBE_ACK (UNSUBACK_INFO \<lparr>unsuback_packetId = packetId\<rparr>)] S"
| "session_step answer Pingresp S =
    put [Told MQTT_CLIENT_ON_PING_RESPONSE NO_INFO] (S\<lparr>ping_open := False\<rparr>)"

text \<open>The session a client is in.\<close>

definition session_of :: "('b, 'w, 'z) net_scheme \<Rightarrow> session" where
  "session_of s = \<lparr>accepted = status_set MQTT_STATUS_CLIENT_CONNECTED s,
     ping_open = (timeSincePing s \<noteq> 0), outputs = effects s\<rparr>"

section \<open>What the client makes of each packet\<close>

definition serving :: "(byte list, int, 'z) net_scheme \<Rightarrow> bool" where
  "serving s \<longleftrightarrow> \<not> link_down s \<and> fnOperationCallback s \<noteq> None \<and> fnMessageRecv s \<noteq> None"

text \<open>From \<open>s\<close> to \<open>t\<close>: the session moves as \<open>f\<close> says and nothing else does that the codec needs.\<close>

definition serves ::
  "(session \<Rightarrow> session) \<Rightarrow> (byte list, int, 'z) net_scheme \<Rightarrow> (byte list, int, 'z) net_scheme \<Rightarrow> bool" where
  "serves f s t \<longleftrightarrow> session_of t = f (session_of s) \<and> serving t \<and> same_codec s t \<and> world t = world s"

lemmas serves_defs = serves_def session_of_def serving_def same_codec_def status_set_def put_def emit_def
  sent_def

lemma observer_simps [simp]:
  "on_operation (observer answer) f c action info s = Some (emit (Told action info) s)"
  "on_message (observer answer) f c (Some m) s = Some (answer (msg_view m), emit (Delivered (msg_view m)) s)"
  "on_error (observer answer) f c e s = Some (emit (Failed e) s)"
  "on_closed (observer answer) f c s = Some (emit Disconnected s)"
  by (simp_all add: observer_def)

lemma operation_callback_told:
  "serving s \<Longrightarrow> operation_callback (net_with (observer answer) pump) action info s
    = Some (emit (Told action info) s)"
  by (auto simp: serving_def operation_callback_def)

lemma serving_emit [simp]: "serving (emit e s) = serving s" "link_down (emit e s) = link_down s"
  by (simp_all add: serving_def emit_def)

lemma accepted_set:
  "status_set MQTT_STATUS_CLIENT_CONNECTED (set_status MQTT_STATUS_CLIENT_CONNECTED s)"
  by (subst status_connected_bits) (simp add: MQTT_STATUS_CLIENT_CONNECTED_def)

lemma connack_served:
  assumes "serving s"
  shows "\<exists>t. recv_connack (net_with (observer answer) pump) [if present then 1 else 0, of_nat (return_code code)] 2 s
    = Some t \<and> serves (session_step answer (Connack present code)) s t"
proof -
  let ?t = "emit (Told MQTT_CLIENT_ON_CONNACK (CONNACK_INFO \<lparr>isSessionPresent = present, returnCode = code\<rparr>)) s"
  let ?u = "if code = CONNECTION_ACCEPTED then set_status MQTT_STATUS_CLIENT_CONNECTED ?t else ?t"
  have "recv_connack (net_with (observer answer) pump) [if present then 1 else 0, of_nat (return_code code)] 2 s
    = Some ?u"
    using operation_callback_told [OF assms]
    by (cases code; cases present)
      (simp_all add: recv_connack_def byteutil_readByte_def get_byte_def advance_def Let_def)
  moreover have "serves (session_step answer (Connack present code)) s ?u"
    using assms accepted_set [of ?t] by (auto simp: serves_defs set_status_def)
  ultimately show ?thesis by blast
qed

lemma told_served: "serving s \<Longrightarrow> serves (put [Told action info]) s (emit (Told action info) s)"
  by (simp add: serves_defs)

lemma session_step_told:
  "session_step answer (Unsuback packetId) =
    put [Told MQTT_CLIENT_ON_UNSUBSCRIBE_ACK (UNSUBACK_INFO \<lparr>unsuback_packetId = packetId\<rparr>)]"
  "session_step answer (Suback packetId codes) =
    put [Told MQTT_CLIENT_ON_SUBSCRIBE_ACK
           (SUBACK_INFO \<lparr>suback_packetId = packetId, suback_qosReturn = codes\<rparr>)]"
  by (simp_all add: fun_eq_iff)

lemma told_sent_served:
  "serving s \<Longrightarrow> serves (put [Told action info, Sent bytes]) s (sent bytes (emit (Told action info) s))"
  by (simp add: serves_defs)

lemma read_packetId: "byteutil_read_uint16 (be16 v @ rest, 0) (Suc (Suc n)) = Some (v, (be16 v @ rest, 2))"
  using read_be16 [of "Suc (Suc n)" "[]" v rest] by simp

lemma read_packetId2 [simp]: "byteutil_read_uint16 (be16 v, 0) 2 = Some (v, (be16 v, 2))"
  using read_packetId [of v "[]" 0] by (simp add: numeral_2_eq_2)

text \<open>The four acknowledgements: what is told, and what PUBREC and PUBREL are answered with.\<close>

definition ack_step :: "CONTROL_PACKET_TYPE \<Rightarrow> u16 \<Rightarrow> session \<Rightarrow> session" where
  "ack_step packet packetId = put (Told (publish_action packet) (PUBLISH_INFO \<lparr>puback_packetId = packetId\<rparr>) #
    (if packet = PUBREC_TYPE then [Sent (reply_bytes PUBREL_TYPE packetId)]
     else if packet = PUBREL_TYPE then [Sent (reply_bytes PUBCOMP_TYPE packetId)] else []))"

lemma publish_ack_served:
  assumes ok: "serving s"
  shows "\<exists>t. recv_publish_ack (net_with (observer answer) pump) packet (be16 packetId) 2 s = Some t \<and>
    serves (ack_step packet packetId) s t"
proof -
  let ?e = "emit (Told (publish_action packet) (PUBLISH_INFO \<lparr>puback_packetId = packetId\<rparr>)) s"
  have up: "\<not> link_down ?e" using ok by (simp add: serving_def)
  consider "packet = PUBREC_TYPE" | "packet = PUBREL_TYPE" | "packet \<noteq> PUBREC_TYPE" "packet \<noteq> PUBREL_TYPE" by blast
  then show ?thesis
  proof cases
    case 1
    then have "recv_publish_ack (net_with (observer answer) pump) packet (be16 packetId) 2 s
        = Some (sent (reply_bytes PUBREL_TYPE packetId) ?e)"
      using operation_callback_told [OF ok] replies_sent(3) [OF up] by (simp add: recv_publish_ack_def)
    then show ?thesis using 1 told_sent_served [OF ok] by (auto simp: ack_step_def)
  next
    case 2
    then have "recv_publish_ack (net_with (observer answer) pump) packet (be16 packetId) 2 s
        = Some (sent (reply_bytes PUBCOMP_TYPE packetId) ?e)"
      using operation_callback_told [OF ok] replies_sent(4) [OF up] by (simp add: recv_publish_ack_def)
    then show ?thesis using 2 told_sent_served [OF ok] by (auto simp: ack_step_def)
  next
    case 3
    then have "recv_publish_ack (net_with (observer answer) pump) packet (be16 packetId) 2 s = Some ?e"
      using operation_callback_told [OF ok] by (simp add: recv_publish_ack_def send_reply_def)
    then show ?thesis using 3 told_served [OF ok] by (auto simp: ack_step_def)
  qed
qed

lemma unsuback_served:
  assumes ok: "serving s"
  shows "\<exists>t. recv_unsuback (net_with (observer answer) pump) (be16 packetId) 2 s = Some t \<and>
    serves (session_step answer (Unsuback packetId)) s t"
  using told_served [OF ok] operation_callback_told [OF ok] by (simp add: recv_unsuback_def session_step_told)

lemma pingresp_served:
  assumes ok: "serving s"
  shows "\<exists>t. recv_pingresp (net_with (observer answer) pump) s = Some t \<and>
    serves (session_step answer Pingresp) s t"
proof -
  let ?s = "s\<lparr>timeSincePing := 0\<rparr>"
  have "serving ?s" using ok by (simp add: serving_def)
  then have "recv_pingresp (net_with (observer answer) pump) s
      = Some (emit (Told MQTT_CLIENT_ON_PING_RESPONSE NO_INFO) ?s)"
    by (simp add: recv_pingresp_def operation_callback_told)
  moreover have "serves (session_step answer Pingresp) s (emit (Told MQTT_CLIENT_ON_PING_RESPONSE NO_INFO) ?s)"
    using ok by (simp add: serves_defs)
  ultimately show ?thesis by blast
qed

text \<open>The return codes of a SUBACK.\<close>

lemma read_suback_codes:
  assumes "QOS_VALUE_INVALID \<notin> set codes"
  shows "length done + length codes \<le> capacity \<Longrightarrow>
    read_suback (pre @ map qos_byte codes, length pre) (length codes) capacity done = Some (True, done @ codes)"
  using assms
proof (induction codes arbitrary: pre "done")
  case Nil
  then show ?case by simp
next
  case (Cons code codes)
  let ?x = "qos_byte code"
  have code: "?x AND 0x7C = 0" "(if ?x = 0 then DELIVER_AT_MOST_ONCE else if ?x = 1 then DELIVER_AT_LEAST_ONCE
      else if ?x = 2 then DELIVER_EXACTLY_ONCE else DELIVER_FAILURE) = code"
    using Cons.prems(2) by (cases code; simp add: qos_byte_def)+
  have "read_suback ((pre @ [?x]) @ map qos_byte codes, length (pre @ [?x])) (length codes) capacity (done @ [code])
      = Some (True, (done @ [code]) @ codes)"
    using Cons.prems by (intro Cons.IH) simp_all
  then show ?case
    using Cons.prems code by (simp add: byteutil_readByte_def get_byte_def advance_def)
qed

lemma trace_strings_free [simp]:
  "STRING_new (weighed_strings 0) w = (True, w)" "STRING_construct_sprintf (weighed_strings 0) w = (True, w)"
  "STRING_delete (weighed_strings 0) ok w = w"
  by (simp_all add: weighed_strings_def)

lemma suback_log_free [simp]:
  "suback_log (net_with app pump) s = (is_trace_enabled s, s)"
  "delete_suback_log (net_with app pump) trace_log s = s"
  by (simp_all add: suback_log_def delete_suback_log_def)

lemma suback_served:
  assumes ok: "serving s" and valid: "server_ok (Suback packetId codes)"
  shows "\<exists>t. recv_suback (net_with (observer answer) pump) (be16 packetId @ map qos_byte codes)
      (2 + length codes) s = Some t \<and> serves (session_step answer (Suback packetId codes)) s t"
proof -
  let ?t = "emit (Told MQTT_CLIENT_ON_SUBSCRIBE_ACK
      (SUBACK_INFO \<lparr>suback_packetId = packetId, suback_qosReturn = codes\<rparr>)) s"
  have small: "4 * length codes \<le> SIZE_MAX" "4 * length codes \<noteq> SIZE_MAX"
    using valid by (simp_all add: SIZE_MAX_def)
  have codes: "read_suback (be16 packetId @ map qos_byte codes, 2) (length codes) (length codes) []
      = Some (True, codes)"
    using read_suback_codes [of codes "[]" "length codes" "be16 packetId"] valid by simp
  have ok': "serving (s\<lparr>world := world s + 1\<rparr>)" using ok by (simp add: serving_def)
  have "recv_suback (net_with (observer answer) pump) (be16 packetId @ map qos_byte codes) (2 + length codes) s
      = Some ?t"
    using small codes operation_callback_told [OF ok']
    by (simp add: recv_suback_def read_packetId sizeof_QOS_VALUE_def Let_def) (simp add: emit_def)
  then show ?thesis using told_served [OF ok] by (simp add: session_step_told)
qed

text \<open>A publication.\<close>

lemma flags_of_publication:
  assumes "qos \<in> {DELIVER_AT_MOST_ONCE, DELIVER_AT_LEAST_ONCE, DELIVER_EXACTLY_ONCE}"
    and "qos = DELIVER_AT_MOST_ONCE \<longrightarrow> \<not> dup \<and> \<not> retain"
  shows "flags_qos (ucast (publish_flags qos dup retain)) = qos"
    and "(ucast (publish_flags qos dup retain) :: c_int) AND 8 \<noteq> 0 \<longleftrightarrow> dup"
    and "(ucast (publish_flags qos dup retain) :: c_int) AND 1 \<noteq> 0 \<longleftrightarrow> retain"
  using assms by (cases dup; cases retain; auto simp: publish_flags_def flags_qos_def)+

lemma message_read:
  assumes ok: "serving s" and v: "packetId = 0 \<longleftrightarrow> qos = DELIVER_AT_MOST_ONCE" "topic \<noteq> []" "length topic \<le> USHRT_MAX"
    and flags: "flags_qos flags = qos" "flags AND 8 \<noteq> 0 \<longleftrightarrow> dup" "flags AND 1 \<noteq> 0 \<longleftrightarrow> retain"
    and n: "n = length (publish_body qos packetId topic payload)"
  shows "\<exists>t. ProcessPublishMessage (net_with (observer answer) pump) (publish_body qos packetId topic payload) n
      flags s = Some t \<and>
    serves (session_step answer (Message qos dup retain packetId topic payload)) s t"
proof -
  let ?m = "(packetId, qos, Some (c_string topic), Some payload, dup, retain) :: message_view"
  let ?e = "emit (Delivered ?m) s"
  let ?t = "if answer ?m = MQTT_CLIENT_ACK_SYNC then acknowledged packetId qos ?e else ?e"
  obtain f where f: "fnMessageRecv s = Some f" using ok by (auto simp: serving_def)
  have up: "\<not> link_down s" using ok by (simp add: serving_def)
  let ?d = "emit (Delivered ?m) (s\<lparr>world := 2 + world s\<rparr>)"
  have ack: "SendMessageAck (net_with (observer answer) pump) packetId qos ?d = Some (acknowledged packetId qos ?d)"
    using up by (intro SendMessageAck_sent) simp
  have w: "world (acknowledged packetId qos ?d) = 2 + world s"
    by (simp add: acknowledged_def sent_def emit_def)
  have deliver: "deliver_message (net_with (observer answer) pump) packetId (c_string topic) qos payload (length payload)
      dup retain (s\<lparr>world := world s + 1\<rparr>)
    = Some ((if answer ?m = MQTT_CLIENT_ACK_SYNC then acknowledged packetId qos ?d else ?d)\<lparr>world := world s + 1\<rparr>)"
    using deliver_message_exact [where s = "s\<lparr>world := world s + 1\<rparr>" and app = "observer answer" and body = payload] f
    by (simp add: shown_view ack w) (simp add: emit_def)
  have "ProcessPublishMessage (net_with (observer answer) pump) (publish_body qos packetId topic payload) n
      flags s = Some ?t"
    unfolding ProcessPublishMessage_exact [OF v(2,3) flags(1) v(1) refl n] flags(2,3) deliver
    by (simp add: emit_def acknowledged_def sent_def)
  moreover have "serves (session_step answer (Message qos dup retain packetId topic payload)) s ?t"
    using ok by (simp add: serves_defs acknowledged_def Let_def)
  ultimately show ?thesis by blast
qed

lemma message_served:
  assumes ok: "serving s" and valid: "server_ok (Message qos dup retain packetId topic payload)"
    and n: "n = length (publish_body qos packetId topic payload)"
  shows "\<exists>t. ProcessPublishMessage (net_with (observer answer) pump) (publish_body qos packetId topic payload) n
      (ucast (publish_flags qos dup retain)) s = Some t \<and>
    serves (session_step answer (Message qos dup retain packetId topic payload)) s t"
  using valid by (intro message_read [OF ok _ _ _ _ _ _ n] flags_of_publication) simp_all

section \<open>The completion callback\<close>

lemma serves_step_ack:
  "session_step answer (Puback packetId) = ack_step PUBACK_TYPE packetId"
  "session_step answer (Pubrec packetId) = ack_step PUBREC_TYPE packetId"
  "session_step answer (Pubrel packetId) = ack_step PUBREL_TYPE packetId"
  "session_step answer (Pubcomp packetId) = ack_step PUBCOMP_TYPE packetId"
  by (simp_all add: fun_eq_iff ack_step_def publish_action_def)

lemma callback_served:
  assumes ok: "serving s" and valid: "server_ok pkt" and p: "packet_of pkt = (t, flags, body)"
  shows "\<exists>s'. recvCompleteCallback (net_with (observer answer) pump) t (ucast flags)
      (if t = PINGRESP_TYPE then None else Some body) s = Some s' \<and> serves (session_step answer pkt) s s'"
proof (cases pkt)
  case (Connack present code)
  then show ?thesis
    using p connack_served [OF ok]
    by (auto simp: recvCompleteCallback_def numeral_2_eq_2)
next
  case (Message qos dup retain packetId topic payload)
  then show ?thesis
    using p message_served [OF ok] valid
    by (auto simp: recvCompleteCallback_def body_nonempty)
next
  case (Suback packetId codes)
  then show ?thesis
    using p suback_served [OF ok] valid
    by (auto simp: recvCompleteCallback_def be16_nonempty)
next
  case Pingresp
  then show ?thesis
    using p pingresp_served [OF ok] by (auto simp: recvCompleteCallback_def)
next
  case (Unsuback packetId)
  then show ?thesis
    using p unsuback_served [OF ok]
    by (auto simp: recvCompleteCallback_def be16_nonempty)
qed (use p publish_ack_served [OF ok] in
  \<open>auto simp: recvCompleteCallback_def be16_nonempty serves_step_ack\<close>)

section \<open>The bytes\<close>

lemma server_packet_ok: "server_ok pkt \<Longrightarrow> packet_ok (packet_of pkt)"
  by (cases pkt) (auto simp: packet_forms body_nonempty publish_flags_ok [unfolded header_ok_def wire_types_def]
      Suc_le_eq)

definition attending :: "(byte list, int, 'z) net_scheme \<Rightarrow> bool" where
  "attending s \<longleftrightarrow> idle s \<and> serving s"

text \<open>
  The callback behind the last byte of a packet, and the codec ready for the next.  What is not the
  codec's is the rest of the record, of which the callback is to establish \<open>P\<close>.
\<close>

lemma complete_moves:
  fixes s :: "(byte list, int, 'z) codec_scheme"
  assumes cb: "cb (currPacket s) (headerFlags s) (headerData s) s = Some t" and t: "same_codec s t" "world t = world s + d"
    and "storeRemainLen s = replicate 4 0" "remainLenIndex s = 0"
  shows "\<exists>u. completePacketData list_buffer (Some cb) s = Some u \<and> idle u \<and> codec.more u = codec.more t \<and>
    world u = world s + d - (if headerData s = None then 0 else 1)"
  using assms
  by (auto simp: completePacketData_def idle_def same_codec_def Let_def split: option.splits)

lemma packet_moves:
  fixes s :: "(byte list, int, 'z) codec_scheme"
  assumes idle: "idle s" and ok: "packet_ok (t, flags, body)"
    and step: "\<And>u. codec.more u = codec.more s \<Longrightarrow>
      \<exists>u'. cb t (ucast flags) (if t = PINGRESP_TYPE then None else Some body) u = Some u' \<and>
        same_codec u u' \<and> world u' = world u + d \<and> P (codec.more u')"
  shows "\<exists>s'. idle s' \<and> P (codec.more s') \<and> world s' = world s + d \<and>
    (\<forall>rest k. receive_loop list_buffer (Some cb) (frame t flags body @ rest) (length (frame t flags body) + k) s
      = receive_loop list_buffer (Some cb) rest k s')"
proof (cases "t = PINGRESP_TYPE")
  case True
  let ?s = "s\<lparr>currPacket := t, headerFlags := 0, codecState := CODEC_STATE_VAR_HEADER\<rparr>"
  have fb: "flags = 0" "body = []" using ok True by (simp_all add: packet_ok_def header_ok_def)
  obtain u where u: "cb t 0 None ?s = Some u" "same_codec ?s u" "world u = world ?s + d" "P (codec.more u)"
    using step [of ?s] fb True by auto
  have "\<exists>v. completePacketData list_buffer (Some cb) ?s = Some v \<and> idle v \<and> codec.more v = codec.more u \<and>
      world v = world ?s + d - (if headerData ?s = None then 0 else 1)"
    using u idle by (intro complete_moves [where cb = cb and t = u]) (simp_all add: idle_def)
  then show ?thesis
    using pingresp_received [OF idle, of list_buffer "Some cb"] True fb idle u(4) by (auto simp: idle_def)
next
  case False
  obtain b w where b: "buffer_bytes list_buffer b = body" "id w = id (world s) + 1"
    and run: "\<And>rest k. receive_loop list_buffer (Some cb) (frame t flags body @ rest)
        (length (frame t flags body) + k) s =
      Option.bind (completePacketData list_buffer (Some cb) (s\<lparr>currPacket := t,
        headerFlags := ucast flags, codecState := CODEC_STATE_VAR_HEADER,
        bufferOffset := length body, headerData := Some b, world := w\<rparr>))
      (receive_loop list_buffer (Some cb) rest k)"
    using frame_received [OF list_buffer_laws list_buffer_total idle ok False, of "Some cb"] by blast
  let ?s = "s\<lparr>currPacket := t, headerFlags := ucast flags, codecState := CODEC_STATE_VAR_HEADER,
        bufferOffset := length body, headerData := Some b, world := w\<rparr>"
  obtain u where u: "cb t (ucast flags) (Some b) ?s = Some u" "same_codec ?s u" "world u = world ?s + d" "P (codec.more u)"
    using step [of ?s] b False by auto
  have "\<exists>v. completePacketData list_buffer (Some cb) ?s = Some v \<and> idle v \<and> codec.more v = codec.more u \<and>
      world v = world ?s + d - (if headerData ?s = None then 0 else 1)"
    using u idle by (intro complete_moves [where cb = cb and t = u]) (simp_all add: idle_def)
  then show ?thesis using run b u(4) by auto
qed

lemma more_session:
  fixes u v :: "(byte list, int, 'z) net_scheme"
  assumes "codec.more u = codec.more v"
  shows "session_of u = session_of v" "serving u = serving v"
  using assms by (cases u; cases v; simp add: session_of_def serving_def status_set_def)+

lemma packet_taken:
  fixes s :: "(byte list, int, 'z) net_scheme" and cb :: "(byte list, (byte list, int, 'z) net_scheme) packet_cb"
  assumes ready: "attending s" and ok: "packet_ok (t, flags, body)"
    and step: "\<And>u. serving u \<Longrightarrow>
      \<exists>u'. cb t (ucast flags) (if t = PINGRESP_TYPE then None else Some body) u = Some u' \<and> serves f u u'"
  shows "\<exists>s'. attending s' \<and> session_of s' = f (session_of s) \<and> world s' = world s \<and>
    (\<forall>rest k. receive_loop list_buffer (Some cb) (frame t flags body @ rest) (length (frame t flags body) + k) s
      = receive_loop list_buffer (Some cb) rest k s')"
proof -
  define P where "P = (\<lambda>m. \<exists>v :: (byte list, int, 'z) net_scheme.
    codec.more v = m \<and> session_of v = f (session_of s) \<and> serving v)"
  have "\<exists>s'. idle s' \<and> P (codec.more s') \<and> world s' = world s \<and>
    (\<forall>rest k. receive_loop list_buffer (Some cb) (frame t flags body @ rest) (length (frame t flags body) + k) s
      = receive_loop list_buffer (Some cb) rest k s')"
  proof (rule packet_moves [OF _ ok, where d = 0, simplified])
    show "idle s" using ready by (simp add: attending_def)
    fix u :: "(byte list, int, 'z) net_scheme"
    assume "codec.more u = codec.more s"
    then have "serving u" "session_of u = session_of s"
      using more_session [of u s] ready by (auto simp: attending_def)
    then show "\<exists>u'. cb t (ucast flags) (if t = PINGRESP_TYPE then None else Some body) u = Some u' \<and>
        same_codec u u' \<and> world u' = world u \<and> P (codec.more u')"
      using step [of u] by (fastforce simp: serves_def P_def)
  qed
  then show ?thesis using more_session unfolding P_def attending_def by metis
qed

lemma packet_served:
  assumes "attending s" and valid: "server_ok pkt"
  shows "\<exists>s'. attending s' \<and> session_of s' = session_step answer pkt (session_of s) \<and> world s' = world s \<and>
    (\<forall>rest k. receive_loop list_buffer (Some (recvCompleteCallback (net_with (observer answer) pump)))
        (wire [packet_of pkt] @ rest) (length (wire [packet_of pkt]) + k) s
      = receive_loop list_buffer (Some (recvCompleteCallback (net_with (observer answer) pump))) rest k s')"
proof -
  obtain t flags body where p: "packet_of pkt = (t, flags, body)" by (cases "packet_of pkt")
  have "packet_ok (t, flags, body)" using server_packet_ok [OF valid] p by simp
  from packet_taken [where cb = "recvCompleteCallback (net_with (observer answer) pump)"
      and f = "session_step answer pkt", OF assms(1) this callback_served [OF _ valid p]]
  show ?thesis by (simp add: p wire_def)
qed

fun session_run :: "(message_view \<Rightarrow> MQTT_CLIENT_ACK_OPTION) \<Rightarrow> server_packet list \<Rightarrow> session \<Rightarrow> session" where
  "session_run answer [] S = S"
| "session_run answer (pkt # pkts) S = session_run answer pkts (session_step answer pkt S)"

lemma packets_served:
  assumes "\<forall>pkt \<in> set pkts. server_ok pkt"
  shows "attending s \<Longrightarrow> \<exists>s'. attending s' \<and> session_of s' = session_run answer pkts (session_of s) \<and>
    world s' = world s \<and>
    receive_loop list_buffer (Some (recvCompleteCallback (net_with (observer answer) pump)))
      (wire (map packet_of pkts)) (length (wire (map packet_of pkts))) s = Some (ZERO, s')"
  using assms
proof (induction pkts arbitrary: s)
  case Nil
  then show ?case by (simp add: wire_def)
next
  case (Cons pkt pkts)
  let ?cb = "recvCompleteCallback (net_with (observer answer) pump)"
  obtain s1 where s1: "attending s1" "session_of s1 = session_step answer pkt (session_of s)" "world s1 = world s"
    "\<And>rest k. receive_loop list_buffer (Some ?cb) (wire [packet_of pkt] @ rest) (length (wire [packet_of pkt]) + k) s
      = receive_loop list_buffer (Some ?cb) rest k s1"
    using packet_served [OF Cons.prems(1), of pkt answer pump] Cons.prems(2) by auto
  obtain s2 where "attending s2" "session_of s2 = session_run answer pkts (session_of s1)" "world s2 = world s1"
    "receive_loop list_buffer (Some ?cb) (wire (map packet_of pkts)) (length (wire (map packet_of pkts))) s1
      = Some (ZERO, s2)"
    using Cons.IH [OF s1(1)] Cons.prems(2) by auto
  moreover have "wire (map packet_of (pkt # pkts)) = wire [packet_of pkt] @ wire (map packet_of pkts)"
    by (simp add: wire_def)
  ultimately show ?case using s1 by auto
qed

lemma received_in_chunks:
  "receive_chunks (buffers env) (Some (recvCompleteCallback env)) cs (Some s) = Some (ZERO, Some s') \<Longrightarrow>
   run_events env (map Bytes_Received cs) s = Some s'"
proof (induction cs arbitrary: s)
  case (Cons c cs)
  then obtain r t where t: "mqtt_codec_bytesReceived (buffers env) (Some (recvCompleteCallback env)) (Some s)
      (Some c) (length c) = Some (r, t)"
    by (auto simp: bind_eq_Some_conv)
  then have "r = ZERO" using Cons.prems by (cases r) auto
  moreover obtain u where "t = Some u"
    using t by (auto simp: mqtt_codec_bytesReceived_def bind_eq_Some_conv split: if_splits)
  ultimately show ?case using t Cons by (simp add: onBytesReceived_def)
qed simp

section \<open>Refinement\<close>

lemma chunks_served:
  assumes "attending s" and "\<forall>pkt \<in> set pkts. server_ok pkt"
    and "concat cs = wire (map packet_of pkts)" and "[] \<notin> set cs"
  shows "\<exists>s'. run_events (net_env (observer answer)) (map Bytes_Received cs) s = Some s' \<and>
    attending s' \<and> session_of s' = session_run answer pkts (session_of s) \<and> world s' = world s"
proof -
  obtain s' where s': "attending s'" "session_of s' = session_run answer pkts (session_of s)" "world s' = world s"
    "receive_loop list_buffer (Some (recvCompleteCallback (net_env (observer answer))))
      (wire (map packet_of pkts)) (length (wire (map packet_of pkts))) s = Some (ZERO, s')"
    unfolding net_env_def using packets_served [OF assms(2,1)] by blast
  have "receive_chunks (buffers (net_env (observer answer))) (Some (recvCompleteCallback (net_env (observer answer))))
      cs (Some s) = Some (ZERO, Some s')"
    using s'(4) assms(3,4) by (simp add: receive_chunks_concat) (simp add: net_env_def)
  then show ?thesis using s' received_in_chunks by blast
qed

text \<open>The client \<open>mqtt_client_init\<close> leaves behind, in a fresh environment.\<close>

definition new_station :: "(byte list, int) net" where
  "new_station = (clear_codec_data (fresh_client (Some 1) (Some 2) 0 (Some 3) 0
     (net.fields [] 0 False False []) 2))\<lparr>world := 3\<rparr>"

lemma new_station_init:
  "mqtt_client_init (net_env app) (Some 1) (Some 2) 0 (Some 3) 0 (net.fields [] 0 False False []) 0
    = (Some new_station, 3)"
  by (simp add: mqtt_client_init_def net_env_def mqtt_codec_create_def new_station_def fresh_client_def)

lemma new_station_fields:
  "attending new_station" "session_of new_station = \<lparr>accepted = False, ping_open = False, outputs = []\<rparr>"
  "world new_station = 3"
  by (simp_all add: attending_def new_station_def serving_def session_of_def status_set_def fresh_client_def
      clear_codec_data_def net.defs idle_def)

text \<open>
  C1. The client refines the session.  A server's well-formed packets, of any kinds and in any number,
  reach the client in pieces cut anywhere; the client tells the application of each packet with its
  contents, answers it with the packet MQTT prescribes (PUBREL to PUBREC, PUBCOMP to PUBREL, PUBACK
  or PUBREC to a message the application acknowledges at once), all in the order of the packets, notes
  the accepted connection and the answered ping, and is ready for the next with nothing left allocated.
\<close>

theorem client_refines_session:
  assumes "attending s" and "\<forall>pkt \<in> set pkts. server_ok pkt"
    and "concat cs = wire (map packet_of pkts)" and "[] \<notin> set cs"
  shows "\<exists>s'. run_events (net_env (observer answer)) (map Bytes_Received cs) s = Some s' \<and>
    attending s' \<and> session_of s' = session_run answer pkts (session_of s) \<and> world s' = world s"
  by (rule chunks_served [OF assms])

theorem client_refines_session_witness:
  "\<exists>s'. run_events (net_env (observer (\<lambda>_. MQTT_CLIENT_ACK_SYNC)))
      (map Bytes_Received [[0x20, 2], [0, 0, 0x62], [2, 0, 5, 0x32, 6, 0, 1, 0x61, 0, 9, 7]]) new_station = Some s' \<and>
    session_of s' = \<lparr>accepted = True, ping_open = False, outputs =
      [Told MQTT_CLIENT_ON_CONNACK (CONNACK_INFO \<lparr>isSessionPresent = False, returnCode = CONNECTION_ACCEPTED\<rparr>),
       Told MQTT_CLIENT_ON_PUBLISH_REL (PUBLISH_INFO \<lparr>puback_packetId = 5\<rparr>), Sent [0x70, 2, 0, 5],
       Delivered (9, DELIVER_AT_LEAST_ONCE, Some [0x61], Some [7], False, False), Sent [0x40, 2, 0, 9]]\<rparr>"
  using client_refines_session [OF new_station_fields(1),
      where pkts = "[Connack False CONNECTION_ACCEPTED, Pubrel 5, Message DELIVER_AT_LEAST_ONCE False False 9 [0x61] [7]]"
        and cs = "[[0x20, 2], [0, 0, 0x62], [2, 0, 5, 0x32, 6, 0, 1, 0x61, 0, 9, 7]]"
        and answer = "\<lambda>_. MQTT_CLIENT_ACK_SYNC"]
  by (auto simp: new_station_fields wire_def frame_def packet_byte_def be16_def publish_body_def publish_flags_def
      utf_def USHRT_MAX_def return_code.simps put_def reply_bytes_def c_string_def)

end
