(* ===== verification/Client_Guarantees.thy ===== *)
theory Client_Guarantees
  imports Client_Session
begin

text \<open>
  What holds of the client in every environment that meets the contract of \<open>Client_Env\<close>, for every
  sequence of allowed events; and the bound on the loop that waits for a connection to close.
\<close>

section \<open>Every sequence of events\<close>

definition plain_app :: "(byte list, int) net application" where
  "plain_app = observer (\<lambda>_. MQTT_CLIENT_ACK_SYNC)"

lemma plain_contract: "client_environment (net_env plain_app) id shut"
  unfolding plain_app_def by (rule observed.open_net.client_environment_axioms)

lemma plain_counted: "counted_environment (net_env plain_app) id shut (net_closing plain_app) pending"
  unfolding plain_app_def by (rule observed.counted_net.counted_environment_axioms)

lemma new_station_trace: "client_trace (net_env app) 0 [] new_station"
  using new_station_init by (rule client_trace.init)

text \<open>
  C17. The invariants of client and codec hold in every state the client can reach: the length bytes
  read so far are within their array, the packet being filled has room for the next byte, no packet is
  held between packets, the callbacks the client calls without a null test are set, and the options
  are such that a CONNECT packet can be built of them.
\<close>

theorem reachable_sound:
  assumes "client_environment env live closing" and "client_trace env w evs s"
  shows "codec_inv (buffers env) s \<and> client_ok s"
  using client_environment.trace_sound [OF assms] by (simp add: sound_def)

theorem reachable_sound_witness:
  "codec_inv list_buffer new_station \<and> client_ok new_station"
  using reachable_sound [OF plain_contract new_station_trace] by (simp add: net_env_def)

lemma trace_continues:
  assumes "client_environment env live closing" and "client_trace env w evs s" and "allowed ev"
  shows "\<exists>s'. run_event env ev s = Some s' \<and> client_trace env w (evs @ [ev]) s'"
proof -
  have "sound (buffers env) s" by (rule client_environment.trace_sound [OF assms(1,2)])
  then obtain s' where "run_event env ev s = Some s'"
    using client_environment.event_moves [OF assms(1) _ assms(3)] by blast
  then show ?thesis using assms(2,3) by (auto intro!: client_trace.event client_step.step)
qed

text \<open>
  C3. The client does not run into undefined behaviour within the limits of \<open>allowed\<close>: in a reachable
  state everything the network can do has a defined outcome (any received bytes, any result of an open
  or a send, a failed or closed transport), and so does every call of an entry point with options that
  have a client id or no string at all and a valid quality of service, a message whose payload has the
  length it says, lists of as many non-null topics as their count says, and a packet below 256 MB; any
  allocation may fail.  The outcome is a reachable state again.  The limits are needed: the code does not check them, and
  \<open>connect_overflow\<close> and \<open>publish_overflow\<close> show the undefined behaviour of a null client id and of a
  longer packet.
\<close>

theorem client_never_stuck:
  assumes "client_environment env live closing" and "client_trace env w evs s" and "allowed ev"
  shows "\<exists>s'. run_event env ev s = Some s' \<and> client_trace env w (evs @ [ev]) s'"
  by (rule trace_continues [OF assms])

theorem client_never_stuck_witness:
  "\<exists>s'. run_event (net_env plain_app) (Bytes_Received [0xFF, 0, 7]) new_station = Some s' \<and>
    client_trace (net_env plain_app) 0 ([] @ [Bytes_Received [0xFF, 0, 7]]) s'"
  by (rule client_never_stuck [OF plain_contract new_station_trace]) simp

text \<open>
  C16. Once a CONNACK accepted the connection, the client counts as connected for good: no event takes
  \<open>MQTT_STATUS_CLIENT_CONNECTED\<close> back, not a disconnect, a closed or failed transport, nor a refused
  reconnection.
\<close>

theorem connected_for_good:
  assumes "client_environment env live closing" and "client_trace env w evs s"
    and "status_set MQTT_STATUS_CLIENT_CONNECTED s"
    and "\<forall>ev \<in> set later. allowed ev" and "run_events env later s = Some s'"
  shows "status_set MQTT_STATUS_CLIENT_CONNECTED s'"
  using assms(2-)
proof (induction later arbitrary: evs s)
  case Nil
  then show ?case by simp
next
  case (Cons ev later)
  obtain t where t: "run_event env ev s = Some t" "run_events env later t = Some s'"
    using Cons.prems(4) by (auto simp: bind_eq_Some_conv)
  have "sound (buffers env) s" by (rule client_environment.trace_sound [OF assms(1) Cons.prems(1)])
  then have "status_set MQTT_STATUS_CLIENT_CONNECTED t"
    using client_environment.event_moves [OF assms(1), of s ev] Cons.prems(2,3) t by (auto simp: moves_def)
  moreover have "client_trace env w (evs @ [ev]) t"
    using Cons.prems t by (auto intro!: client_trace.event client_step.step)
  ultimately show ?case using Cons.IH Cons.prems(3) t by auto
qed

lemma accepted_station:
  "\<exists>s. client_trace (net_env plain_app) 0 [Bytes_Received [0x20, 2, 0, 0]] s \<and>
    status_set MQTT_STATUS_CLIENT_CONNECTED s"
proof -
  obtain s where s: "run_events (net_env plain_app) (map Bytes_Received [[0x20, 2, 0, 0]]) new_station = Some s"
      "session_of s = session_run (\<lambda>_. MQTT_CLIENT_ACK_SYNC) [Connack False CONNECTION_ACCEPTED] (session_of new_station)"
    unfolding plain_app_def
    using chunks_served [OF new_station_fields(1), of "[Connack False CONNECTION_ACCEPTED]" "[[0x20, 2, 0, 0]]"]
    by (auto simp: wire_def frame_def packet_byte_def return_code.simps)
  then have "client_trace (net_env plain_app) 0 ([] @ [Bytes_Received [0x20, 2, 0, 0]]) s"
    by (intro client_trace.event [OF new_station_trace] client_step.step) (simp_all add: bind_eq_Some_conv)
  moreover have "status_set MQTT_STATUS_CLIENT_CONNECTED s"
    using s(2) by (simp add: session_of_def put_def)
  ultimately show ?thesis by auto
qed

theorem connected_for_good_witness:
  "\<exists>s s'. client_trace (net_env plain_app) 0 [Bytes_Received [0x20, 2, 0, 0]] s \<and>
    run_events (net_env plain_app) [Connection_Closed, Disconnect None 0] s = Some s' \<and>
    status_set MQTT_STATUS_CLIENT_CONNECTED s'"
proof -
  let ?evs = "[Bytes_Received [0x20, 2, 0, 0]]"
  obtain s where s: "client_trace (net_env plain_app) 0 ?evs s" "status_set MQTT_STATUS_CLIENT_CONNECTED s"
    using accepted_station by blast
  obtain t where t: "run_event (net_env plain_app) Connection_Closed s = Some t"
      "client_trace (net_env plain_app) 0 (?evs @ [Connection_Closed]) t"
    using trace_continues [OF plain_contract s(1), of Connection_Closed] by auto
  obtain u where "run_event (net_env plain_app) (Disconnect None 0) t = Some u"
    using trace_continues [OF plain_contract t(2), of "Disconnect None 0"] by auto
  then have "run_events (net_env plain_app) [Connection_Closed, Disconnect None 0] s = Some u"
    using t by simp
  with connected_for_good [OF plain_contract s _ this] s(1) show ?thesis by auto
qed

text \<open>
  C7. What a client allocates is released, the strings of the trace log apart, which \<open>live\<close> does not
  count.  From \<open>mqtt_client_init\<close>, any allowed events run to a state, and after \<open>mqtt_client_deinit\<close>
  of that state as many blocks are allocated as before, and at most one more for every piece of data
  the client received, as an event of its own or from \<open>xio_dowork\<close> while it pumped: the packet buffer
  that \<open>mqtt_codec_reset\<close> forgets when a piece is refused.  Trace strings can be lost on top, as
  \<open>connect_refuses\<close> shows.
\<close>

theorem client_life_cycle:
  assumes "counted_environment env live closing inner delivers"
    and "mqtt_client_init env msgRecv operation_cb opCallbackCtx onErrorCallBack errorCtx ext w = (Some s0, w0)"
    and "\<forall>ev \<in> set evs. allowed ev"
  shows "\<exists>s. run_events env evs s0 = Some s \<and>
    live w \<le> live (mqtt_client_deinit env (Some s) (world s)) \<and>
    live (mqtt_client_deinit env (Some s) (world s)) \<le> live w + int (pieces_received env delivers evs s0)"
proof -
  have env: "client_environment env live closing"
    using assms(1) by (rule counted_environment.axioms)
  show ?thesis
    using counted_environment.run_growth [OF assms(1) client_environment.init_sound [OF env assms(2)] assms(3)]
    by (auto simp: client_environment.deinit_live [OF env] client_environment.init_balance [OF env assms(2)])
qed

text \<open>A piece as an event, and a piece the transport hands over while it is pumped.\<close>

lemma loaded_station_init:
  "mqtt_client_init (net_env app) (Some 1) (Some 2) 0 (Some 3) 0 (net.fields [] 0 False False queue) 0
    = (Some (new_station\<lparr>inbox := queue\<rparr>), 3)"
  by (simp add: mqtt_client_init_def net_env_def mqtt_codec_create_def new_station_def fresh_client_def net.defs
      clear_codec_data_def)

theorem client_life_cycle_witness:
  "\<exists>s. run_events (net_env plain_app)
      [Connect 8 (no_options\<lparr>clientId := Some [0x64]\<rparr>), Bytes_Received [0xD0, 1], Do_Work]
      (new_station\<lparr>inbox := [[0x20, 2, 0], [0xFF]]\<rparr>) = Some s \<and>
    0 \<le> mqtt_client_deinit (net_env plain_app) (Some s) (world s) \<and>
    mqtt_client_deinit (net_env plain_app) (Some s) (world s) \<le> 2"
proof -
  let ?evs = "[Connect 8 (no_options\<lparr>clientId := Some [0x64]\<rparr>), Bytes_Received [0xD0, 1], Do_Work]"
  let ?s0 = "new_station\<lparr>inbox := [[0x20, 2, 0], [0xFF]]\<rparr>"
  have "pieces_received (net_env plain_app) pending ?evs s \<le> 2" for s
    by (simp add: pending_def split: option.split)
  then have n: "int (pieces_received (net_env plain_app) pending ?evs ?s0) \<le> 2"
    by (metis of_nat_le_iff of_nat_numeral)
  have "\<forall>ev \<in> set ?evs. allowed ev" by (simp add: no_options_def)
  from client_life_cycle [OF plain_counted loaded_station_init this]
  obtain s where s: "run_events (net_env plain_app) ?evs ?s0 = Some s"
      "id 0 \<le> id (mqtt_client_deinit (net_env plain_app) (Some s) (world s))"
      "id (mqtt_client_deinit (net_env plain_app) (Some s) (world s))
        \<le> id 0 + int (pieces_received (net_env plain_app) pending ?evs ?s0)"
    by blast
  have "mqtt_client_deinit (net_env plain_app) (Some s) (world s) \<le> 2"
    using s(3) n unfolding id_apply by linarith
  then show ?thesis using s(1,2) unfolding id_apply by blast
qed

section \<open>Waiting for the connection to close\<close>

definition close_round ::
  "('b, 'w, 'z) environment \<Rightarrow> ('b, 'w, 'z) client_scheme \<Rightarrow> ('b, 'w, 'z) client_scheme option" where
  "close_round env s = Option.bind (xio_dowork env (xioHandle s) s) (ThreadAPI_Sleep env 2)"

primrec close_rounds ::
  "('b, 'w, 'z) environment \<Rightarrow> nat \<Rightarrow> ('b, 'w, 'z) client_scheme \<Rightarrow> ('b, 'w, 'z) client_scheme option" where
  "close_rounds env 0 s = Some s"
| "close_rounds env (Suc n) s = Option.bind (close_round env s) (close_rounds env n)"

lemma close_wait_round:
  "close_wait env n s = Option.bind (close_round env s) (\<lambda>t.
    if status_set MQTT_STATUS_SOCKET_CONNECTED t \<and> n + 1 < MAX_CLOSE_RETRIES
    then close_wait env (n + 1) t else Some t)"
  by (subst close_wait.simps) (cases "xio_dowork env (xioHandle s) s"; simp add: close_round_def)

lemma close_wait_rounds:
  "n < MAX_CLOSE_RETRIES \<Longrightarrow> \<exists>k. 1 \<le> k \<and> k + n \<le> MAX_CLOSE_RETRIES \<and> close_wait env n s = close_rounds env k s"
proof (induction "MAX_CLOSE_RETRIES - n" arbitrary: n s)
  case 0
  then show ?case by simp
next
  case (Suc m)
  show ?case
  proof (cases "close_round env s")
    case None
    then show ?thesis
      using Suc.prems by (intro exI [of _ 1]) (simp add: close_wait_round [of env n s])
  next
    case (Some t)
    have run: "close_wait env n s = (if status_set MQTT_STATUS_SOCKET_CONNECTED t \<and> n + 1 < MAX_CLOSE_RETRIES
        then close_wait env (n + 1) t else Some t)"
      using Some by (simp add: close_wait_round [of env n s])
    show ?thesis
    proof (cases "status_set MQTT_STATUS_SOCKET_CONNECTED t \<and> n + 1 < MAX_CLOSE_RETRIES")
      case True
      have "m = MAX_CLOSE_RETRIES - (n + 1)" using Suc.hyps(2) by simp
      then obtain k where "1 \<le> k" "k + (n + 1) \<le> MAX_CLOSE_RETRIES" "close_wait env (n + 1) t = close_rounds env k t"
        using Suc.hyps(1) [of "n + 1" t] True by blast
      then show ?thesis using run True Some by (intro exI [of _ "Suc k"]) simp
    next
      case False
      then have "close_wait env n s = Some t" using run by argo
      then show ?thesis using Some Suc.prems by (intro exI [of _ 1]) simp
    qed
  qed
qed

text \<open>
  C10. Closing does not hang: whatever the transport does, the loop of \<open>close_connection\<close> that waits
  for the socket pumps it at least once and at most twenty times, sleeping 2 ms behind each pump.
\<close>

theorem close_wait_bounded:
  "\<exists>k. 1 \<le> k \<and> k \<le> 20 \<and> close_wait env 0 s = close_rounds env k s"
  using close_wait_rounds [of 0 env s] by (simp add: MAX_CLOSE_RETRIES_def)

end
