(* ===== verification/Client_Protocol.thy ===== *)
theory Client_Protocol
  imports Client_Guarantees
begin

text \<open>
  The client in its protocol: what it sends for the requests of its application, messages from one
  client to another, the keep-alive, and the ways a connection begins and ends.
\<close>

section \<open>Publishing\<close>

lemma publish_payload_take:
  assumes "n \<le> length m"
  shows "publish_payload api b (Some m) n w = publish_payload api b (Some (take n m)) n w"
proof -
  have "memcpy_to p m n = memcpy_to p (take n m) n" for p
    using assms by (simp add: memcpy_to_def split_beta)
  then show ?thesis unfolding publish_payload_def Option.bind.bind_lunit by presburger
qed

lemma publish_payload_none: "publish_payload api b m 0 w = publish_payload api b (Some []) 0 w"
  by (simp add: publish_payload_def)

lemma publish_of_payload:
  assumes "payload_view p = Some payload"
  shows "mqtt_codec_publish api qos dup retain packetId topic (message p) (payload_length p) w
    = mqtt_codec_publish api qos dup retain packetId topic (Some payload) (length payload) w"
proof (cases "payload_length p = 0")
  case True
  then have pl: "payload = []" using assms by (simp add: payload_view_def)
  have none: "publish_payload api b (message p) 0 v = publish_payload api b (Some []) 0 v" for b v
    by (rule publish_payload_none)
  show ?thesis unfolding mqtt_codec_publish_def pl True none list.size(3) ..
next
  case False
  then obtain m where m: "message p = Some m" "payload_length p \<le> length m" "payload = take (payload_length p) m"
    using assms by (auto simp: payload_view_def memcpy_new_def split: option.splits if_splits)
  then have n: "length payload = payload_length p" by simp
  have eq: "publish_payload api b (Some m) (payload_length p) v
      = publish_payload api b (Some payload) (payload_length p) v" for b v
    unfolding m(3) by (rule publish_payload_take [OF m(2)])
  show ?thesis unfolding mqtt_codec_publish_def m(1) n eq ..
qed

lemma publish_sent:
  assumes up: "\<not> link_down s" and view: "msg_view m = (packetId, qos, Some topic, Some payload, dup, retain)"
    and topic: "length topic \<le> USHRT_MAX" and len: "length (publish_body qos packetId topic payload) < 268435456"
  shows "mqtt_client_publish (net_with app pump) (Some s) (Some m) = Some (ZERO, Some
    ((sent (frame PUBLISH_TYPE (publish_flags qos dup retain) (publish_body qos packetId topic payload)) s)
      \<lparr>packetState := PUBLISH_TYPE\<rparr>))"
proof -
  let ?bytes = "frame PUBLISH_TYPE (publish_flags qos dup retain) (publish_body qos packetId topic payload)"
  obtain p where p: "mqttmessage_getApplicationMsg (Some m) = Some p" "payload_view p = Some payload"
    using view by (auto simp: msg_view_def bind_eq_Some_conv)
  have get: "mqttmessage_getPacketId (Some m) = packetId" "mqttmessage_getQosType (Some m) = qos"
      "mqttmessage_getTopicName (Some m) = Some topic" "mqttmessage_getIsDuplicateMsg (Some m) = dup"
      "mqttmessage_getIsRetained (Some m) = retain"
    using view by (simp_all add: msg_view_def)
  have enc: "mqtt_codec_publish list_buffer qos dup retain packetId (Some topic) (message p) (payload_length p) (world s)
      = Some (Some ?bytes, world s + 1)"
    unfolding publish_of_payload [OF p(2)]
    by (rule encodes_exactly [OF publish_encoding [OF list_buffer_laws topic len]])
  have "?bytes \<noteq> []" by (simp add: frame_def)
  then show ?thesis
    using up by (simp add: mqtt_client_publish_def on_client_def p(1) get enc send_and_delete_sent)
      (simp add: sent_def emit_def)
qed

section \<open>From client to client\<close>

lemma frame_taken:
  fixes s :: "(byte list, int, 'z) net_scheme"
  assumes "attending s" and "packet_ok (t, flags, body)"
    and step: "\<And>u. serving u \<Longrightarrow> \<exists>u'. recvCompleteCallback (net_env app) t (ucast flags)
      (if t = PINGRESP_TYPE then None else Some body) u = Some u' \<and> serves f u u'"
  shows "\<exists>s'. run_event (net_env app) (Bytes_Received (frame t flags body)) s = Some s' \<and>
    attending s' \<and> session_of s' = f (session_of s) \<and> world s' = world s"
proof -
  obtain s' where s': "attending s'" "session_of s' = f (session_of s)" "world s' = world s"
    and run: "\<And>rest k. receive_loop list_buffer (Some (recvCompleteCallback (net_env app)))
        (frame t flags body @ rest) (length (frame t flags body) + k) s
      = receive_loop list_buffer (Some (recvCompleteCallback (net_env app))) rest k s'"
    using packet_taken [where cb = "recvCompleteCallback (net_env app)" and f = f, OF assms(1,2) step] by blast
  have "buffers (net_env app) = list_buffer" "frame t flags body \<noteq> []"
    by (simp_all add: net_env_def frame_def)
  then show ?thesis
    using s' run [of "[]" 0] by (simp add: onBytesReceived_def mqtt_codec_bytesReceived_def)
qed

text \<open>A message as it is shown to the one who receives it: the topic is read as a C string.\<close>

definition as_received :: "message_view \<Rightarrow> message_view" where
  "as_received v = (case v of (packetId, qos, topic, payload, dup, retain) \<Rightarrow>
    (packetId, qos, map_option c_string topic, payload, dup, retain))"

text \<open>
  C5. A message from one client to another: when the application of \<open>a\<close> publishes a message, the
  bytes \<open>a\<close> sends, cut in any way and handed to a client \<open>b\<close>, make \<open>b\<close> show its application that
  message, with the same packet id, quality of service, topic (a string, so without a null byte), payload
  and flags, once, and answer it as its quality of service asks.
\<close>

theorem publication_end_to_end:
  fixes a b :: "(byte list, int, 'z) net_scheme"
  assumes "\<not> link_down a" and "attending b"
    and view: "msg_view m = (packetId, qos, Some topic, Some payload, dup, retain)"
    and valid: "server_ok (Message qos dup retain packetId topic payload)"
  shows "\<exists>bytes a'. run_event (net_env app) (Publish (Some m)) a = Some a' \<and>
    effects a' = effects a @ [Sent bytes] \<and>
    (\<forall>cs. concat cs = bytes \<and> [] \<notin> set cs \<longrightarrow>
      (\<exists>b'. run_events (net_env (observer answer)) (map Bytes_Received cs) b = Some b' \<and> attending b' \<and>
        session_of b' = session_step answer (Message qos dup retain packetId topic payload) (session_of b) \<and>
        (\<exists>replies. effects b' = effects b @ Delivered (as_received (msg_view m)) # replies) \<and>
        (0 \<notin> set topic \<longrightarrow> as_received (msg_view m) = msg_view m)))"
proof -
  let ?bytes = "frame PUBLISH_TYPE (publish_flags qos dup retain) (publish_body qos packetId topic payload)"
  have "mqtt_client_publish (net_env app) (Some a) (Some m)
      = Some (ZERO, Some ((sent ?bytes a)\<lparr>packetState := PUBLISH_TYPE\<rparr>))"
    unfolding net_env_def using valid by (intro publish_sent assms) simp_all
  moreover have "\<exists>b'. run_events (net_env (observer answer)) (map Bytes_Received cs) b = Some b' \<and> attending b' \<and>
        session_of b' = session_step answer (Message qos dup retain packetId topic payload) (session_of b) \<and>
        (\<exists>replies. effects b' = effects b @ Delivered (as_received (msg_view m)) # replies) \<and>
        (0 \<notin> set topic \<longrightarrow> as_received (msg_view m) = msg_view m)"
    if cut: "concat cs = ?bytes" "[] \<notin> set cs" for cs
  proof -
    obtain b' where b': "run_events (net_env (observer answer)) (map Bytes_Received cs) b = Some b'" "attending b'"
        "session_of b' = session_step answer (Message qos dup retain packetId topic payload) (session_of b)"
      using chunks_served [OF assms(2), where pkts = "[Message qos dup retain packetId topic payload]"
          and cs = cs and answer = answer] valid cut
      by (auto simp: wire_def simp del: server_ok.simps session_step.simps)
    have "\<exists>replies. outputs (session_of b') = outputs (session_of b) @ Delivered (as_received (msg_view m)) # replies"
      unfolding b'(3) view by (simp add: put_def Let_def as_received_def)
    moreover have "0 \<notin> set topic \<longrightarrow> as_received (msg_view m) = msg_view m"
      by (simp add: view as_received_def c_string_id)
    ultimately show ?thesis using b' by (simp add: session_of_def)
  qed
  ultimately show ?thesis
    by (intro exI [of _ ?bytes]) (auto simp: called_def sent_def emit_def)
qed

theorem publication_end_to_end_witness:
  "\<exists>bytes a'. run_event (net_env plain_app)
      (Publish (Some (shown_message 9 [0x61] DELIVER_AT_LEAST_ONCE [7] False False))) new_station = Some a' \<and>
    effects a' = effects new_station @ [Sent bytes] \<and>
    (\<forall>cs. concat cs = bytes \<and> [] \<notin> set cs \<longrightarrow>
      (\<exists>b'. run_events (net_env plain_app) (map Bytes_Received cs) new_station = Some b' \<and> attending b' \<and>
        session_of b' = session_step (\<lambda>_. MQTT_CLIENT_ACK_SYNC)
          (Message DELIVER_AT_LEAST_ONCE False False 9 [0x61] [7]) (session_of new_station) \<and>
        (\<exists>replies. effects b' = effects new_station @
          Delivered (msg_view (shown_message 9 [0x61] DELIVER_AT_LEAST_ONCE [7] False False)) # replies)))"
proof -
  have view: "msg_view (shown_message 9 [0x61] DELIVER_AT_LEAST_ONCE [7] False False)
      = (9, DELIVER_AT_LEAST_ONCE, Some [0x61], Some [7], False, False)"
    by (rule shown_view)
  have up: "\<not> link_down new_station" using new_station_fields(1) by (simp add: attending_def serving_def)
  show ?thesis
    unfolding plain_app_def
    using publication_end_to_end [OF up new_station_fields(1) view, where app = "observer (\<lambda>_. MQTT_CLIENT_ACK_SYNC)"
        and answer = "\<lambda>_. MQTT_CLIENT_ACK_SYNC"]
    by (fastforce simp: USHRT_MAX_def publish_body_def view as_received_def c_string_def)
qed

text \<open>
  C18. A retained message of quality of service 0 is taken for another one: the decoder reads the retain
  flag alone as "exactly once", so the first two bytes of the payload become the packet id, the
  application is shown the rest of the payload as a message of quality of service 2, and the server
  is sent a PUBREC it has no use for.
\<close>

theorem retained_misread:
  assumes "attending s" and topic: "topic \<noteq> []" "length topic \<le> USHRT_MAX" and id: "packetId \<noteq> 0"
    and len: "length (publish_body DELIVER_AT_MOST_ONCE 0 topic (be16 packetId @ rest)) < 2097152"
  shows "\<exists>s'. run_event (net_env (observer answer)) (Bytes_Received
      (frame PUBLISH_TYPE (publish_flags DELIVER_AT_MOST_ONCE False True)
        (publish_body DELIVER_AT_MOST_ONCE 0 topic (be16 packetId @ rest)))) s = Some s' \<and>
    attending s' \<and>
    session_of s' = session_step answer (Message DELIVER_EXACTLY_ONCE False True packetId topic rest) (session_of s)"
proof -
  let ?body = "publish_body DELIVER_AT_MOST_ONCE 0 topic (be16 packetId @ rest)"
  have body: "?body = publish_body DELIVER_EXACTLY_ONCE packetId topic rest"
    by (simp add: publish_body_def)
  have flags: "ucast (publish_flags DELIVER_AT_MOST_ONCE False True) = (1 :: c_int)"
    by (simp add: publish_flags_def)
  have "packet_ok (PUBLISH_TYPE, publish_flags DELIVER_AT_MOST_ONCE False True, ?body)"
    using len by (simp add: packet_ok_def publish_flags_ok body_nonempty)
  moreover have "\<exists>u'. recvCompleteCallback (net_env (observer answer)) PUBLISH_TYPE
      (ucast (publish_flags DELIVER_AT_MOST_ONCE False True)) (if PUBLISH_TYPE = PINGRESP_TYPE then None else Some ?body) u
      = Some u' \<and> serves (session_step answer (Message DELIVER_EXACTLY_ONCE False True packetId topic rest)) u u'"
    if "serving u" for u :: "(byte list, int, 'a) net_scheme"
    unfolding body flags net_env_def
    using message_read [OF that _ topic, where qos = DELIVER_EXACTLY_ONCE and flags = 1 and packetId = packetId
        and dup = False and retain = True and payload = rest] id
    by (simp add: recvCompleteCallback_def body_nonempty flags_qos_def)
  ultimately show ?thesis
    using frame_taken [OF assms(1), where t = PUBLISH_TYPE and app = "observer answer" and body = ?body
        and f = "session_step answer (Message DELIVER_EXACTLY_ONCE False True packetId topic rest)"] by blast
qed

theorem retained_misread_witness:
  "\<exists>s'. run_event (net_env plain_app) (Bytes_Received [0x31, 6, 0, 1, 0x61, 0, 5, 7]) new_station = Some s' \<and>
    outputs (session_of s') =
      [Delivered (5, DELIVER_EXACTLY_ONCE, Some [0x61], Some [7], False, True), Sent [0x50, 2, 0, 5]]"
  using retained_misread [OF new_station_fields(1), where topic = "[0x61]" and packetId = 5 and rest = "[7]"
      and answer = "\<lambda>_. MQTT_CLIENT_ACK_SYNC"]
  unfolding plain_app_def
  by (auto simp: new_station_fields frame_def packet_byte_def be16_def publish_body_def publish_flags_def
      utf_def USHRT_MAX_def put_def reply_bytes_def c_string_def)

section \<open>The end of a connection\<close>

text \<open>The pump of a transport that was told to close.\<close>

definition drains ::
  "(byte list, int, 'z) net_scheme application
    \<Rightarrow> (xio_handle option \<Rightarrow> (byte list, int, 'z) net_scheme \<Rightarrow> (byte list, int, 'z) net_scheme option) \<Rightarrow> bool" where
  "drains app pump \<longleftrightarrow> (\<forall>x s. shut s \<longrightarrow> pump x s = drain_closed app s)"

definition closed_down :: "(byte list, int, 'z) net_scheme \<Rightarrow> (byte list, int, 'z) net_scheme" where
  "closed_down s = (let t = (emit Closed s)\<lparr>shut := True, xioHandle := None\<rparr> in
    if disconnect_cb s = None then clear_status MQTT_STATUS_SOCKET_CONNECTED t else t)"

lemma clear_socket [simp]:
  "\<not> status_set MQTT_STATUS_SOCKET_CONNECTED (clear_status MQTT_STATUS_SOCKET_CONNECTED s)"
  by (simp add: status_set_def clear_status_def and.assoc)

lemma close_wait_drained:
  assumes "drains app pump" and "shut s" and "disconnect_cb s = None"
    and "status_set MQTT_STATUS_SOCKET_CONNECTED s"
  shows "close_wait (net_with app pump) 0 s = Some (clear_status MQTT_STATUS_SOCKET_CONNECTED s)"
  using assms
  by (subst close_wait.simps)
    (simp add: drains_def drain_closed_def on_connection_closed_def clear_status_def [of _ s] status_set_def
      and.assoc Let_def)

lemma close_connection_exact:
  assumes "drains app pump" and "status_set MQTT_STATUS_SOCKET_CONNECTED s"
  shows "close_connection (net_with app pump) s = Some (closed_down s)"
proof -
  let ?t = "emit Closed (s\<lparr>shut := True\<rparr>)"
  have t: "shut ?t" "disconnect_cb ?t = disconnect_cb s" "status_set MQTT_STATUS_SOCKET_CONNECTED ?t"
    using assms(2) by (simp_all add: emit_def status_set_def)
  show ?thesis
    using close_wait_drained [OF assms(1) t(1) _ t(3)] assms(2) t(2)
    by (simp add: close_connection_def closed_down_def Let_def) (simp add: emit_def clear_status_def)
qed

lemma set_error_exact:
  assumes "drains (observer answer) pump" and "status_set MQTT_STATUS_SOCKET_CONNECTED s"
    and "fnOnErrorCallBack s \<noteq> None"
  shows "set_error_callback (net_with (observer answer) pump) e s = Some (closed_down (emit (Failed e) s))"
proof -
  have "status_set MQTT_STATUS_SOCKET_CONNECTED (emit (Failed e) s)"
    using assms(2) by (simp add: emit_def status_set_def)
  then show ?thesis
    using assms(3) close_connection_exact [OF assms(1)] by (auto simp: set_error_callback_def)
qed

lemma net_env_drains: "drains app (\<lambda>x s. if shut s then drain_closed app s else hand_over app s)"
  by (simp add: drains_def)

lemma closed_down_fields:
  "xioHandle (closed_down s) = None" "effects (closed_down s) = effects s @ [Closed]"
  "shut (closed_down s)" "idle (closed_down s) = idle s"
  "disconnect_cb s = None \<Longrightarrow> \<not> status_set MQTT_STATUS_SOCKET_CONNECTED (closed_down s)"
  by (simp_all add: closed_down_def emit_def Let_def clear_status_def status_set_def and.assoc idle_def)

lemma first_byte_refused:
  assumes "idle s" and "\<not> header_ok (packet_of_byte x) (x AND 0x0F)"
  shows "receive_byte api pc x s
    = Some (MU_FAILURE, s\<lparr>currPacket := PACKET_TYPE_ERROR, headerFlags := ucast (x AND 0x0F)\<rparr>)"
proof -
  have "packet_of_byte (x AND 0xF0) = packet_of_byte x"
    by (simp add: packet_of_byte_def and.assoc)
  then have "processControlPacketType x = (packet_of_byte x, ucast (x AND 0x0F))"
    by (simp add: processControlPacketType_def)
  then show ?thesis
    using assms reject_header_ok [OF packet_of_byte_cases(1) low_nibble_less, of x x]
    by (simp add: receive_byte_def idle_def fixed_header_byte_def Let_def)
qed

text \<open>
  C19. A packet whose first byte is not one of MQTT ends the connection: whatever follows it in the same
  piece of data is dropped, the application is told of a parse error, the transport is closed and its
  handle given up, and the codec is ready for a new connection.
\<close>

theorem protocol_violation_closes:
  fixes s :: "(byte list, int, 'z) net_scheme"
  assumes "attending s" and bad: "\<not> header_ok (packet_of_byte x) (x AND 0x0F)"
    and "status_set MQTT_STATUS_SOCKET_CONNECTED s" and "disconnect_cb s = None"
    and "fnOnErrorCallBack s \<noteq> None"
  shows "\<exists>s'. run_event (net_env (observer answer)) (Bytes_Received (x # xs)) s = Some s' \<and> idle s' \<and>
    effects s' = effects s @ [Failed MQTT_CLIENT_PARSE_ERROR, Closed] \<and> xioHandle s' = None \<and>
    \<not> status_set MQTT_STATUS_SOCKET_CONNECTED s'"
proof -
  let ?s = "s\<lparr>currPacket := PACKET_TYPE_ERROR, headerFlags := ucast (x AND 0x0F)\<rparr>"
  let ?t = "clear_codec_data ?s"
  let ?u = "closed_down (emit (Failed MQTT_CLIENT_PARSE_ERROR) ?t)"
  have t: "status_set MQTT_STATUS_SOCKET_CONNECTED ?t" "fnOnErrorCallBack ?t \<noteq> None"
      "disconnect_cb (emit (Failed MQTT_CLIENT_PARSE_ERROR) ?t) = None" "effects ?t = effects s"
    using assms(3-5) by (simp_all add: clear_codec_data_def status_set_def emit_def)
  have err: "set_error_callback (net_env (observer answer)) MQTT_CLIENT_PARSE_ERROR ?t = Some ?u"
    unfolding net_env_def by (rule set_error_exact [OF net_env_drains t(1,2)])
  have "idle s" using assms(1) by (simp add: attending_def)
  note refused = first_byte_refused [OF this bad]
  have "run_event (net_env (observer answer)) (Bytes_Received (x # xs)) s = Some ?u"
    using err by (simp add: refused onBytesReceived_def mqtt_codec_bytesReceived_def mqtt_codec_reset_def)
  moreover have "idle ?u"
    by (simp add: closed_down_fields(4)) (simp add: idle_def emit_def clear_codec_data_def)
  ultimately show ?thesis
    using t by (intro exI [of _ ?u]) (simp add: closed_down_fields emit_def)
qed

theorem protocol_violation_closes_witness:
  "\<exists>s'. run_event (net_env plain_app) (Bytes_Received [0xF0, 0x20]) (new_station\<lparr>mqtt_status := 2\<rparr>) = Some s' \<and>
    idle s' \<and> effects s' = [Failed MQTT_CLIENT_PARSE_ERROR, Closed] \<and> xioHandle s' = None \<and>
    \<not> status_set MQTT_STATUS_SOCKET_CONNECTED s'"
  unfolding plain_app_def
  using protocol_violation_closes [where s = "new_station\<lparr>mqtt_status := 2\<rparr>" and x = "0xF0" and xs = "[0x20]"]
    new_station_fields
  by (simp add: attending_def idle_def serving_def packet_of_byte_def packet_of_code_def all_packet_types_def
      header_ok_def wire_types_def status_set_def MQTT_STATUS_SOCKET_CONNECTED_def session_of_def)
    (simp add: new_station_def fresh_client_def clear_codec_data_def)

section \<open>Keeping the connection alive\<close>

text \<open>A connection that is up, with an idle transport.\<close>

definition alive :: "(byte list, int, 'z) net_scheme \<Rightarrow> bool" where
  "alive s \<longleftrightarrow> status_set MQTT_STATUS_SOCKET_CONNECTED s \<and> status_set MQTT_STATUS_CLIENT_CONNECTED s \<and>
    \<not> status_set MQTT_STATUS_PENDING_CLOSE s \<and> xioHandle s \<noteq> None \<and> fnOnErrorCallBack s \<noteq> None \<and>
    keepAliveInterval s > 0 \<and> \<not> link_down s \<and> \<not> shut s \<and> inbox s = []"

text \<open>
  The decision in seconds that have passed: give up on a ping that is unanswered for too long, else
  ping when nothing was sent for the keep-alive interval.
\<close>

datatype keep_alive_decision = Give_Up | Ping | Wait

definition seconds :: "ms_t \<Rightarrow> ms_t \<Rightarrow> nat" where
  "seconds since now = (unat now - unat since) div 1000"

definition decision :: "(byte list, int, 'z) net_scheme \<Rightarrow> keep_alive_decision" where
  "decision s =
    (if timeSincePing s \<noteq> 0 \<and> seconds (timeSincePing s) (now_ms s) > unat (maxPingRespTime s) then Give_Up
     else if seconds (packetSendTimeMs s) (now_ms s) \<ge> unat (keepAliveInterval s) then Ping
     else Wait)"

definition ping_request :: "byte list" where
  "ping_request = frame PINGREQ_TYPE 0 []"

lemma seconds_word:
  assumes "since \<le> now"
  shows "unat ((now - since) div 1000 :: ms_t) = seconds since now"
  using assms by (simp add: seconds_def unat_div unat_sub)

lemma seconds_compare:
  fixes x :: u16
  assumes "since \<le> now"
  shows "(now - since) div 1000 > ucast x \<longleftrightarrow> seconds since now > unat x"
    and "(now - since) div 1000 \<ge> ucast x \<longleftrightarrow> seconds since now \<ge> unat x"
proof -
  have "unat x < 2 ^ 64" using unsigned_less [of x, where ?'a = nat] by simp
  then have "unat (ucast x :: ms_t) = unat x"
    by (simp add: unsigned_ucast_eq take_bit_nat_eq_self)
  then show "(now - since) div 1000 > ucast x \<longleftrightarrow> seconds since now > unat x"
    and "(now - since) div 1000 \<ge> ucast x \<longleftrightarrow> seconds since now \<ge> unat x"
    using seconds_word [OF assms] by (simp_all add: word_less_nat_alt word_le_nat_alt)
qed

lemma send_ping_exact:
  assumes "\<not> link_down s"
  shows "send_ping (net_with app pump) s = Some ((sent ping_request s)\<lparr>timeSincePing := now_ms s\<rparr>)"
proof -
  have enc: "mqtt_codec_ping list_buffer (world s) = Some (Some ping_request, world s + 1)"
    unfolding ping_request_def
    using ping_disconnect_encoding [OF list_buffer_laws] by (blast intro: encodes_exactly)
  have "ping_request \<noteq> []" by (simp add: ping_request_def frame_def)
  then show ?thesis
    using assms by (simp add: send_ping_def enc send_and_delete_sent) (simp add: sent_def emit_def)
qed

lemma dowork_decides:
  fixes s :: "(byte list, int, 'z) net_scheme"
  assumes up: "alive s" and mono: "packetSendTimeMs s \<le> now_ms s" "timeSincePing s \<le> now_ms s"
  shows "run_event (net_env (observer answer)) Do_Work s = Some
    (case decision s of
       Give_Up \<Rightarrow> forget_ping (closed_down (emit (Failed MQTT_CLIENT_NO_PING_RESPONSE) s))
     | Ping \<Rightarrow> (sent ping_request s)\<lparr>timeSincePing := now_ms s\<rparr>
     | Wait \<Rightarrow> s)"
proof -
  have err: "set_error_callback (net_env (observer answer)) MQTT_CLIENT_NO_PING_RESPONSE s
      = Some (closed_down (emit (Failed MQTT_CLIENT_NO_PING_RESPONSE) s))"
    unfolding net_env_def using up by (intro set_error_exact net_env_drains) (simp_all add: alive_def)
  have ping: "send_ping (net_env (observer answer)) s = Some ((sent ping_request s)\<lparr>timeSincePing := now_ms s\<rparr>)"
    unfolding net_env_def using up by (intro send_ping_exact) (simp add: alive_def)
  have clock: "tickcounter_get_current_ms (net_env (observer answer)) s = (Some (now_ms s), s)"
    and pump: "xio_dowork (net_env (observer answer)) x s = Some s" for x
    using up by (simp_all add: net_env_def alive_def hand_over_def)
  obtain h where h: "xioHandle s = Some h" using up by (auto simp: alive_def)
  show ?thesis
    using up err ping
    by (simp add: h mqtt_client_dowork_def keep_alive_def alive_def clock pump decision_def word_neq_0_conv
        seconds_compare [OF mono(1)] seconds_compare [OF mono(2)])
qed

text \<open>
  C6. The periodic work keeps the connection alive: on a clock that does not run backwards, a connected
  client whose ping was not answered within \<open>maxPingRespTime\<close> seconds reports it and closes, otherwise
  it sends a PINGREQ when nothing was sent for the keep-alive interval, and otherwise does nothing.
\<close>

theorem keep_alive_protocol:
  fixes s :: "(byte list, int, 'z) net_scheme"
  assumes "alive s" and "packetSendTimeMs s \<le> now_ms s" and "timeSincePing s \<le> now_ms s"
  shows "run_event (net_env (observer answer)) Do_Work s = Some
    (case decision s of
       Give_Up \<Rightarrow> forget_ping (closed_down (emit (Failed MQTT_CLIENT_NO_PING_RESPONSE) s))
     | Ping \<Rightarrow> (sent ping_request s)\<lparr>timeSincePing := now_ms s\<rparr>
     | Wait \<Rightarrow> s)"
  by (rule dowork_decides [OF assms])

text \<open>A client on the connection 7, whose last packet was sent at 5 s, at 20 s.\<close>

definition live_station :: "(byte list, int) net" where
  "live_station = new_station\<lparr>mqtt_status := 3, xioHandle := Some 7, keepAliveInterval := 10,
     maxPingRespTime := 5, packetSendTimeMs := 5000, now_ms := 20000\<rparr>"

lemma live_station_alive:
  "alive live_station" "timeSincePing live_station = 0" "effects live_station = []"
  "maxPingRespTime live_station = 5" "keepAliveInterval live_station = 10"
  "packetSendTimeMs live_station = 5000" "now_ms live_station = 20000"
  by (simp_all add: alive_def live_station_def status_set_def MQTT_STATUS_SOCKET_CONNECTED_def
      MQTT_STATUS_CLIENT_CONNECTED_def MQTT_STATUS_PENDING_CLOSE_def new_station_def fresh_client_def
      clear_codec_data_def net.defs)

theorem keep_alive_protocol_witness:
  "run_event (net_env plain_app) Do_Work live_station
    = Some ((sent [0xC0, 0] live_station)\<lparr>timeSincePing := 20000\<rparr>)"
  unfolding plain_app_def
  using keep_alive_protocol [OF live_station_alive(1)] live_station_alive
  by (simp add: decision_def seconds_def ping_request_def frame_def packet_byte_def)

lemma forget_ping_fields [simp]:
  "effects (forget_ping s) = effects s" "xioHandle (forget_ping s) = xioHandle s"
  by (simp_all add: forget_ping_def)

text \<open>
  C15. A dead server is noticed: a connection that is silent for the keep-alive interval is pinged by the
  next periodic work, and when no answer came for more than \<open>maxPingRespTime\<close> seconds behind it, the
  work after that reports the missing response and closes the connection.
\<close>

theorem dead_server_detected:
  fixes s :: "(byte list, int, 'z) net_scheme"
  assumes up: "alive s" and no_ping: "timeSincePing s = 0" and "packetSendTimeMs s \<le> t1" "t1 \<noteq> 0" "t1 \<le> t2"
    and silent: "unat (keepAliveInterval s) \<le> seconds (packetSendTimeMs s) t1"
    and unanswered: "unat (maxPingRespTime s) < seconds t1 t2"
  shows "\<exists>s1 s2. run_event (net_env (observer answer)) Do_Work (s\<lparr>now_ms := t1\<rparr>) = Some s1 \<and>
    run_event (net_env (observer answer)) Do_Work (s1\<lparr>now_ms := t2\<rparr>) = Some s2 \<and>
    effects s2 = effects s @ [Sent ping_request, Failed MQTT_CLIENT_NO_PING_RESPONSE, Closed] \<and>
    xioHandle s2 = None"
proof -
  let ?a = "s\<lparr>now_ms := t1\<rparr>"
  let ?s1 = "(sent ping_request ?a)\<lparr>timeSincePing := t1\<rparr>"
  let ?b = "?s1\<lparr>now_ms := t2\<rparr>"
  have a: "alive ?a" "decision ?a = Ping"
    using up no_ping silent by (simp_all add: alive_def decision_def status_set_def)
  have b: "alive ?b" "decision ?b = Give_Up" "timeSincePing ?b = t1" "packetSendTimeMs ?b = t1" "now_ms ?b = t2"
    "effects ?b = effects s @ [Sent ping_request]"
    using up assms(4) unanswered by (simp_all add: alive_def decision_def sent_def emit_def status_set_def)
  have "run_event (net_env (observer answer)) Do_Work ?a = Some ?s1"
    using dowork_decides [OF a(1)] a(2) no_ping assms(3) by simp
  moreover have "run_event (net_env (observer answer)) Do_Work ?b
      = Some (forget_ping (closed_down (emit (Failed MQTT_CLIENT_NO_PING_RESPONSE) ?b)))"
    using dowork_decides [OF b(1)] b(2-5) assms(5) by simp
  ultimately show ?thesis
    using b(6) by (intro exI conjI) (assumption, assumption, simp_all add: closed_down_fields emit_def)
qed

theorem dead_server_detected_witness:
  "\<exists>s1 s2. run_event (net_env plain_app) Do_Work (live_station\<lparr>now_ms := 15000\<rparr>) = Some s1 \<and>
    run_event (net_env plain_app) Do_Work (s1\<lparr>now_ms := 21000\<rparr>) = Some s2 \<and>
    effects s2 = [Sent [0xC0, 0], Failed MQTT_CLIENT_NO_PING_RESPONSE, Closed] \<and> xioHandle s2 = None"
  unfolding plain_app_def
  using dead_server_detected [OF live_station_alive(1,2), of 15000 21000] live_station_alive
  by (simp add: seconds_def ping_request_def frame_def packet_byte_def)

section \<open>Connecting and disconnecting\<close>

text \<open>The options after \<open>mqtt_client_connect\<close>: a string the caller does not give stays as it was.\<close>

definition or_else :: "c_str option \<Rightarrow> c_str option \<Rightarrow> c_str option" where
  "or_else given old = (case given of None \<Rightarrow> old | Some str \<Rightarrow> Some str)"

definition merged_options :: "MQTT_CLIENT_OPTIONS \<Rightarrow> MQTT_CLIENT_OPTIONS \<Rightarrow> MQTT_CLIENT_OPTIONS" where
  "merged_options old given =
    \<lparr>clientId = or_else (clientId given) (clientId old), willTopic = or_else (willTopic given) (willTopic old),
     willMessage = or_else (willMessage given) (willMessage old), username = or_else (username given) (username old),
     password = or_else (password given) (password old),
     opt_keepAliveInterval = opt_keepAliveInterval given, messageRetain = messageRetain given,
     useCleanSession = useCleanSession given, qualityOfServiceValue = qualityOfServiceValue given,
     log_trace = log_trace old\<rparr>"

lemma clone_field_total:
  "clone_field count_heap get upd given (ZERO, opts, w) =
    (ZERO, case get given of None \<Rightarrow> opts | Some str \<Rightarrow> upd (\<lambda>_. Some str) opts,
     case get given of None \<Rightarrow> w | Some str \<Rightarrow> free_option count_heap (get opts) (w + 1))"
  by (auto simp: clone_field_def split: option.split)

lemma cloneMqttOptions_merged:
  "cloneMqttOptions (net_with app pump) given s = (ZERO, s\<lparr>world :=
     world (snd (cloneMqttOptions (net_with app pump) given s)), mqttOptions := merged_options (mqttOptions s) given\<rparr>)"
  by (cases "mqttOptions s"; cases "clientId given"; cases "willTopic given"; cases "willMessage given";
      cases "username given"; cases "password given")
    (simp_all add: cloneMqttOptions_def clone_field_total merged_options_def or_else_def Let_def)

text \<open>The ping response time of a keep-alive interval.\<close>

definition ping_time :: "u16 \<Rightarrow> nat" where
  "ping_time interval = min 80 (unat interval div 2)"

lemma connect_exact:
  assumes "clientId given \<noteq> None"
  shows "\<exists>s'. mqtt_client_connect (net_with app pump) (Some s) (Some x) (Some given) = Some (ZERO, Some s') \<and>
    effects s' = effects s @ [Opened x] \<and> xioHandle s' = Some x \<and> mqtt_status s' = mqtt_status s \<and>
    mqttOptions s' = merged_options (mqttOptions s) given \<and> keepAliveInterval s' = opt_keepAliveInterval given \<and>
    unat (maxPingRespTime s') = ping_time (opt_keepAliveInterval given) \<and> timeSincePing s' = 0 \<and>
    link_down s' = link_down s \<and> shut s' = False"
proof -
  let ?half = "opt_keepAliveInterval given div 2"
  let ?s = "s\<lparr>xioHandle := Some x, packetState := UNKNOWN_TYPE, qosValue := qualityOfServiceValue given,
    keepAliveInterval := opt_keepAliveInterval given,
    maxPingRespTime := (if DEFAULT_MAX_PING_RESPONSE_TIME < ?half then DEFAULT_MAX_PING_RESPONSE_TIME else ?half),
    timeSincePing := 0\<rparr>"
  have ping: "unat (if DEFAULT_MAX_PING_RESPONSE_TIME < ?half then DEFAULT_MAX_PING_RESPONSE_TIME else ?half)
      = ping_time (opt_keepAliveInterval given)"
    by (simp add: DEFAULT_MAX_PING_RESPONSE_TIME_def ping_time_def word_less_nat_alt unat_div)
  obtain w where w: "cloneMqttOptions (net_with app pump) given ?s
      = (ZERO, ?s\<lparr>world := w, mqttOptions := merged_options (mqttOptions ?s) given\<rparr>)"
    using cloneMqttOptions_merged by blast
  show ?thesis
    unfolding mqtt_client_connect_def option.case prod.case Let_def w
    using ping by (simp add: emit_def)
qed

lemma open_exact:
  assumes up: "\<not> link_down s" "\<not> status_set MQTT_STATUS_SOCKET_CONNECTED s"
    and opts: "connect_valid (mqttOptions s)" "clientId (mqttOptions s) \<noteq> None"
  shows "\<exists>junk. length junk = 2 * empty_fields (mqttOptions s) \<and>
    onOpenComplete (net_with app pump) IO_OPEN_OK s = Some (sent (frame CONNECT_TYPE 0
        (connect_packet_header (mqttOptions s) @ connect_payload (mqttOptions s) @ junk))
      (set_status MQTT_STATUS_SOCKET_CONNECTED (s\<lparr>packetState := CONNECT_TYPE\<rparr>)))"
proof -
  let ?s = "set_status MQTT_STATUS_SOCKET_CONNECTED (s\<lparr>packetState := CONNECT_TYPE\<rparr>)"
  obtain junk where junk: "length junk = 2 * empty_fields (mqttOptions s)"
    "encodes list_buffer id (world s) (frame CONNECT_TYPE 0
        (connect_packet_header (mqttOptions s) @ connect_payload (mqttOptions s) @ junk))
      (mqtt_codec_connect list_buffer (weighed_strings 0) (Some (mqttOptions s)) (is_trace_enabled s) (world s))"
    using connect_encoding [OF list_buffer_laws weighed_strings_laws opts]
      log_kept [OF list_buffer_laws list_buffer_total] by (metis (full_types))
  let ?bytes = "frame CONNECT_TYPE 0 (connect_packet_header (mqttOptions s) @ connect_payload (mqttOptions s) @ junk)"
  have s': "mqttOptions ?s = mqttOptions s" "world ?s = world s" "link_down ?s = link_down s"
    "construct_trace_log_handle (net_with app pump) ?s w = (is_trace_enabled s, w)" for w
    by (simp_all add: set_status_def construct_trace_log_handle_def is_trace_enabled_def)
  have ne: "?bytes \<noteq> []" by (simp add: frame_def)
  have "onOpenComplete (net_with app pump) IO_OPEN_OK s = Some (sent ?bytes ?s)"
    using up ne by (simp add: onOpenComplete_def s' encodes_exactly [OF junk(2)] Let_def)
      (simp add: sent_def emit_def set_status_def)
  then show ?thesis using junk(1) by blast
qed

text \<open>
  C8. Connecting: \<open>mqtt_client_connect\<close> opens the transport, and once it is open the client sends
  exactly one packet, the CONNECT of the options it was given, where an option string the caller left
  null is the one of the call before, if any; two unwritten bytes per empty option string end it.
  The client then waits at most 80 s, or half the keep-alive interval, for the answer to a ping.
\<close>

theorem connect_handshake:
  fixes s :: "(byte list, int, 'z) net_scheme"
  assumes "\<not> link_down s" and "\<not> status_set MQTT_STATUS_SOCKET_CONNECTED s" and "clientId given \<noteq> None"
    and "opts = merged_options (mqttOptions s) given" and "connect_valid opts"
  shows "\<exists>s' junk. run_events (net_env app) [Connect x given, Open_Complete IO_OPEN_OK] s = Some s' \<and>
    effects s' = effects s @ [Opened x, Sent (frame CONNECT_TYPE 0
      (connect_packet_header opts @ connect_payload opts @ junk))] \<and>
    length junk = 2 * empty_fields opts \<and> status_set MQTT_STATUS_SOCKET_CONNECTED s' \<and>
    xioHandle s' = Some x \<and> unat (maxPingRespTime s') = ping_time (opt_keepAliveInterval given)"
proof -
  obtain t where t: "mqtt_client_connect (net_env app) (Some s) (Some x) (Some given) = Some (ZERO, Some t)"
    "effects t = effects s @ [Opened x]" "xioHandle t = Some x" "mqtt_status t = mqtt_status s"
    "mqttOptions t = opts" "unat (maxPingRespTime t) = ping_time (opt_keepAliveInterval given)"
    "link_down t = link_down s"
    unfolding net_env_def assms(4) using connect_exact [OF assms(3)] by blast
  have down: "\<not> link_down t" "\<not> status_set MQTT_STATUS_SOCKET_CONNECTED t"
    using assms(1,2) t by (simp_all add: status_set_def)
  have id: "clientId (mqttOptions t) \<noteq> None" "connect_valid (mqttOptions t)"
    using assms(3,5) t(5) by (auto simp: assms(4) merged_options_def or_else_def)
  obtain junk where "length junk = 2 * empty_fields opts"
    "onOpenComplete (net_env app) IO_OPEN_OK t = Some (sent (frame CONNECT_TYPE 0
        (connect_packet_header opts @ connect_payload opts @ junk))
      (set_status MQTT_STATUS_SOCKET_CONNECTED (t\<lparr>packetState := CONNECT_TYPE\<rparr>)))"
    unfolding net_env_def t(5) [symmetric] using open_exact [OF down id(2,1)] by blast
  then show ?thesis
    using t by (intro exI conjI) (simp add: called_def, simp_all add: sent_def emit_def set_status_def status_set_def
      bit.conj_disj_distrib2 MQTT_STATUS_SOCKET_CONNECTED_def or_eq_0_iff)
qed

text \<open>The second connection keeps the user name of the first, and the flag that announces it.\<close>

definition named_options :: MQTT_CLIENT_OPTIONS where
  "named_options = no_options\<lparr>clientId := Some [0x63], username := Some [0x75], opt_keepAliveInterval := 10\<rparr>"

theorem connect_handshake_witness:
  "\<exists>s' junk. run_events (net_env plain_app)
      [Connect 8 (no_options\<lparr>clientId := Some [0x64], opt_keepAliveInterval := 10\<rparr>), Open_Complete IO_OPEN_OK]
      (new_station\<lparr>mqttOptions := named_options\<rparr>) = Some s' \<and>
    effects s' = [Opened 8, Sent ([0x10, 16, 0, 4, 0x4D, 0x51, 0x54, 0x54, 4, 0x80, 0, 10, 0, 1, 0x64, 0, 1, 0x75] @ junk)] \<and>
    length junk = 0 \<and> unat (maxPingRespTime s') = 5"
proof -
  let ?s = "new_station\<lparr>mqttOptions := named_options\<rparr>"
  let ?given = "no_options\<lparr>clientId := Some [0x64], opt_keepAliveInterval := 10\<rparr>"
  let ?opts = "merged_options (mqttOptions ?s) ?given"
  have opts: "connect_valid ?opts" "empty_fields ?opts = 0"
    "connect_packet_header ?opts = [0, 4, 0x4D, 0x51, 0x54, 0x54, 4, 0x80, 0, 10]"
    "connect_payload ?opts = [0, 1, 0x64, 0, 1, 0x75]"
    by (simp_all add: merged_options_def or_else_def named_options_def no_options_def connect_valid_def
        empty_fields_def connect_packet_header_def connect_payload_def opt_len_def opt_str_def has_will_def
        USHRT_MAX_def utf_def be16_def connect_flags_def mqtt_name_def PROTOCOL_NUMBER_def)
  have s: "\<not> link_down ?s" "\<not> status_set MQTT_STATUS_SOCKET_CONNECTED ?s" "effects ?s = []"
    by (simp_all add: new_station_def fresh_client_def clear_codec_data_def net.defs status_set_def)
  show ?thesis
    using connect_handshake [OF s(1,2) _ refl opts(1), where x = 8 and app = plain_app] s(3) opts(2-4)
    by (auto simp: frame_def packet_byte_def ping_time_def)
qed

lemma clear_mqtt_options_fields:
  "mqttOptions (clear_mqtt_options env s) = (mqttOptions s)\<lparr>clientId := None, willTopic := None,
     willMessage := None, username := None, password := None\<rparr>"
  "clear_mqtt_options env s = s\<lparr>world := world (clear_mqtt_options env s),
     mqttOptions := mqttOptions (clear_mqtt_options env s)\<rparr>"
  by (simp_all add: clear_mqtt_options_def Let_def)

lemma disconnect_exact:
  assumes "status_set MQTT_STATUS_CLIENT_CONNECTED s" and up: "\<not> link_down s"
  shows "mqtt_client_disconnect (net_with app pump) (Some s) callback cb_ctx = Some (ZERO, Some
    (clear_mqtt_options (net_with app pump) (sent (frame DISCONNECT_TYPE 0 [])
      (s\<lparr>disconnect_cb := callback, disconnect_ctx := cb_ctx, packetState := DISCONNECT_TYPE\<rparr>))))"
proof -
  have enc: "mqtt_codec_disconnect list_buffer (world s) = Some (Some (frame DISCONNECT_TYPE 0 []), world s + 1)"
    using ping_disconnect_encoding [OF list_buffer_laws] by (blast intro: encodes_exactly)
  have "frame DISCONNECT_TYPE 0 [] \<noteq> []" by (simp add: frame_def)
  then show ?thesis
    using assms by (simp add: mqtt_client_disconnect_def on_client_def enc send_and_delete_sent)
      (simp add: sent_def emit_def)
qed

text \<open>What the disconnect changes of the fields the rest of the sequence reads.\<close>

lemma disconnected_fields:
  fixes s :: "(byte list, int, 'z) net_scheme"
  assumes "t = clear_mqtt_options env (sent bytes
      (s\<lparr>disconnect_cb := callback, disconnect_ctx := cb_ctx, packetState := DISCONNECT_TYPE\<rparr>))"
  shows "effects t = effects s @ [Sent bytes]" "packetState t = DISCONNECT_TYPE" "mqtt_status t = mqtt_status s"
    "xioHandle t = xioHandle s" "disconnect_cb t = callback" "fnOperationCallback t = fnOperationCallback s"
    "no_strings (mqttOptions t)"
proof -
  let ?u = "sent bytes (s\<lparr>disconnect_cb := callback, disconnect_ctx := cb_ctx, packetState := DISCONNECT_TYPE\<rparr>)"
  have t: "t = ?u\<lparr>world := world t, mqttOptions := mqttOptions t\<rparr>"
    "mqttOptions t = (mqttOptions ?u)\<lparr>clientId := None, willTopic := None,
       willMessage := None, username := None, password := None\<rparr>"
    unfolding assms by (rule clear_mqtt_options_fields(2), rule clear_mqtt_options_fields(1))
  show "no_strings (mqttOptions t)" by (simp add: t(2) no_strings_def)
  show "effects t = effects s @ [Sent bytes]" "packetState t = DISCONNECT_TYPE" "mqtt_status t = mqtt_status s"
    "xioHandle t = xioHandle s" "disconnect_cb t = callback" "fnOperationCallback t = fnOperationCallback s"
    by (subst t(1), simp add: sent_def emit_def)+
qed

lemma status_other_bits:
  "status_set MQTT_STATUS_SOCKET_CONNECTED (set_status MQTT_STATUS_PENDING_CLOSE s)
    = status_set MQTT_STATUS_SOCKET_CONNECTED s"
  "status_set MQTT_STATUS_PENDING_CLOSE (set_status MQTT_STATUS_PENDING_CLOSE s)"
  "status_set MQTT_STATUS_SOCKET_CONNECTED (clear_status MQTT_STATUS_PENDING_CLOSE s)
    = status_set MQTT_STATUS_SOCKET_CONNECTED s"
  "\<not> status_set MQTT_STATUS_PENDING_CLOSE (clear_status MQTT_STATUS_PENDING_CLOSE s)"
  by (simp_all add: status_set_def set_status_def clear_status_def bit.conj_disj_distrib2 and.assoc
      MQTT_STATUS_SOCKET_CONNECTED_def MQTT_STATUS_PENDING_CLOSE_def)

text \<open>
  C9. Disconnecting: a connected client that is told to disconnect sends the DISCONNECT packet and
  drops its options; when the transport has sent it, the application is told, and the next periodic
  work closes the transport, waits for it and gives up its handle.
\<close>

theorem disconnect_sequence:
  fixes s :: "(byte list, int, 'z) net_scheme"
  assumes "status_set MQTT_STATUS_CLIENT_CONNECTED s" and "status_set MQTT_STATUS_SOCKET_CONNECTED s"
    and "xioHandle s \<noteq> None" and "\<not> link_down s" and "fnOperationCallback s \<noteq> None"
  shows "\<exists>s'. run_events (net_env (observer answer)) [Disconnect None cb_ctx, Send_Complete IO_SEND_OK, Do_Work] s
      = Some s' \<and>
    effects s' = effects s @ [Sent (frame DISCONNECT_TYPE 0 []), Told MQTT_CLIENT_ON_DISCONNECT NO_INFO, Closed] \<and>
    xioHandle s' = None \<and> no_strings (mqttOptions s') \<and>
    \<not> status_set MQTT_STATUS_SOCKET_CONNECTED s' \<and> \<not> status_set MQTT_STATUS_PENDING_CLOSE s'"
proof -
  let ?env = "net_env (observer answer)"
  define t where "t = clear_mqtt_options ?env (sent (frame DISCONNECT_TYPE 0 [])
      (s\<lparr>disconnect_cb := None, disconnect_ctx := cb_ctx, packetState := DISCONNECT_TYPE\<rparr>))"
  note t = disconnected_fields [OF t_def]
  let ?u = "set_status MQTT_STATUS_PENDING_CLOSE (emit (Told MQTT_CLIENT_ON_DISCONNECT NO_INFO) t)"
  let ?v = "clear_status MQTT_STATUS_PENDING_CLOSE (closed_down ?u)"
  have "run_event ?env (Disconnect None cb_ctx) s = Some t"
    unfolding t_def net_env_def using disconnect_exact [OF assms(1,4)] by (simp add: called_def)
  moreover have "run_event ?env (Send_Complete IO_SEND_OK) t = Some ?u"
    using assms(5) t(2,6) by (auto simp: sendComplete_def operation_callback_def net_env_def)
  moreover have "run_event ?env Do_Work ?u = Some ?v"
  proof -
    have u: "status_set MQTT_STATUS_SOCKET_CONNECTED ?u" "xioHandle ?u = xioHandle s"
      using assms(2) t(3,4) unfolding status_other_bits(1) by (simp_all add: status_set_def emit_def set_status_def)
    have "close_connection ?env ?u = Some (closed_down ?u)"
      unfolding net_env_def by (rule close_connection_exact [OF net_env_drains u(1)])
    then show ?thesis
      using assms(3) u(2) status_other_bits(2) by (auto simp: mqtt_client_dowork_def)
  qed
  moreover have "effects ?v = effects s @ [Sent (frame DISCONNECT_TYPE 0 []), Told MQTT_CLIENT_ON_DISCONNECT NO_INFO, Closed]"
    "xioHandle ?v = None" "no_strings (mqttOptions ?v)" "\<not> status_set MQTT_STATUS_SOCKET_CONNECTED ?v"
    using t closed_down_fields(5) [of ?u] unfolding status_other_bits(3)
    by (simp_all add: clear_status_def closed_down_def emit_def set_status_def Let_def)
  moreover have "\<not> status_set MQTT_STATUS_PENDING_CLOSE ?v" by (rule status_other_bits(4))
  ultimately show ?thesis by auto
qed

theorem disconnect_sequence_witness:
  "\<exists>s'. run_events (net_env plain_app) [Disconnect None 0, Send_Complete IO_SEND_OK, Do_Work] live_station = Some s' \<and>
    effects s' = [Sent [0xE0, 0], Told MQTT_CLIENT_ON_DISCONNECT NO_INFO, Closed] \<and> xioHandle s' = None"
  unfolding plain_app_def
  using disconnect_sequence [where s = live_station and cb_ctx = 0] live_station_alive
  by (auto simp: alive_def frame_def packet_byte_def live_station_def new_station_def fresh_client_def
      clear_codec_data_def net.defs)

end
