(* ===== verification/Sample_App.thy ===== *)
theory Sample_App
  imports Client_Protocol
begin

text \<open>
  The sample application of \<open>samples/mqtt_client_sample/mqtt_client_sample.c\<close>: its callbacks and its
  main function, over the model of the client.  Its static variables are fields of the state.  What it
  prints is left out, but what it reads to print has to be there.  The platform and the socket (from
  azure-c-shared-utility) are parameters.
\<close>

section \<open>Callbacks\<close>

record ('b, 'w) sample = "('b, 'w) net" +
  PACKET_ID_VALUE :: u16
  g_continue :: bool
  g_close_complete :: bool

definition TOPIC_NAME_A :: c_str where "TOPIC_NAME_A = [0x6D, 0x73, 0x67, 0x41]"
definition TOPIC_NAME_B :: c_str where "TOPIC_NAME_B = [0x6D, 0x73, 0x67, 0x42]"
definition APP_NAME_A :: c_str where
  "APP_NAME_A = map of_char ''This is the app msg A.''"

definition QosToString :: "QOS_VALUE \<Rightarrow> string" where
  "QosToString qos = MU_QOS_VALUE_ToString qos"

definition OnRecvCallback ::
  "MQTT_MESSAGE option \<Rightarrow> ('b, 'w, 'z) sample_scheme
    \<Rightarrow> (MQTT_CLIENT_ACK_OPTION \<times> ('b, 'w, 'z) sample_scheme) option" where
  "OnRecvCallback msgHandle s = do {
     appMsg \<leftarrow> mqttmessage_getApplicationMsg msgHandle;
     topic \<leftarrow> mqttmessage_getTopicName msgHandle;
     printed \<leftarrow> (if payload_length appMsg = 0 then Some [] else memcpy_new (message appMsg) (payload_length appMsg));
     Some (MQTT_CLIENT_ACK_SYNC, s)
   }"

definition OnCloseComplete :: "('b, 'w, 'z) sample_scheme \<Rightarrow> ('b, 'w, 'z) sample_scheme" where
  "OnCloseComplete s = s\<lparr>g_close_complete := False\<rparr>"

text \<open>The value of \<open>PACKET_ID_VALUE++\<close> and the state behind it.\<close>

definition next_packet_id :: "('b, 'w, 'z) sample_scheme \<Rightarrow> u16 \<times> ('b, 'w, 'z) sample_scheme" where
  "next_packet_id s = (PACKET_ID_VALUE s, s\<lparr>PACKET_ID_VALUE := PACKET_ID_VALUE s + 1\<rparr>)"

definition stop_on_failure ::
  "(c_result \<times> ('b, 'w, 'z) sample_scheme option) option \<Rightarrow> ('b, 'w, 'z) sample_scheme option" where
  "stop_on_failure res = do {
     (r, handle) \<leftarrow> res;
     s \<leftarrow> handle;
     Some (if r \<noteq> ZERO then s\<lparr>g_continue := False\<rparr> else s)
   }"

definition OnOperationComplete ::
  "('b, 'w, ('b, 'w, 'z) sample_scheme) client_env \<Rightarrow> MQTT_CLIENT_EVENT_RESULT
    \<Rightarrow> ('b, 'w, 'z) sample_scheme \<Rightarrow> ('b, 'w, 'z) sample_scheme option" where
  "OnOperationComplete env actionResult s =
    (case actionResult of
       MQTT_CLIENT_ON_CONNACK \<Rightarrow>
        (let (packetId, s) = next_packet_id s in
         stop_on_failure (mqtt_client_subscribe env (Some s) packetId
           (Some [\<lparr>subscribeTopic = Some TOPIC_NAME_A, qosReturn = DELIVER_AT_MOST_ONCE\<rparr>,
                  \<lparr>subscribeTopic = Some TOPIC_NAME_B, qosReturn = DELIVER_EXACTLY_ONCE\<rparr>]) 2))
     | MQTT_CLIENT_ON_SUBSCRIBE_ACK \<Rightarrow>
        (let (packetId, s) = next_packet_id s in do {
           (msg, w) \<leftarrow> mqttmessage_create (heap env) packetId (Some TOPIC_NAME_A) DELIVER_EXACTLY_ONCE
                        (Some APP_NAME_A) (length APP_NAME_A) (world s);
           let s = s\<lparr>world := w\<rparr>;
           if msg = None then Some (s\<lparr>g_continue := False\<rparr>)
           else do {
             s \<leftarrow> stop_on_failure (mqtt_client_publish env (Some s) msg);
             Some (s\<lparr>world := mqttmessage_destroy (heap env) msg (world s)\<rparr>)
           }
         })
     | MQTT_CLIENT_ON_PUBLISH_ACK \<Rightarrow> Some s
     | MQTT_CLIENT_ON_PUBLISH_RECV \<Rightarrow> Some s
     | MQTT_CLIENT_ON_PUBLISH_REL \<Rightarrow> Some s
     | MQTT_CLIENT_ON_PUBLISH_COMP \<Rightarrow> called (mqtt_client_disconnect env (Some s) None 0)
     | MQTT_CLIENT_ON_DISCONNECT \<Rightarrow> Some (s\<lparr>g_continue := False\<rparr>)
     | MQTT_CLIENT_ON_UNSUBSCRIBE_ACK \<Rightarrow> Some s
     | MQTT_CLIENT_ON_PING_RESPONSE \<Rightarrow> Some s)"

definition OnErrorComplete ::
  "MQTT_CLIENT_EVENT_ERROR \<Rightarrow> ('b, 'w, 'z) sample_scheme \<Rightarrow> ('b, 'w, 'z) sample_scheme" where
  "OnErrorComplete error s = s\<lparr>g_continue := False\<rparr>"

text \<open>
  The callbacks as the application of an environment.  They call the library with \<open>env\<close>; the sample
  passes no disconnect callback.
\<close>

definition sample_application ::
  "('b, 'w, ('b, 'w, 'z) sample_scheme) client_env \<Rightarrow> ('b, 'w, 'z) sample_scheme application" where
  "sample_application env = \<lparr>
     on_operation = (\<lambda>f c action info s. OnOperationComplete env action s),
     on_message = (\<lambda>f c m s. OnRecvCallback m s),
     on_error = (\<lambda>f c e s. Some (OnErrorComplete e s)),
     on_closed = (\<lambda>f c s. Some s)\<rparr>"

section \<open>The main function\<close>

record ('w, 's) platform =
  platform_init :: "'w \<Rightarrow> c_result \<times> 'w"
  platform_deinit :: "'w \<Rightarrow> 'w"
  xio_create :: "'s \<Rightarrow> xio_handle option \<times> 's"
  xio_close_sample :: "xio_handle \<Rightarrow> 's \<Rightarrow> 's option"
  xio_destroy :: "xio_handle \<Rightarrow> 's \<Rightarrow> 's option"

definition sample_options :: MQTT_CLIENT_OPTIONS where
  "sample_options = no_options\<lparr>clientId := Some (map of_char ''azureiotclient''),
     opt_keepAliveInterval := 10, useCleanSession := True, qualityOfServiceValue := DELIVER_AT_MOST_ONCE\<rparr>"

text \<open>
  The two \<open>do ... while\<close> loops, which run as long as the callbacks do not end them: \<open>None\<close> also stands
  for a loop that does not end.
\<close>

partial_function (option) work_loop ::
  "('b, 'w, ('b, 'w, 'z) sample_scheme) client_env \<Rightarrow> ('b, 'w, 'z) sample_scheme
    \<Rightarrow> ('b, 'w, 'z) sample_scheme option" where
  "work_loop env s =
    Option.bind (Option.bind (mqtt_client_dowork env (Some s)) id) (\<lambda>s.
      if g_continue s then work_loop env s else Some s)"

partial_function (option) close_loop ::
  "('b, 'w, ('b, 'w, 'z) sample_scheme) client_env \<Rightarrow> ('b, 'w, 'z) sample_scheme
    \<Rightarrow> ('b, 'w, 'z) sample_scheme option" where
  "close_loop env s =
    Option.bind (Option.bind (mqtt_client_dowork env (Some s)) id) (\<lambda>s.
      if g_close_complete s then close_loop env s else Some s)"

text \<open>\<open>xio_close_sample\<close> is \<open>xio_close\<close> with \<open>OnCloseComplete\<close> as its callback.\<close>

definition mqtt_client_sample_run ::
  "('w, ('b, 'w, 'z) sample_scheme) platform \<Rightarrow> ('b, 'w, ('b, 'w, 'z) sample_scheme) client_env
    \<Rightarrow> 'z sample_ext net_ext \<Rightarrow> 'w \<Rightarrow> 'w option" where
  "mqtt_client_sample_run p env statics w =
    (case platform_init p w of
       (MU_FAILURE, w) \<Rightarrow> Some w
     | (ZERO, w) \<Rightarrow>
      (case mqtt_client_init env (Some 1) (Some 2) 0 (Some 3) 0 statics w of
         (None, w) \<Rightarrow> Some (platform_deinit p w)
       | (Some s, w) \<Rightarrow> do {
           s \<leftarrow> mqtt_client_set_trace (Some s) False False;
           let (xio, s) = xio_create p s;
           s \<leftarrow> (case xio of
                   None \<Rightarrow> Some s
                 | Some x \<Rightarrow> do {
                     (r, handle) \<leftarrow> mqtt_client_connect env (Some s) (Some x) (Some sample_options);
                     s \<leftarrow> handle;
                     s \<leftarrow> (if r \<noteq> ZERO then Some s else work_loop env s);
                     s \<leftarrow> xio_close_sample p x s;
                     s \<leftarrow> close_loop env s;
                     xio_destroy p x s
                   });
           Some (platform_deinit p (mqtt_client_deinit env (Some s) (world s)))
         }))"

section \<open>The sample against a server\<close>

text \<open>The library the callbacks call, and the environment with the sample as its application.\<close>

definition no_app :: "(byte list, int, 'z) net_scheme application" where
  "no_app = \<lparr>on_operation = (\<lambda>f c action info s. Some s), on_message = (\<lambda>f c m s. Some (MQTT_CLIENT_ACK_NONE, s)),
     on_error = (\<lambda>f c e s. Some s), on_closed = (\<lambda>f c s. Some s)\<rparr>"

definition sample_app :: "(byte list, int, 'z) sample_scheme application" where
  "sample_app = sample_application (net_closing no_app)"

interpretation bare: sound_application no_app
  by unfold_locales (auto simp: no_app_def)

lemma subscribe_sent:
  assumes up: "\<not> link_down s" and id: "packetId \<noteq> 0" and items: "items \<noteq> []"
    and topics: "\<And>i. i \<in> set items \<Longrightarrow> length (fst i) \<le> USHRT_MAX"
    and len: "length (subscribe_body packetId items) < 268435456"
  shows "mqtt_client_subscribe (net_with app pump) (Some s) packetId (Some (sub_items items)) (length items)
    = Some (ZERO, Some ((sent (frame SUBSCRIBE_TYPE 2 (subscribe_body packetId items)) s)
        \<lparr>packetState := SUBSCRIBE_TYPE\<rparr>))"
proof -
  have enc: "mqtt_codec_subscribe list_buffer packetId (Some (sub_items items)) (length items) (world s)
      = Some (Some (frame SUBSCRIBE_TYPE 2 (subscribe_body packetId items)), world s + 1)"
    by (rule encodes_exactly [OF subscribe_encoding [OF list_buffer_laws items topics len]])
  have "frame SUBSCRIBE_TYPE 2 (subscribe_body packetId items) \<noteq> []" by (simp add: frame_def)
  then show ?thesis
    using up id items by (simp add: mqtt_client_subscribe_def on_client_def enc send_and_delete_sent)
      (simp add: sent_def emit_def)
qed

definition sample_topics :: "(c_str \<times> QOS_VALUE) list" where
  "sample_topics = [(TOPIC_NAME_A, DELIVER_AT_MOST_ONCE), (TOPIC_NAME_B, DELIVER_EXACTLY_ONCE)]"

definition sample_subscribe :: "u16 \<Rightarrow> byte list" where
  "sample_subscribe packetId = frame SUBSCRIBE_TYPE 2 (subscribe_body packetId sample_topics)"

definition sample_publish :: "u16 \<Rightarrow> byte list" where
  "sample_publish packetId = frame PUBLISH_TYPE (publish_flags DELIVER_EXACTLY_ONCE False False)
     (publish_body DELIVER_EXACTLY_ONCE packetId TOPIC_NAME_A APP_NAME_A)"

lemma on_connack:
  fixes u :: "(byte list, int, 'z) sample_scheme"
  assumes up: "\<not> link_down u" and id: "PACKET_ID_VALUE u \<noteq> 0"
  shows "OnOperationComplete (net_closing no_app) MQTT_CLIENT_ON_CONNACK u
    = Some ((sent (sample_subscribe (PACKET_ID_VALUE u)) (u\<lparr>PACKET_ID_VALUE := PACKET_ID_VALUE u + 1\<rparr>))
        \<lparr>packetState := SUBSCRIBE_TYPE\<rparr>)"
proof -
  have topics: "length (fst i) \<le> USHRT_MAX" if "i \<in> set sample_topics" for i
    using that by (auto simp: sample_topics_def TOPIC_NAME_A_def TOPIC_NAME_B_def USHRT_MAX_def)
  have len: "length (subscribe_body (PACKET_ID_VALUE u) sample_topics) < 268435456" "sample_topics \<noteq> []"
    by (simp_all add: sample_topics_def TOPIC_NAME_A_def TOPIC_NAME_B_def subscribe_body_def subscribe_item_def)
  have sub: "mqtt_client_subscribe (net_closing no_app) (Some (u\<lparr>PACKET_ID_VALUE := PACKET_ID_VALUE u + 1\<rparr>))
      (PACKET_ID_VALUE u) (Some (sub_items sample_topics)) (length sample_topics)
    = Some (ZERO, Some ((sent (sample_subscribe (PACKET_ID_VALUE u)) (u\<lparr>PACKET_ID_VALUE := PACKET_ID_VALUE u + 1\<rparr>))
        \<lparr>packetState := SUBSCRIBE_TYPE\<rparr>))"
    unfolding net_closing_def sample_subscribe_def
    using up id len by (intro subscribe_sent topics) simp_all
  then show ?thesis
    by (simp add: OnOperationComplete_def next_packet_id_def stop_on_failure_def)
      (simp add: sample_topics_def numeral_2_eq_2)
qed

text \<open>The message the sample publishes.\<close>

definition sample_message :: "u16 \<Rightarrow> MQTT_MESSAGE" where
  "sample_message packetId = \<lparr>msg_packetId = packetId, qosInfo = DELIVER_EXACTLY_ONCE,
     msg_topicName = Some TOPIC_NAME_A,
     appPayload = \<lparr>message = Some APP_NAME_A, payload_length = length APP_NAME_A\<rparr>,
     const_topic_name = None, const_payload = no_payload, isDuplicateMsg = False, isMessageRetained = False\<rparr>"

lemma sample_message_created:
  "mqttmessage_create count_heap packetId (Some TOPIC_NAME_A) DELIVER_EXACTLY_ONCE
      (Some APP_NAME_A) (length APP_NAME_A) w = Some (Some (sample_message packetId), w + 3)"
  by (simp add: mqttmessage_create_def create_msg_object_def no_payload_def sample_message_def APP_NAME_A_def)

lemma sample_message_view:
  "msg_view (sample_message packetId)
    = (packetId, DELIVER_EXACTLY_ONCE, Some TOPIC_NAME_A, Some APP_NAME_A, False, False)"
  by (simp add: msg_view_def message_getters payload_view_def sample_message_def APP_NAME_A_def)

lemma on_suback:
  fixes u :: "(byte list, int, 'z) sample_scheme"
  assumes up: "\<not> link_down u"
  shows "OnOperationComplete (net_closing no_app) MQTT_CLIENT_ON_SUBSCRIBE_ACK u
    = Some ((sent (sample_publish (PACKET_ID_VALUE u)) (u\<lparr>PACKET_ID_VALUE := PACKET_ID_VALUE u + 1\<rparr>))
        \<lparr>packetState := PUBLISH_TYPE\<rparr>)"
proof -
  let ?u = "u\<lparr>PACKET_ID_VALUE := PACKET_ID_VALUE u + 1, world := world u + 3\<rparr>"
  let ?m = "sample_message (PACKET_ID_VALUE u)"
  have app: "length APP_NAME_A = 22" by (simp add: APP_NAME_A_def)
  have pub: "mqtt_client_publish (net_closing no_app) (Some ?u) (Some ?m)
      = Some (ZERO, Some ((sent (sample_publish (PACKET_ID_VALUE u)) ?u)\<lparr>packetState := PUBLISH_TYPE\<rparr>))"
    unfolding net_closing_def sample_publish_def
    using up app by (intro publish_sent [OF _ sample_message_view]) (simp_all add: TOPIC_NAME_A_def USHRT_MAX_def publish_body_def)
  show ?thesis
    using pub by (simp add: OnOperationComplete_def next_packet_id_def stop_on_failure_def sample_message_created
        net_closing_def) (simp add: sent_def emit_def mqttmessage_destroy_def sample_message_def)
qed

section \<open>The sample meets the contract of an application\<close>

lemma sample_fields_keep:
  assumes "client_ok s"
  shows "keeps live 0 s (s\<lparr>PACKET_ID_VALUE := n\<rparr>)" "keeps live 0 s (s\<lparr>g_continue := b\<rparr>)"
    "keeps live 0 s (s\<lparr>g_close_complete := b\<rparr>)"
  using assms by (simp_all add: keeps_def same_codec_def client_ok_def status_set_def balance_def)

lemma stop_on_failure_keeps: "api_keeps live s res \<Longrightarrow> keeping live 0 s (stop_on_failure res)"
  using keeps_trans [of live 0 s] sample_fields_keep(2) keeps_handlers
  by (fastforce simp: api_keeps_def stop_on_failure_def)

lemma sample_operation_keeps:
  fixes s :: "(byte list, int, 'z) sample_scheme"
  assumes ok: "client_ok s"
  shows "keeping id 0 s (OnOperationComplete (net_closing no_app) action s)"
proof -
  let ?s = "s\<lparr>PACKET_ID_VALUE := PACKET_ID_VALUE s + 1\<rparr>"
  have k: "keeps id 0 s ?s" by (rule sample_fields_keep(1) [OF ok])
  note okk = keeps_handlers [OF k]
  show ?thesis
  proof (cases action)
    case MQTT_CLIENT_ON_CONNACK
    have "api_keeps id ?s (mqtt_client_subscribe (net_closing no_app) (Some ?s) (PACKET_ID_VALUE s)
        (Some (sub_items sample_topics)) (length sample_topics))"
      by (rule bare.closing_net.subscribe_keeps [OF okk])
        (auto simp: sample_topics_def TOPIC_NAME_A_def TOPIC_NAME_B_def USHRT_MAX_def subscribe_body_def subscribe_item_def)
    from keeping_step [OF k stop_on_failure_keeps [OF this], of 0]
    show ?thesis
      using MQTT_CLIENT_ON_CONNACK
      by (simp add: OnOperationComplete_def next_packet_id_def sample_topics_def numeral_2_eq_2)
  next
    case MQTT_CLIENT_ON_SUBSCRIBE_ACK
    let ?m = "sample_message (PACKET_ID_VALUE s)" and ?t = "?s\<lparr>world := world s + 3\<rparr>"
    have kt: "keeps id 3 s ?t" using keeps_trans [OF k keeps_world [OF okk, of id "world s + 3" 3]] by simp
    have "sendable ?m"
      by (simp add: sendable_def message_getters sample_message_def payload_bytes_def publish_body_def
          APP_NAME_A_def TOPIC_NAME_A_def opt_str_def)
    then have "api_keeps id ?t (mqtt_client_publish (net_closing no_app) (Some ?t) (Some ?m))"
      by (intro bare.closing_net.publish_keeps [OF keeps_handlers [OF kt]]) simp
    then obtain u where u: "stop_on_failure (mqtt_client_publish (net_closing no_app) (Some ?t) (Some ?m)) = Some u"
        "keeps id 0 ?t u"
      using stop_on_failure_keeps by (force simp: keeping_def)
    have ku: "keeps id 3 s u" using keeps_trans [OF kt u(2), of 3] by simp
    have "keeps id (-3) u (u\<lparr>world := mqttmessage_destroy count_heap (Some ?m) (world u)\<rparr>)"
      by (rule keeps_world [OF keeps_handlers [OF ku]]) (simp add: mqttmessage_destroy_def sample_message_def)
    from keeps_trans [OF ku this, of 0] show ?thesis
      using MQTT_CLIENT_ON_SUBSCRIBE_ACK u(1)
      by (simp add: OnOperationComplete_def next_packet_id_def sample_message_created net_closing_def)
  next
    case MQTT_CLIENT_ON_PUBLISH_COMP
    then show ?thesis
      using bare.closing_net.disconnect_keeps [OF ok, of None 0]
      by (auto simp: OnOperationComplete_def api_keeps_def called_def)
  qed (use ok in \<open>auto simp: OnOperationComplete_def sample_fields_keep\<close>)
qed

interpretation sample: sound_application sample_app
proof
  fix s :: "(byte list, int, 'a) sample_scheme" and m f c e action info
  assume ok: "client_ok s"
  show "keeping id 0 s (on_operation sample_app f c action info s)"
    using sample_operation_keeps [OF ok] by (simp add: sample_app_def sample_application_def)
  show "giving id 0 s (on_message sample_app f c (Some m) s)" if "readable m"
    using that ok by (auto simp: sample_app_def sample_application_def OnRecvCallback_def readable_def
        payload_view_def bind_eq_Some_conv intro: keeps_refl split: if_splits)
  show "keeping id 0 s (on_error sample_app f c e s)"
    using ok by (simp add: sample_app_def sample_application_def OnErrorComplete_def sample_fields_keep)
  show "\<exists>t. on_closed sample_app f c s = Some t \<and> keeps id 0 s t \<and> (shut s \<longrightarrow> shut t)"
    using ok by (auto simp: sample_app_def sample_application_def)
qed

section \<open>The conversation\<close>

text \<open>What the steps of the conversation read and change.\<close>

type_synonym view = "effect list \<times> u16 \<times> bool \<times> CONTROL_PACKET_TYPE \<times> bool"

definition sample_view :: "(byte list, int, 'z) sample_scheme \<Rightarrow> view" where
  "sample_view s = (effects s, PACKET_ID_VALUE s, g_continue s, packetState s,
     status_set MQTT_STATUS_CLIENT_CONNECTED s)"

definition shows_step :: "view \<Rightarrow> (byte list, int, 'z) sample_scheme \<Rightarrow> (byte list, int, 'z) sample_scheme \<Rightarrow> bool" where
  "shows_step v s t \<longleftrightarrow> sample_view t = v \<and> serving t \<and> same_codec s t"

lemma more_view:
  fixes u v :: "(byte list, int, 'z) sample_scheme"
  assumes "codec.more u = codec.more v"
  shows "sample_view u = sample_view v" "serving u = serving v" "mqttOptions u = mqttOptions v"
  using assms by (cases u; cases v; simp add: sample_view_def serving_def status_set_def)+

lemma sample_packet:
  fixes s :: "(byte list, int, 'z) sample_scheme"
  assumes ready: "attending s" and ok: "packet_ok (t, flags, body)" and ping: "t \<noteq> PINGRESP_TYPE"
    and step: "\<And>u. serving u \<Longrightarrow> sample_view u = sample_view s \<Longrightarrow> mqttOptions u = mqttOptions s \<Longrightarrow>
      \<exists>u'. recvCompleteCallback (net_env app) t (ucast flags) (Some body) u = Some u' \<and> shows_step v u u' \<and>
        world u' = world u + d"
  shows "\<exists>s'. run_event (net_env app) (Bytes_Received (frame t flags body)) s = Some s' \<and>
    attending s' \<and> sample_view s' = v"
proof -
  let ?cb = "recvCompleteCallback (net_env app)"
  define P where "P = (\<lambda>m. \<exists>u :: (byte list, int, 'z) sample_scheme.
    codec.more u = m \<and> sample_view u = v \<and> serving u)"
  have "\<exists>s'. idle s' \<and> P (codec.more s') \<and> world s' = world s + d \<and>
    (\<forall>rest k. receive_loop list_buffer (Some ?cb) (frame t flags body @ rest) (length (frame t flags body) + k) s
      = receive_loop list_buffer (Some ?cb) rest k s')"
  proof (rule packet_moves [OF _ ok])
    show "idle s" using ready by (simp add: attending_def)
    fix u :: "(byte list, int, 'z) sample_scheme"
    assume "codec.more u = codec.more s"
    then have "serving u" "sample_view u = sample_view s" "mqttOptions u = mqttOptions s"
      using more_view [of u s] ready by (auto simp: attending_def)
    then show "\<exists>u'. ?cb t (ucast flags) (if t = PINGRESP_TYPE then None else Some body) u = Some u' \<and>
        same_codec u u' \<and> world u' = world u + d \<and> P (codec.more u')"
      using step [of u] ping by (fastforce simp: shows_step_def P_def)
  qed
  then obtain s' where s': "idle s'" "P (codec.more s')"
    and run: "\<And>rest k. receive_loop list_buffer (Some ?cb) (frame t flags body @ rest) (length (frame t flags body) + k) s
      = receive_loop list_buffer (Some ?cb) rest k s'" by blast
  have "serving s'" "sample_view s' = v" using s'(2) more_view unfolding P_def by metis+
  moreover have "buffers (net_env app) = list_buffer" "frame t flags body \<noteq> []"
    by (simp_all add: net_env_def frame_def)
  ultimately show ?thesis
    using s'(1) run [of "[]" 0] by (simp add: onBytesReceived_def mqtt_codec_bytesReceived_def attending_def)
qed

lemmas sample_step_defs = shows_step_def sample_view_def serving_def same_codec_def sent_def emit_def
  status_set_def

lemma sample_operation [simp]:
  "on_operation sample_app f c action info s = OnOperationComplete (net_closing no_app) action s"
  by (simp add: sample_app_def sample_application_def)

lemma sample_callback:
  "serving s \<Longrightarrow> operation_callback (net_with sample_app pump) action info s
    = OnOperationComplete (net_closing no_app) action s"
  by (auto simp: serving_def operation_callback_def)

lemma connack_answered:
  fixes u :: "(byte list, int, 'z) sample_scheme"
  assumes ok: "serving u" and view: "sample_view u = (es, pid, g, ps, c)" and id: "pid \<noteq> 0"
  shows "\<exists>u'. recvCompleteCallback (net_env sample_app) CONNACK_TYPE (ucast (0 :: byte)) (Some [0, 0]) u = Some u' \<and>
    shows_step (es @ [Sent (sample_subscribe pid)], pid + 1, g, SUBSCRIBE_TYPE, True) u u' \<and> world u' = world u"
proof -
  have u: "\<not> link_down u" "PACKET_ID_VALUE u = pid" "effects u = es" "g_continue u = g"
    using ok view by (simp_all add: serving_def sample_view_def)
  let ?t = "(sent (sample_subscribe pid) (u\<lparr>PACKET_ID_VALUE := pid + 1\<rparr>))\<lparr>packetState := SUBSCRIBE_TYPE\<rparr>"
  have "recv_connack (net_env sample_app) [0, 0] 2 u = Some (set_status MQTT_STATUS_CLIENT_CONNECTED ?t)"
    unfolding net_env_def using on_connack [of u] u id
    by (simp add: recv_connack_def byteutil_readByte_def get_byte_def advance_def sample_callback [OF ok] Let_def
        return_code_of.simps return_code.simps)
  moreover have "shows_step (es @ [Sent (sample_subscribe pid)], pid + 1, g, SUBSCRIBE_TYPE, True) u
      (set_status MQTT_STATUS_CLIENT_CONNECTED ?t)"
    using ok u accepted_set [of ?t] by (simp add: sample_step_defs set_status_def)
  moreover have "world (set_status MQTT_STATUS_CLIENT_CONNECTED ?t) = world u"
    by (simp add: set_status_def sent_def emit_def)
  ultimately show ?thesis by (simp add: recvCompleteCallback_def net_env_def numeral_2_eq_2)
qed

lemma suback_answered:
  fixes u :: "(byte list, int, 'z) sample_scheme"
  assumes ok: "serving u" and view: "sample_view u = (es, pid, g, ps, c)"
  shows "\<exists>u'. recvCompleteCallback (net_env sample_app) SUBACK_TYPE (ucast (0 :: byte))
      (Some (be16 packetId @ map qos_byte [DELIVER_AT_MOST_ONCE, DELIVER_EXACTLY_ONCE])) u = Some u' \<and>
    shows_step (es @ [Sent (sample_publish pid)], pid + 1, g, PUBLISH_TYPE, c) u u' \<and> world u' = world u"
proof -
  let ?codes = "[DELIVER_AT_MOST_ONCE, DELIVER_EXACTLY_ONCE]"
  let ?w = "u\<lparr>world := world u + 1\<rparr>"
  have u: "\<not> link_down ?w" "PACKET_ID_VALUE ?w = pid" "effects u = es" "g_continue u = g" "serving ?w"
    "status_set MQTT_STATUS_CLIENT_CONNECTED u = c"
    using ok view by (simp_all add: serving_def sample_view_def)
  let ?t = "(sent (sample_publish pid) (u\<lparr>PACKET_ID_VALUE := pid + 1\<rparr>))\<lparr>packetState := PUBLISH_TYPE\<rparr>"
  have codes: "read_suback (be16 packetId @ map qos_byte ?codes, 2) 2 2 [] = Some (True, ?codes)"
    using read_suback_codes [of ?codes "[]" 2 "be16 packetId"] by (simp add: numeral_2_eq_2)
  have rd: "byteutil_read_uint16 (be16 packetId @ rest, 0) 4 = Some (packetId, (be16 packetId @ rest, 2))" for rest
    using read_be16 [of 4 "[]"] by simp
  have op: "operation_callback (net_env sample_app) MQTT_CLIENT_ON_SUBSCRIBE_ACK info ?w
      = Some ((sent (sample_publish pid) (?w\<lparr>PACKET_ID_VALUE := pid + 1\<rparr>))\<lparr>packetState := PUBLISH_TYPE\<rparr>)" for info
    unfolding net_env_def sample_callback [OF u(5)] using on_suback [OF u(1)] u(2) by simp
  have "recv_suback (net_env sample_app) (be16 packetId @ map qos_byte ?codes) 4 u = Some ?t"
    using codes op by (simp add: recv_suback_def rd sizeof_QOS_VALUE_def SIZE_MAX_def net_env_def Let_def)
      (simp add: sent_def emit_def)
  moreover have "shows_step (es @ [Sent (sample_publish pid)], pid + 1, g, PUBLISH_TYPE, c) u ?t"
    using ok u by (simp add: sample_step_defs)
  moreover have "world ?t = world u" by (simp add: sent_def emit_def)
  ultimately show ?thesis by (simp add: recvCompleteCallback_def net_env_def be16_nonempty)
qed

lemma pubrec_answered:
  fixes u :: "(byte list, int, 'z) sample_scheme"
  assumes ok: "serving u" and view: "sample_view u = (es, pid, g, ps, c)"
  shows "\<exists>u'. recvCompleteCallback (net_env sample_app) PUBREC_TYPE (ucast (0 :: byte)) (Some (be16 packetId)) u = Some u' \<and>
    shows_step (es @ [Sent (reply_bytes PUBREL_TYPE packetId)], pid, g, ps, c) u u' \<and> world u' = world u"
proof -
  have up: "\<not> link_down u" using ok by (simp add: serving_def)
  have "recv_publish_ack (net_env sample_app) PUBREC_TYPE (be16 packetId) 2 u = Some (sent (reply_bytes PUBREL_TYPE packetId) u)"
    unfolding net_env_def using replies_sent(3) [OF up]
    by (simp add: recv_publish_ack_def publish_action_def sample_callback [OF ok] OnOperationComplete_def)
  moreover have "shows_step (es @ [Sent (reply_bytes PUBREL_TYPE packetId)], pid, g, ps, c) u
      (sent (reply_bytes PUBREL_TYPE packetId) u)"
    using ok view by (simp add: sample_step_defs)
  moreover have "world (sent (reply_bytes PUBREL_TYPE packetId) u) = world u" by (simp add: sent_def emit_def)
  ultimately show ?thesis by (simp add: recvCompleteCallback_def net_env_def be16_nonempty)
qed

lemma pubcomp_answered:
  fixes u :: "(byte list, int, 'z) sample_scheme"
  assumes ok: "serving u" and view: "sample_view u = (es, pid, g, ps, True)"
  shows "\<exists>u'. recvCompleteCallback (net_env sample_app) PUBCOMP_TYPE (ucast (0 :: byte)) (Some (be16 packetId)) u = Some u' \<and>
    shows_step (es @ [Sent (frame DISCONNECT_TYPE 0 [])], pid, g, DISCONNECT_TYPE, True) u u' \<and>
    world u' = world u + - opt_blocks (mqttOptions u)"
proof -
  have u: "\<not> link_down u" "status_set MQTT_STATUS_CLIENT_CONNECTED u" "effects u = es" "PACKET_ID_VALUE u = pid"
      "g_continue u = g"
    using ok view by (simp_all add: serving_def sample_view_def)
  let ?v = "sent (frame DISCONNECT_TYPE 0 []) (u\<lparr>disconnect_cb := None, disconnect_ctx := 0, packetState := DISCONNECT_TYPE\<rparr>)"
  define t where "t = clear_mqtt_options (net_closing no_app) ?v"
  have t: "t = ?v\<lparr>world := world t, mqttOptions := mqttOptions t\<rparr>"
    unfolding t_def by (rule clear_mqtt_options_fields(2))
  have w: "world t = world u - opt_blocks (mqttOptions u)"
    using bare.closing_net.opt_blocks_clear [of ?v] by (simp add: t_def) (simp add: sent_def emit_def)
  have op: "OnOperationComplete (net_closing no_app) MQTT_CLIENT_ON_PUBLISH_COMP u = Some t"
    unfolding t_def net_closing_def using disconnect_exact [OF u(2,1)] by (simp add: OnOperationComplete_def called_def)
  have "recv_publish_ack (net_env sample_app) PUBCOMP_TYPE (be16 packetId) 2 u = Some t"
    unfolding net_env_def
    by (simp add: recv_publish_ack_def publish_action_def sample_callback [OF ok] op send_reply_def)
  moreover have "shows_step (es @ [Sent (frame DISCONNECT_TYPE 0 [])], pid, g, DISCONNECT_TYPE, True) u t"
    using ok u by (subst t) (simp add: sample_step_defs)
  ultimately show ?thesis using w by (simp add: recvCompleteCallback_def net_env_def be16_nonempty)
qed

text \<open>The packets of a server that accepts everything, for a sample whose next packet id is \<open>pid\<close>.\<close>

definition server_conversation :: "u16 \<Rightarrow> client_event list" where
  "server_conversation pid =
    [Bytes_Received (frame CONNACK_TYPE 0 [0, 0]),
     Bytes_Received (frame SUBACK_TYPE 0 (be16 pid @ map qos_byte [DELIVER_AT_MOST_ONCE, DELIVER_EXACTLY_ONCE])),
     Bytes_Received (frame PUBREC_TYPE 0 (be16 (pid + 1))),
     Bytes_Received (frame PUBCOMP_TYPE 0 (be16 (pid + 1))),
     Send_Complete IO_SEND_OK]"

lemma disconnect_completed:
  fixes s :: "(byte list, int, 'z) sample_scheme"
  assumes "serving s" and "packetState s = DISCONNECT_TYPE"
  shows "run_event (net_env sample_app) (Send_Complete IO_SEND_OK) s
    = Some (set_status MQTT_STATUS_PENDING_CLOSE (s\<lparr>g_continue := False\<rparr>))"
  using assms
  by (auto simp: sendComplete_def serving_def operation_callback_def net_env_def OnOperationComplete_def)

text \<open>
  C20. The sample holds its conversation and ends: against a server that accepts the connection, the
  subscription and the message, it sends one SUBSCRIBE, one PUBLISH of its message, the PUBREL of the
  handshake of quality of service 2 and a DISCONNECT, with consecutive packet ids, and when the last is sent its main
  loop stops.
\<close>

theorem sample_conversation:
  fixes s :: "(byte list, int, 'z) sample_scheme"
  assumes "attending s" and "PACKET_ID_VALUE s = pid" and "pid \<noteq> 0"
  shows "\<exists>s'. run_events (net_env sample_app) (server_conversation pid) s = Some s' \<and> \<not> g_continue s' \<and>
    effects s' = effects s @ [Sent (sample_subscribe pid), Sent (sample_publish (pid + 1)),
      Sent (reply_bytes PUBREL_TYPE (pid + 1)), Sent (frame DISCONNECT_TYPE 0 [])] \<and>
    PACKET_ID_VALUE s' = pid + 2 \<and> status_set MQTT_STATUS_PENDING_CLOSE s'"
proof -
  let ?E = "net_env sample_app"
  let ?codes = "map qos_byte [DELIVER_AT_MOST_ONCE, DELIVER_EXACTLY_ONCE]"
  obtain es g ps c where v: "sample_view s = (es, pid, g, ps, c)" using assms(2) by (simp add: sample_view_def)
  let ?v1 = "(es @ [Sent (sample_subscribe pid)], pid + 1, g, SUBSCRIBE_TYPE, True)"
  let ?v2 = "((es @ [Sent (sample_subscribe pid)]) @ [Sent (sample_publish (pid + 1))], pid + 1 + 1, g, PUBLISH_TYPE, True)"
  let ?v3 = "(((es @ [Sent (sample_subscribe pid)]) @ [Sent (sample_publish (pid + 1))]) @
      [Sent (reply_bytes PUBREL_TYPE (pid + 1))], pid + 1 + 1, g, PUBLISH_TYPE, True)"
  let ?v4 = "((((es @ [Sent (sample_subscribe pid)]) @ [Sent (sample_publish (pid + 1))]) @
      [Sent (reply_bytes PUBREL_TYPE (pid + 1))]) @ [Sent (frame DISCONNECT_TYPE 0 [])], pid + 1 + 1, g, DISCONNECT_TYPE, True)"
  have "\<exists>t. run_event ?E (Bytes_Received (frame CONNACK_TYPE 0 [0, 0])) s = Some t \<and> attending t \<and> sample_view t = ?v1"
    by (rule sample_packet [OF assms(1), where d = 0]) (use connack_answered assms(3) v in \<open>auto simp: packet_forms\<close>)
  then obtain s1 where s1: "run_event ?E (Bytes_Received (frame CONNACK_TYPE 0 [0, 0])) s = Some s1"
      "attending s1" "sample_view s1 = ?v1" by blast
  have "\<exists>t. run_event ?E (Bytes_Received (frame SUBACK_TYPE 0 (be16 pid @ ?codes))) s1 = Some t \<and>
      attending t \<and> sample_view t = ?v2"
    by (rule sample_packet [OF s1(2), where d = 0]) 
      (use suback_answered [where es = "es @ [Sent (sample_subscribe pid)]" and pid = "pid + 1" and packetId = pid] s1(3) in \<open>auto simp: packet_forms\<close>)
  then obtain s2 where s2: "run_event ?E (Bytes_Received (frame SUBACK_TYPE 0 (be16 pid @ ?codes))) s1 = Some s2"
      "attending s2" "sample_view s2 = ?v2" by blast
  have "\<exists>t. run_event ?E (Bytes_Received (frame PUBREC_TYPE 0 (be16 (pid + 1)))) s2 = Some t \<and>
      attending t \<and> sample_view t = ?v3"
    by (rule sample_packet [OF s2(2), where d = 0]) 
      (use pubrec_answered [where es = "(es @ [Sent (sample_subscribe pid)]) @ [Sent (sample_publish (pid + 1))]"
        and pid = "pid + 1 + 1" and packetId = "pid + 1"] s2(3) in \<open>auto simp: packet_forms\<close>)
  then obtain s3 where s3: "run_event ?E (Bytes_Received (frame PUBREC_TYPE 0 (be16 (pid + 1)))) s2 = Some s3"
      "attending s3" "sample_view s3 = ?v3" by blast
  have last: "\<exists>u'. recvCompleteCallback ?E PUBCOMP_TYPE (ucast (0 :: byte)) (Some (be16 (pid + 1))) u = Some u' \<and>
      shows_step ?v4 u u' \<and> world u' = world u + - opt_blocks (mqttOptions s3)"
    if "serving u" "sample_view u = sample_view s3" "mqttOptions u = mqttOptions s3"
    for u :: "(byte list, int, 'z) sample_scheme"
    using pubcomp_answered [OF that(1) that(2) [unfolded s3(3)], of "pid + 1"] that(3) by simp
  have "\<exists>t. run_event ?E (Bytes_Received (frame PUBCOMP_TYPE 0 (be16 (pid + 1)))) s3 = Some t \<and>
      attending t \<and> sample_view t = ?v4"
    by (rule sample_packet [OF s3(2) _ _ last]) (simp_all add: packet_forms)
  then obtain s4 where s4: "run_event ?E (Bytes_Received (frame PUBCOMP_TYPE 0 (be16 (pid + 1)))) s3 = Some s4"
      "attending s4" "sample_view s4 = ?v4" by blast
  let ?t = "set_status MQTT_STATUS_PENDING_CLOSE (s4\<lparr>g_continue := False\<rparr>)"
  have "run_event ?E (Send_Complete IO_SEND_OK) s4 = Some ?t"
    using s4(2,3) by (intro disconnect_completed) (simp_all add: attending_def sample_view_def)
  then have "run_events ?E (server_conversation pid) s = Some ?t"
    using s1(1) s2(1) s3(1) s4(1) unfolding server_conversation_def by (simp del: run_event.simps)
  moreover have "status_set MQTT_STATUS_PENDING_CLOSE ?t" by (rule status_other_bits(2))
  ultimately show ?thesis
    using s4(3) v by (intro exI [of _ ?t]) (simp add: sample_view_def set_status_def)
qed

text \<open>The sample as it starts, its static variables initialised, behind \<open>mqtt_client_init\<close>.\<close>

definition sample_statics :: "unit sample_ext net_ext" where
  "sample_statics = net_ext [] 0 False False [] (sample.fields 11 True True)"

definition new_sample :: "(byte list, int) sample" where
  "new_sample = (clear_codec_data (fresh_client (Some 1) (Some 2) 0 (Some 3) 0 sample_statics 2))\<lparr>world := 3\<rparr>"

lemma new_sample_fields:
  "attending new_sample" "PACKET_ID_VALUE new_sample = 11" "effects new_sample = []"
  by (simp_all add: attending_def new_sample_def sample_statics_def serving_def fresh_client_def
      clear_codec_data_def sample.defs net.defs idle_def)

lemma new_sample_trace: "client_trace (net_env sample_app) 0 [] new_sample"
proof (rule client_trace.init)
  show "mqtt_client_init (net_env sample_app) (Some 1) (Some 2) 0 (Some 3) 0 sample_statics 0 = (Some new_sample, 3)"
    by (simp add: mqtt_client_init_def net_env_def mqtt_codec_create_def new_sample_def fresh_client_def)
qed

theorem sample_conversation_witness:
  "\<exists>s'. run_events (net_env sample_app) (server_conversation 11) new_sample = Some s' \<and> \<not> g_continue s' \<and>
    effects s' = [Sent (sample_subscribe 11), Sent (sample_publish 12),
      Sent [0x62, 2, 0, 12], Sent [0xE0, 0]]"
  using sample_conversation [OF new_sample_fields(1,2)] new_sample_fields(3)
  by (auto simp: reply_bytes_def frame_def packet_byte_def be16_def)

section \<open>The loops of the main function\<close>

lemma close_loop_returns:
  "close_loop env s = Some t \<Longrightarrow> \<not> (xioHandle s = None \<and> g_close_complete s)"
  by (rule close_loop.raw_induct [where P = "\<lambda>env s t. \<not> (xioHandle s = None \<and> g_close_complete s)"])
    (fastforce simp: mqtt_client_dowork_def bind_eq_Some_conv split: if_splits)+

text \<open>
  The sample can hang: once the client has given up its transport, as it does behind every error,
  the periodic work touches nothing, so the loop that waits for \<open>OnCloseComplete\<close> never ends unless
  the callback came from within \<open>xio_close\<close>.
\<close>

theorem sample_hangs:
  assumes "xioHandle s = None" and "g_close_complete s"
  shows "run_event env Do_Work s = Some s \<and> close_loop env s = None"
  using close_loop_returns [of env s] assms
  by (cases "close_loop env s") (simp_all add: mqtt_client_dowork_def)

theorem sample_hangs_witness:
  "run_event (net_env sample_app) Do_Work new_sample = Some new_sample \<and>
    close_loop (net_env sample_app) new_sample = None"
  by (rule sample_hangs)
    (simp_all add: new_sample_def sample_statics_def fresh_client_def clear_codec_data_def sample.defs)

end
