(* ===== verification/Spec2Isabelle.thy ===== *)
theory Spec2Isabelle
  imports Codec_Roundtrip Message_Props Sample_App
begin

text \<open>
  A model of azure-umqtt-c, an MQTT 3.1.1 client library in C, and of its sample application, with
  the theorems that say what it does.

  The program.  \<open>src/mqtt_codec.c\<close> builds the packets a client sends and decodes the bytes it
  receives, one at a time, calling a completion callback for each packet.  \<open>src/mqtt_message.c\<close> holds
  the messages that are published and received.  \<open>src/mqtt_client.c\<close> is the client: it registers three
  callbacks with a transport (opened, bytes received, error), feeds the bytes to its codec, reads in
  the codec's completion callback the packet that arrived, tells the application, answers the server,
  keeps the connection alive and closes it.  \<open>samples/mqtt_client_sample\<close> is an application.

  The model, theory by theory.
  \<^item> \<open>Umqtt_Prelude\<close>: widths, C strings, the status of a C call (\<open>ZERO\<close>, \<open>MU_FAILURE\<close>), cursors into a
    buffer whose stores and loads are undefined (\<open>None\<close>) out of bounds, collections of simplification
    rules.
  \<^item> \<open>Umqtt_Const\<close>: the enumerations and structs of \<open>inc/azure_umqtt_c/mqttconst.h\<close> and \<open>mqtt_client.h\<close>.
  \<^item> \<open>Umqtt_Buffer\<close>: what is used of \<open>BUFFER_*\<close>, \<open>STRING_*\<close>, \<open>malloc\<close>, \<open>free\<close> and \<open>mallocAndStrcpy_s\<close>, as
    records of functions on a world, their laws (any allocation may fail; \<open>live\<close> counts what is
    allocated, a string of the trace log with a weight \<open>d\<close>), and instances.
  \<^item> \<open>Codec_Encode\<close>: the first half of \<open>mqtt_codec.c\<close>, up to \<open>constructConnPayload\<close>, and its entry points
    that build packets.  \<open>Packet_Format\<close> is the format of MQTT, independent of the code.
    \<open>Codec_Encode_Props\<close> and \<open>Codec_Packets\<close> prove that each entry point builds exactly the packet of the
    format or refuses and releases everything (but for one string of the trace log, which
    \<open>mqtt_codec_connect\<close> can lose), and where it writes out of bounds.
  \<^item> \<open>Codec_Decode\<close>: the decoder (\<open>prepareheaderDataInfo\<close> to \<open>mqtt_codec_reset\<close>, creation, destruction and
    \<open>mqtt_codec_bytesReceived\<close>).  \<open>Codec_Decode_Props\<close> has its invariant \<open>codec_inv\<close> and the locale
    \<open>packet_sink\<close>, the contract of a completion callback.  \<open>Codec_Stream\<close> has the decoder on streams of
    packets cut in pieces, on all first bytes (beside the list of those MQTT allows), and its defects.  \<open>Codec_Roundtrip\<close> has the locale
    \<open>packet_encoder\<close>, interpreted on seven encoders, and the round trips.
  \<^item> \<open>Umqtt_Message\<close>, \<open>Message_Props\<close>: \<open>mqtt_message.c\<close>; the locale \<open>message_maker\<close> is the contract of a
    way to create a message, interpreted on both.
  \<^item> \<open>Client_Model\<close> (state, transport callbacks, closing, sending), \<open>Client_Recv\<close>
    (\<open>recvCompleteCallback\<close>, \<open>ProcessPublishMessage\<close>, \<open>SendMessageAck\<close>, \<open>onBytesReceived\<close>) and
    \<open>Client_Api\<close> (the entry points): \<open>mqtt_client.c\<close>.  The record of the client extends the codec's, since
    the callback of the codec changes the client.  Transport, clock and application are a record
    \<open>client_env\<close> of functions on the whole state.
  \<^item> \<open>Client_Env\<close>: the locale \<open>client_environment\<close>, the contract of that record, and what the internal
    functions of the client keep under it.  \<open>Client_Safety\<close> shows that the client's completion callback
    meets the contract of the codec (a \<open>sublocale\<close> of \<open>packet_sink\<close>), \<open>Client_Steps\<close> that every entry point
    is safe, \<open>Client_Machine\<close> makes of the client a step relation on events with its reachable states, and adds
    the locale \<open>counted_environment\<close>, in which the pieces of data that the pump hands over are counted.
  \<^item> \<open>Client_Net\<close>: an observable environment, in which a transport notes what it is told and hands over
    the pieces of its inbox, for any application that meets the locale \<open>sound_application\<close>; it
    interprets both contracts.  \<open>Client_Exact\<close>: what the client's functions do in it, exactly.
  \<^item> \<open>Client_Session\<close>: the abstract session of client and server, and the refinement.
  \<^item> \<open>Client_Guarantees\<close>: soundness, progress and release of memory in every environment of the contract.
  \<^item> \<open>Client_Protocol\<close>: publication from client to client, errors, keep-alive, connecting, disconnecting.
  \<^item> \<open>Sample_App\<close>: the sample, as an application that calls the library from its callbacks (an
    interpretation of \<open>sound_application\<close>), its conversation with a server, its loops.

  What is shown.  The client refines the session for all packets a server may send and all ways to cut
  them, but for the retained publications of quality of service 0, which it misreads.  No received
  byte, no failed allocation and no order of events makes client or codec read or write out of bounds,
  as long as the environment keeps its contract and the caller the limits of \<open>allowed\<close> in
  \<open>Client_Machine\<close>: options with a client id or no string at all and a valid quality of service,
  messages whose payload has the length it says, packets below 256 MB.  Outside of them the code runs
  into undefined behaviour, which has theorems of its own (\<open>connect_overflow\<close>, \<open>publish_overflow\<close>), as
  have bytes received inside the completion callback (\<open>reentry_overflows\<close>).  What the encoders build,
  the decoder decodes.  Memory is released, but for the packet buffers \<open>mqtt_codec_reset\<close> forgets, at most
  one per piece of received data, and but for strings of the trace log: the one that
  \<open>mqtt_codec_connect\<close> loses when the variable header fails (\<open>connect_refuses\<close>), and the one of a SUBACK
  whose return codes cannot be allocated (\<open>recv_suback\<close>).  The count \<open>live\<close> of the client's contract
  therefore leaves these strings out.  Behaviour that departs from MQTT or from the comments of the
  code is stated as it is (\<open>first_byte_decision\<close>, \<open>empty_packet_wedges\<close>, \<open>four_byte_length_refused\<close>,
  \<open>retained_misread\<close>, \<open>clone_in_place_null\<close>, \<open>connected_for_good\<close>, \<open>sample_hangs\<close>).

  The contract of the environment.  Every call that leaves the library returns, keeps the callbacks the
  client was created with, the connected bit and the codec, and allocates nothing in the library's
  name.  Only the pump \<open>xio_dowork\<close> may hand over bytes, and not once the transport was told to close:
  \<open>close_connection\<close> pumps inside the completion callback, where bytes would be stored past the packet
  buffer (\<open>reentry_overflows\<close>).  The release of memory is stated where the pump's work is a number of
  pieces given to \<open>onBytesReceived\<close> with steps that balance between them (\<open>pumped\<close>).

  Bounds.  A Remaining Length has at most four bytes of seven bits (256 MB); the decoder refuses the
  fourth, so it takes bodies below 2 MB, the bound in the theorems on received packets.  Words keep the
  width of the C types: 8 bits for bytes, 16 for packet ids and intervals, 32 for \<open>int\<close>, 64 for
  milliseconds; \<open>size_t\<close> is a natural number whose subtraction wraps (\<open>size_sub\<close>).  The loop of
  \<open>close_connection\<close> runs at most \<open>MAX_CLOSE_RETRIES\<close> = 20 times and is a total function.  The loops of
  the sample may run for ever and are partial functions: \<open>None\<close> where they do not return.

  Not modelled.  Logging (\<open>LOG\<close>, \<open>getLogTime\<close>, \<open>log_outgoing_trace\<close>, \<open>log_incoming_trace\<close>, \<open>printf\<close>),
  which writes text and changes no state of the client; the text of the trace strings, and those of
  them that are created and deleted in one function with no way past the deletion (all but the ones of
  CONNECT and SUBACK); the raw trace, which is not compiled by default; the null tests on the context of a
  callback, which is always the client itself; the C++ guards and the prototypes of the headers; the
  one-line \<open>main\<close> functions; tests, build scripts and documents.  \<open>BUFFER_*\<close>, \<open>STRING_*\<close>, \<open>xio_*\<close>,
  \<open>tickcounter_*\<close>, \<open>StringToken_Split\<close>, \<open>mallocAndStrcpy_s\<close>, the checked arithmetic, \<open>ThreadAPI_Sleep\<close>
  and the platform belong to azure-c-shared-utility and are parameters.  A C string is the list of
  its bytes before the terminating null (\<open>c_string\<close> of the bytes of a received topic).
\<close>

end
